(* ===== verification/Prelude.thy ===== *)
theory Prelude
  imports Complex_Main "HOL-Library.AList" "HOL-Library.List_Lexorder"
    "HOL-Library.Char_ord" "HOL-Library.Sublist" "HOL-Library.Word"
begin

text \<open>
  Shared vocabulary of the development: the operations of JavaScript strings, arrays and insertion-ordered
  collections that the extension's source uses, written as executable HOL functions, and the
  generic lemmas about them that the component theories rely on.

  A JavaScript string is a \<^typ>\<open>string\<close>, one \<^typ>\<open>char\<close> per code unit, so the model covers the
  code units below 256 (Latin-1); \<open>js_lower\<close> and \<open>js_space\<close> are exact on that range.
  Absent values (\<open>null\<close>, \<open>undefined\<close>) are \<^const>\<open>None\<close>.
\<close>

named_theorems js_simps \<open>rewrite rules for the JavaScript string and array operations\<close>
named_theorems sanitize_intros \<open>what the sanitizers guarantee of their results\<close>

section \<open>Characters\<close>

definition is_digit :: "char \<Rightarrow> bool" where
  "is_digit c \<longleftrightarrow> (let n = of_char c :: nat in 48 \<le> n \<and> n \<le> 57)"

definition is_lower :: "char \<Rightarrow> bool" where
  "is_lower c \<longleftrightarrow> (let n = of_char c :: nat in 97 \<le> n \<and> n \<le> 122)"

definition is_upper :: "char \<Rightarrow> bool" where
  "is_upper c \<longleftrightarrow> (let n = of_char c :: nat in 65 \<le> n \<and> n \<le> 90)"

definition is_hex :: "char \<Rightarrow> bool" where
  "is_hex c \<longleftrightarrow> (let n = of_char c :: nat in
     48 \<le> n \<and> n \<le> 57 \<or> 97 \<le> n \<and> n \<le> 102 \<or> 65 \<le> n \<and> n \<le> 70)"

text \<open>\<open>String.prototype.toLowerCase\<close> on one Latin-1 code unit.\<close>

definition js_lower_char :: "char \<Rightarrow> char" where
  "js_lower_char c = (let n = of_char c :: nat in
     if 65 \<le> n \<and> n \<le> 90 \<or> 192 \<le> n \<and> n \<le> 222 \<and> n \<noteq> 215 then char_of (n + 32) else c)"

text \<open>White space as \<open>trim\<close>, \<open>parseInt\<close> and \<open>\s\<close> see it.\<close>

definition js_space :: "char \<Rightarrow> bool" where
  "js_space c \<longleftrightarrow> (let n = of_char c :: nat in 9 \<le> n \<and> n \<le> 13 \<or> n = 32 \<or> n = 160)"

section \<open>Strings\<close>

definition js_lower :: "string \<Rightarrow> string" where
  "js_lower s = map js_lower_char s"

definition js_trim :: "string \<Rightarrow> string" where
  "js_trim s = rev (dropWhile js_space (rev (dropWhile js_space s)))"

text \<open>\<open>s.split(c)\<close> for a one-character separator.\<close>

fun js_split :: "char \<Rightarrow> string \<Rightarrow> string list" where
  "js_split c [] = [[]]"
| "js_split c (x # xs) =
     (if x = c then [] # js_split c xs
      else (case js_split c xs of [] \<Rightarrow> [[x]] | y # ys \<Rightarrow> (x # y) # ys))"

text \<open>\<open>s.split("::")\<close>.\<close>

fun js_split_dcolon :: "string \<Rightarrow> string list" where
  "js_split_dcolon [] = [[]]"
| "js_split_dcolon [x] = [[x]]"
| "js_split_dcolon (x # y # xs) =
     (if x = CHR '':'' \<and> y = CHR '':'' then [] # js_split_dcolon xs
      else (case js_split_dcolon (y # xs) of [] \<Rightarrow> [[x]] | z # zs \<Rightarrow> (x # z) # zs))"

fun js_join :: "string \<Rightarrow> string list \<Rightarrow> string" where
  "js_join sep [] = []"
| "js_join sep [x] = x"
| "js_join sep (x # y # ys) = x @ sep @ js_join sep (y # ys)"

text \<open>\<open>s.replace(/\.$/, "")\<close> and \<open>s.replace(/^\./, "")\<close>.\<close>

definition strip_trailing_dot :: "string \<Rightarrow> string" where
  "strip_trailing_dot s = (if s \<noteq> [] \<and> last s = CHR ''.'' then butlast s else s)"

definition strip_leading_dot :: "string \<Rightarrow> string" where
  "strip_leading_dot s = (case s of [] \<Rightarrow> [] | c # cs \<Rightarrow> if c = CHR ''.'' then cs else s)"

text \<open>\<open>s.slice(0, s.indexOf(c))\<close> when \<open>c\<close> occurs, \<open>s\<close> otherwise.\<close>

definition before_char :: "char \<Rightarrow> string \<Rightarrow> string" where
  "before_char c s = takeWhile (\<lambda>x. x \<noteq> c) s"

fun js_includes :: "string \<Rightarrow> string \<Rightarrow> bool" where
  "js_includes pat [] = (pat = [])"
| "js_includes pat (x # xs) = (prefix pat (x # xs) \<or> js_includes pat xs)"

text \<open>The host \<open>h\<close> is the domain \<open>d\<close> or a name below it.\<close>

definition in_domain :: "string \<Rightarrow> string \<Rightarrow> bool" where
  "in_domain h d \<longleftrightarrow> h = d \<or> suffix (CHR ''.'' # d) h"

section \<open>Numbers and their decimal and hexadecimal texts\<close>

definition digit_val :: "char \<Rightarrow> nat" where
  "digit_val c = of_char c - 48"

definition digits_val :: "string \<Rightarrow> nat" where
  "digits_val ds = foldl (\<lambda>acc c. acc * 10 + digit_val c) 0 ds"

fun nat_to_string :: "nat \<Rightarrow> string" where
  "nat_to_string n =
     (if n < 10 then [char_of (48 + n)] else nat_to_string (n div 10) @ [char_of (48 + n mod 10)])"

definition int_to_string :: "int \<Rightarrow> string" where
  "int_to_string i = (if i < 0 then CHR ''-'' # nat_to_string (nat (- i)) else nat_to_string (nat i))"

definition hex_digit :: "nat \<Rightarrow> char" where
  "hex_digit n = (if n < 10 then char_of (48 + n) else char_of (87 + n))"

text \<open>\<open>n.toString(16)\<close>.\<close>

fun nat_to_hex :: "nat \<Rightarrow> string" where
  "nat_to_hex n =
     (if n < 16 then [hex_digit n] else nat_to_hex (n div 16) @ [hex_digit (n mod 16)])"

definition hex_val :: "char \<Rightarrow> nat" where
  "hex_val c = (let n = of_char c :: nat in
     if n \<le> 57 then n - 48 else if n \<le> 70 then n - 55 else n - 87)"

text \<open>\<open>parseInt(s, 16)\<close> on a text of hexadecimal digits only.\<close>

definition parse_hex :: "string \<Rightarrow> nat" where
  "parse_hex s = foldl (\<lambda>acc c. acc * 16 + hex_val c) 0 s"

text \<open>
  \<open>parseInt(s, 10)\<close>: leading white space and a sign are skipped, the longest run of digits is
  read and what follows it is ignored. \<^const>\<open>None\<close> is \<open>NaN\<close>.
\<close>

definition parse_int10 :: "string \<Rightarrow> int option" where
  "parse_int10 s =
     (let t = dropWhile js_space s;
          neg = (t \<noteq> [] \<and> hd t = CHR ''-'');
          u = (if t \<noteq> [] \<and> (hd t = CHR ''-'' \<or> hd t = CHR ''+'') then tl t else t);
          ds = takeWhile is_digit u
      in if ds = [] then None
         else Some (if neg then - int (digits_val ds) else int (digits_val ds)))"

text \<open>
  The idiom \<open>const n = Number(s)\<close> guarded by \<open>String(n) === s\<close> for a non-negative integer
  \<open>n\<close>: the canonical decimal texts, without sign, leading zero, exponent or other base.
\<close>

definition canonical_nat :: "string \<Rightarrow> nat option" where
  "canonical_nat s =
     (if s \<noteq> [] \<and> list_all is_digit s \<and> (length s = 1 \<or> hd s \<noteq> CHR ''0'')
      then Some (digits_val s) else None)"

section \<open>Insertion-ordered sets and arrays\<close>

text \<open>\<open>[...new Set(xs)]\<close>: the first occurrence of every element, in order.\<close>

definition js_uniq :: "'a list \<Rightarrow> 'a list" where
  "js_uniq xs = rev (remdups (rev xs))"

text \<open>\<open>xs.slice(-n)\<close> for \<open>n > 0\<close>.\<close>

definition take_last :: "nat \<Rightarrow> 'a list \<Rightarrow> 'a list" where
  "take_last n xs = drop (length xs - n) xs"

text \<open>\<open>a || b\<close> on strings where \<open>null\<close>, \<open>undefined\<close> and the empty string are falsy.\<close>

definition truthy :: "string option \<Rightarrow> string option" where
  "truthy v = (case v of Some s \<Rightarrow> if s = [] then None else Some s | None \<Rightarrow> None)"

definition js_or :: "string option \<Rightarrow> string option \<Rightarrow> string option" where
  "js_or a b = (case truthy a of Some s \<Rightarrow> Some s | None \<Rightarrow> b)"

text \<open>\<open>a ?? b\<close>.\<close>

definition js_default :: "'a option \<Rightarrow> 'a \<Rightarrow> 'a" where
  "js_default v d = (case v of Some x \<Rightarrow> x | None \<Rightarrow> d)"

section \<open>Lemmas on characters and strings\<close>

lemma in_domain_self [simp]: "in_domain d d"
  by (simp add: in_domain_def)

lemma js_uniq_set [simp, js_simps]: "set (js_uniq xs) = set xs"
  by (simp add: js_uniq_def)

lemma js_uniq_distinct [simp]: "distinct (js_uniq xs)"
  by (simp add: js_uniq_def)

lemma js_uniq_Nil [simp, js_simps]: "js_uniq [] = []"
  by (simp add: js_uniq_def)

lemma js_uniq_id: "distinct xs \<Longrightarrow> js_uniq xs = xs"
  by (simp add: js_uniq_def distinct_remdups_id)

lemma js_uniq_idem [simp, js_simps]: "js_uniq (js_uniq xs) = js_uniq xs"
  by (simp add: js_uniq_id)

lemma take_last_short: "length xs \<le> n \<Longrightarrow> take_last n xs = xs"
  by (simp add: take_last_def)

lemma length_take_last [simp]: "length (take_last n xs) = min n (length xs)"
  by (simp add: take_last_def)

lemma set_take_last: "set (take_last n xs) \<subseteq> set xs"
  by (simp add: take_last_def set_drop_subset)

lemma truthy_simps [simp, js_simps]:
  "truthy None = None" "truthy (Some []) = None" "truthy (Some (c # cs)) = Some (c # cs)"
  by (simp_all add: truthy_def)

lemma truthy_Some_iff: "truthy v = Some s \<longleftrightarrow> v = Some s \<and> s \<noteq> []"
  by (auto simp: truthy_def split: option.splits)

lemma truthy_None_iff: "truthy v = None \<longleftrightarrow> v = None \<or> v = Some []"
  by (auto simp: truthy_def split: option.splits)

lemma js_split_not_Nil [simp]: "js_split c s \<noteq> []"
  by (induction s) (auto split: list.splits)

lemma js_split_dcolon_not_Nil [simp]: "js_split_dcolon s \<noteq> []"
  by (induction s rule: js_split_dcolon.induct) (auto split: list.splits)

lemma js_split_chars: "t \<in> set (js_split c s) \<Longrightarrow> set t \<subseteq> set s - {c}"
proof (induction s arbitrary: t)
  case Nil
  then show ?case by simp
next
  case (Cons x xs)
  then show ?case by (fastforce split: if_splits list.splits)
qed

lemma js_join_split [js_simps]: "js_join [c] (js_split c s) = s"
proof (induction s)
  case (Cons x xs)
  obtain y ys where split: "js_split c xs = y # ys"
    by (cases "js_split c xs") auto
  show ?case
  proof (cases "x = c")
    case True
    with Cons.IH split show ?thesis by simp
  next
    case False
    with Cons.IH split show ?thesis by (cases ys) auto
  qed
qed simp

lemma js_split_no_sep: "c \<notin> set s \<Longrightarrow> js_split c s = [s]"
  by (induction s) auto

lemma js_split_append_sep:
  "c \<notin> set s \<Longrightarrow> js_split c (s @ c # t) = s # js_split c t"
  by (induction s) auto

lemma js_split_join:
  assumes "xs \<noteq> []" and "\<forall>x\<in>set xs. c \<notin> set x"
  shows "js_split c (js_join [c] xs) = xs"
  using assms
proof (induction "[c]" xs rule: js_join.induct)
  case (3 x y ys)
  then show ?case by (simp add: js_split_append_sep)
qed (auto simp: js_split_no_sep)

lemma strip_trailing_dot_set: "set (strip_trailing_dot s) \<subseteq> set s"
  by (auto simp: strip_trailing_dot_def dest: in_set_butlastD)

lemma js_lower_length [simp]: "length (js_lower s) = length s"
  by (simp add: js_lower_def)

lemma js_lower_char_id: "of_char c < (65::nat) \<or> 90 < (of_char c :: nat) \<and> of_char c < (192::nat) \<Longrightarrow>
    js_lower_char c = c"
  by (auto simp: js_lower_char_def)

lemma js_lower_char_is_lower: "is_lower c \<or> is_digit c \<Longrightarrow> js_lower_char c = c"
  by (rule js_lower_char_id) (auto simp: is_lower_def is_digit_def Let_def)

lemma js_lower_char_idem [simp, js_simps]: "js_lower_char (js_lower_char c) = js_lower_char c"
  by (auto simp: js_lower_char_def Let_def of_char_of)

lemma js_lower_idem [simp, js_simps]: "js_lower (js_lower s) = js_lower s"
  by (simp add: js_lower_def)

lemma js_lower_id: "\<forall>c\<in>set s. js_lower_char c = c \<Longrightarrow> js_lower s = s"
  by (simp add: js_lower_def map_idI)

section \<open>Lemmas on numbers\<close>

declare nat_to_string.simps [simp del] nat_to_hex.simps [simp del]

lemma is_digit_char_of: "n < 10 \<Longrightarrow> is_digit (char_of (48 + n :: nat))"
  by (simp add: is_digit_def of_char_of)

lemma digit_val_char_of: "n < 10 \<Longrightarrow> digit_val (char_of (48 + n :: nat)) = n"
  by (simp add: digit_val_def of_char_of)

lemma nat_to_string_digits: "list_all is_digit (nat_to_string n)"
proof (induction n rule: nat_to_string.induct)
  case (1 n)
  then show ?case
    by (subst nat_to_string.simps) (auto simp: is_digit_char_of)
qed

lemma nat_to_string_not_Nil [simp]: "nat_to_string n \<noteq> []"
  by (subst nat_to_string.simps) simp

lemma digits_val_snoc: "digits_val (ds @ [c]) = digits_val ds * 10 + digit_val c"
  by (simp add: digits_val_def)

lemma digits_val_nat_to_string [simp, js_simps]: "digits_val (nat_to_string n) = n"
proof (induction n rule: nat_to_string.induct)
  case (1 n)
  show ?case
  proof (cases "n < 10")
    case True
    then show ?thesis
      by (subst nat_to_string.simps) (simp add: digits_val_def digit_val_char_of)
  next
    case False
    with 1 show ?thesis
      by (subst nat_to_string.simps) (simp add: digits_val_snoc digit_val_char_of)
  qed
qed

end
