(* ===== verification/Types.thy ===== *)
theory Types
  imports Prelude
begin

text \<open>
  The data of the extension: the native-messaging protocol, the status the helper reports, the
  extension's own state and the messages between background and popup
  (\<open>packages/shared/src/types.ts\<close>), and the JavaScript values that cross a trust boundary
  before they are validated. Record fields carry a prefix per record, since HOL fields share one
  name space; an optional or nullable TypeScript field is an \<open>option\<close>.
\<close>

section \<open>Untyped JavaScript values\<close>

text \<open>
  A number is a finite rational (every finite double is one), an infinity or NaN. An object is its
  list of own properties in insertion order.
\<close>

datatype jsnum = Fin rat | PosInf | NegInf | NaN

datatype jsval =
    JUndef
  | JNull
  | JBool bool
  | JNum jsnum
  | JStr string
  | JArr "jsval list"
  | JObj "(string \<times> jsval) list"

text \<open>\<open>raw[key]\<close> on an object: a missing property reads as \<open>undefined\<close>.\<close>

definition js_get :: "jsval \<Rightarrow> string \<Rightarrow> jsval" where
  "js_get v k = (case v of
     JObj ps \<Rightarrow> (case map_of ps k of Some x \<Rightarrow> x | None \<Rightarrow> JUndef)
   | _ \<Rightarrow> JUndef)"

definition js_truthy :: "jsval \<Rightarrow> bool" where
  "js_truthy v = (case v of
     JUndef \<Rightarrow> False | JNull \<Rightarrow> False | JBool b \<Rightarrow> b
   | JNum n \<Rightarrow> n \<noteq> NaN \<and> n \<noteq> Fin 0 | JStr s \<Rightarrow> s \<noteq> [] | JArr _ \<Rightarrow> True | JObj _ \<Rightarrow> True)"

definition js_str_option :: "jsval \<Rightarrow> string option" where
  "js_str_option v = (case v of JStr s \<Rightarrow> Some s | _ \<Rightarrow> None)"

section \<open>Backend states and preferences\<close>

datatype BackendState =
  NoState | NeedsMachineAuth | NeedsLogin | InUseOtherUser | Stopped | Starting | Running

record PeerLocation =
  loc_city :: "string option"
  loc_cityCode :: "string option"
  loc_country :: "string option"
  loc_countryCode :: "string option"
  loc_latitude :: "rat option"
  loc_longitude :: "rat option"
  loc_priority :: "rat option"

record SelfNode =
  self_id :: string
  self_hostname :: string
  self_dnsName :: string
  self_tailscaleIPs :: "string list option"
  self_os :: string
  self_online :: bool
  self_keyExpiry :: "string option"

text \<open>
  Older helpers send \<open>null\<close> or nothing for the three lists of a peer, so they are optional here;
  the state store replaces a missing list by the empty one.
\<close>

record PeerInfo =
  peer_id :: string
  peer_hostname :: string
  peer_dnsName :: string
  peer_tailscaleIPs :: "string list option"
  peer_os :: string
  peer_online :: bool
  peer_active :: bool
  peer_exitNode :: bool
  peer_exitNodeOption :: bool
  peer_isSubnetRouter :: bool
  peer_subnets :: "string list option"
  peer_tags :: "string list option"
  peer_rxBytes :: rat
  peer_txBytes :: rat
  peer_lastSeen :: "string option"
  peer_lastHandshake :: "string option"
  peer_keyExpiry :: "string option"
  peer_location :: "PeerLocation option"
  peer_taildropTarget :: bool
  peer_sshHost :: bool
  peer_userId :: rat
  peer_userName :: string
  peer_userLoginName :: string
  peer_userProfilePicURL :: string

record ExitNodeInfo =
  exit_id :: string
  exit_hostname :: string
  exit_dnsName :: string
  exit_location :: "PeerLocation option"
  exit_online :: bool

record ExitNodeSuggestion =
  sug_id :: string
  sug_hostname :: string
  sug_location :: "PeerLocation option"

record TailscalePrefs =
  pref_exitNodeID :: "string option"
  pref_exitNodeAllowLANAccess :: bool
  pref_corpDNS :: bool
  pref_shieldsUp :: bool
  pref_advertiseExitNode :: "bool option"
  pref_runSSH :: "bool option"
  pref_advertiseRoutes :: "string list option"
  pref_controlURL :: "string option"

record ProfileInfo =
  prof_id :: string
  prof_name :: string

record ProfilesResult =
  pr_current :: ProfileInfo
  pr_profiles :: "ProfileInfo list"

datatype DomainSplitMode = Bypass | Only

record DomainSplitConfig =
  split_mode :: DomainSplitMode
  split_domains :: "string list"

record FileSendProgress =
  fsp_targetNodeID :: string
  fsp_name :: string
  fsp_percent :: int
  fsp_done :: bool
  fsp_error :: "string option"

section \<open>Native messaging protocol\<close>

text \<open>One field of \<open>prefs\<close> in a \<open>set-prefs\<close> request.\<close>

datatype PrefUpdate =
    SetExitNodeID string
  | SetExitNodeAllowLANAccess bool
  | SetCorpDNS bool
  | SetShieldsUp bool
  | SetAdvertiseExitNode bool
  | SetRunSSH bool
  | SetAdvertiseRoutes "string list"
  | SetControlURL string

record FileChunk =
  fc_nodeID :: string
  fc_fileName :: string
  fc_fileData :: string
  fc_fileSize :: int
  fc_transfer :: "(string \<times> int option \<times> int option) option"

datatype NativeRequest =
    Init string "bool option"
  | Login | Up | Down | GetStatus | Ping
  | SetExitNode string
  | SetPrefs PrefUpdate
  | ListProfiles
  | SwitchProfile string
  | NewProfile
  | DeleteProfile string
  | SendFile FileChunk
  | SuggestExitNode
  | Logout
  | PingPeer string
  | Netcheck
  | GetExternalProxyStatus
  | SetExternalProxy bool
  | SetExternalProxyLAN bool
  | RevealExternalProxy
  | RotateExternalProxyCredentials

record ExternalProxyStatus =
  ep_pacPath :: "string option"
  ep_enabled :: bool
  ep_running :: bool
  ep_host :: string
  ep_allowLAN :: "bool option"
  ep_lanAddresses :: "string list option"
  ep_port :: "rat option"
  ep_protocols :: "string list"
  ep_authRequired :: bool
  ep_username :: "string option"
  ep_password :: "string option"
  ep_error :: "string option"

text \<open>
  The credential of \<open>procRunning\<close> is not validated by the native-message screen, so its three
  fields stay untyped until \<open>readProxySession\<close> checks them.
\<close>

record ProcRunning =
  proc_port :: rat
  proc_pid :: rat
  proc_version :: "string option"
  proc_error :: "string option"
  proc_supportsNetcheck :: bool
  proc_supportsPingPeer :: bool
  proc_supportsLogin :: bool
  proc_supportsCustomControlURL :: bool
  proc_supportsDaemonControl :: bool
  proc_supportsExternalProxy :: bool
  proc_supportsExternalProxyLAN :: bool
  proc_proxyAuth :: jsval

record StatusUpdate =
  st_backendState :: BackendState
  st_running :: bool
  st_tailnet :: "string option"
  st_magicDNSSuffix :: string
  st_splitDNSDomains :: "string list option"
  st_dnsRoutes :: "string list option"
  st_selfNode :: "SelfNode option"
  st_needsLogin :: bool
  st_browseToURL :: "string option"
  st_authURL :: "string option"
  st_exitNode :: "ExitNodeInfo option"
  st_peers :: "PeerInfo list option"
  st_peersTruncated :: bool
  st_totalPeers :: "nat option"
  st_prefs :: "TailscalePrefs option"
  st_health :: "string list option"
  st_error :: "string option"

record NativeReply =
  nr_procRunning :: "ProcRunning option"
  nr_init :: "string option option"
  nr_pong :: bool
  nr_status :: "StatusUpdate option"
  nr_profiles :: "ProfilesResult option"
  nr_exitNodeSuggestion :: "ExitNodeSuggestion option"
  nr_fileSendProgress :: "FileSendProgress option"
  nr_diagnostic :: "(string \<times> string) option"
  nr_externalProxy :: "ExternalProxyStatus option"
  nr_error :: "(string \<times> string) option"

section \<open>Extension state\<close>

datatype HelperFailureKind =
  HelperUnavailable | HelperNotAllowed | HelperStartFailed | HelperStopped
| HelperReportedError | HelperIncompatible

record HelperDiagnostic =
  hd_code :: string
  hd_message :: "string option"

record HelperFailure =
  hf_kind :: HelperFailureKind
  hf_code :: string
  hf_message :: "string option"

datatype VersionRelation = Older | Newer | Different

record HelperVersionNotice =
  vn_installed :: string
  vn_release :: string
  vn_relation :: VersionRelation

datatype RoutingStatus = RActive | RBlocked | RConflicted | RUnavailable | RInactive

record RoutingHealth =
  rh_status :: RoutingStatus
  rh_message :: string

datatype PolicyMode = PActive | PBlocked | PDirect

text \<open>
  \<open>rp_scope\<close> is the account scope that a policy spread from a protected snapshot carries along at
  run time (\<open>routing-protection.ts:362\<close>); policies built otherwise have none.
\<close>

record RoutingPolicy =
  rp_blockAll :: bool
  rp_mode :: PolicyMode
  rp_proxyPort :: "int option"
  rp_selectedExitNodeID :: "string option"
  rp_magicDNSSuffix :: string
  rp_subnetCIDRs :: "string list"
  rp_shortNames :: "string list"
  rp_dnsRoutes :: "string list"
  rp_domainSplit :: DomainSplitConfig
  rp_scope :: "string option"

record TailscaleState =
  ts_routingPolicy :: "RoutingPolicy option"
  ts_routingHealth :: "RoutingHealth option"
  ts_selectedExitNodeID :: "string option"
  ts_stateVersion :: nat
  ts_hostConnected :: bool
  ts_initialized :: bool
  ts_proxyPort :: "int option"
  ts_proxyEnabled :: bool
  ts_backendState :: BackendState
  ts_tailnet :: "string option"
  ts_selfNode :: "SelfNode option"
  ts_peers :: "PeerInfo list"
  ts_exitNode :: "ExitNodeInfo option"
  ts_magicDNSSuffix :: "string option"
  ts_splitDNSDomains :: "string list"
  ts_dnsRoutes :: "string list option"
  ts_browseToURL :: "string option"
  ts_prefs :: "TailscalePrefs option"
  ts_health :: "string list"
  ts_pendingExitNodeID :: "string option"
  ts_currentProfile :: "ProfileInfo option"
  ts_profiles :: "ProfileInfo list"
  ts_exitNodeSuggestion :: "ExitNodeSuggestion option"
  ts_domainSplit :: DomainSplitConfig
  ts_error :: "string option"
  ts_hostVersion :: "string option"
  ts_helperFailure :: "HelperFailure option"
  ts_helperDiagnostic :: "HelperDiagnostic option"
  ts_helperVersionNotice :: "HelperVersionNotice option"
  ts_repairRegistrationAvailable :: bool
  ts_supportsNetcheck :: bool
  ts_supportsPingPeer :: bool
  ts_supportsLogin :: bool
  ts_supportsCustomControlURL :: bool
  ts_supportsDaemonControl :: bool
  ts_supportsExternalProxy :: bool
  ts_supportsExternalProxyLAN :: bool
  ts_externalProxy :: "ExternalProxyStatus option"
  ts_reconnecting :: bool
  ts_autoConnectOnStart :: bool

section \<open>Messages between background and popup\<close>

datatype ToastLevel = Info | Error

datatype PopupMessage =
    StateMsg TailscaleState
  | ExternalProxyDetails ExternalProxyStatus
  | Toast string ToastLevel bool "nat option"

datatype RetrySource = Package | Fallback | Manual

datatype BackgroundMessage =
    MReleaseRouting
  | MToggle
  | MLogin
  | MDisconnectAndLogin
  | MLogout
  | MRetryNativeHost RetrySource
  | MSetExitNode string
  | MClearExitNode
  | MSetPref PrefUpdate
  | MSetAdvertiseRoutes "string list"
  | MPingPeer string
  | MNetcheck
  | MSwitchProfile string
  | MNewProfile
  | MDeleteProfile string
  | MSendFile FileChunk
  | MSuggestExitNode
  | MSetDomainSplit jsval
  | MOpenAdmin
  | MOpenWebClient
  | MSetAutoConnectOnStart bool
  | MSetExternalProxy bool
  | MSetExternalProxyLAN bool
  | MRevealExternalProxy
  | MRotateExternalProxyCredentials

record ProxySessionCredentials =
  cred_port :: int
  cred_username :: string
  cred_password :: string

section \<open>Lemmas\<close>

lemma js_get_simps [simp, js_simps]:
  "js_get (JObj ((k', v) # ps)) k = (if k = k' then v else js_get (JObj ps) k)"
  "js_get (JObj []) k = JUndef"
  by (simp_all add: js_get_def)

end
