(* ===== verification/Constants.thy ===== *)
theory Constants
  imports Types
begin

text \<open>
  Shared constants and the classification of coordination-server URLs
  (\<open>packages/shared/src/constants.ts\<close>). The browser's URL parser is not part of the sources: it is
  the parameter \<open>parse_url\<close> of the functions that call \<open>new URL\<close>, with \<^const>\<open>None\<close> for the
  exception it throws on a malformed text.
\<close>

record URLParts =
  url_protocol :: string
  url_hostname :: string
  url_host :: string
  url_origin :: string
  url_pathname :: string
  url_search :: string

type_synonym url_parser = "string \<Rightarrow> URLParts option"

definition TAILSCALE_SERVICE_IP :: string where
  "TAILSCALE_SERVICE_IP = ''100.100.100.100''"

definition TAILSCALE_IPV6_PREFIX :: string where
  "TAILSCALE_IPV6_PREFIX = ''fd7a:115c:a1e0:''"

definition KEEPALIVE_INTERVAL_MS :: nat where
  "KEEPALIVE_INTERVAL_MS = 25000"

definition RECONNECT_BASE_MS :: nat where
  "RECONNECT_BASE_MS = 1000"

definition RECONNECT_MAX_MS :: nat where
  "RECONNECT_MAX_MS = 30000"

definition ADMIN_URL :: string where
  "ADMIN_URL = ''https://login.tailscale.com/admin''"

definition DEFAULT_CONTROL_URL :: string where
  "DEFAULT_CONTROL_URL = ''https://controlplane.tailscale.com''"

text \<open>The origin of the default control URL is that URL itself: it has no path and no port.\<close>

definition DEFAULT_CONTROL_URL_ORIGINS :: "string list" where
  "DEFAULT_CONTROL_URL_ORIGINS = [''https://controlplane.tailscale.com'', ''https://login.tailscale.com'']"

definition DEFAULT_LOGIN_ORIGINS :: "string list" where
  "DEFAULT_LOGIN_ORIGINS = DEFAULT_CONTROL_URL_ORIGINS @ [''https://tailscale.com'']"

definition isCustomControlURL :: "url_parser \<Rightarrow> string option \<Rightarrow> bool" where
  "isCustomControlURL parse_url controlURL =
     (case truthy controlURL of
        None \<Rightarrow> False
      | Some u \<Rightarrow>
          (case parse_url u of
             Some p \<Rightarrow> url_origin p \<notin> set DEFAULT_CONTROL_URL_ORIGINS
           | None \<Rightarrow> False))"

definition isValidControlURL :: "url_parser \<Rightarrow> string \<Rightarrow> bool" where
  "isValidControlURL parse_url controlURL =
     (case parse_url controlURL of
        Some u \<Rightarrow> (url_protocol u = ''http:'' \<or> url_protocol u = ''https:'') \<and> url_host u \<noteq> []
      | None \<Rightarrow> False)"

text \<open>
  The em dash and the ellipsis of the user-visible messages lie outside the modelled code units;
  they stand as their UTF-8 bytes.
\<close>

definition em_dash :: string where
  "em_dash = map char_of [0xe2, 0x80, 0x94 :: nat]"

definition ellipsis :: string where
  "ellipsis = map char_of [0xe2, 0x80, 0xa6 :: nat]"

end
