(* ===== verification/Js_Regex.thy ===== *)
theory Js_Regex
  imports Prelude
begin

text \<open>
  A backtracking matcher for the regular expressions of the source, with the semantics of
  JavaScript's \<open>RegExp\<close>: greedy quantifiers, ordered alternatives, word boundaries, lookahead and
  one capture group. A position is the text before it, reversed, and the text after it. The
  matcher returns all ways to match in the order the engine tries them, so the head of the list is
  the match JavaScript reports.
\<close>

datatype rx =
    Cls "char \<Rightarrow> bool"
  | Seq rx rx
  | Alt rx rx
  | Star rx
  | Eps
  | WordBoundary
  | Look rx
  | Group rx

type_synonym rx_pos = "string \<times> string \<times> string"

definition word_char :: "char \<Rightarrow> bool" where
  "word_char c \<longleftrightarrow> is_lower c \<or> is_upper c \<or> is_digit c \<or> c = CHR ''_''"

definition at_word :: "string \<Rightarrow> bool" where
  "at_word s = (case s of [] \<Rightarrow> False | c # _ \<Rightarrow> word_char c)"

fun rx_post :: "rx_pos \<Rightarrow> string" where
  "rx_post (pre, post, cap) = post"

function rx_match :: "rx \<Rightarrow> rx_pos \<Rightarrow> rx_pos list" where
  "rx_match (Cls P) (pre, post, cap) =
     (case post of [] \<Rightarrow> [] | c # cs \<Rightarrow> if P c then [(c # pre, cs, cap)] else [])"
| "rx_match (Seq a b) p = concat (map (rx_match b) (rx_match a p))"
| "rx_match (Alt a b) p = rx_match a p @ rx_match b p"
| "rx_match (Star a) p =
     concat (map (\<lambda>q. if length (rx_post q) < length (rx_post p) then rx_match (Star a) q else [])
       (rx_match a p)) @ [p]"
| "rx_match Eps p = [p]"
| "rx_match WordBoundary (pre, post, cap) =
     (if at_word pre \<noteq> at_word post then [(pre, post, cap)] else [])"
| "rx_match (Look a) p = (if rx_match a p = [] then [] else [p])"
| "rx_match (Group a) (pre, post, cap) =
     map (\<lambda>(pre', post', _). (pre', post', take (length post - length post') post))
       (rx_match a (pre, post, cap))"
  by pat_completeness auto
termination
  by (relation "measures [\<lambda>(r, p). size r, \<lambda>(r, p). length (rx_post p)]") auto

text \<open>\<open>s.replace(/r/g, rep)\<close>, where \<open>rep\<close> may use the captured text.\<close>

function rx_replace :: "rx \<Rightarrow> (string \<Rightarrow> string) \<Rightarrow> string \<Rightarrow> string \<Rightarrow> string" where
  "rx_replace r rep pre post =
     (case rx_match r (pre, post, []) of
        [] \<Rightarrow> (case post of [] \<Rightarrow> [] | c # cs \<Rightarrow> c # rx_replace r rep (c # pre) cs)
      | (pre', post', cap) # _ \<Rightarrow>
          if length post' < length post then rep cap @ rx_replace r rep pre' post'
          else (case post of [] \<Rightarrow> rep cap | c # cs \<Rightarrow> rep cap @ c # rx_replace r rep (c # pre) cs))"
  by pat_completeness auto
termination
  by (relation "measure (\<lambda>(r, rep, pre, post). length post)") auto

definition replace_all :: "rx \<Rightarrow> (string \<Rightarrow> string) \<Rightarrow> string \<Rightarrow> string" where
  "replace_all r rep s = rx_replace r rep [] s"

text \<open>\<open>/r/.test(s)\<close> for an unanchored pattern.\<close>

fun rx_search :: "rx \<Rightarrow> string \<Rightarrow> string \<Rightarrow> bool" where
  "rx_search r pre [] = (rx_match r (pre, [], []) \<noteq> [])"
| "rx_search r pre (c # cs) =
     (rx_match r (pre, c # cs, []) \<noteq> [] \<or> rx_search r (c # pre) cs)"

definition rx_test :: "rx \<Rightarrow> string \<Rightarrow> bool" where
  "rx_test r s = rx_search r [] s"

text \<open>\<open>/^r$/.test(s)\<close>: some way to match ends at the end of the text.\<close>

definition rx_full :: "rx \<Rightarrow> string \<Rightarrow> bool" where
  "rx_full r s = list_ex (\<lambda>q. rx_post q = []) (rx_match r ([], s, []))"

section \<open>Derived forms\<close>

definition rx_opt :: "rx \<Rightarrow> rx" where
  "rx_opt r = Alt r Eps"

definition rx_plus :: "rx \<Rightarrow> rx" where
  "rx_plus r = Seq r (Star r)"

fun rx_upto :: "nat \<Rightarrow> rx \<Rightarrow> rx" where
  "rx_upto 0 r = Eps"
| "rx_upto (Suc n) r = Alt (Seq r (rx_upto n r)) Eps"

fun rx_times :: "nat \<Rightarrow> rx \<Rightarrow> rx" where
  "rx_times 0 r = Eps"
| "rx_times (Suc n) r = Seq r (rx_times n r)"

fun rx_seq :: "rx list \<Rightarrow> rx" where
  "rx_seq [] = Eps"
| "rx_seq [r] = r"
| "rx_seq (r # s # rs) = Seq r (rx_seq (s # rs))"

fun rx_alts :: "rx list \<Rightarrow> rx" where
  "rx_alts [] = Cls (\<lambda>_. False)"
| "rx_alts [r] = r"
| "rx_alts (r # s # rs) = Alt r (rx_alts (s # rs))"

definition rx_chr :: "char \<Rightarrow> rx" where
  "rx_chr c = Cls (\<lambda>x. x = c)"

text \<open>A literal, and a literal under the \<open>i\<close> flag, whose text is given in lower case.\<close>

definition rx_lit :: "string \<Rightarrow> rx" where
  "rx_lit s = rx_seq (map rx_chr s)"

definition rx_lit_i :: "string \<Rightarrow> rx" where
  "rx_lit_i s = rx_seq (map (\<lambda>c. Cls (\<lambda>x. js_lower_char x = c)) s)"

definition rx_in :: "string \<Rightarrow> rx" where
  "rx_in s = Cls (\<lambda>x. x \<in> set s)"

definition rx_not_in :: "string \<Rightarrow> rx" where
  "rx_not_in s = Cls (\<lambda>x. x \<notin> set s)"

definition rx_space :: rx where
  "rx_space = Cls js_space"

section \<open>Lemmas\<close>

declare rx_match.simps(4) [simp del]

lemma rx_match_Star_cases:
  assumes "q \<in> set (rx_match (Star a) p)"
  obtains "q = p"
    | u where "u \<in> set (rx_match a p)" "length (rx_post u) < length (rx_post p)"
        "q \<in> set (rx_match (Star a) u)"
proof -
  have "q = p \<or> (\<exists>u\<in>set (rx_match a p). q \<in> set (if length (rx_post u) < length (rx_post p)
      then rx_match (Star a) u else []))"
    using assms unfolding rx_match.simps(4) [of a p] by auto
  then show ?thesis using that by (auto split: if_splits)
qed

text \<open>A match consumes a prefix of the text after the position and captures text of it.\<close>

fun rx_cap :: "rx_pos \<Rightarrow> string" where
  "rx_cap (pre, post, cap) = cap"

definition rx_step :: "rx_pos \<Rightarrow> rx_pos \<Rightarrow> bool" where
  "rx_step p q \<longleftrightarrow> suffix (rx_post q) (rx_post p) \<and>
     set (rx_cap q) \<subseteq> set (rx_post p) \<union> set (rx_cap p)"

lemma rx_step_refl [simp]: "rx_step p p"
  by (simp add: rx_step_def)

lemma rx_step_trans: "rx_step p q \<Longrightarrow> rx_step q r \<Longrightarrow> rx_step p r"
proof -
  assume pq: "rx_step p q" and qr: "rx_step q r"
  then have "suffix (rx_post r) (rx_post q)" "suffix (rx_post q) (rx_post p)"
    by (simp_all add: rx_step_def)
  then have "suffix (rx_post r) (rx_post p)"
    by (rule suffix_order.trans)
  moreover have "set (rx_post q) \<subseteq> set (rx_post p)"
    using pq by (simp add: rx_step_def set_mono_suffix)
  ultimately show "rx_step p r"
    using pq qr unfolding rx_step_def by blast
qed

lemma rx_match_step: "q \<in> set (rx_match r p) \<Longrightarrow> rx_step p q"
proof (induction r p arbitrary: q rule: rx_match.induct)
  case (1 P pre post cap)
  then show ?case
    by (auto simp: rx_step_def suffix_def split: list.splits if_splits)
next
  case (2 a b p)
  from "2.prems" obtain u where u: "u \<in> set (rx_match a p)" and q: "q \<in> set (rx_match b u)" by auto
  show ?case by (rule rx_step_trans [OF "2.IH"(1) [OF u] "2.IH"(2) [OF u q]])
next
  case (4 a p)
  from "4.prems" show ?case
  proof (cases rule: rx_match_Star_cases)
    case 1
    then show ?thesis by simp
  next
    case 2
    show ?thesis by (rule rx_step_trans [OF "4.IH"(1) [OF 2(1)] "4.IH"(2) [OF 2]])
  qed
next
  case (8 a pre post cap)
  then obtain u where "u \<in> set (rx_match a (pre, post, cap))" and q: "rx_post q = rx_post u"
    and c: "rx_cap q = take (length post - length (rx_post u)) post"
    by auto
  with "8.IH" have "rx_step (pre, post, cap) u" by blast
  with q c show ?case by (auto simp: rx_step_def dest: in_set_takeD)
qed (auto split: if_splits)

declare rx_replace.simps [simp del]

lemma rx_replace_chars:
  assumes "\<And>t. set t \<subseteq> A \<Longrightarrow> set (rep t) \<subseteq> B" and "set post \<subseteq> A"
  shows "set (rx_replace r rep pre post) \<subseteq> set post \<union> B"
  using assms
proof (induction r rep pre post rule: rx_replace.induct)
  case (1 r rep pre post)
  show ?case
  proof (cases "rx_match r (pre, post, [])")
    case Nil
    show ?thesis
    proof (cases post)
      case (Cons c cs)
      with Nil 1 have "set (rx_replace r rep (c # pre) cs) \<subseteq> set cs \<union> B" by auto
      with Nil Cons show ?thesis by (subst rx_replace.simps) auto
    qed (use Nil in \<open>subst rx_replace.simps, simp\<close>)
  next
    case m: (Cons q qs)
    obtain pre' post' cap where q: "q = (pre', post', cap)" by (cases q)
    have mem: "(pre', post', cap) \<in> set (rx_match r (pre, post, []))" using m q by simp
    have sub: "set post' \<subseteq> set post" using rx_match_step [OF mem] set_mono_suffix
      by (auto simp: rx_step_def)
    have "set cap \<subseteq> A" using rx_match_step [OF mem] 1(5) by (auto simp: rx_step_def)
    then have rep: "set (rep cap) \<subseteq> B" by (rule 1(4))
    show ?thesis
    proof (cases "length post' < length post")
      case True
      with m q 1 sub have "set (rx_replace r rep pre' post') \<subseteq> set post' \<union> B" by auto
      with m q True rep sub show ?thesis by (subst rx_replace.simps) auto
    next
      case False
      show ?thesis
      proof (cases post)
        case (Cons c cs)
        with m q False 1 have "set (rx_replace r rep (c # pre) cs) \<subseteq> set cs \<union> B" by auto
        with m q False Cons rep show ?thesis by (subst rx_replace.simps) auto
      qed (use m q False rep in \<open>subst rx_replace.simps, simp\<close>)
    qed
  qed
qed

lemma replace_all_chars:
  assumes "\<And>t. set t \<subseteq> set s \<Longrightarrow> set (rep t) \<subseteq> B"
  shows "set (replace_all r rep s) \<subseteq> set s \<union> B"
  unfolding replace_all_def by (rule rx_replace_chars [where A = "set s"]) (use assms in auto)

text \<open>A pattern that matches every character of a class leaves none of them but the replacement's.\<close>

lemma rx_replace_eliminates:
  assumes "\<And>pre c cs. P c \<Longrightarrow>
      \<exists>pre' post' cap qs. rx_match r (pre, c # cs, []) = (pre', post', cap) # qs \<and> length post' \<le> length cs"
    and "\<And>t. set (rep t) \<subseteq> B"
  shows "set (rx_replace r rep pre post) \<subseteq> {c. \<not> P c} \<union> B"
  using assms
proof (induction r rep pre post rule: rx_replace.induct)
  case (1 r rep pre post)
  show ?case
  proof (cases "rx_match r (pre, post, [])")
    case Nil
    show ?thesis
    proof (cases post)
      case (Cons c cs)
      have "\<not> P c" using 1(4) [of c pre cs] Nil Cons by auto
      moreover have "set (rx_replace r rep (c # pre) cs) \<subseteq> {c. \<not> P c} \<union> B"
        using 1(1) [OF Nil Cons] 1(4,5) by auto
      ultimately show ?thesis using Nil Cons by (subst rx_replace.simps) auto
    qed (use Nil in \<open>subst rx_replace.simps, simp\<close>)
  next
    case m: (Cons q qs)
    obtain pre' post' cap where q: "q = (pre', post', cap)" by (cases q)
    have rep: "set (rep cap) \<subseteq> B" by (rule 1(5))
    show ?thesis
    proof (cases "length post' < length post")
      case True
      with m q 1 have "set (rx_replace r rep pre' post') \<subseteq> {c. \<not> P c} \<union> B" by auto
      with m q True rep show ?thesis by (subst rx_replace.simps) auto
    next
      case False
      show ?thesis
      proof (cases post)
        case (Cons c cs)
        have "\<not> P c" using 1(4) [of c pre cs] m q Cons False by auto
        moreover have "set (rx_replace r rep (c # pre) cs) \<subseteq> {c. \<not> P c} \<union> B"
          using m q False Cons 1 by auto
        ultimately show ?thesis using m q False Cons rep by (subst rx_replace.simps) auto
      qed (use m q False rep in \<open>subst rx_replace.simps, auto\<close>)
    qed
  qed
qed

text \<open>Every consumed character is admitted by some class of the pattern.\<close>

primrec rx_allows :: "rx \<Rightarrow> char \<Rightarrow> bool" where
  "rx_allows (Cls P) c = P c"
| "rx_allows (Seq a b) c = (rx_allows a c \<or> rx_allows b c)"
| "rx_allows (Alt a b) c = (rx_allows a c \<or> rx_allows b c)"
| "rx_allows (Star a) c = rx_allows a c"
| "rx_allows Eps c = False"
| "rx_allows WordBoundary c = False"
| "rx_allows (Look a) c = False"
| "rx_allows (Group a) c = rx_allows a c"

lemma rx_match_allowed:
  "q \<in> set (rx_match r p) \<Longrightarrow> c \<in> set (rx_post p) \<Longrightarrow> c \<in> set (rx_post q) \<or> rx_allows r c"
proof (induction r p arbitrary: q rule: rx_match.induct)
  case (1 P pre post cap)
  then show ?case by (auto split: list.splits if_splits)
next
  case (2 a b p)
  from "2.prems" obtain u where u: "u \<in> set (rx_match a p)" and q: "q \<in> set (rx_match b u)" by auto
  from "2.IH"(1) [OF u "2.prems"(2)] "2.IH"(2) [OF u q] show ?case by auto
next
  case (4 a p)
  from "4.prems"(1) show ?case
  proof (cases rule: rx_match_Star_cases)
    case (2 u)
    from "4.IH"(1) [OF 2(1) "4.prems"(2)] "4.IH"(2) [OF 2] show ?thesis by auto
  qed (use "4.prems" in simp)
next
  case (8 a pre post cap)
  then obtain u where "u \<in> set (rx_match a (pre, post, cap))" and "rx_post q = rx_post u" by auto
  with "8.IH" [of u] "8.prems"(2) show ?case by simp
qed (auto split: if_splits)

lemma rx_full_chars: "rx_full r s \<Longrightarrow> c \<in> set s \<Longrightarrow> rx_allows r c"
proof -
  assume "rx_full r s" and c: "c \<in> set s"
  then obtain q where q: "q \<in> set (rx_match r ([], s, []))" "rx_post q = []"
    by (auto simp: rx_full_def list_ex_iff)
  with rx_match_allowed [OF q(1), of c] c show "rx_allows r c" by simp
qed

lemma rx_allows_derived [simp]:
  "rx_allows (rx_opt r) c = rx_allows r c"
  "rx_allows (rx_plus r) c = rx_allows r c"
  "rx_allows (rx_seq rs) c = list_ex (\<lambda>r. rx_allows r c) rs"
  "rx_allows (rx_chr d) c = (c = d)"
  by (auto simp: rx_opt_def rx_plus_def rx_chr_def) (induction rs rule: rx_seq.induct; auto)+

end
