(* ===== verification/Helper_Diagnostics.thy ===== *)
theory Helper_Diagnostics
  imports Types Js_Regex
begin

text \<open>
  Diagnostics that may leave the machine in a report
  (\<open>packages/shared/src/helper-diagnostics.ts\<close>): the redaction of a message, pattern by pattern,
  and the report built from an explicit list of fields. The lemmas bound both texts and show that
  no value can add a line to the report.
\<close>

definition MAX_DIAGNOSTIC_MESSAGE_LENGTH :: nat where
  "MAX_DIAGNOSTIC_MESSAGE_LENGTH = 1024"

definition MAX_HELPER_DIAGNOSTIC_REPORT_LENGTH :: nat where
  "MAX_HELPER_DIAGNOSTIC_REPORT_LENGTH = 8192"

definition DIAGNOSTIC_SCAN_LIMIT :: nat where
  "DIAGNOSTIC_SCAN_LIMIT = MAX_DIAGNOSTIC_MESSAGE_LENGTH * 8"

section \<open>The patterns\<close>

text \<open>Two characters that HOL string literals inside a term cannot spell.\<close>

abbreviation dquote :: char where
  "dquote \<equiv> CHR 0x22"

abbreviation squote :: char where
  "squote \<equiv> CHR 0x27"

abbreviation backslash :: char where
  "backslash \<equiv> CHR 0x5C"

abbreviation newline :: char where
  "newline \<equiv> CHR 0x0A"

abbreviation carriage :: char where
  "carriage \<equiv> CHR 0x0D"

definition is_alpha :: "char \<Rightarrow> bool" where
  "is_alpha c \<longleftrightarrow> is_lower c \<or> is_upper c"

definition control_char :: "char \<Rightarrow> bool" where
  "control_char c \<longleftrightarrow> (let n = of_char c :: nat in
     n \<le> 8 \<or> n = 11 \<or> n = 12 \<or> 14 \<le> n \<and> n \<le> 31 \<or> 127 \<le> n \<and> n \<le> 159)"

definition rx_sep :: rx where
  "rx_sep = rx_opt (rx_in ''-_ '')"

text \<open>\<open>[-_ ]?(?:id|name)\<close>, optional as a whole.\<close>

definition rx_id_or_name :: rx where
  "rx_id_or_name = rx_opt (rx_seq [rx_sep, rx_alts [rx_lit_i ''id'', rx_lit_i ''name'']])"

definition rx_assign :: rx where
  "rx_assign = rx_seq [Star rx_space, rx_in '':='', Star rx_space]"

definition rx_windows_home :: rx where
  "rx_windows_home = rx_seq [WordBoundary, Cls is_alpha, rx_chr (CHR '':''),
     rx_plus (rx_in [backslash, CHR ''/'']), rx_lit_i ''users'', rx_plus (rx_in [backslash, CHR ''/'']),
     rx_plus (Cls (\<lambda>c. c \<noteq> backslash \<and> c \<noteq> CHR ''/'' \<and> \<not> js_space c))]"

definition rx_unix_home :: rx where
  "rx_unix_home = rx_seq [rx_chr (CHR ''/''), rx_alts [rx_lit ''Users'', rx_lit ''home''],
     rx_chr (CHR ''/''), rx_plus (Cls (\<lambda>c. c \<noteq> CHR ''/'' \<and> \<not> js_space c))]"

definition rx_identity :: rx where
  "rx_identity = rx_seq [WordBoundary,
     Group (rx_alts
       [rx_seq [rx_lit_i ''extension'', rx_sep, rx_lit_i ''profile'', rx_sep, rx_lit_i ''id''],
        rx_seq [rx_lit_i ''magicdns'', rx_opt (rx_seq [rx_sep, rx_lit_i ''suffix''])],
        rx_lit_i ''tailnet'',
        rx_seq [rx_lit_i ''profile'', rx_id_or_name],
        rx_seq [rx_lit_i ''peer'', rx_id_or_name],
        rx_seq [rx_lit_i ''user'', rx_opt (rx_seq [rx_sep,
          rx_alts [rx_lit_i ''id'', rx_lit_i ''name'',
                   rx_seq [rx_lit_i ''login'', rx_sep, rx_lit_i ''name'']]])],
        rx_seq [rx_lit_i ''node'', rx_id_or_name],
        rx_seq [rx_lit_i ''account'', rx_id_or_name]]),
     rx_assign,
     rx_alts [rx_seq [rx_chr dquote, Star (rx_not_in [dquote]), rx_chr dquote],
              rx_seq [rx_chr squote, Star (rx_not_in [squote]), rx_chr squote],
              rx_plus (rx_not_in [CHR '','', CHR '';'', carriage, newline])]]"

definition rx_registry :: rx where
  "rx_registry = rx_seq [WordBoundary, rx_alts [rx_lit_i ''hkey_current_user'', rx_lit_i ''hkcu''],
     rx_opt (rx_chr (CHR '':'')), rx_chr backslash,
     rx_plus (rx_not_in [CHR '','', CHR '';'', carriage, newline])]"

definition rx_url_char :: rx where
  "rx_url_char = Cls (\<lambda>c. \<not> js_space c \<and> c \<notin> {dquote, squote, CHR ''<'', CHR ''>''})"

definition rx_url :: rx where
  "rx_url = rx_seq [WordBoundary,
     rx_alts [rx_seq [rx_lit_i ''http'', rx_opt (rx_lit_i ''s'')], rx_lit_i ''ftp''],
     rx_lit ''://'', rx_plus rx_url_char]"

definition rx_www :: rx where
  "rx_www = rx_seq [WordBoundary, rx_lit_i ''www'', rx_chr (CHR ''.''), rx_plus rx_url_char]"

text \<open>The secret after \<open>Bearer\<close> or a credential name.\<close>

definition rx_secret :: rx where
  "rx_secret = rx_alts
     [rx_seq [rx_chr dquote, Star (rx_not_in [CHR '','', CHR '';'', carriage, newline])],
      rx_seq [rx_chr squote, Star (rx_not_in [CHR '','', CHR '';'', carriage, newline])],
      rx_plus (Cls (\<lambda>c. \<not> js_space c \<and> c \<noteq> CHR '','' \<and> c \<noteq> CHR '';''))]"

definition rx_bearer :: rx where
  "rx_bearer = rx_seq [WordBoundary, rx_lit_i ''bearer'', rx_plus rx_space, rx_secret]"

definition rx_credential :: rx where
  "rx_credential = rx_seq [WordBoundary,
     Group (rx_alts
       [rx_seq [rx_alts (map rx_lit_i [''access'', ''refresh'', ''id'', ''auth'', ''oauth'', ''csrf'', ''xsrf'']),
                rx_sep, rx_lit_i ''token''],
        rx_seq [rx_lit_i ''client'', rx_sep, rx_lit_i ''secret''],
        rx_seq [rx_lit_i ''api'', rx_sep, rx_lit_i ''key''],
        rx_seq [rx_lit_i ''session'', rx_opt (rx_seq [rx_sep,
          rx_alts (map rx_lit_i [''id'', ''key'', ''token'', ''cookie''])])],
        rx_seq [rx_lit_i ''set'', rx_sep, rx_lit_i ''cookie''],
        rx_lit_i ''cookie'',
        rx_seq [rx_lit_i ''auth'', rx_opt (rx_alts [rx_lit_i ''entication'', rx_lit_i ''orization''])],
        rx_lit_i ''jwt'', rx_lit_i ''token'', rx_lit_i ''password'', rx_lit_i ''passphrase'',
        rx_lit_i ''secret'', rx_lit_i ''credential'',
        rx_seq [rx_lit_i ''private'', rx_sep, rx_lit_i ''key'']]),
     rx_assign, rx_secret]"

definition rx_tskey :: rx where
  "rx_tskey = rx_seq [WordBoundary, rx_lit_i ''tskey-'',
     rx_plus (Cls (\<lambda>c. is_alpha c \<or> is_digit c \<or> c = CHR ''_'' \<or> c = CHR ''-'')), WordBoundary]"

definition rx_email :: rx where
  "rx_email = rx_seq [WordBoundary,
     rx_plus (Cls (\<lambda>c. word_char c \<or> c \<in> {CHR ''.'', CHR ''+'', CHR ''-''})), rx_chr (CHR ''@''),
     rx_plus (Cls (\<lambda>c. word_char c \<or> c \<in> {CHR ''.'', CHR ''-''})), rx_chr (CHR ''.''),
     Cls is_alpha, rx_plus (Cls is_alpha), WordBoundary]"

definition rx_uuid :: rx where
  "rx_uuid = rx_seq [WordBoundary,
     rx_times 8 (Cls is_hex), rx_chr (CHR ''-''), rx_times 4 (Cls is_hex), rx_chr (CHR ''-''),
     rx_in ''12345'', rx_times 3 (Cls is_hex), rx_chr (CHR ''-''),
     rx_in ''89abAB'', rx_times 3 (Cls is_hex), rx_chr (CHR ''-''), rx_times 12 (Cls is_hex), WordBoundary]"

text \<open>\<open>\d{1,3}\<close>.\<close>

definition rx_octet :: rx where
  "rx_octet = rx_seq [Cls is_digit, rx_upto 2 (Cls is_digit)]"

definition rx_ipv4 :: rx where
  "rx_ipv4 = rx_seq [WordBoundary, rx_times 3 (rx_seq [rx_octet, rx_chr (CHR ''.'')]), rx_octet, WordBoundary]"

definition rx_ipv6 :: rx where
  "rx_ipv6 =
     (let group = rx_seq [Cls is_hex, rx_upto 3 (Cls is_hex), rx_chr (CHR '':'')]
      in rx_seq [WordBoundary, group, group, Star group,
           rx_upto 39 (Cls (\<lambda>c. is_hex c \<or> c = CHR '':'')), WordBoundary])"

definition rx_host :: rx where
  "rx_host = rx_seq [WordBoundary,
     Look (rx_seq [Star (Cls (\<lambda>c. is_alpha c \<or> is_digit c \<or> c = CHR ''.'' \<or> c = CHR ''-'')), Cls is_alpha]),
     rx_plus (rx_seq [rx_plus (Cls (\<lambda>c. is_alpha c \<or> is_digit c \<or> c = CHR ''-'')), rx_chr (CHR ''.'')]),
     Cls is_alpha, rx_plus (Cls is_alpha), WordBoundary]"

section \<open>The message\<close>

text \<open>
  What a caller passes as detail: nothing, an \<open>Error\<close> with its message, a string, a number,
  boolean or bigint with its \<open>String\<close> text, or any other value.
\<close>

datatype detail = NoDetail | ErrorDetail string | TextDetail string | PrimitiveDetail string | OtherDetail

fun detail_text :: "detail \<Rightarrow> string option" where
  "detail_text NoDetail = None"
| "detail_text (ErrorDetail m) = Some m"
| "detail_text (TextDetail s) = Some s"
| "detail_text (PrimitiveDetail s) = Some s"
| "detail_text OtherDetail = None"

text \<open>The chain of replacements, in the source's order.\<close>

definition redactions :: "(rx \<times> (string \<Rightarrow> string)) list" where
  "redactions =
     [(Cls control_char, \<lambda>_. '' ''),
      (rx_windows_home, \<lambda>_. ''[redacted-home]''),
      (rx_unix_home, \<lambda>_. ''[redacted-home]''),
      (rx_identity, \<lambda>cap. cap @ ''=[redacted-identity]''),
      (rx_registry, \<lambda>_. ''[redacted-registry]''),
      (rx_url, \<lambda>_. ''[redacted-url]''),
      (rx_www, \<lambda>_. ''[redacted-url]''),
      (rx_bearer, \<lambda>_. ''Bearer [redacted-credential]''),
      (rx_credential, \<lambda>cap. cap @ ''=[redacted-credential]''),
      (rx_tskey, \<lambda>_. ''[redacted-credential]''),
      (rx_email, \<lambda>_. ''[redacted-identity]''),
      (rx_uuid, \<lambda>_. ''[redacted-id]''),
      (rx_ipv4, \<lambda>_. ''[redacted-address]''),
      (rx_ipv6, \<lambda>_. ''[redacted-address]''),
      (rx_host, \<lambda>_. ''[redacted-host]''),
      (rx_plus rx_space, \<lambda>_. '' '')]"

definition redact :: "string \<Rightarrow> string" where
  "redact s = js_trim (fold (\<lambda>(r, rep) t. replace_all r rep t) redactions (take DIAGNOSTIC_SCAN_LIMIT s))"

definition sanitizeDiagnosticMessage :: "detail \<Rightarrow> string option" where
  "sanitizeDiagnosticMessage value =
     (case detail_text value of
        None \<Rightarrow> None
      | Some message \<Rightarrow>
          (let m = redact message
           in if m = [] then None else Some (take MAX_DIAGNOSTIC_MESSAGE_LENGTH m)))"

section \<open>The report\<close>

definition rx_version :: rx where
  "rx_version = rx_seq
     [rx_opt (rx_chr (CHR ''v'')), rx_plus (Cls is_digit), rx_chr (CHR ''.''), rx_plus (Cls is_digit),
      rx_chr (CHR ''.''), rx_plus (Cls is_digit),
      rx_opt (rx_seq [rx_in ''-+'',
        rx_plus (Cls (\<lambda>c. is_digit c \<or> is_alpha c \<or> c = CHR ''.'' \<or> c = CHR ''-''))])]"

definition safeVersion :: "string \<Rightarrow> string" where
  "safeVersion value = (if rx_full rx_version value then value else ''unknown'')"

definition safePlatformValue :: "string \<Rightarrow> string" where
  "safePlatformValue value =
     (if 1 \<le> length value \<and> length value \<le> 32 \<and>
         list_all (\<lambda>c. is_alpha c \<or> is_digit c \<or> c = CHR ''_'' \<or> c = CHR ''-'') value
      then value else ''unknown'')"

definition safeDiagnosticCode :: "string \<Rightarrow> string" where
  "safeDiagnosticCode value =
     (if 1 \<le> length value \<and> length value \<le> 96 \<and>
         list_all (\<lambda>c. is_lower c \<or> is_digit c \<or> c = CHR ''-'') value
      then value else ''unknown'')"

datatype BrowserFamily = Chromium | Firefox

record HelperDiagnosticReportInput =
  ri_state :: TailscaleState
  ri_extensionVersion :: string
  ri_releaseVersion :: string
  ri_os :: string
  ri_arch :: string
  ri_browserFamily :: BrowserFamily

fun failure_kind_text :: "HelperFailureKind \<Rightarrow> string" where
  "failure_kind_text HelperUnavailable = ''helper-unavailable''"
| "failure_kind_text HelperNotAllowed = ''helper-not-allowed''"
| "failure_kind_text HelperStartFailed = ''helper-start-failed''"
| "failure_kind_text HelperStopped = ''helper-stopped''"
| "failure_kind_text HelperReportedError = ''helper-reported-error''"
| "failure_kind_text HelperIncompatible = ''helper-incompatible''"

definition family_text :: "BrowserFamily \<Rightarrow> string" where
  "family_text f = (case f of Chromium \<Rightarrow> ''chromium'' | Firefox \<Rightarrow> ''firefox'')"

definition bool_text :: "bool \<Rightarrow> string" where
  "bool_text b = (if b then ''true'' else ''false'')"

text \<open>\<open>failure ?? state.helperDiagnostic\<close>: its code and message.\<close>

definition report_diagnostic :: "TailscaleState \<Rightarrow> (string \<times> string option) option" where
  "report_diagnostic s =
     (case ts_helperFailure s of
        Some f \<Rightarrow> Some (hf_code f, hf_message f)
      | None \<Rightarrow> map_option (\<lambda>d. (hd_code d, hd_message d)) (ts_helperDiagnostic s))"

definition report_fields :: "HelperDiagnosticReportInput \<Rightarrow> (string \<times> string) list" where
  "report_fields i =
     (let s = ri_state i; d = report_diagnostic s in
      [(''schemaVersion'', ''1''),
       (''extensionVersion'', safeVersion (ri_extensionVersion i)),
       (''helperVersion'', safeVersion (js_default (ts_hostVersion s) ''unknown'')),
       (''releaseVersion'', safeVersion (ri_releaseVersion i)),
       (''os'', safePlatformValue (ri_os i)),
       (''architecture'', safePlatformValue (ri_arch i)),
       (''browserFamily'', family_text (ri_browserFamily i)),
       (''helperConnected'', bool_text (ts_hostConnected s)),
       (''helperInitialized'', bool_text (ts_initialized s)),
       (''reconnecting'', bool_text (ts_reconnecting s)),
       (''failureKind'', (case ts_helperFailure s of Some f \<Rightarrow> failure_kind_text (hf_kind f) | None \<Rightarrow> ''none'')),
       (''diagnosticCode'', safeDiagnosticCode (case d of Some (c, _) \<Rightarrow> c | None \<Rightarrow> ''none'')),
       (''diagnosticMessage'',
          js_default (sanitizeDiagnosticMessage
            (case d of Some (_, Some m) \<Rightarrow> TextDetail m | _ \<Rightarrow> NoDetail)) ''none''),
       (''supportsNetcheck'', bool_text (ts_supportsNetcheck s)),
       (''supportsPingPeer'', bool_text (ts_supportsPingPeer s)),
       (''supportsLogin'', bool_text (ts_supportsLogin s)),
       (''supportsCustomControlURL'', bool_text (ts_supportsCustomControlURL s)),
       (''repairRegistrationAvailable'', bool_text (ts_repairRegistrationAvailable s))])"

definition report_text :: "HelperDiagnosticReportInput \<Rightarrow> string" where
  "report_text i = js_join [newline]
     (''Tailchrome helper diagnostic report''
      # map (\<lambda>(k, v). k @ '': '' @ v) (report_fields i) @ [[]])"

definition formatHelperDiagnosticReport :: "HelperDiagnosticReportInput \<Rightarrow> string" where
  "formatHelperDiagnosticReport i = take MAX_HELPER_DIAGNOSTIC_REPORT_LENGTH (report_text i)"

section \<open>Lemmas\<close>

lemma sanitizeDiagnosticMessage_length:
  "sanitizeDiagnosticMessage v = Some m \<Longrightarrow> m \<noteq> [] \<and> length m \<le> 1024"
  by (auto simp: sanitizeDiagnosticMessage_def MAX_DIAGNOSTIC_MESSAGE_LENGTH_def Let_def
      split: option.splits if_splits)

text \<open>White space of the result of the last replacement is plain spaces only.\<close>

lemma rx_plus_space_head:
  assumes "js_space c"
  shows "\<exists>pre' post' cap qs. rx_match (rx_plus rx_space) (pre, c # cs, []) = (pre', post', cap) # qs \<and>
    length post' \<le> length cs"
proof -
  have "rx_match (rx_plus rx_space) (pre, c # cs, []) = rx_match (Star rx_space) (c # pre, cs, [])"
    using assms by (simp add: rx_plus_def rx_space_def)
  moreover have "rx_match (Star rx_space) (c # pre, cs, []) \<noteq> []"
    by (subst rx_match.simps) simp
  moreover have "length (rx_post q) \<le> length cs" if "q \<in> set (rx_match (Star rx_space) (c # pre, cs, []))" for q
    using rx_match_step [OF that] by (auto simp: rx_step_def suffix_length_le)
  ultimately show ?thesis
    by (cases "rx_match (Star rx_space) (c # pre, cs, [])") (auto, metis list.set_intros(1) rx_post.simps)
qed

lemma control_head:
  assumes "control_char c"
  shows "\<exists>pre' post' cap qs. rx_match (Cls control_char) (pre, c # cs, []) = (pre', post', cap) # qs \<and>
    length post' \<le> length cs"
  using assms by simp

text \<open>The characters that replacement texts add are neither control characters nor line breaks.\<close>

definition plain_char :: "char \<Rightarrow> bool" where
  "plain_char c \<longleftrightarrow> \<not> control_char c"

lemma redaction_step_plain:
  assumes "(r, rep) \<in> set (tl redactions)" and "\<forall>c\<in>set t. plain_char c"
  shows "\<forall>c\<in>set (replace_all r rep t). plain_char c"
proof -
  have "set (rep u) \<subseteq> set u \<union> {c. plain_char c}" for u
    using assms(1) by (auto simp: redactions_def plain_char_def control_char_def)
  then have "set (replace_all r rep t) \<subseteq> set t \<union> (set t \<union> {c. plain_char c})"
    by (intro replace_all_chars) blast
  with assms(2) show ?thesis by auto
qed

lemma fold_redactions_plain:
  assumes "set rs \<subseteq> set (tl redactions)" and "\<forall>c\<in>set t. plain_char c"
  shows "\<forall>c\<in>set (fold (\<lambda>(r, rep) t. replace_all r rep t) rs t). plain_char c"
  using assms
proof (induction rs arbitrary: t)
  case (Cons x rs)
  obtain r rep where x: "x = (r, rep)" by (cases x)
  with Cons have "\<forall>c\<in>set (replace_all r rep t). plain_char c" by (intro redaction_step_plain) auto
  with Cons x show ?case by simp
qed simp

lemma redactions_split:
  "redactions = (Cls control_char, \<lambda>_. '' '') # butlast (tl redactions) @ [(rx_plus rx_space, \<lambda>_. '' '')]"
  by (simp add: redactions_def)

lemma js_trim_set: "set (js_trim s) \<subseteq> set s"
  by (metis js_trim_def set_dropWhileD set_rev subsetI)

lemma redact_chars:
  assumes "c \<in> set (redact s)"
  shows "\<not> control_char c" and "js_space c \<Longrightarrow> c = CHR '' ''"
proof -
  let ?run = "\<lambda>rs t. fold (\<lambda>(r, rep) t. replace_all r rep t) rs t"
  let ?t0 = "replace_all (Cls control_char) (\<lambda>_. '' '') (take DIAGNOSTIC_SCAN_LIMIT s)"
  let ?t1 = "?run (butlast (tl redactions)) ?t0"
  let ?t2 = "replace_all (rx_plus rx_space) (\<lambda>_. '' '') ?t1"
  have run: "?run redactions (take DIAGNOSTIC_SCAN_LIMIT s) = ?t2"
    by (subst redactions_split) simp
  have "set ?t0 \<subseteq> {c. \<not> control_char c} \<union> {CHR '' ''}"
    unfolding replace_all_def by (rule rx_replace_eliminates) (auto intro: control_head)
  then have "\<forall>c\<in>set ?t0. plain_char c" by (auto simp: plain_char_def control_char_def)
  then have t1: "\<forall>c\<in>set ?t1. plain_char c"
    by (rule fold_redactions_plain [rotated]) (auto dest: in_set_butlastD)
  have "\<forall>c\<in>set ?t2. plain_char c"
    by (rule redaction_step_plain [OF _ t1]) (simp add: redactions_def)
  moreover have "set ?t2 \<subseteq> {c. \<not> js_space c} \<union> {CHR '' ''}"
    unfolding replace_all_def by (rule rx_replace_eliminates [OF rx_plus_space_head]) auto
  moreover have "c \<in> set ?t2"
    using assms run js_trim_set by (auto simp: redact_def)
  ultimately show "\<not> control_char c" "js_space c \<Longrightarrow> c = CHR '' ''"
    by (auto simp: plain_char_def)
qed

lemma sanitizeDiagnosticMessage_chars:
  assumes "sanitizeDiagnosticMessage v = Some m" and "c \<in> set m"
  shows "\<not> control_char c" and "js_space c \<Longrightarrow> c = CHR '' ''"
proof -
  from assms obtain s where "c \<in> set (redact s)"
    by (auto simp: sanitizeDiagnosticMessage_def Let_def dest: in_set_takeD split: option.splits if_splits)
  then show "\<not> control_char c" "js_space c \<Longrightarrow> c = CHR '' ''"
    using redact_chars by blast+
qed

lemma newline_space: "js_space newline"
  by (simp add: js_space_def)

lemma safeVersion_no_newline: "newline \<notin> set (safeVersion v)"
proof -
  have "\<not> rx_allows rx_version newline"
    by (simp add: rx_version_def rx_in_def is_digit_def is_alpha_def is_lower_def is_upper_def)
  then show ?thesis
    using rx_full_chars [of rx_version v newline] by (auto simp: safeVersion_def)
qed

lemma safePlatformValue_no_newline: "newline \<notin> set (safePlatformValue v)"
  by (auto simp: safePlatformValue_def list_all_iff is_digit_def is_alpha_def is_lower_def is_upper_def
      Let_def)

lemma safeDiagnosticCode_no_newline: "newline \<notin> set (safeDiagnosticCode v)"
  by (auto simp: safeDiagnosticCode_def list_all_iff is_digit_def is_lower_def Let_def)

lemma message_no_newline: "newline \<notin> set (js_default (sanitizeDiagnosticMessage v) ''none'')"
  using sanitizeDiagnosticMessage_chars(2) [of v _ newline] newline_space
  by (auto simp: js_default_def split: option.splits)

lemma kind_no_newline: "newline \<notin> set (failure_kind_text k)"
  by (cases k) auto

lemma bool_text_no_newline: "newline \<notin> set (bool_text b)"
  by (simp add: bool_text_def)

lemma family_text_no_newline: "newline \<notin> set (family_text f)"
  by (cases f) (simp_all add: family_text_def)

lemmas no_newline = safeVersion_no_newline safePlatformValue_no_newline safeDiagnosticCode_no_newline
  message_no_newline kind_no_newline bool_text_no_newline family_text_no_newline

lemma report_fields_no_newline:
  "list_all (\<lambda>(k, v). newline \<notin> set k \<and> newline \<notin> set v) (report_fields i)"
proof -
  have "newline \<notin> set (case ts_helperFailure (ri_state i) of
      Some f \<Rightarrow> failure_kind_text (hf_kind f) | None \<Rightarrow> ''none'')"
    by (simp add: kind_no_newline split: option.split)
  then show ?thesis
    by (simp add: report_fields_def Let_def no_newline)
qed

text \<open>A diagnostic report has exactly its title line and one line per field: no field can add a line.\<close>

lemma report_text_lines:
  "js_split newline (report_text i) =
     ''Tailchrome helper diagnostic report'' # map (\<lambda>(k, v). k @ '': '' @ v) (report_fields i) @ [[]]"
  unfolding report_text_def
proof (rule js_split_join)
  show "\<forall>x\<in>set (''Tailchrome helper diagnostic report''
      # map (\<lambda>(k, v). k @ '': '' @ v) (report_fields i) @ [[]]). newline \<notin> set x"
    using report_fields_no_newline [of i] by (auto simp: list_all_iff)
qed simp

text \<open>A sanitised diagnostic message is non-empty, at most 1024 characters long, has no control character and no white space but the plain blank.\<close>

lemma diagnostic_message_clean:
  "case sanitizeDiagnosticMessage v of
     None \<Rightarrow> True
   | Some m \<Rightarrow> m \<noteq> [] \<and> length m \<le> 1024 \<and> list_all (\<lambda>c. \<not> control_char c \<and> js_space c = (c = CHR '' '')) m"
proof (cases "sanitizeDiagnosticMessage v")
  case (Some m)
  have "js_space (CHR '' '')" by (simp add: js_space_def)
  then show ?thesis
    using sanitizeDiagnosticMessage_length [OF Some] sanitizeDiagnosticMessage_chars [OF Some] Some
    by (auto simp: list_all_iff)
qed simp

end
