(* ===== verification/Ipv6_Subnets.thy ===== *)
theory Ipv6_Subnets
  imports Prelude
begin

text \<open>
  IPv6 addresses and subnets (\<open>packages/shared/src/background/ipv6-subnets.ts\<close>): the parser,
  the word-wise prefix comparison, the subnet matcher that both browsers use, and the strict CIDR
  parser. The lemmas relate the word-wise comparison to one comparison of 128-bit numbers, bound
  what the parsers return, and show that a parsed CIDR is canonical and overlaps none of the
  forbidden ranges.
\<close>

record IPv6Subnet =
  network :: "nat list"
  prefixLength :: nat

section \<open>Parsing an address\<close>

text \<open>\<open>text.lastIndexOf(":")\<close> splits the text into what ends in the colon and what follows.\<close>

definition last_colon_split :: "string \<Rightarrow> string \<times> string" where
  "last_colon_split s =
     (let tail = rev (takeWhile (\<lambda>c. c \<noteq> CHR '':'') (rev s))
      in (take (length s - length tail) s, tail))"

fun parse_octets :: "string list \<Rightarrow> nat list option" where
  "parse_octets [] = Some []"
| "parse_octets (t # ts) =
     (case canonical_nat t of
        Some n \<Rightarrow> if n > 255 then None else map_option (\<lambda>ns. n # ns) (parse_octets ts)
      | None \<Rightarrow> None)"

definition ipv6_group :: "string \<Rightarrow> bool" where
  "ipv6_group g \<longleftrightarrow> 1 \<le> length g \<and> length g \<le> 4 \<and> list_all is_hex g"

text \<open>The dotted IPv4 tail becomes two hexadecimal groups; \<^const>\<open>None\<close> rejects the text.\<close>

definition expand_ipv4_tail :: "string \<Rightarrow> string option" where
  "expand_ipv4_tail text =
     (if CHR ''.'' \<notin> set text then Some text
      else (let (front, tail) = last_colon_split text; octets = js_split (CHR ''.'') tail
            in if length octets \<noteq> 4 then None
               else (case parse_octets octets of
                       Some [a, b, c, d] \<Rightarrow>
                         Some (front @ nat_to_hex (a * 256 + b) @ '':'' @ nat_to_hex (c * 256 + d))
                     | _ \<Rightarrow> None)))"

definition unbracket :: "string \<Rightarrow> string" where
  "unbracket s =
     (if s \<noteq> [] \<and> hd s = CHR ''['' \<and> last s = CHR '']'' then butlast (tl s) else s)"

definition ipv6_char :: "char \<Rightarrow> bool" where
  "ipv6_char c \<longleftrightarrow> is_hex c \<or> c = CHR '':'' \<or> c = CHR ''.''"

definition colon_groups :: "string \<Rightarrow> string list" where
  "colon_groups s = (if s = [] then [] else js_split (CHR '':'') s)"

definition parse_groups :: "string \<Rightarrow> nat list option" where
  "parse_groups text =
     (let halves = js_split_dcolon text;
          left = colon_groups (halves ! 0);
          right = (if length halves = 2 then colon_groups (halves ! 1) else []);
          count = length left + length right
      in if length halves > 2 then None
         else if (if length halves = 1 then count \<noteq> 8 else count \<ge> 8) then None
         else if \<not> list_all ipv6_group (left @ right) then None
         else Some (map parse_hex left
                @ (if length halves = 2 then replicate (8 - count) 0 else [])
                @ map parse_hex right))"

definition parseIPv6Address :: "string \<Rightarrow> nat list option" where
  "parseIPv6Address input =
     (let text = unbracket input
      in if text = [] \<or> \<not> list_all ipv6_char text \<or> CHR '':'' \<notin> set text then None
         else Option.bind (expand_ipv4_tail text) parse_groups)"

section \<open>Matching\<close>

text \<open>
  The loop over \<open>i\<close> as recursion on the two word lists; a word missing from a list reads as
  \<open>undefined\<close>, whose quotient is NaN and differs from every number.
\<close>

fun prefixMatches :: "nat list \<Rightarrow> nat list \<Rightarrow> nat \<Rightarrow> bool" where
  "prefixMatches [] b bits = (bits = 0)"
| "prefixMatches (x # a) b bits =
     (if bits = 0 then True
      else case b of
        [] \<Rightarrow> False
      | y # b' \<Rightarrow>
          (let scale = 2 ^ (16 - min bits 16)
           in x div scale = y div scale \<and> prefixMatches a b' (bits - 16)))"

definition ipv4_mapped :: "nat list \<Rightarrow> bool" where
  "ipv4_mapped ws \<longleftrightarrow> list_all (\<lambda>w. w = 0) (take 5 ws) \<and> ws ! 5 = 0xffff"

definition matchesIPv6Subnet :: "string \<Rightarrow> IPv6Subnet list \<Rightarrow> bool" where
  "matchesIPv6Subnet host subnets =
     (case parseIPv6Address host of
        None \<Rightarrow> False
      | Some address \<Rightarrow>
          \<not> ipv4_mapped address \<and>
          list_ex (\<lambda>s. prefixMatches address (network s) (prefixLength s)) subnets)"

section \<open>CIDR texts\<close>

definition forbidden_ipv6 :: "IPv6Subnet list" where
  "forbidden_ipv6 =
     [\<lparr>network = [0, 0, 0, 0, 0, 0, 0, 0], prefixLength = 128\<rparr>,
      \<lparr>network = [0, 0, 0, 0, 0, 0, 0, 1], prefixLength = 128\<rparr>,
      \<lparr>network = [0xfe80, 0, 0, 0, 0, 0, 0, 0], prefixLength = 10\<rparr>,
      \<lparr>network = [0xff00, 0, 0, 0, 0, 0, 0, 0], prefixLength = 8\<rparr>]"

text \<open>The loop that clears the host bits, word by word from index \<open>i\<close>.\<close>

fun clear_host_bits :: "nat \<Rightarrow> nat \<Rightarrow> nat list \<Rightarrow> nat list" where
  "clear_host_bits plen i [] = []"
| "clear_host_bits plen i (w # ws) =
     (let scale = 2 ^ (16 - min 16 (plen - i * 16))
      in (w div scale) * scale # clear_host_bits plen (Suc i) ws)"

definition parseIPv6CIDR :: "string \<Rightarrow> IPv6Subnet option" where
  "parseIPv6CIDR cidr =
     (case js_split (CHR ''/'') cidr of
        [addr, len] \<Rightarrow>
          if CHR ''['' \<in> set addr \<or> CHR '']'' \<in> set addr then None
          else (case canonical_nat len of
                  None \<Rightarrow> None
                | Some plen \<Rightarrow>
                    if plen < 1 \<or> plen > 128 then None
                    else (case parseIPv6Address addr of
                            None \<Rightarrow> None
                          | Some net \<Rightarrow>
                              if ipv4_mapped net then None
                              else if list_ex (\<lambda>r. prefixMatches net (network r) (min plen (prefixLength r)))
                                        forbidden_ipv6 then None
                              else Some \<lparr>network = clear_host_bits plen 0 net, prefixLength = plen\<rparr>))
      | _ \<Rightarrow> None)"

section \<open>Addresses as 128-bit numbers\<close>

text \<open>The reference reading of a list of 16-bit words, most significant first.\<close>

fun words_val :: "nat list \<Rightarrow> nat" where
  "words_val [] = 0"
| "words_val (w # ws) = w * 65536 ^ length ws + words_val ws"

definition words16 :: "nat list \<Rightarrow> bool" where
  "words16 ws \<longleftrightarrow> list_all (\<lambda>w. w < 65536) ws"

definition ipv6_words :: "nat list \<Rightarrow> bool" where
  "ipv6_words ws \<longleftrightarrow> length ws = 8 \<and> words16 ws"

text \<open>The addresses of the subnet \<open>net/plen\<close>, as numbers.\<close>

definition same_prefix :: "nat \<Rightarrow> nat \<Rightarrow> nat \<Rightarrow> bool" where
  "same_prefix plen a b \<longleftrightarrow> a div 2 ^ (128 - plen) = b div 2 ^ (128 - plen)"

lemma words16_simps [simp]: "words16 []" "words16 (w # ws) \<longleftrightarrow> w < 65536 \<and> words16 ws"
  by (simp_all add: words16_def)

lemma words16_append [simp]: "words16 (xs @ ys) \<longleftrightarrow> words16 xs \<and> words16 ys"
  by (simp add: words16_def)

lemma words_val_bound: "words16 ws \<Longrightarrow> words_val ws < 65536 ^ length ws"
proof (induction ws)
  case (Cons w ws)
  then have "w \<le> 65535" and "words_val ws < 65536 ^ length ws" by auto
  then have "w * 65536 ^ length ws + words_val ws < 65535 * 65536 ^ length ws + 65536 ^ length ws"
    by (intro add_le_less_mono mult_right_mono) auto
  then show ?case by simp
qed simp

lemma words_val_div_zero: "words16 ws \<Longrightarrow> words_val ws div 2 ^ (16 * length ws) = 0"
  using words_val_bound [of ws] by (simp add: power_mult)

text \<open>A quotient by a power of two that reaches into the leading word only.\<close>

lemma div_leading_word:
  fixes w v :: nat
  assumes "v < 65536 ^ n" and "k \<le> 16"
  shows "(w * 65536 ^ n + v) div 2 ^ (16 * n + k) = w div 2 ^ k"
proof -
  have pow: "(2::nat) ^ (16 * n + k) = 65536 ^ n * 2 ^ k"
    by (simp add: power_add power_mult)
  have "(w * 65536 ^ n + v) div (65536 ^ n) = w"
    using assms(1) by simp
  then show ?thesis
    by (simp add: pow div_mult2_eq)
qed

lemma div_trailing_words:
  fixes w v :: nat
  assumes "k \<le> 16 * n" and "v < 65536 ^ n"
  shows "(w * 65536 ^ n + v) div 2 ^ k = w * 2 ^ (16 * n - k) + v div 2 ^ k"
proof -
  have "(65536::nat) ^ n = 2 ^ (16 * n)"
    by (simp add: power_mult)
  also have "\<dots> = 2 ^ (16 * n - k) * 2 ^ k"
    using assms(1) by (simp flip: power_add)
  finally show ?thesis
    by (simp add: mult.assoc [symmetric])
qed

lemma mixed_radix_eq:
  fixes a b c d m :: nat
  assumes "c < m" and "d < m"
  shows "a * m + c = b * m + d \<longleftrightarrow> a = b \<and> c = d"
proof
  assume eq: "a * m + c = b * m + d"
  have "(a * m + c) div m = a" "(b * m + d) div m = b"
    using assms by auto
  with eq have "a = b" by simp
  with eq show "a = b \<and> c = d" by simp
qed simp

lemma div_pow_bound:
  fixes v :: nat
  assumes "v < 65536 ^ n" and "k \<le> 16 * n"
  shows "v div 2 ^ k < 2 ^ (16 * n - k)"
proof -
  have "(65536::nat) ^ n = 2 ^ (16 * n - k) * 2 ^ k"
    using assms(2) by (simp add: power_mult flip: power_add)
  with assms(1) show ?thesis
    by (simp add: less_mult_imp_div_less)
qed

lemma prefixMatches_0 [simp]: "prefixMatches a b 0"
  by (cases a) auto

lemma prefixMatches_val:
  assumes "length a = length b" and "words16 a" and "words16 b" and "bits \<le> 16 * length a"
  shows "prefixMatches a b bits \<longleftrightarrow>
    words_val a div 2 ^ (16 * length a - bits) = words_val b div 2 ^ (16 * length a - bits)"
  using assms
proof (induction a b arbitrary: bits rule: list_induct2)
  case (Cons x a y b)
  let ?n = "length a"
  from Cons.prems Cons.hyps have va: "words_val a < 65536 ^ ?n" and vb: "words_val b < 65536 ^ ?n"
    using words_val_bound [of a] words_val_bound [of b] by auto
  show ?case
  proof (cases "bits \<le> 16")
    case True
    have k: "16 * length (x # a) - bits = 16 * ?n + (16 - bits)"
      using True by simp
    show ?thesis
    proof (cases "bits = 0")
      case True
      then show ?thesis
        using words_val_div_zero [of "x # a"] words_val_div_zero [of "y # b"] Cons.prems Cons.hyps
        by simp
    next
      case False
      with True have "prefixMatches (x # a) (y # b) bits \<longleftrightarrow>
          x div 2 ^ (16 - bits) = y div 2 ^ (16 - bits)"
        by (simp add: min_def Let_def)
      then show ?thesis
        unfolding k using Cons.hyps div_leading_word [OF va, of "16 - bits" x]
          div_leading_word [OF vb, of "16 - bits" y]
        by simp
    qed
  next
    case False
    then have k: "16 * length (x # a) - bits = 16 * ?n - (bits - 16)" and le: "bits - 16 \<le> 16 * ?n"
      using Cons.prems by auto
    let ?k = "16 * ?n - (bits - 16)"
    have IH: "prefixMatches a b (bits - 16) \<longleftrightarrow> words_val a div 2 ^ ?k = words_val b div 2 ^ ?k"
      using Cons.IH [of "bits - 16"] Cons.prems le by simp
    have "words_val (x # a) div 2 ^ ?k = words_val (y # b) div 2 ^ ?k \<longleftrightarrow>
        x = y \<and> words_val a div 2 ^ ?k = words_val b div 2 ^ ?k"
      using Cons.hyps div_pow_bound [OF va, of ?k] div_pow_bound [OF vb, of ?k]
        div_trailing_words [OF _ va, of ?k x] div_trailing_words [OF _ vb, of ?k y]
        mixed_radix_eq [of "words_val a div 2 ^ ?k" _ "words_val b div 2 ^ ?k" x y]
      by simp
    with IH False show ?thesis
      unfolding k by simp
  qed
qed simp

lemma prefixMatches_same_prefix:
  assumes "ipv6_words a" and "ipv6_words b" and "plen \<le> 128"
  shows "prefixMatches a b plen \<longleftrightarrow> same_prefix plen (words_val a) (words_val b)"
  using assms prefixMatches_val [of a b plen] by (simp add: ipv6_words_def same_prefix_def)

section \<open>What the parsers return\<close>

lemma hex_val_bound: "is_hex c \<Longrightarrow> hex_val c < 16"
  by (auto simp: is_hex_def hex_val_def Let_def)

lemma parse_hex_snoc: "parse_hex (s @ [c]) = parse_hex s * 16 + hex_val c"
  by (simp add: parse_hex_def)

lemma parse_hex_bound: "list_all is_hex s \<Longrightarrow> parse_hex s < 16 ^ length s"
proof (induction s rule: rev_induct)
  case (snoc c s)
  then have "parse_hex s + 1 \<le> 16 ^ length s" and "hex_val c < 16"
    by (auto simp: hex_val_bound Suc_le_eq)
  then have "(parse_hex s + 1) * 16 \<le> 16 ^ length s * 16"
    by (intro mult_right_mono) auto
  with \<open>hex_val c < 16\<close> show ?case
    by (simp add: parse_hex_snoc)
qed (simp add: parse_hex_def)

lemma ipv6_group_bound: "ipv6_group g \<Longrightarrow> parse_hex g < 65536"
proof -
  assume g: "ipv6_group g"
  then have "parse_hex g < 16 ^ length g"
    by (simp add: ipv6_group_def parse_hex_bound)
  also have "\<dots> \<le> 16 ^ 4"
    using g by (intro power_increasing) (auto simp: ipv6_group_def)
  finally show ?thesis by simp
qed

lemma words16_map_parse_hex: "list_all ipv6_group gs \<Longrightarrow> words16 (map parse_hex gs)"
  by (induction gs) (auto simp: ipv6_group_bound)

lemma words16_replicate_0 [simp]: "words16 (replicate n 0)"
  by (simp add: words16_def list_all_iff)

lemma parse_groups_ipv6_words:
  assumes "parse_groups text = Some ws"
  shows "ipv6_words ws"
proof -
  have "js_split_dcolon text \<noteq> []" by simp
  with assms show ?thesis
    by (cases "js_split_dcolon text"; cases "tl (js_split_dcolon text)")
      (auto simp: parse_groups_def ipv6_words_def Let_def words16_map_parse_hex split: if_splits)
qed

lemma parseIPv6Address_ipv6_words [sanitize_intros]:
  "parseIPv6Address s = Some ws \<Longrightarrow> ipv6_words ws"
  by (auto simp: parseIPv6Address_def Let_def bind_eq_Some_conv dest: parse_groups_ipv6_words
      split: if_splits)

section \<open>Printing and parsing an address\<close>

lemma is_hex_hex_digit: "n < 16 \<Longrightarrow> is_hex (hex_digit n)"
  by (auto simp: is_hex_def hex_digit_def of_char_of Let_def)

lemma hex_val_hex_digit: "n < 16 \<Longrightarrow> hex_val (hex_digit n) = n"
  by (auto simp: hex_val_def hex_digit_def of_char_of Let_def)

lemma nat_to_hex_is_hex: "list_all is_hex (nat_to_hex n)"
proof (induction n rule: nat_to_hex.induct)
  case (1 n)
  then show ?case by (subst nat_to_hex.simps) (auto simp: is_hex_hex_digit)
qed

lemma parse_hex_nat_to_hex [simp]: "parse_hex (nat_to_hex n) = n"
proof (induction n rule: nat_to_hex.induct)
  case (1 n)
  show ?case
  proof (cases "n < 16")
    case True
    then show ?thesis
      by (subst nat_to_hex.simps) (simp add: parse_hex_def hex_val_hex_digit)
  next
    case False
    with 1 show ?thesis
      by (subst nat_to_hex.simps) (simp add: parse_hex_snoc hex_val_hex_digit)
  qed
qed

lemma nat_to_hex_length: "n < 16 ^ Suc k \<Longrightarrow> length (nat_to_hex n) \<le> Suc k"
proof (induction k arbitrary: n)
  case 0
  then show ?case by (subst nat_to_hex.simps) simp
next
  case (Suc k)
  then have "n div 16 < 16 ^ Suc k" by (simp add: less_mult_imp_div_less)
  with Suc.IH show ?case by (subst nat_to_hex.simps) simp
qed

lemma nat_to_hex_not_Nil [simp]: "nat_to_hex n \<noteq> []"
  by (subst nat_to_hex.simps) simp

lemma ipv6_group_nat_to_hex: "n < 65536 \<Longrightarrow> ipv6_group (nat_to_hex n)"
  using nat_to_hex_length [of n 3] by (auto simp: ipv6_group_def nat_to_hex_is_hex Suc_le_eq)

lemma is_hex_not_special: "is_hex c \<Longrightarrow> c \<noteq> CHR '':'' \<and> c \<noteq> CHR ''.'' \<and> c \<noteq> CHR ''[''"
  by (auto simp: is_hex_def)

lemma split_dcolon_group:
  assumes "g \<noteq> []" and "CHR '':'' \<notin> set g"
    and "js_split_dcolon t = [t]" and "t \<noteq> []" and "hd t \<noteq> CHR '':''"
  shows "js_split_dcolon (g @ CHR '':'' # t) = [g @ CHR '':'' # t]"
  using assms(1,2)
proof (induction g)
  case (Cons c g)
  obtain u t' where t: "t = u # t'" using assms(4) by (cases t) auto
  with assms Cons show ?case by (cases g) auto
qed simp

lemma split_dcolon_no_colon: "CHR '':'' \<notin> set g \<Longrightarrow> js_split_dcolon g = [g]"
  by (induction g rule: js_split_dcolon.induct) auto

lemma split_dcolon_join:
  assumes "gs \<noteq> []" and "\<forall>g\<in>set gs. g \<noteq> [] \<and> CHR '':'' \<notin> set g"
  shows "js_split_dcolon (js_join '':'' gs) = [js_join '':'' gs]"
    and "js_join '':'' gs \<noteq> []" and "hd (js_join '':'' gs) \<noteq> CHR '':''"
  using assms
proof (induction "'':''" gs rule: js_join.induct)
  case (3 x y ys)
  {
    case 1
    with 3 show ?case by (simp add: split_dcolon_group)
  next
    case 2
    with 3 show ?case by simp
  next
    case 3
    then show ?case by (cases x) auto
  }
qed (auto simp: split_dcolon_no_colon, metis hd_in_set)

definition print_ipv6 :: "nat list \<Rightarrow> string" where
  "print_ipv6 ws = js_join '':'' (map nat_to_hex ws)"

lemma set_js_join: "set (js_join sep xs) \<subseteq> \<Union> (set ` set xs) \<union> set sep"
  by (induction sep xs rule: js_join.induct) auto

lemma print_ipv6_chars: "c \<in> set (print_ipv6 ws) \<Longrightarrow> is_hex c \<or> c = CHR '':''"
  using set_js_join [of "'':''" "map nat_to_hex ws"] nat_to_hex_is_hex
  by (auto simp: print_ipv6_def list_all_iff)

lemma colon_in_join: "2 \<le> length xs \<Longrightarrow> set sep \<subseteq> set (js_join sep xs)"
  by (induction sep xs rule: js_join.induct) auto

text \<open>Printing the eight words of an address and parsing the text gives the words back.\<close>

lemma parse_print_ipv6:
  assumes "ipv6_words ws"
  shows "parseIPv6Address (print_ipv6 ws) = Some ws"
proof -
  let ?gs = "map nat_to_hex ws" and ?t = "print_ipv6 ws"
  have len: "length ws = 8" and w16: "\<forall>w\<in>set ws. w < 65536"
    using assms by (auto simp: ipv6_words_def words16_def list_all_iff)
  have gs: "?gs \<noteq> []" "\<forall>g\<in>set ?gs. g \<noteq> [] \<and> CHR '':'' \<notin> set g"
    using len nat_to_hex_is_hex is_hex_not_special by (auto simp: list_all_iff)
  note split = split_dcolon_join [OF gs, folded print_ipv6_def]
  have chars: "list_all ipv6_char ?t" "CHR ''.'' \<notin> set ?t"
    using print_ipv6_chars is_hex_not_special by (fastforce simp: ipv6_char_def list_all_iff)+
  have "hd ?t \<noteq> CHR ''[''"
    using print_ipv6_chars [of "hd ?t" ws] is_hex_not_special split(2) by auto
  then have unb: "unbracket ?t = ?t"
    by (simp add: unbracket_def)
  have colon: "CHR '':'' \<in> set ?t"
    using colon_in_join [of ?gs "'':''"] len by (simp add: print_ipv6_def)
  have "js_split (CHR '':'') ?t = ?gs"
    unfolding print_ipv6_def using gs by (intro js_split_join) auto
  moreover have "list_all ipv6_group ?gs"
    using w16 by (simp add: list_all_iff ipv6_group_nat_to_hex)
  moreover have "map (parse_hex \<circ> nat_to_hex) ws = ws"
    by (simp add: map_idI)
  ultimately have "parse_groups ?t = Some ws"
    using split len by (simp add: parse_groups_def colon_groups_def Let_def)
  with unb chars colon split(2) show ?thesis
    by (simp add: parseIPv6Address_def expand_ipv4_tail_def)
qed

section \<open>CIDR texts\<close>

lemma clear_host_bits_length [simp]: "length (clear_host_bits plen i ws) = length ws"
  by (induction ws arbitrary: i) (auto simp: Let_def)

lemma clear_host_bits_words16: "words16 ws \<Longrightarrow> words16 (clear_host_bits plen i ws)"
proof (induction ws arbitrary: i)
  case (Cons w ws)
  then show ?case
    using le_less_trans [OF div_times_less_eq_dividend] by (auto simp: Let_def)
qed simp

lemma clear_host_bits_prefix:
  "prefixMatches a (clear_host_bits plen i b) (plen - i * 16) = prefixMatches a b (plen - i * 16)"
proof (induction a arbitrary: b i)
  case (Cons x a)
  show ?case
  proof (cases b)
    case (Cons y b')
    have "plen - i * 16 - 16 = plen - Suc i * 16" by simp
    with Cons Cons.IH [of "Suc i" b'] show ?thesis
      by (auto simp: Let_def min.commute)
  qed simp
qed simp

lemma clear_host_bits_zero:
  "plen \<le> i * 16 \<Longrightarrow> words16 ws \<Longrightarrow> words_val (clear_host_bits plen i ws) = 0"
  by (induction ws arbitrary: i) (auto simp: Let_def)

lemma clear_host_bits_dvd:
  assumes "words16 ws" and "plen - i * 16 \<le> 16 * length ws"
  shows "2 ^ (16 * length ws - (plen - i * 16)) dvd words_val (clear_host_bits plen i ws)"
  using assms
proof (induction ws arbitrary: i)
  case (Cons w ws)
  let ?p = "plen - i * 16" and ?n = "length ws"
  have p65: "(65536::nat) ^ ?n = 2 ^ (16 * ?n)" by (simp add: power_mult)
  show ?case
  proof (cases "?p \<le> 16")
    case True
    then have "words_val (clear_host_bits plen (Suc i) ws) = 0"
      using Cons.prems by (intro clear_host_bits_zero) auto
    moreover have "(2::nat) ^ (16 * length (w # ws) - ?p) = 2 ^ (16 - ?p) * 65536 ^ ?n"
      using True by (simp add: p65 flip: power_add)
    ultimately show ?thesis
      using True by (simp add: Let_def min_absorb2 mult_dvd_mono)
  next
    case False
    then have k: "16 * length (w # ws) - ?p = 16 * ?n - (plen - Suc i * 16)"
      using Cons.prems by simp
    have "2 ^ (16 * ?n - (plen - Suc i * 16)) dvd (65536::nat) ^ ?n"
      unfolding p65 by (rule le_imp_power_dvd) simp
    moreover have "2 ^ (16 * ?n - (plen - Suc i * 16)) dvd words_val (clear_host_bits plen (Suc i) ws)"
      using Cons.prems False by (intro Cons.IH) auto
    ultimately show ?thesis
      unfolding k using False by (simp add: Let_def)
  qed
qed simp

lemma same_prefix_trans: "same_prefix p a b \<Longrightarrow> same_prefix p b c \<Longrightarrow> same_prefix p a c"
  and same_prefix_sym: "same_prefix p a b \<Longrightarrow> same_prefix p b a"
  by (simp_all add: same_prefix_def)

lemma same_prefix_mono:
  assumes "same_prefix p a b" and "q \<le> p" and "p \<le> 128"
  shows "same_prefix q a b"
proof -
  have "128 - q = (128 - p) + (p - q)" using assms by simp
  then have "x div 2 ^ (128 - q) = x div 2 ^ (128 - p) div 2 ^ (p - q)" for x :: nat
    by (simp add: power_add div_mult2_eq)
  with assms(1) show ?thesis by (simp add: same_prefix_def)
qed

definition subnet_ok :: "IPv6Subnet \<Rightarrow> bool" where
  "subnet_ok s \<longleftrightarrow> ipv6_words (network s) \<and> 1 \<le> prefixLength s \<and> prefixLength s \<le> 128 \<and>
     2 ^ (128 - prefixLength s) dvd words_val (network s)"

lemma parseIPv6CIDR_cases:
  assumes "parseIPv6CIDR cidr = Some s"
  obtains net where "ipv6_words net" and "1 \<le> prefixLength s" and "prefixLength s \<le> 128"
    and "network s = clear_host_bits (prefixLength s) 0 net"
    and "\<forall>r\<in>set forbidden_ipv6. \<not> prefixMatches net (network r) (min (prefixLength s) (prefixLength r))"
  using assms
  by (auto simp: parseIPv6CIDR_def list_ex_iff Let_def dest: parseIPv6Address_ipv6_words
      split: list.splits if_splits option.splits)

lemma clear_host_bits_same_prefix:
  assumes "ipv6_words net" and "plen \<le> 128"
  shows "ipv6_words (clear_host_bits plen 0 net)"
    and "same_prefix plen a (words_val (clear_host_bits plen 0 net)) \<longleftrightarrow> same_prefix plen a (words_val net)"
proof -
  show *: "ipv6_words (clear_host_bits plen 0 net)"
    using assms by (simp add: ipv6_words_def clear_host_bits_words16)
  have "prefixMatches net (clear_host_bits plen 0 net) plen"
    using clear_host_bits_prefix [of net plen 0 net] assms
    by (simp add: prefixMatches_same_prefix same_prefix_def)
  then have "same_prefix plen (words_val net) (words_val (clear_host_bits plen 0 net))"
    using prefixMatches_same_prefix [OF assms(1) * assms(2)] by simp
  then show "same_prefix plen a (words_val (clear_host_bits plen 0 net)) \<longleftrightarrow>
      same_prefix plen a (words_val net)"
    by (simp add: same_prefix_def)
qed

lemma parseIPv6CIDR_ok [sanitize_intros]: "parseIPv6CIDR cidr = Some s \<Longrightarrow> subnet_ok s"
proof (elim parseIPv6CIDR_cases)
  fix net
  assume *: "ipv6_words net" "1 \<le> prefixLength s" "prefixLength s \<le> 128"
    "network s = clear_host_bits (prefixLength s) 0 net"
  then have "2 ^ (128 - prefixLength s) dvd words_val (clear_host_bits (prefixLength s) 0 net)"
    using clear_host_bits_dvd [of net "prefixLength s" 0] by (simp add: ipv6_words_def)
  with * show "subnet_ok s"
    by (simp add: subnet_ok_def clear_host_bits_same_prefix(1))
qed

lemma forbidden_ipv6_ok: "r \<in> set forbidden_ipv6 \<Longrightarrow> subnet_ok r"
  by (auto simp: forbidden_ipv6_def subnet_ok_def ipv6_words_def words16_def)

text \<open>An accepted IPv6 subnet shares no address with a reserved range (unspecified, loopback, link-local, multicast).\<close>

lemma parseIPv6CIDR_disjoint:
  assumes "parseIPv6CIDR cidr = Some s" and "r \<in> set forbidden_ipv6"
    and "same_prefix (prefixLength s) a (words_val (network s))"
  shows "\<not> same_prefix (prefixLength r) a (words_val (network r))"
proof
  assume in_r: "same_prefix (prefixLength r) a (words_val (network r))"
  from assms(1) obtain net where net: "ipv6_words net" and le: "prefixLength s \<le> 128"
    and eq: "network s = clear_host_bits (prefixLength s) 0 net"
    and sep: "\<forall>r\<in>set forbidden_ipv6. \<not> prefixMatches net (network r) (min (prefixLength s) (prefixLength r))"
    by (rule parseIPv6CIDR_cases)
  let ?m = "min (prefixLength s) (prefixLength r)"
  have r: "ipv6_words (network r)" "prefixLength r \<le> 128"
    using forbidden_ipv6_ok [OF assms(2)] by (auto simp: subnet_ok_def)
  have "same_prefix (prefixLength s) a (words_val net)"
    using assms(3) clear_host_bits_same_prefix(2) [OF net le] by (simp add: eq)
  then have "same_prefix ?m a (words_val net)"
    by (rule same_prefix_mono) (use le in auto)
  moreover have "same_prefix ?m a (words_val (network r))"
    using in_r by (rule same_prefix_mono) (use r(2) in auto)
  ultimately have "same_prefix ?m (words_val net) (words_val (network r))"
    by (simp add: same_prefix_def)
  then have "prefixMatches net (network r) ?m"
    using prefixMatches_same_prefix [OF net r(1), of ?m] le by simp
  with sep assms(2) show False by blast
qed

text \<open>The word-by-word prefix test of a host against subnets is the test on 128-bit numbers: the host parses, is no mapped IPv4 address and agrees with a subnet on its leading bits.\<close>

lemma matchesIPv6Subnet_iff:
  assumes "\<forall>s\<in>set subnets. subnet_ok s"
  shows "matchesIPv6Subnet host subnets \<longleftrightarrow>
    (\<exists>address. parseIPv6Address host = Some address \<and> \<not> ipv4_mapped address \<and>
       (\<exists>s\<in>set subnets. same_prefix (prefixLength s) (words_val address) (words_val (network s))))"
proof -
  have "prefixMatches address (network s) (prefixLength s) \<longleftrightarrow>
      same_prefix (prefixLength s) (words_val address) (words_val (network s))"
    if "parseIPv6Address host = Some address" and "s \<in> set subnets" for address s
    using that assms parseIPv6Address_ipv6_words [OF that(1)]
    by (intro prefixMatches_same_prefix) (auto simp: subnet_ok_def)
  then show ?thesis
    by (auto simp: matchesIPv6Subnet_def list_ex_iff split: option.splits)
qed

lemma replicate_6: "replicate 6 x = [x, x, x, x, x, x]"
  by (simp add: numeral_eq_Suc)

lemmas ipv6_eval = parseIPv6CIDR_def parseIPv6Address_def parse_groups_def colon_groups_def expand_ipv4_tail_def
  unbracket_def ipv6_char_def ipv6_group_def canonical_nat_def digits_val_def digit_val_def is_digit_def is_hex_def
  hex_val_def parse_hex_def ipv4_mapped_def forbidden_ipv6_def

end
