(* ===== verification/Proxy_Utils.thy ===== *)
theory Proxy_Utils
  imports Types Ipv6_Subnets
begin

unbundle bit_operations_syntax

text \<open>
  Address arithmetic and the sanitizers between untrusted text and browser routing
  (\<open>packages/shared/src/background/proxy-utils.ts\<close>). IPv4 addresses are 32-bit words, as the
  source's bitwise operators make them. The lemmas give the round trip of dotted addresses, what
  characters a sanitized name can hold, which sanitizers are idempotent, and that a supported
  subnet shares no address with a forbidden one.
\<close>

section \<open>IPv4 addresses\<close>

definition CGNAT_NETWORK :: "32 word" where
  "CGNAT_NETWORK = 0x64400000"

definition CGNAT_MASK :: "32 word" where
  "CGNAT_MASK = 0xffc00000"

fun ip_fold :: "32 word \<Rightarrow> string list \<Rightarrow> 32 word option" where
  "ip_fold num [] = Some num"
| "ip_fold num (part # parts) =
     (case parse_int10 part of
        None \<Rightarrow> None
      | Some octet \<Rightarrow>
          if octet < 0 \<or> octet > 255 then None
          else ip_fold (push_bit 8 num OR word_of_int octet) parts)"

definition ipToNum :: "string \<Rightarrow> 32 word option" where
  "ipToNum ip =
     (let parts = js_split (CHR ''.'') ip
      in if length parts \<noteq> 4 then None else ip_fold 0 parts)"

definition numToIP :: "32 word \<Rightarrow> string" where
  "numToIP num = js_join ''.''
     [nat_to_string (unat (drop_bit 24 num AND 0xff)),
      nat_to_string (unat (drop_bit 16 num AND 0xff)),
      nat_to_string (unat (drop_bit 8 num AND 0xff)),
      nat_to_string (unat (num AND 0xff))]"

section \<open>IPv4 subnets\<close>

record IPv4Range =
  r_network :: "32 word"
  r_mask :: "32 word"

text \<open>The test \<open>/^\d{1,3}\.\d{1,3}\.\d{1,3}\.\d{1,3}$/\<close>.\<close>

definition dotted_quad :: "string \<Rightarrow> bool" where
  "dotted_quad s \<longleftrightarrow>
     (let parts = js_split (CHR ''.'') s
      in length parts = 4 \<and>
         list_all (\<lambda>p. 1 \<le> length p \<and> length p \<le> 3 \<and> list_all is_digit p) parts)"

definition prefix_mask :: "nat \<Rightarrow> 32 word" where
  "prefix_mask plen = (if plen = 0 then 0 else push_bit (32 - plen) (NOT 0))"

text \<open>The address text, its number and the mask of a CIDR text: the common part of both overloads.\<close>

definition parse_cidr_parts :: "string \<Rightarrow> (string \<times> 32 word \<times> 32 word) option" where
  "parse_cidr_parts cidr =
     (case js_split (CHR ''/'') cidr of
        [networkStr, prefixStr] \<Rightarrow>
          if \<not> dotted_quad networkStr then None
          else (case parse_int10 prefixStr of
                  None \<Rightarrow> None
                | Some prefixLen \<Rightarrow>
                    if prefixLen < 0 \<or> prefixLen > 32 then None
                    else (case ipToNum networkStr of
                            None \<Rightarrow> None
                          | Some networkNum \<Rightarrow>
                              Some (networkStr, networkNum, prefix_mask (nat prefixLen))))
      | _ \<Rightarrow> None)"

definition parseCIDR :: "string \<Rightarrow> IPv4Range option" where
  "parseCIDR cidr = map_option (\<lambda>(s, n, m). \<lparr>r_network = n, r_mask = m\<rparr>) (parse_cidr_parts cidr)"

definition parseCIDR_string :: "string \<Rightarrow> (string \<times> string) option" where
  "parseCIDR_string cidr = map_option (\<lambda>(s, n, m). (s, numToIP m)) (parse_cidr_parts cidr)"

definition in_range :: "32 word \<Rightarrow> IPv4Range \<Rightarrow> bool" where
  "in_range x r \<longleftrightarrow> x AND r_mask r = r_network r AND r_mask r"

definition forbiddenIPv4Subnets :: "IPv4Range list" where
  "forbiddenIPv4Subnets = List.map_filter parseCIDR
     [''0.0.0.0/8'', ''127.0.0.0/8'', ''169.254.0.0/16'', ''224.0.0.0/4'', ''240.0.0.0/4'']"

text \<open>The overlap test of \<open>isSupportedSubnetCIDR\<close>, at the shorter of the two prefixes.\<close>

definition ranges_overlap :: "IPv4Range \<Rightarrow> IPv4Range \<Rightarrow> bool" where
  "ranges_overlap p r \<longleftrightarrow>
     (let commonMask = r_mask p AND r_mask r
      in r_network p AND commonMask = r_network r AND commonMask)"

definition isSupportedSubnetCIDR :: "string \<Rightarrow> bool" where
  "isSupportedSubnetCIDR cidr =
     (if CHR '':'' \<in> set cidr then parseIPv6CIDR cidr \<noteq> None
      else (case parseCIDR cidr of
              None \<Rightarrow> False
            | Some parsed \<Rightarrow>
                (case js_split (CHR ''/'') cidr of
                   [address, prefixText] \<Rightarrow>
                     numToIP (r_network parsed) = address \<and>
                     (case canonical_nat prefixText of
                        None \<Rightarrow> False
                      | Some plen \<Rightarrow> 1 \<le> plen \<and> plen \<le> 32) \<and>
                     \<not> list_ex (ranges_overlap parsed) forbiddenIPv4Subnets
                 | _ \<Rightarrow> False)))"

section \<open>Sanitizers\<close>

definition dns_char :: "char \<Rightarrow> bool" where
  "dns_char c \<longleftrightarrow> is_lower c \<or> is_digit c \<or> c = CHR ''-'' \<or> c = CHR ''.''"

definition sanitizeMagicDNSSuffix :: "string option \<Rightarrow> string" where
  "sanitizeMagicDNSSuffix suf =
     (case truthy suf of
        None \<Rightarrow> []
      | Some s \<Rightarrow>
          (let stripped = strip_trailing_dot (js_lower s)
           in if stripped \<noteq> [] \<and> list_all (\<lambda>c. is_upper c \<or> dns_char c) stripped
              then stripped else []))"

text \<open>The label pattern \<open>/^[a-z0-9](?:[a-z0-9-]*[a-z0-9])?$/\<close> with at most 63 characters.\<close>

definition dns_label :: "string \<Rightarrow> bool" where
  "dns_label l \<longleftrightarrow>
     l \<noteq> [] \<and> length l \<le> 63 \<and> list_all (\<lambda>c. is_lower c \<or> is_digit c \<or> c = CHR ''-'') l \<and>
     hd l \<noteq> CHR ''-'' \<and> last l \<noteq> CHR ''-''"

definition dns_name_of :: "string \<Rightarrow> string option" where
  "dns_name_of s =
     (let name = strip_trailing_dot (js_lower s)
      in if name = [] \<or> length name > 253 \<or> list_all (\<lambda>c. is_digit c \<or> c = CHR ''.'') name then None
         else if list_all dns_label (js_split (CHR ''.'') name) then Some name
         else None)"

definition sanitizeDNSName :: "jsval \<Rightarrow> string option" where
  "sanitizeDNSName input = (case input of JStr s \<Rightarrow> dns_name_of s | _ \<Rightarrow> None)"

definition sanitizeDNSRoutes :: "jsval \<Rightarrow> string list" where
  "sanitizeDNSRoutes routes =
     (case routes of
        JArr rs \<Rightarrow> sort (js_uniq (List.map_filter sanitizeDNSName rs))
      | _ \<Rightarrow> [])"

abbreviation js_strings :: "string list \<Rightarrow> jsval" where
  "js_strings xs \<equiv> JArr (map JStr xs)"

abbreviation js_nullable :: "string option \<Rightarrow> jsval" where
  "js_nullable v \<equiv> (case v of Some s \<Rightarrow> JStr s | None \<Rightarrow> JNull)"

text \<open>The short name of one device, if its DNS name lies right below the MagicDNS suffix.\<close>

definition short_name :: "string \<Rightarrow> string \<Rightarrow> string option" where
  "short_name suf dnsName =
     (case sanitizeDNSName (JStr dnsName) of
        None \<Rightarrow> None
      | Some fullName \<Rightarrow>
          if suffix (CHR ''.'' # suf) fullName
          then (let short = take (length fullName - (length suf + 1)) fullName
                in if CHR ''.'' \<notin> set short \<and> sanitizeDNSName (JStr short) \<noteq> None
                   then Some short else None)
          else None)"

definition collectShortNames :: "PeerInfo list \<Rightarrow> SelfNode option \<Rightarrow> string option \<Rightarrow> string list" where
  "collectShortNames peers selfNode magicDNSSuffix =
     (case sanitizeDNSName (js_nullable magicDNSSuffix) of
        None \<Rightarrow> []
      | Some suf \<Rightarrow>
          sort (js_uniq (List.map_filter (short_name suf)
            (map peer_dnsName peers @ (case selfNode of Some n \<Rightarrow> [self_dnsName n] | None \<Rightarrow> [])))))"

definition split_domain_of :: "jsval \<Rightarrow> string option" where
  "split_domain_of raw =
     (case raw of
        JStr s \<Rightarrow>
          (let domain = strip_trailing_dot (js_lower s)
           in if domain = [] \<or> length domain > 253 then None
              else if list_all dns_label (js_split (CHR ''.'') domain) then Some domain
              else None)
      | _ \<Rightarrow> None)"

definition sanitizeSplitDNSDomains :: "jsval \<Rightarrow> string list" where
  "sanitizeSplitDNSDomains input =
     (case input of
        JArr rs \<Rightarrow> sort (js_uniq (List.map_filter split_domain_of rs))
      | _ \<Rightarrow> [])"

text \<open>\<open>value.match(/^[a-z][a-z0-9+\-.]*:\/\//)\<close> and the slice that drops the match.\<close>

definition scheme_char :: "char \<Rightarrow> bool" where
  "scheme_char c \<longleftrightarrow> is_lower c \<or> is_digit c \<or> c = CHR ''+'' \<or> c = CHR ''-'' \<or> c = CHR ''.''"

definition strip_scheme :: "string \<Rightarrow> string" where
  "strip_scheme v =
     (let scheme = takeWhile scheme_char v
      in if v \<noteq> [] \<and> is_lower (hd v) \<and> prefix ''://'' (drop (length scheme) v)
         then drop (length scheme + 3) v else v)"

definition sanitizeDomain :: "string option \<Rightarrow> string option" where
  "sanitizeDomain input =
     (case truthy input of
        None \<Rightarrow> None
      | Some s \<Rightarrow>
          (let v = js_lower (js_trim s);
               host = before_char (CHR '':'') (before_char (CHR ''/'') (strip_scheme v));
               d = strip_leading_dot (strip_trailing_dot host)
           in if v = [] \<or> d = [] \<or> \<not> list_all dns_char d \<or> js_includes ''..'' d then None
              else Some d))"

text \<open>
  Every caller but \<open>confirmStatus\<close> passes peers whose lists are present; a missing list of a
  subnet router makes the source throw there, which \<open>Routing_Protection\<close> models.
\<close>

definition collectSubnetCIDRs :: "PeerInfo list \<Rightarrow> string list" where
  "collectSubnetCIDRs peers =
     concat (map (\<lambda>p. if peer_isSubnetRouter p then js_default (peer_subnets p) [] else []) peers)"

definition shouldProxyState :: "TailscaleState \<Rightarrow> bool" where
  "shouldProxyState s \<longleftrightarrow>
     ts_proxyEnabled s \<and> ts_proxyPort s \<noteq> None \<and> ts_backendState s = Running"

section \<open>Decimal texts\<close>

lemma takeWhile_all: "list_all P xs \<Longrightarrow> takeWhile P xs = xs"
  by (simp add: list_all_iff takeWhile_eq_all_conv)

lemma is_digit_not_space: "is_digit c \<Longrightarrow> \<not> js_space c \<and> c \<noteq> CHR ''-'' \<and> c \<noteq> CHR ''+'' \<and> c \<noteq> CHR ''.'' \<and> c \<noteq> CHR ''/''"
  by (auto simp: is_digit_def js_space_def Let_def)

lemma parse_int10_digits:
  assumes "list_all is_digit s" and "s \<noteq> []"
  shows "parse_int10 s = Some (int (digits_val s))"
proof -
  obtain c cs where s: "s = c # cs" using assms(2) by (cases s) auto
  with assms(1) have "is_digit c" by simp
  with s have "dropWhile js_space s = s" "hd s \<noteq> CHR ''-''" "hd s \<noteq> CHR ''+''"
    using is_digit_not_space by auto
  with assms show ?thesis
    by (simp add: parse_int10_def Let_def takeWhile_all)
qed

lemma parse_int10_nat_to_string [simp]: "parse_int10 (nat_to_string n) = Some (int n)"
  by (simp add: parse_int10_digits nat_to_string_digits)

lemma dot_not_in_nat_to_string [simp]: "CHR ''.'' \<notin> set (nat_to_string n)"
  using nat_to_string_digits [of n] is_digit_not_space by (auto simp: list_all_iff)

lemma split_numToIP:
  "js_split (CHR ''.'') (js_join ''.'' [nat_to_string a, nat_to_string b, nat_to_string c, nat_to_string d])
     = [nat_to_string a, nat_to_string b, nat_to_string c, nat_to_string d]"
  by (rule js_split_join) auto

lemma octet_bound: "unat (w AND 0xff :: 32 word) \<le> 255"
  using word_and_le1 [of w "0xff"] by (simp add: word_le_nat_alt)

lemma octet_mask: "(0xff :: 32 word) = mask 8"
  by (simp add: mask_eq_exp_minus_1)

lemma octets_word:
  fixes n :: "32 word"
  shows "push_bit 8 (push_bit 8 (push_bit 8 (drop_bit 24 n AND 0xff) OR (drop_bit 16 n AND 0xff))
            OR (drop_bit 8 n AND 0xff)) OR (n AND 0xff) = n"
  unfolding octet_mask
proof (rule bit_word_eqI)
  fix k
  assume "k < LENGTH(32)"
  then consider "k < 8" | "8 \<le> k" "k < 16" | "16 \<le> k" "k < 24" | "24 \<le> k" "k < 32"
    by fastforce
  then show "bit (push_bit 8 (push_bit 8 (push_bit 8 (drop_bit 24 n AND mask 8)
        OR (drop_bit 16 n AND mask 8)) OR (drop_bit 8 n AND mask 8)) OR (n AND mask 8)) k = bit n k"
    by cases (auto simp: bit_simps)
qed

lemma ipToNum_numToIP: "ipToNum (numToIP n) = Some n"
proof -
  have oct: "int (unat (w AND 0xff :: 32 word)) \<le> 255" for w
    using octet_bound [of w] by linarith
  show ?thesis
    unfolding ipToNum_def numToIP_def Let_def split_numToIP
    using oct octets_word [of n]
    by (simp add: not_less [symmetric])
qed

section \<open>Subnets\<close>

lemma forbiddenIPv4Subnets_eval:
  "forbiddenIPv4Subnets =
     [\<lparr>r_network = 0, r_mask = 0xff000000\<rparr>, \<lparr>r_network = 0x7f000000, r_mask = 0xff000000\<rparr>,
      \<lparr>r_network = 0xa9fe0000, r_mask = 0xffff0000\<rparr>, \<lparr>r_network = 0xe0000000, r_mask = 0xf0000000\<rparr>,
      \<lparr>r_network = 0xf0000000, r_mask = 0xf0000000\<rparr>]"
  by code_simp

text \<open>The overlap test at the common mask is exact in one direction: no common address escapes it.\<close>

lemma ranges_overlap_complete:
  assumes "in_range x p" and "in_range x r"
  shows "ranges_overlap p r"
proof -
  have "r_network p AND (r_mask p AND r_mask r) = (x AND r_mask p) AND r_mask r"
    using assms(1) by (simp add: in_range_def and.assoc)
  also have "\<dots> = (x AND r_mask r) AND r_mask p"
    by (simp add: ac_simps)
  also have "\<dots> = r_network r AND (r_mask p AND r_mask r)"
    using assms(2) by (simp add: in_range_def ac_simps)
  finally show ?thesis by (simp add: ranges_overlap_def)
qed

lemma isSupportedSubnetCIDR_ipv4:
  assumes "isSupportedSubnetCIDR cidr" and "CHR '':'' \<notin> set cidr"
  obtains parsed where "parseCIDR cidr = Some parsed"
    and "\<forall>r\<in>set forbiddenIPv4Subnets. \<not> ranges_overlap parsed r"
  using assms
  by (auto simp: isSupportedSubnetCIDR_def list_ex_iff split: option.splits list.splits)

text \<open>C40: an accepted IPv4 subnet shares no address with a reserved range.\<close>

theorem isSupportedSubnetCIDR_disjoint:
  assumes "isSupportedSubnetCIDR cidr" and "parseCIDR cidr = Some p" and "CHR '':'' \<notin> set cidr"
    and "r \<in> set forbiddenIPv4Subnets" and "in_range x p"
  shows "\<not> in_range x r"
  using assms ranges_overlap_complete by (metis isSupportedSubnetCIDR_ipv4 option.inject)

theorem isSupportedSubnetCIDR_disjoint_witness:
  "\<not> in_range 0x0a000001 \<lparr>r_network = 0x7f000000, r_mask = 0xff000000\<rparr>"
  by (rule isSupportedSubnetCIDR_disjoint [of "''10.0.0.0/8''" "\<lparr>r_network = 0x0a000000, r_mask = 0xff000000\<rparr>"])
    (code_simp+)

section \<open>DNS names\<close>

lemma js_split_snoc_sep: "js_split c (s @ [c]) = js_split c s @ [[]]"
  by (induction s) (auto split: list.splits)

lemma js_split_Cons_sep: "js_split c (c # s) = [] # js_split c s"
  by simp

lemma split_labels_nonempty:
  assumes "\<forall>l\<in>set (js_split c s). l \<noteq> []"
  shows "s \<noteq> []" "hd s \<noteq> c" "last s \<noteq> c"
proof -
  show ne: "s \<noteq> []" using assms by auto
  show "hd s \<noteq> c" using assms ne by (cases s) auto
  show "last s \<noteq> c"
  proof
    assume "last s = c"
    with ne obtain t where "s = t @ [c]" by (metis append_butlast_last_id)
    with assms show False by (simp add: js_split_snoc_sep)
  qed
qed

lemma chars_of_split: "set s \<subseteq> \<Union> (set ` set (js_split c s)) \<union> {c}"
  using set_js_join [of "[c]" "js_split c s"] by (simp add: js_join_split)

lemma dns_label_chars: "dns_label l \<Longrightarrow> list_all dns_char l"
  by (auto simp: dns_label_def dns_char_def list_all_iff)

lemma dns_labels_chars:
  "list_all dns_label (js_split (CHR ''.'') s) \<Longrightarrow> list_all dns_char s"
  using chars_of_split [of s "CHR ''.''"] dns_label_chars
  by (fastforce simp: list_all_iff dns_char_def)

lemma dns_char_lower: "dns_char c \<Longrightarrow> js_lower_char c = c"
  by (auto simp: dns_char_def js_lower_char_is_lower intro: js_lower_char_id)

lemma dns_chars_lower: "list_all dns_char s \<Longrightarrow> js_lower s = s"
  by (intro js_lower_id) (auto simp: list_all_iff dns_char_lower)

definition dns_name :: "string \<Rightarrow> bool" where
  "dns_name n \<longleftrightarrow> length n \<le> 253 \<and> \<not> list_all (\<lambda>c. is_digit c \<or> c = CHR ''.'') n \<and>
     list_all dns_label (js_split (CHR ''.'') n)"

lemma dns_name_not_Nil: "dns_name n \<Longrightarrow> n \<noteq> []"
  by (auto simp: dns_name_def)

lemma dns_name_chars [sanitize_intros]: "dns_name n \<Longrightarrow> list_all dns_char n"
  by (simp add: dns_name_def dns_labels_chars)

lemma labels_canonical:
  assumes "list_all dns_label (js_split (CHR ''.'') n)"
  shows "strip_trailing_dot (js_lower n) = n"
proof -
  have "\<forall>l\<in>set (js_split (CHR ''.'') n). l \<noteq> []"
    using assms by (auto simp: list_all_iff dns_label_def)
  then have "last n \<noteq> CHR ''.''" by (rule split_labels_nonempty)
  then show ?thesis
    using assms by (simp add: dns_chars_lower dns_labels_chars strip_trailing_dot_def)
qed

lemma dns_name_of_Some: "dns_name_of s = Some n \<Longrightarrow> dns_name n"
  by (auto simp: dns_name_of_def dns_name_def Let_def split: if_splits)

lemma dns_name_of_id: "dns_name n \<Longrightarrow> dns_name_of n = Some n"
  using labels_canonical [of n] dns_name_not_Nil [of n] by (simp add: dns_name_of_def dns_name_def)

lemma dns_name_of_fix_iff: "dns_name_of n = Some n \<longleftrightarrow> dns_name n"
  by (blast intro: dns_name_of_id dest: dns_name_of_Some)

lemma sanitizeDNSName_JStr [simp]: "sanitizeDNSName (JStr s) = dns_name_of s"
  by (simp add: sanitizeDNSName_def)

lemma sanitizeDNSName_Some: "sanitizeDNSName v = Some n \<Longrightarrow> dns_name n"
  by (auto simp: sanitizeDNSName_def dns_name_of_Some split: jsval.splits)

lemma set_map_filter: "set (List.map_filter f xs) = {y. \<exists>x\<in>set xs. f x = Some y}"
  by (force simp: List.map_filter_def image_iff)

lemma sanitizeDNSRoutes_names [sanitize_intros]: "n \<in> set (sanitizeDNSRoutes v) \<Longrightarrow> dns_name n"
  by (auto simp: sanitizeDNSRoutes_def set_map_filter sanitizeDNSName_Some split: jsval.splits)

lemma sanitizeDNSRoutes_sorted: "sorted (sanitizeDNSRoutes v)" "distinct (sanitizeDNSRoutes v)"
  by (auto simp: sanitizeDNSRoutes_def split: jsval.splits)

lemma map_filter_all_Some: "\<forall>x\<in>set xs. f x = Some (g x) \<Longrightarrow> List.map_filter f xs = map g xs"
  by (induction xs) (auto simp: List.map_filter_simps)

lemma sanitizeDNSRoutes_names_id:
  "\<forall>n\<in>set ns. dns_name n \<Longrightarrow> sanitizeDNSRoutes (js_strings ns) = sort (js_uniq ns)"
  using map_filter_all_Some [of "map JStr ns" sanitizeDNSName "\<lambda>v. case v of JStr s \<Rightarrow> s | _ \<Rightarrow> []"]
  by (simp add: sanitizeDNSRoutes_def dns_name_of_id comp_def)

lemma sanitizeDNSRoutes_idem:
  "sanitizeDNSRoutes (js_strings (sanitizeDNSRoutes v)) = sanitizeDNSRoutes v"
proof -
  have "\<forall>n\<in>set (sanitizeDNSRoutes v). dns_name n" by (blast intro: sanitizeDNSRoutes_names)
  then show ?thesis
    by (simp add: sanitizeDNSRoutes_names_id js_uniq_id sanitizeDNSRoutes_sorted sorted_sort_id)
qed

lemma short_name_Some:
  assumes "short_name suf d = Some n"
  shows "dns_name n" "CHR ''.'' \<notin> set n" "dns_name_of d = Some (n @ CHR ''.'' # suf)"
proof -
  from assms obtain full where full: "dns_name_of d = Some full" and suf: "suffix (CHR ''.'' # suf) full"
    and n: "n = take (length full - (length suf + 1)) full" and dot: "CHR ''.'' \<notin> set n"
    and ok: "dns_name_of n \<noteq> None"
    by (auto simp: short_name_def Let_def split: option.splits if_splits)
  from suf obtain pre where pre: "full = pre @ CHR ''.'' # suf" by (auto simp: suffix_def)
  with n have [simp]: "n = pre" by simp
  have labels: "list_all dns_label (js_split (CHR ''.'') n)"
    using dns_name_of_Some [OF full] dot by (simp add: pre dns_name_def js_split_append_sep js_split_no_sep)
  then have "strip_trailing_dot (js_lower n) = n" by (rule labels_canonical)
  with ok have "dns_name_of n = Some n"
    by (auto simp: dns_name_of_def Let_def split: if_splits)
  then show "dns_name n" by (rule dns_name_of_Some)
  show "CHR ''.'' \<notin> set n" by (rule dot)
  show "dns_name_of d = Some (n @ CHR ''.'' # suf)" using full pre by simp
qed

lemma collectShortNames_names [sanitize_intros]:
  "n \<in> set (collectShortNames ps sn suf) \<Longrightarrow> dns_name n \<and> CHR ''.'' \<notin> set n"
  by (auto simp: collectShortNames_def set_map_filter dest: short_name_Some split: option.splits)

lemma collectShortNames_distinct: "distinct (collectShortNames ps sn suf)"
  by (simp add: collectShortNames_def split: option.splits)

section \<open>MagicDNS suffixes and user domains\<close>

lemma dns_char_not_upper: "is_upper c \<Longrightarrow> js_lower_char c \<noteq> c"
proof
  assume up: "is_upper c" and eq: "js_lower_char c = c"
  then have "(of_char c :: nat) = of_char (char_of (of_char c + 32 :: nat) :: char)"
    by (simp add: js_lower_char_def is_upper_def Let_def)
  also have "\<dots> = of_char c + 32"
    using up by (simp add: of_char_of is_upper_def Let_def)
  finally show False by simp
qed

lemma strip_trailing_dot_lower: "c \<in> set (strip_trailing_dot (js_lower s)) \<Longrightarrow> js_lower_char c = c"
  using strip_trailing_dot_set [of "js_lower s"] by (auto simp: js_lower_def)

lemma sanitizeMagicDNSSuffix_chars [sanitize_intros]: "list_all dns_char (sanitizeMagicDNSSuffix v)"
  by (auto simp: sanitizeMagicDNSSuffix_def Let_def list_all_iff
      dest: strip_trailing_dot_lower dns_char_not_upper split: option.splits)

lemma list_all_takeWhile: "list_all P xs \<Longrightarrow> list_all P (takeWhile Q xs)"
  by (auto simp: list_all_iff dest: set_takeWhileD)

lemma sanitizeDomain_Some:
  assumes "sanitizeDomain v = Some d"
  shows "d \<noteq> []" "list_all dns_char d" "\<not> js_includes ''..'' d"
  using assms by (auto simp: sanitizeDomain_def Let_def split: option.splits if_splits)

text \<open>
  A second pass of \<open>sanitizeDomain\<close> strips at most one more dot at either end; the domains it
  leaves unchanged are the dotted names without empty labels at the ends.
\<close>

definition clean_domain :: "string \<Rightarrow> bool" where
  "clean_domain d \<longleftrightarrow> d \<noteq> [] \<and> list_all dns_char d \<and> \<not> js_includes ''..'' d \<and>
     hd d \<noteq> CHR ''.'' \<and> last d \<noteq> CHR ''.''"

lemma dns_char_plain:
  "dns_char c \<Longrightarrow> \<not> js_space c \<and> c \<noteq> CHR '':'' \<and> c \<noteq> CHR ''/''"
  by (auto simp: dns_char_def is_lower_def is_digit_def js_space_def Let_def)

lemma dns_chars_trim: "list_all dns_char d \<Longrightarrow> js_trim d = d"
proof -
  assume d: "list_all dns_char d"
  have "dropWhile js_space xs = xs" if "list_all dns_char xs" for xs
    using that dns_char_plain by (cases xs) auto
  from this [of d] this [of "rev d"] d show ?thesis by (simp add: js_trim_def)
qed

lemma dns_chars_no_scheme: "list_all dns_char d \<Longrightarrow> strip_scheme d = d"
proof -
  assume d: "list_all dns_char d"
  have "\<not> prefix ''://'' (drop n d)" for n
  proof
    assume "prefix ''://'' (drop n d)"
    then have "CHR '':'' \<in> set (drop n d)" by (auto simp: prefix_def)
    then have "CHR '':'' \<in> set d" by (rule in_set_dropD)
    with d show False using dns_char_plain by (auto simp: list_all_iff)
  qed
  then show ?thesis by (simp add: strip_scheme_def Let_def)
qed

lemma before_char_id: "c \<notin> set s \<Longrightarrow> before_char c s = s"
  by (auto simp: before_char_def takeWhile_eq_all_conv)

lemma sanitizeDomain_dns_chars:
  assumes "list_all dns_char d" and "d \<noteq> []"
  shows "sanitizeDomain (Some d) =
    (let e = strip_leading_dot (strip_trailing_dot d)
     in if e = [] \<or> \<not> list_all dns_char e \<or> js_includes ''..'' e then None else Some e)"
proof -
  have "CHR ''/'' \<notin> set d" "CHR '':'' \<notin> set d"
    using assms(1) dns_char_plain by (auto simp: list_all_iff)
  moreover have "truthy (Some d) = Some d" using assms(2) by (cases d) auto
  ultimately show ?thesis
    using assms by (simp add: sanitizeDomain_def dns_chars_trim dns_chars_lower dns_chars_no_scheme
        before_char_id Let_def)
qed

lemma clean_domain_fixed: "clean_domain d \<Longrightarrow> sanitizeDomain (Some d) = Some d"
  by (cases d) (auto simp: clean_domain_def sanitizeDomain_dns_chars strip_leading_dot_def
      strip_trailing_dot_def Let_def)

lemma js_includes_append: "js_includes p (xs @ p @ ys)"
  by (induction xs) (auto simp: js_includes.simps prefix_def, cases p, auto simp: js_includes.simps, cases ys, auto)

lemma dots_at_end: "\<not> js_includes ''..'' d \<Longrightarrow> last d = CHR ''.'' \<Longrightarrow> butlast d \<noteq> [] \<Longrightarrow>
    last (butlast d) \<noteq> CHR ''.''"
  using js_includes_append [of "''..''" "butlast (butlast d)" "[]"]
  by (metis append.assoc append_Cons append_Nil append_Nil2 append_butlast_last_id butlast.simps(1))

lemma dots_at_start: "\<not> js_includes ''..'' d \<Longrightarrow> hd d = CHR ''.'' \<Longrightarrow> tl d \<noteq> [] \<Longrightarrow>
    hd (tl d) \<noteq> CHR ''.''"
  using js_includes_append [of "''..''" "[]" "tl (tl d)"]
  by (cases d; cases "tl d") auto

lemma sanitizeDomain_twice:
  assumes "sanitizeDomain v = Some d" and "sanitizeDomain (Some d) = Some e"
  shows "clean_domain e"
proof -
  note d = sanitizeDomain_Some [OF assms(1)]
  have e: "e = strip_leading_dot (strip_trailing_dot d)" "e \<noteq> []" "list_all dns_char e"
    "\<not> js_includes ''..'' e"
    using assms(2) by (auto simp: sanitizeDomain_dns_chars d Let_def split: if_splits)
  have "hd e \<noteq> CHR ''.''" "last e \<noteq> CHR ''.''"
    using e(1,2) d(1) dots_at_end [OF d(3)] dots_at_start [OF d(3)]
    by (auto simp: strip_leading_dot_def strip_trailing_dot_def neq_Nil_conv butlast_append
        split: if_splits list.splits) 
  with e show ?thesis by (simp add: clean_domain_def)
qed

lemma nat_to_string_length: "n < 10 ^ Suc k \<Longrightarrow> length (nat_to_string n) \<le> Suc k"
proof (induction k arbitrary: n)
  case 0
  then show ?case by (subst nat_to_string.simps) simp
next
  case (Suc k)
  then have "n div 10 < 10 ^ Suc k" by auto
  with Suc.IH show ?case by (subst nat_to_string.simps) simp
qed

text \<open>A 32-bit address printed as dotted decimals reads back as the same number, and the text is a strict dotted quad.\<close>

lemma numToIP_canonical: "ipToNum (numToIP n) = Some n \<and> dotted_quad (numToIP n)"
proof -
  have "length (nat_to_string (unat (w AND 0xff :: 32 word))) \<le> 3" for w
    using octet_bound [of w] nat_to_string_length [of "unat (w AND 0xff)" 2] by simp
  moreover have "1 \<le> length (nat_to_string k)" for k by (simp add: Suc_le_eq)
  ultimately show ?thesis
    unfolding dotted_quad_def numToIP_def split_numToIP Let_def
    using ipToNum_numToIP [of n] by (simp add: nat_to_string_digits numToIP_def)
qed

text \<open>Sanitised DNS routes are valid lower-case names, sorted, without duplicates, and sanitising them again changes nothing.\<close>

lemma sanitizeDNSRoutes_normal:
  "sorted (sanitizeDNSRoutes v) \<and> distinct (sanitizeDNSRoutes v) \<and> list_all dns_name (sanitizeDNSRoutes v) \<and>
   sanitizeDNSRoutes (js_strings (sanitizeDNSRoutes v)) = sanitizeDNSRoutes v"
  by (simp add: sanitizeDNSRoutes_sorted sanitizeDNSRoutes_idem list_all_iff sanitizeDNSRoutes_names)

end
