(* ===== verification/Domain_Split.thy ===== *)
theory Domain_Split
  imports Proxy_Utils
begin

text \<open>
  Split-tunnel configuration (\<open>packages/shared/src/background/domain-split.ts\<close>): normalisation of
  an untrusted value and the stored form. The lemmas say what a normalised configuration holds and
  that normalising is stable from the second time on.
\<close>

definition DOMAIN_SPLIT_STORAGE_KEY :: string where
  "DOMAIN_SPLIT_STORAGE_KEY = ''domainSplitConfig''"

definition defaultDomainSplit :: DomainSplitConfig where
  "defaultDomainSplit = \<lparr>split_mode = Bypass, split_domains = []\<rparr>"

definition split_mode_of :: "jsval \<Rightarrow> DomainSplitMode" where
  "split_mode_of v =
     (if v = JStr ''bypass'' then Bypass else if v = JStr ''only'' then Only
      else split_mode defaultDomainSplit)"

text \<open>The loop over \<open>raw.domains\<close>, with the set \<open>seen\<close> as a list.\<close>

fun clean_domains :: "string list \<Rightarrow> jsval list \<Rightarrow> string list" where
  "clean_domains seen [] = []"
| "clean_domains seen (entry # rest) =
     (case sanitizeDomain (js_str_option entry) of
        None \<Rightarrow> clean_domains seen rest
      | Some cleaned \<Rightarrow>
          if cleaned \<in> set seen then clean_domains seen rest
          else cleaned # clean_domains (cleaned # seen) rest)"

definition normalizeDomainSplit :: "jsval \<Rightarrow> DomainSplitConfig" where
  "normalizeDomainSplit input =
     (case input of
        JObj _ \<Rightarrow>
          \<lparr>split_mode = split_mode_of (js_get input ''mode''),
           split_domains =
             (case js_get input ''domains'' of JArr es \<Rightarrow> clean_domains [] es | _ \<Rightarrow> [])\<rparr>
      | _ \<Rightarrow> defaultDomainSplit)"

definition mode_text :: "DomainSplitMode \<Rightarrow> string" where
  "mode_text m = (case m of Bypass \<Rightarrow> ''bypass'' | Only \<Rightarrow> ''only'')"

text \<open>A typed configuration as the JavaScript object it is.\<close>

definition split_js :: "DomainSplitConfig \<Rightarrow> jsval" where
  "split_js c = JObj [(''mode'', JStr (mode_text (split_mode c))),
                      (''domains'', js_strings (split_domains c))]"

definition normalize_split :: "DomainSplitConfig \<Rightarrow> DomainSplitConfig" where
  "normalize_split c = normalizeDomainSplit (split_js c)"

text \<open>\<^const>\<open>None\<close> is a rejected storage read; a missing key reads as \<^const>\<open>JUndef\<close>.\<close>

definition readDomainSplit :: "jsval option \<Rightarrow> DomainSplitConfig" where
  "readDomainSplit stored =
     (case stored of Some v \<Rightarrow> normalizeDomainSplit v | None \<Rightarrow> defaultDomainSplit)"

definition writeDomainSplit :: "DomainSplitConfig \<Rightarrow> jsval" where
  "writeDomainSplit config = split_js (normalize_split config)"

section \<open>Lemmas\<close>

lemma split_mode_of_text [simp]: "split_mode_of (JStr (mode_text m)) = m"
  by (cases m) (auto simp: split_mode_of_def mode_text_def)

lemma clean_domains_distinct:
  "distinct (clean_domains seen es) \<and> set (clean_domains seen es) \<inter> set seen = {}"
  by (induction seen es rule: clean_domains.induct) (auto split: option.splits)

lemma clean_domains_sanitized:
  "d \<in> set (clean_domains seen es) \<Longrightarrow> \<exists>v. sanitizeDomain v = Some d"
  by (induction seen es rule: clean_domains.induct) (auto split: option.splits if_splits)

lemma clean_domains_id:
  assumes "\<forall>d\<in>set ds. clean_domain d" and "distinct ds" and "set ds \<inter> set seen = {}"
  shows "clean_domains seen (map JStr ds) = ds"
  using assms
  by (induction ds arbitrary: seen) (auto simp: js_str_option_def clean_domain_fixed)

lemma normalize_split_domains:
  "split_domains (normalize_split c) = clean_domains [] (map JStr (split_domains c))"
  "split_mode (normalize_split c) = split_mode c"
  by (auto simp: normalize_split_def normalizeDomainSplit_def split_js_def)

lemma normalizeDomainSplit_domains [sanitize_intros]:
  assumes "d \<in> set (split_domains (normalizeDomainSplit v))"
  shows "d \<noteq> []" "list_all dns_char d" "\<not> js_includes ''..'' d"
proof -
  from assms have "\<exists>w. sanitizeDomain w = Some d"
    by (auto simp: normalizeDomainSplit_def defaultDomainSplit_def
        dest: clean_domains_sanitized split: jsval.splits)
  then show "d \<noteq> []" "list_all dns_char d" "\<not> js_includes ''..'' d"
    by (auto dest: sanitizeDomain_Some)
qed

lemma normalizeDomainSplit_distinct: "distinct (split_domains (normalizeDomainSplit v))"
  by (auto simp: normalizeDomainSplit_def defaultDomainSplit_def clean_domains_distinct
      split: jsval.splits)

definition clean_split :: "DomainSplitConfig \<Rightarrow> bool" where
  "clean_split c \<longleftrightarrow> list_all clean_domain (split_domains c) \<and> distinct (split_domains c)"

lemma clean_split_fixed: "clean_split c \<Longrightarrow> normalize_split c = c"
  by (rule DomainSplitConfig.equality)
    (auto simp: normalize_split_domains clean_split_def list_all_iff intro: clean_domains_id)

lemma clean_domains_twice:
  assumes "\<forall>d\<in>set ds. \<exists>v. sanitizeDomain v = Some d"
  shows "d \<in> set (clean_domains seen (map JStr ds)) \<Longrightarrow> clean_domain d"
  using assms
  by (induction ds arbitrary: seen)
    (auto simp: js_str_option_def dest: sanitizeDomain_twice split: option.splits if_splits)

lemma normalize_split_clean: "clean_split (normalize_split (normalizeDomainSplit v))"
proof -
  have "\<forall>d\<in>set (split_domains (normalizeDomainSplit v)). \<exists>w. sanitizeDomain w = Some d"
    by (auto simp: normalizeDomainSplit_def defaultDomainSplit_def
        dest: clean_domains_sanitized split: jsval.splits)
  then show ?thesis
    by (auto simp: clean_split_def normalize_split_domains list_all_iff clean_domains_distinct
        dest: clean_domains_twice)
qed

lemma normalize_split_stable:
  "normalize_split (normalize_split (normalizeDomainSplit v)) = normalize_split (normalizeDomainSplit v)"
  by (rule clean_split_fixed) (rule normalize_split_clean)

lemma read_write_domain_split:
  "clean_split c \<Longrightarrow> readDomainSplit (Some (writeDomainSplit c)) = c"
  using clean_split_fixed [of c] by (simp add: readDomainSplit_def writeDomainSplit_def normalize_split_def)

text \<open>A normalised split configuration survives being written to storage and read back.\<close>

lemma domain_split_storage:
  "readDomainSplit (Some (writeDomainSplit (normalize_split (normalizeDomainSplit v)))) = normalize_split (normalizeDomainSplit v)"
  by (rule read_write_domain_split) (rule normalize_split_clean)

end
