(* ===== verification/State_Store.thy ===== *)
theory State_Store
  imports Domain_Split Helper_Diagnostics
begin

text \<open>
  The observable state store (\<open>packages/shared/src/background/state-store.ts\<close>). A partial update is
  a list of field writes. \<open>update\<close> compares with \<open>Object.is\<close>: primitive fields by value, objects by
  identity, so a freshly built object always counts as a change; a caller that puts the stored
  object back says \<^term>\<open>Same\<close>. \<open>update\<close> returns the new state when listeners are to be notified
  and \<^const>\<open>None\<close> when nothing changed.
\<close>

datatype 'a obj_write = Same | Put 'a

datatype state_write =
    WRoutingHealth RoutingHealth
  | WHostConnected bool
  | WInitialized bool
  | WProxyPort "int option"
  | WProxyEnabled bool
  | WBackendState BackendState
  | WTailnet "string option"
  | WSelfNode "SelfNode option"
  | WPeers "PeerInfo list"
  | WExitNode "ExitNodeInfo option"
  | WMagicDNSSuffix "string option"
  | WSplitDNSDomains "string list"
  | WDnsRoutes "string list obj_write"
  | WBrowseToURL "string option"
  | WPrefs "TailscalePrefs option"
  | WHealth "string list"
  | WPendingExitNodeID "string option"
  | WCurrentProfile "ProfileInfo option"
  | WProfiles "ProfileInfo list"
  | WExitNodeSuggestion "ExitNodeSuggestion option"
  | WDomainSplit DomainSplitConfig
  | WError "string option"
  | WHostVersion "string option"
  | WHelperFailure "HelperFailure option obj_write"
  | WHelperDiagnostic "HelperDiagnostic option obj_write"
  | WHelperVersionNotice "HelperVersionNotice option"
  | WRepairRegistrationAvailable bool
  | WSupportsNetcheck bool
  | WSupportsPingPeer bool
  | WSupportsLogin bool
  | WSupportsCustomControlURL bool
  | WSupportsDaemonControl bool
  | WSupportsExternalProxy bool
  | WSupportsExternalProxyLAN bool
  | WExternalProxy "ExternalProxyStatus option"
  | WReconnecting bool
  | WAutoConnectOnStart bool

text \<open>A nullable object: \<open>null\<close> equals \<open>null\<close>, a new object equals nothing.\<close>

definition obj_differs :: "'a option \<Rightarrow> 'a option \<Rightarrow> bool" where
  "obj_differs cur new \<longleftrightarrow> cur \<noteq> None \<or> new \<noteq> None"

fun ref_differs :: "'a option \<Rightarrow> 'a option obj_write \<Rightarrow> bool" where
  "ref_differs cur Same = False"
| "ref_differs cur (Put new) = obj_differs cur new"

fun differs :: "TailscaleState \<Rightarrow> state_write \<Rightarrow> bool" where
  "differs s (WRoutingHealth v) = True"
| "differs s (WHostConnected v) = (v \<noteq> ts_hostConnected s)"
| "differs s (WInitialized v) = (v \<noteq> ts_initialized s)"
| "differs s (WProxyPort v) = (v \<noteq> ts_proxyPort s)"
| "differs s (WProxyEnabled v) = (v \<noteq> ts_proxyEnabled s)"
| "differs s (WBackendState v) = (v \<noteq> ts_backendState s)"
| "differs s (WTailnet v) = (v \<noteq> ts_tailnet s)"
| "differs s (WSelfNode v) = obj_differs (ts_selfNode s) v"
| "differs s (WPeers v) = True"
| "differs s (WExitNode v) = obj_differs (ts_exitNode s) v"
| "differs s (WMagicDNSSuffix v) = (v \<noteq> ts_magicDNSSuffix s)"
| "differs s (WSplitDNSDomains v) = True"
| "differs s (WDnsRoutes w) = (w \<noteq> Same)"
| "differs s (WBrowseToURL v) = (v \<noteq> ts_browseToURL s)"
| "differs s (WPrefs v) = obj_differs (ts_prefs s) v"
| "differs s (WHealth v) = True"
| "differs s (WPendingExitNodeID v) = (v \<noteq> ts_pendingExitNodeID s)"
| "differs s (WCurrentProfile v) = obj_differs (ts_currentProfile s) v"
| "differs s (WProfiles v) = True"
| "differs s (WExitNodeSuggestion v) = obj_differs (ts_exitNodeSuggestion s) v"
| "differs s (WDomainSplit v) = True"
| "differs s (WError v) = (v \<noteq> ts_error s)"
| "differs s (WHostVersion v) = (v \<noteq> ts_hostVersion s)"
| "differs s (WHelperFailure w) = ref_differs (ts_helperFailure s) w"
| "differs s (WHelperDiagnostic w) = ref_differs (ts_helperDiagnostic s) w"
| "differs s (WHelperVersionNotice v) = obj_differs (ts_helperVersionNotice s) v"
| "differs s (WRepairRegistrationAvailable v) = (v \<noteq> ts_repairRegistrationAvailable s)"
| "differs s (WSupportsNetcheck v) = (v \<noteq> ts_supportsNetcheck s)"
| "differs s (WSupportsPingPeer v) = (v \<noteq> ts_supportsPingPeer s)"
| "differs s (WSupportsLogin v) = (v \<noteq> ts_supportsLogin s)"
| "differs s (WSupportsCustomControlURL v) = (v \<noteq> ts_supportsCustomControlURL s)"
| "differs s (WSupportsDaemonControl v) = (v \<noteq> ts_supportsDaemonControl s)"
| "differs s (WSupportsExternalProxy v) = (v \<noteq> ts_supportsExternalProxy s)"
| "differs s (WSupportsExternalProxyLAN v) = (v \<noteq> ts_supportsExternalProxyLAN s)"
| "differs s (WExternalProxy v) = obj_differs (ts_externalProxy s) v"
| "differs s (WReconnecting v) = (v \<noteq> ts_reconnecting s)"
| "differs s (WAutoConnectOnStart v) = (v \<noteq> ts_autoConnectOnStart s)"

fun put :: "'a \<Rightarrow> 'a obj_write \<Rightarrow> 'a" where
  "put cur Same = cur"
| "put cur (Put v) = v"

fun set_field :: "state_write \<Rightarrow> TailscaleState \<Rightarrow> TailscaleState" where
  "set_field (WRoutingHealth v) s = s\<lparr>ts_routingHealth := Some v\<rparr>"
| "set_field (WHostConnected v) s = s\<lparr>ts_hostConnected := v\<rparr>"
| "set_field (WInitialized v) s = s\<lparr>ts_initialized := v\<rparr>"
| "set_field (WProxyPort v) s = s\<lparr>ts_proxyPort := v\<rparr>"
| "set_field (WProxyEnabled v) s = s\<lparr>ts_proxyEnabled := v\<rparr>"
| "set_field (WBackendState v) s = s\<lparr>ts_backendState := v\<rparr>"
| "set_field (WTailnet v) s = s\<lparr>ts_tailnet := v\<rparr>"
| "set_field (WSelfNode v) s = s\<lparr>ts_selfNode := v\<rparr>"
| "set_field (WPeers v) s = s\<lparr>ts_peers := v\<rparr>"
| "set_field (WExitNode v) s = s\<lparr>ts_exitNode := v\<rparr>"
| "set_field (WMagicDNSSuffix v) s = s\<lparr>ts_magicDNSSuffix := v\<rparr>"
| "set_field (WSplitDNSDomains v) s = s\<lparr>ts_splitDNSDomains := v\<rparr>"
| "set_field (WDnsRoutes w) s =
     (case w of Same \<Rightarrow> s | Put v \<Rightarrow> s\<lparr>ts_dnsRoutes := Some v\<rparr>)"
| "set_field (WBrowseToURL v) s = s\<lparr>ts_browseToURL := v\<rparr>"
| "set_field (WPrefs v) s = s\<lparr>ts_prefs := v\<rparr>"
| "set_field (WHealth v) s = s\<lparr>ts_health := v\<rparr>"
| "set_field (WPendingExitNodeID v) s = s\<lparr>ts_pendingExitNodeID := v\<rparr>"
| "set_field (WCurrentProfile v) s = s\<lparr>ts_currentProfile := v\<rparr>"
| "set_field (WProfiles v) s = s\<lparr>ts_profiles := v\<rparr>"
| "set_field (WExitNodeSuggestion v) s = s\<lparr>ts_exitNodeSuggestion := v\<rparr>"
| "set_field (WDomainSplit v) s = s\<lparr>ts_domainSplit := v\<rparr>"
| "set_field (WError v) s = s\<lparr>ts_error := v\<rparr>"
| "set_field (WHostVersion v) s = s\<lparr>ts_hostVersion := v\<rparr>"
| "set_field (WHelperFailure w) s = s\<lparr>ts_helperFailure := put (ts_helperFailure s) w\<rparr>"
| "set_field (WHelperDiagnostic w) s = s\<lparr>ts_helperDiagnostic := put (ts_helperDiagnostic s) w\<rparr>"
| "set_field (WHelperVersionNotice v) s = s\<lparr>ts_helperVersionNotice := v\<rparr>"
| "set_field (WRepairRegistrationAvailable v) s = s\<lparr>ts_repairRegistrationAvailable := v\<rparr>"
| "set_field (WSupportsNetcheck v) s = s\<lparr>ts_supportsNetcheck := v\<rparr>"
| "set_field (WSupportsPingPeer v) s = s\<lparr>ts_supportsPingPeer := v\<rparr>"
| "set_field (WSupportsLogin v) s = s\<lparr>ts_supportsLogin := v\<rparr>"
| "set_field (WSupportsCustomControlURL v) s = s\<lparr>ts_supportsCustomControlURL := v\<rparr>"
| "set_field (WSupportsDaemonControl v) s = s\<lparr>ts_supportsDaemonControl := v\<rparr>"
| "set_field (WSupportsExternalProxy v) s = s\<lparr>ts_supportsExternalProxy := v\<rparr>"
| "set_field (WSupportsExternalProxyLAN v) s = s\<lparr>ts_supportsExternalProxyLAN := v\<rparr>"
| "set_field (WExternalProxy v) s = s\<lparr>ts_externalProxy := v\<rparr>"
| "set_field (WReconnecting v) s = s\<lparr>ts_reconnecting := v\<rparr>"
| "set_field (WAutoConnectOnStart v) s = s\<lparr>ts_autoConnectOnStart := v\<rparr>"

definition write_all :: "state_write list \<Rightarrow> TailscaleState \<Rightarrow> TailscaleState" where
  "write_all ws s = fold set_field ws s"

definition update :: "state_write list \<Rightarrow> TailscaleState \<Rightarrow> TailscaleState option" where
  "update ws s =
     (if list_ex (differs s) ws
      then Some ((write_all ws s)\<lparr>ts_stateVersion := Suc (ts_stateVersion s)\<rparr>)
      else None)"

definition DEFAULT_STATE :: TailscaleState where
  "DEFAULT_STATE =
     \<lparr>ts_routingPolicy = None, ts_routingHealth = None, ts_selectedExitNodeID = None,
      ts_stateVersion = 0, ts_hostConnected = False, ts_initialized = False, ts_proxyPort = None,
      ts_proxyEnabled = False, ts_backendState = NoState, ts_tailnet = None, ts_selfNode = None,
      ts_peers = [], ts_exitNode = None, ts_magicDNSSuffix = None, ts_splitDNSDomains = [],
      ts_dnsRoutes = Some [], ts_browseToURL = None, ts_prefs = None, ts_health = [],
      ts_pendingExitNodeID = None, ts_currentProfile = None, ts_profiles = [],
      ts_exitNodeSuggestion = None, ts_domainSplit = \<lparr>split_mode = Bypass, split_domains = []\<rparr>,
      ts_error = None, ts_hostVersion = None, ts_helperFailure = None, ts_helperDiagnostic = None,
      ts_helperVersionNotice = None, ts_repairRegistrationAvailable = False,
      ts_supportsNetcheck = False, ts_supportsPingPeer = False, ts_supportsLogin = False,
      ts_supportsCustomControlURL = False, ts_supportsDaemonControl = False,
      ts_supportsExternalProxy = False, ts_supportsExternalProxyLAN = False,
      ts_externalProxy = None, ts_reconnecting = False, ts_autoConnectOnStart = False\<rparr>"

section \<open>Status updates\<close>

definition UNSTABLE_BUILD_NOTICE :: string where
  "UNSTABLE_BUILD_NOTICE = ''This is an unstable version of Tailscale meant for testing and development purposes. Please report any issues to Tailscale.''"

definition nextPendingExitNodeID :: "string option \<Rightarrow> string option \<Rightarrow> string option" where
  "nextPendingExitNodeID pending confirmed =
     (if pending = None then None
      else if truthy pending = truthy confirmed then None
      else pending)"

definition confirmed_exit_id :: "StatusUpdate \<Rightarrow> string option" where
  "confirmed_exit_id st =
     (case st_exitNode st of
        Some e \<Rightarrow> Some (exit_id e)
      | None \<Rightarrow> (case st_prefs st of Some p \<Rightarrow> pref_exitNodeID p | None \<Rightarrow> None))"

definition truncation_warning :: "nat \<Rightarrow> nat option \<Rightarrow> string" where
  "truncation_warning shown totalPeers =
     ''Showing '' @ nat_to_string shown @ '' of '' @ nat_to_string (js_default totalPeers shown)
       @ '' devices because the tailnet status exceeded the browser message limit.''"

definition status_health :: "StatusUpdate \<Rightarrow> string list" where
  "status_health st =
     filter (\<lambda>w. w \<noteq> UNSTABLE_BUILD_NOTICE) (js_default (st_health st) [])
     @ (if st_peersTruncated st
        then [truncation_warning (length (js_default (st_peers st) [])) (st_totalPeers st)] else [])"

definition normalize_peer :: "PeerInfo \<Rightarrow> PeerInfo" where
  "normalize_peer p = p\<lparr>peer_tailscaleIPs := Some (js_default (peer_tailscaleIPs p) []),
     peer_subnets := Some (js_default (peer_subnets p) []),
     peer_tags := Some (js_default (peer_tags p) [])\<rparr>"

definition normalize_self :: "SelfNode \<Rightarrow> SelfNode" where
  "normalize_self n = n\<lparr>self_tailscaleIPs := Some (js_default (self_tailscaleIPs n) [])\<rparr>"

text \<open>\<open>status.splitDNSDomains?.length\<close> as a condition.\<close>

definition legacy_domains :: "StatusUpdate \<Rightarrow> string list option" where
  "legacy_domains st = (case st_splitDNSDomains st of Some (d # ds) \<Rightarrow> Some (d # ds) | _ \<Rightarrow> None)"

definition status_dns_routes :: "StatusUpdate \<Rightarrow> string list obj_write" where
  "status_dns_routes st =
     (case st_dnsRoutes st of
        Some rs \<Rightarrow> Put (sanitizeDNSRoutes (js_strings rs))
      | None \<Rightarrow> (case legacy_domains st of
                  Some ds \<Rightarrow> Put (sanitizeDNSRoutes (js_strings ds))
                | None \<Rightarrow> Same))"

definition status_writes :: "StatusUpdate \<Rightarrow> TailscaleState \<Rightarrow> state_write list" where
  "status_writes st s =
     [WBackendState (st_backendState st),
      WTailnet (st_tailnet st),
      WSelfNode (map_option normalize_self (st_selfNode st)),
      WPeers (map normalize_peer (js_default (st_peers st) [])),
      WExitNode (st_exitNode st),
      WMagicDNSSuffix (Some (st_magicDNSSuffix st)),
      WSplitDNSDomains (js_default (st_splitDNSDomains st) []),
      WDnsRoutes (status_dns_routes st),
      WBrowseToURL (js_or (st_browseToURL st) (truthy (st_authURL st))),
      WPrefs (st_prefs st),
      WHealth (status_health st),
      WError (if truthy (st_error st) = None then None else Some ''Tailscale reported a problem.'')]
     @ (case truthy (st_error st) of
          Some e \<Rightarrow> [WHelperDiagnostic (Put (Some \<lparr>hd_code = ''helper-status-error'',
                       hd_message = sanitizeDiagnosticMessage (TextDetail e)\<rparr>))]
        | None \<Rightarrow> [])
     @ [WPendingExitNodeID (nextPendingExitNodeID (ts_pendingExitNodeID s) (confirmed_exit_id st))]"

definition applyStatusUpdate :: "StatusUpdate \<Rightarrow> TailscaleState \<Rightarrow> TailscaleState option" where
  "applyStatusUpdate st s = update (status_writes st s) s"

section \<open>Lemmas\<close>

lemma ref_unchanged: "\<not> ref_differs cur w \<Longrightarrow> put cur w = cur"
  by (cases w) (auto simp: obj_differs_def)

lemma set_field_unchanged: "\<not> differs s w \<Longrightarrow> set_field w s = s"
  by (cases w) (auto simp: obj_differs_def ref_unchanged split: obj_write.splits)

lemma write_all_unchanged: "\<not> list_ex (differs s) ws \<Longrightarrow> write_all ws s = s"
  unfolding write_all_def by (induction ws) (auto simp: set_field_unchanged)

lemma set_field_version [simp]: "ts_stateVersion (set_field w s) = ts_stateVersion s"
  by (cases w) (auto split: obj_write.splits)

lemma set_field_routing [simp]:
  "ts_routingPolicy (set_field w s) = ts_routingPolicy s"
  "ts_selectedExitNodeID (set_field w s) = ts_selectedExitNodeID s"
  by (cases w; auto split: obj_write.splits)+

text \<open>Skipping an update is unobservable: it would have left every field as it is.\<close>

lemma update_None: "update ws s = None \<Longrightarrow> write_all ws s = s"
  by (simp add: update_def write_all_unchanged split: if_splits)

lemma update_Some:
  "update ws s = Some s' \<Longrightarrow> s' = (write_all ws s)\<lparr>ts_stateVersion := Suc (ts_stateVersion s)\<rparr>"
  by (simp add: update_def split: if_splits)

text \<open>The state after an update, whether or not listeners are notified.\<close>

definition updated :: "state_write list \<Rightarrow> TailscaleState \<Rightarrow> TailscaleState" where
  "updated ws s = (case update ws s of Some s' \<Rightarrow> s' | None \<Rightarrow> s)"

text \<open>Whether or not listeners are notified, after an update every field holds what the writes say.\<close>

lemma updated_fields: "updated ws s = (write_all ws s)\<lparr>ts_stateVersion := ts_stateVersion (updated ws s)\<rparr>"
proof (cases "update ws s")
  case None
  then show ?thesis using update_None [OF None] by (simp add: updated_def)
next
  case (Some s')
  then show ?thesis using update_Some [OF Some] by (simp add: updated_def)
qed

lemma applyStatusUpdate_notifies: "\<exists>s'. applyStatusUpdate st s = Some s'"
  by (simp add: applyStatusUpdate_def update_def status_writes_def)

lemma applyStatusUpdate_Some:
  "applyStatusUpdate st s = Some ((write_all (status_writes st s) s)\<lparr>ts_stateVersion := Suc (ts_stateVersion s)\<rparr>)"
  by (simp add: applyStatusUpdate_def update_def status_writes_def)

lemma nextPendingExitNodeID_cases:
  "nextPendingExitNodeID p c = None \<or> nextPendingExitNodeID p c = p"
  by (simp add: nextPendingExitNodeID_def)

end
