(* ===== verification/Background_Util.thy ===== *)
theory Background_Util
  imports Constants Helper_Diagnostics State_Store
begin

text \<open>
  The module-level functions of \<open>packages/shared/src/background/background.ts\<close> (lines 76--325): login
  URLs, comparison of coordination servers, helper versions, error copy and the small comparisons
  that keep equal objects identical.
\<close>

section \<open>Login URLs\<close>

definition isValidLoginURL :: "url_parser \<Rightarrow> string \<Rightarrow> string option \<Rightarrow> bool" where
  "isValidLoginURL parse_url url controlURL =
     (case parse_url url of
        None \<Rightarrow> False
      | Some parsed \<Rightarrow>
          if isCustomControlURL parse_url controlURL
          then (if url_origin parsed \<in> set DEFAULT_LOGIN_ORIGINS then False
                else if url_protocol parsed = ''https:'' then True
                else (case parse_url (js_default controlURL []) of
                        Some c \<Rightarrow> url_protocol c = ''http:'' \<and> url_protocol parsed = ''http:''
                      | None \<Rightarrow> False))
          else url_origin parsed \<in> set DEFAULT_LOGIN_ORIGINS)"

definition isDefaultOriginLoginURL :: "url_parser \<Rightarrow> string \<Rightarrow> bool" where
  "isDefaultOriginLoginURL parse_url url =
     (case parse_url url of Some u \<Rightarrow> url_origin u \<in> set DEFAULT_LOGIN_ORIGINS | None \<Rightarrow> False)"

definition loginURLFromStatus :: "StatusUpdate \<Rightarrow> string option" where
  "loginURLFromStatus st = js_or (st_browseToURL st) (truthy (st_authURL st))"

section \<open>Coordination servers\<close>

text \<open>Assigning \<open>""\<close> to \<open>pathname\<close> leaves \<open>"/"\<close> on a URL with a special scheme.\<close>

definition emptied_pathname :: "string \<Rightarrow> string" where
  "emptied_pathname protocol =
     (if protocol \<in> {''http:'', ''https:'', ''ws:'', ''wss:'', ''ftp:'', ''file:''} then ''/'' else [])"

definition control_key :: "url_parser \<Rightarrow> string option \<Rightarrow> string" where
  "control_key parse_url url =
     (case truthy url of
        None \<Rightarrow> []
      | Some t \<Rightarrow>
          if \<not> isCustomControlURL parse_url (Some t) then []
          else (case parse_url t of
                  Some u \<Rightarrow>
                    js_lower (url_protocol u) @ ''//'' @ js_lower (url_host u)
                      @ (if url_pathname u = ''/'' \<and> url_search u = [] then emptied_pathname (url_protocol u)
                         else url_pathname u) @ url_search u
                | None \<Rightarrow> js_lower (js_trim t)))"

definition controlServerChanged :: "url_parser \<Rightarrow> string option \<Rightarrow> string option \<Rightarrow> bool" where
  "controlServerChanged parse_url next_url current = (control_key parse_url next_url \<noteq> control_key parse_url current)"

section \<open>Helper versions\<close>

definition strip_v :: "string \<Rightarrow> string" where
  "strip_v s = (case s of [] \<Rightarrow> [] | c # cs \<Rightarrow> if c = CHR ''v'' then cs else s)"

text \<open>The three numbers of a text that matches the version pattern.\<close>

definition version_digits :: "string \<Rightarrow> string list" where
  "version_digits t =
     (let a = takeWhile is_digit t; t1 = drop (length a + 1) t;
          b = takeWhile is_digit t1; t2 = drop (length b + 1) t1
      in [a, b, takeWhile is_digit t2])"

definition MAX_SAFE_INTEGER :: int where
  "MAX_SAFE_INTEGER = 9007199254740991"

definition parseReleaseVersion :: "string option \<Rightarrow> (string \<times> nat list) option" where
  "parseReleaseVersion value =
     (case truthy value of
        None \<Rightarrow> None
      | Some v \<Rightarrow>
          if \<not> rx_full rx_version v then None
          else (let numbers = map digits_val (version_digits (strip_v v))
                in if list_ex (\<lambda>n. int n > MAX_SAFE_INTEGER) numbers then None else Some (strip_v v, numbers)))"

fun compare_versions :: "nat list \<Rightarrow> nat list \<Rightarrow> VersionRelation" where
  "compare_versions (a # as) (b # bs) = (if a < b then Older else if a > b then Newer else compare_versions as bs)"
| "compare_versions _ _ = Different"

definition getHelperVersionNotice :: "string option \<Rightarrow> string \<Rightarrow> HelperVersionNotice option" where
  "getHelperVersionNotice installedVersion releaseVersion =
     (case (parseReleaseVersion installedVersion, parseReleaseVersion (Some releaseVersion)) of
        (Some (installed, is), Some (rel, rs)) \<Rightarrow>
          if installed = rel then None
          else Some \<lparr>vn_installed = installed, vn_release = rel, vn_relation = compare_versions is rs\<rparr>
      | _ \<Rightarrow> None)"

definition normalizedHelperVersion :: "string option \<Rightarrow> string option" where
  "normalizedHelperVersion value = map_option fst (parseReleaseVersion value)"

section \<open>Messages and records\<close>

definition NATIVE_HOST_UNREACHABLE :: string where
  "NATIVE_HOST_UNREACHABLE =
     ''Could not reach Tailscale service. Please check that the native host is installed.''"

definition nativeCommandErrorCopy :: "string \<Rightarrow> string" where
  "nativeCommandErrorCopy command =
     (if command = ''login'' then ''The helper could not start login. Please try again.''
      else if command \<in> {''up'', ''down''} then ''The helper could not change the connection state.''
      else if command = ''set-exit-node'' then ''The helper could not change the exit node.''
      else if command = ''set-prefs'' then ''The helper could not save that setting.''
      else if command = ''send-file'' then ''The helper could not send the file.''
      else if command \<in> {''switch-profile'', ''new-profile'', ''delete-profile''}
      then ''The helper could not update the selected profile.''
      else if command \<in> {''ping-peer'', ''netcheck''} then ''The helper could not run that diagnostic.''
      else if command \<in> {''set-external-proxy'', ''reveal-external-proxy'', ''rotate-external-proxy-credentials''}
      then ''The helper could not update the local app proxy.''
      else ''The helper could not complete that request.'')"

definition INSTALL_RETRY_DELAYS_MS :: "rat list" where
  "INSTALL_RETRY_DELAYS_MS = [2000, 5000, 10000, 20000, 30000]"

definition INSTALL_RETRY_SETTLE_MS :: rat where
  "INSTALL_RETRY_SETTLE_MS = 2000"

definition PROFILE_REFRESH_RETRY_DELAYS_MS :: "nat list" where
  "PROFILE_REFRESH_RETRY_DELAYS_MS = [1000, 3000, 10000]"

record HelperRetryRecord =
  hr_source :: RetrySource
  hr_nextRetryIndex :: nat
  hr_nextRetryAt :: rat

text \<open>An equal value keeps the stored object, so that the store sees no change.\<close>

definition reuseEquivalentHelperDiagnostic :: "HelperDiagnostic option \<Rightarrow> HelperDiagnostic option \<Rightarrow> HelperDiagnostic option obj_write" where
  "reuseEquivalentHelperDiagnostic current new = (if current = new then Same else Put new)"

definition reuseEquivalentHelperFailure :: "HelperFailure option \<Rightarrow> HelperFailure option \<Rightarrow> HelperFailure option obj_write" where
  "reuseEquivalentHelperFailure current new = (if current = new then Same else Put new)"

definition retry_source_of :: "jsval \<Rightarrow> RetrySource option" where
  "retry_source_of v =
     (if v = JStr ''package'' then Some Package else if v = JStr ''fallback'' then Some Fallback
      else if v = JStr ''manual'' then Some Manual else None)"

text \<open>\<open>isHelperRetryRecord\<close> together with the typed value it admits.\<close>

definition isHelperRetryRecord :: "jsval \<Rightarrow> HelperRetryRecord option" where
  "isHelperRetryRecord v =
     (case v of
        JObj _ \<Rightarrow>
          (case (retry_source_of (js_get v ''source''), js_get v ''nextRetryIndex'', js_get v ''nextRetryAt'') of
             (Some src, JNum (Fin i), JNum (Fin t)) \<Rightarrow>
               if i = of_int \<lfloor>i\<rfloor> \<and> i \<ge> 0
               then Some \<lparr>hr_source = src, hr_nextRetryIndex = nat \<lfloor>i\<rfloor>, hr_nextRetryAt = t\<rparr> else None
           | _ \<Rightarrow> None)
      | _ \<Rightarrow> None)"

definition retry_source_text :: "RetrySource \<Rightarrow> string" where
  "retry_source_text s = (case s of Package \<Rightarrow> ''package'' | Fallback \<Rightarrow> ''fallback'' | Manual \<Rightarrow> ''manual'')"

text \<open>The record as stored.\<close>

definition retry_js :: "HelperRetryRecord \<Rightarrow> jsval" where
  "retry_js r = JObj [(''source'', JStr (retry_source_text (hr_source r))),
     (''nextRetryIndex'', JNum (Fin (of_nat (hr_nextRetryIndex r)))), (''nextRetryAt'', JNum (Fin (hr_nextRetryAt r)))]"

definition domainSplitEquals :: "DomainSplitConfig \<Rightarrow> DomainSplitConfig \<Rightarrow> bool" where
  "domainSplitEquals a b \<longleftrightarrow>
     split_mode a = split_mode b \<and> length (split_domains a) = length (split_domains b) \<and>
     list_all2 (=) (split_domains a) (split_domains b)"

section \<open>Lemmas\<close>

lemma retry_roundtrip: "isHelperRetryRecord (retry_js r) = Some r"
  by (cases "hr_source r") (simp_all add: isHelperRetryRecord_def retry_js_def retry_source_of_def retry_source_text_def)

lemma domainSplitEquals_eq: "domainSplitEquals a b \<longleftrightarrow> a = b"
  by (auto simp: domainSplitEquals_def list.rel_eq)

lemma compare_versions_rev:
  "compare_versions xs ys = Older \<longleftrightarrow> compare_versions ys xs = Newer"
  by (induction xs ys rule: compare_versions.induct) auto

text \<open>Versions compare as the numbers they stand for.\<close>

text \<open>Release versions compare as their number lists do lexicographically.\<close>

lemma compare_versions_lex:
  "length xs = length ys \<Longrightarrow> compare_versions xs ys = Older \<longleftrightarrow> (xs, ys) \<in> lexord {(a, b). a < b}"
  by (induction xs ys rule: compare_versions.induct) auto

lemma compare_versions_Different: "length xs = length ys \<Longrightarrow> compare_versions xs ys = Different \<longleftrightarrow> xs = ys"
  by (induction xs ys rule: compare_versions.induct) auto

lemma default_origins_not_custom:
  assumes "parse_url u = Some p" and "url_origin p \<in> set DEFAULT_CONTROL_URL_ORIGINS"
  shows "\<not> isCustomControlURL parse_url (Some u)"
  using assms by (auto simp: isCustomControlURL_def truthy_Some_iff split: option.splits)

lemma login_url_scheme:
  assumes "isValidLoginURL parse_url url controlURL"
  shows "\<exists>p. parse_url url = Some p \<and>
    (url_origin p \<in> set DEFAULT_LOGIN_ORIGINS \<and> \<not> isCustomControlURL parse_url controlURL \<or>
     url_origin p \<notin> set DEFAULT_LOGIN_ORIGINS \<and> isCustomControlURL parse_url controlURL \<and>
       (url_protocol p = ''https:'' \<or> url_protocol p = ''http:''))"
  using assms by (auto simp: isValidLoginURL_def split: option.splits if_splits)

lemma default_servers_same_key:
  assumes "\<not> isCustomControlURL parse_url a" and "\<not> isCustomControlURL parse_url b"
  shows "\<not> controlServerChanged parse_url a b"
proof -
  have "control_key parse_url c = []" if "\<not> isCustomControlURL parse_url c" for c
  proof (cases "truthy c")
    case (Some t)
    then have "c = Some t" by (simp add: truthy_Some_iff)
    with that Some show ?thesis by (simp add: control_key_def)
  qed (simp add: control_key_def)
  with assms show ?thesis by (simp add: controlServerChanged_def)
qed

end
