(* ===== verification/Badge_Manager.thy ===== *)
theory Badge_Manager
  imports State_Store
begin

text \<open>
  The toolbar badge (\<open>packages/shared/src/background/badge-manager.ts\<close>). The manager skips a state
  whose key equals the last one; the lemmas show that the skip is invisible: whatever states came
  before, the badge is the one the current state calls for.
\<close>

datatype IconSet = OnlineIcons | OfflineIcons | WarningIcons

datatype BadgeColor = Orange | Blue | Gray

record BadgeManager =
  bm_lastBadgeKey :: string
  bm_icon :: "IconSet option"
  bm_text :: string
  bm_color :: "BadgeColor option"

definition badge_init :: BadgeManager where
  "badge_init = \<lparr>bm_lastBadgeKey = [], bm_icon = None, bm_text = [], bm_color = None\<rparr>"

fun backend_text :: "BackendState \<Rightarrow> string" where
  "backend_text NoState = ''NoState''"
| "backend_text NeedsMachineAuth = ''NeedsMachineAuth''"
| "backend_text NeedsLogin = ''NeedsLogin''"
| "backend_text InUseOtherUser = ''InUseOtherUser''"
| "backend_text Stopped = ''Stopped''"
| "backend_text Starting = ''Starting''"
| "backend_text Running = ''Running''"

fun routing_status_text :: "RoutingStatus \<Rightarrow> string" where
  "routing_status_text RActive = ''active''"
| "routing_status_text RBlocked = ''blocked''"
| "routing_status_text RConflicted = ''conflicted''"
| "routing_status_text RUnavailable = ''unavailable''"
| "routing_status_text RInactive = ''inactive''"

definition badge_key_parts :: "TailscaleState \<Rightarrow> string list" where
  "badge_key_parts s =
     [case ts_helperFailure s of Some f \<Rightarrow> failure_kind_text (hf_kind f) | None \<Rightarrow> [],
      case ts_routingHealth s of Some h \<Rightarrow> routing_status_text (rh_status h) | None \<Rightarrow> [],
      if ts_hostConnected s then ''conn'' else ''disc'',
      backend_text (ts_backendState s),
      if ts_exitNode s \<noteq> None then ''exit'' else ''noexit'']"

definition computeBadgeKey :: "TailscaleState \<Rightarrow> string" where
  "computeBadgeKey s = js_join '':'' (badge_key_parts s)"

text \<open>
  \<open>chrome.action.setIcon\<close> may reject; \<open>icon_ok\<close> says which icon sets the browser loads. Only the
  warning set falls back to the offline one.
\<close>

definition setIcon :: "(IconSet \<Rightarrow> bool) \<Rightarrow> IconSet \<Rightarrow> BadgeManager \<Rightarrow> BadgeManager" where
  "setIcon icon_ok icons b =
     (if icon_ok icons then b\<lparr>bm_icon := Some icons\<rparr>
      else if icons = WarningIcons \<and> icon_ok OfflineIcons then b\<lparr>bm_icon := Some OfflineIcons\<rparr>
      else b)"

definition setBadge :: "string \<Rightarrow> BadgeColor \<Rightarrow> BadgeManager \<Rightarrow> BadgeManager" where
  "setBadge txt color b = b\<lparr>bm_text := txt, bm_color := Some color\<rparr>"

definition clearBadge :: "BadgeManager \<Rightarrow> BadgeManager" where
  "clearBadge b = b\<lparr>bm_text := []\<rparr>"

definition badge_warning :: "TailscaleState \<Rightarrow> bool" where
  "badge_warning s \<longleftrightarrow>
     ts_helperFailure s \<noteq> None \<or>
     (case ts_routingHealth s of
        Some h \<Rightarrow> rh_status h \<notin> {RActive, RInactive}
      | None \<Rightarrow> False)"

definition update_badge :: "(IconSet \<Rightarrow> bool) \<Rightarrow> TailscaleState \<Rightarrow> BadgeManager \<Rightarrow> BadgeManager" where
  "update_badge icon_ok s b0 =
     (let badgeKey = computeBadgeKey s in
      if badgeKey = bm_lastBadgeKey b0 then b0
      else
        (let b = b0\<lparr>bm_lastBadgeKey := badgeKey\<rparr> in
         if badge_warning s then setBadge ''!'' Orange (setIcon icon_ok WarningIcons b)
         else if \<not> ts_hostConnected s \<or> ts_backendState s = Stopped
         then clearBadge (setIcon icon_ok OfflineIcons b)
         else if ts_backendState s = NeedsLogin \<or> ts_backendState s = NeedsMachineAuth
         then setBadge ''?'' Blue (setIcon icon_ok OfflineIcons b)
         else if ts_backendState s = Starting
         then setBadge ''...'' Gray (setIcon icon_ok OfflineIcons b)
         else if ts_backendState s = Running
         then (if ts_exitNode s \<noteq> None then setBadge ''EN'' Blue (setIcon icon_ok OnlineIcons b)
               else clearBadge (setIcon icon_ok OnlineIcons b))
         else clearBadge (setIcon icon_ok OfflineIcons b)))"

section \<open>The badge a state calls for\<close>

definition badge_for :: "TailscaleState \<Rightarrow> IconSet \<times> string \<times> BadgeColor option" where
  "badge_for s =
     (if badge_warning s then (WarningIcons, ''!'', Some Orange)
      else if \<not> ts_hostConnected s then (OfflineIcons, [], None)
      else (case ts_backendState s of
              NeedsLogin \<Rightarrow> (OfflineIcons, ''?'', Some Blue)
            | NeedsMachineAuth \<Rightarrow> (OfflineIcons, ''?'', Some Blue)
            | Starting \<Rightarrow> (OfflineIcons, ''...'', Some Gray)
            | Running \<Rightarrow> (OnlineIcons, if ts_exitNode s \<noteq> None then ''EN'' else [],
                          if ts_exitNode s \<noteq> None then Some Blue else None)
            | _ \<Rightarrow> (OfflineIcons, [], None)))"

text \<open>What the toolbar shows: the colour matters only under a text.\<close>

definition badge_shown :: "BadgeManager \<Rightarrow> IconSet option \<times> string \<times> BadgeColor option" where
  "badge_shown b = (bm_icon b, bm_text b, if bm_text b = [] then None else bm_color b)"

definition badge_shows :: "TailscaleState \<Rightarrow> BadgeManager \<Rightarrow> bool" where
  "badge_shows s b \<longleftrightarrow> (case badge_for s of (icons, txt, color) \<Rightarrow> badge_shown b = (Some icons, txt, color))"

section \<open>Lemmas\<close>

lemma failure_kind_text_inj: "failure_kind_text a = failure_kind_text b \<longleftrightarrow> a = b"
  by (cases a; cases b) simp_all

lemma routing_status_text_inj: "routing_status_text a = routing_status_text b \<longleftrightarrow> a = b"
  by (cases a; cases b) simp_all

lemma backend_text_inj: "backend_text a = backend_text b \<longleftrightarrow> a = b"
  by (cases a; cases b) simp_all

lemma key_texts_no_colon:
  "CHR '':'' \<notin> set (failure_kind_text k)" "CHR '':'' \<notin> set (routing_status_text r)"
  "CHR '':'' \<notin> set (backend_text t)"
    apply (cases k; simp)
   apply (cases r; simp)
  apply (cases t; simp)
  done

lemma badge_key_parts_no_colon: "p \<in> set (badge_key_parts s) \<Longrightarrow> CHR '':'' \<notin> set p"
  by (auto simp: badge_key_parts_def key_texts_no_colon split: option.splits if_splits)

lemma computeBadgeKey_parts: "computeBadgeKey s = computeBadgeKey t \<Longrightarrow> badge_key_parts s = badge_key_parts t"
proof -
  assume eq: "computeBadgeKey s = computeBadgeKey t"
  have "js_split (CHR '':'') (computeBadgeKey u) = badge_key_parts u" for u
    unfolding computeBadgeKey_def
    by (rule js_split_join) (auto simp: badge_key_parts_no_colon, simp add: badge_key_parts_def)
  with eq show ?thesis by metis
qed

lemma kind_text_not_Nil [simp]: "failure_kind_text k \<noteq> []" "[] \<noteq> failure_kind_text k"
  by (cases k; simp)+

lemma status_text_not_Nil [simp]: "routing_status_text k \<noteq> []" "[] \<noteq> routing_status_text k"
  by (cases k; simp)+

lemma badge_key_determines: "computeBadgeKey s = computeBadgeKey t \<Longrightarrow> badge_for s = badge_for t"
  using computeBadgeKey_parts [of s t]
  by (auto simp: badge_key_parts_def badge_for_def badge_warning_def backend_text_inj
      routing_status_text_inj failure_kind_text_inj split: option.splits if_splits)

lemma computeBadgeKey_not_Nil [simp]: "computeBadgeKey s \<noteq> []"
  by (simp add: computeBadgeKey_def badge_key_parts_def)

lemma update_badge_key [simp]: "bm_lastBadgeKey (update_badge ok s b) = computeBadgeKey s"
  by (auto simp: update_badge_def Let_def setBadge_def setIcon_def clearBadge_def)

lemma update_badge_fresh:
  assumes "\<forall>i. ok i" and "computeBadgeKey s \<noteq> bm_lastBadgeKey b"
  shows "badge_shows s (update_badge ok s b)"
  using assms
  by (cases "ts_backendState s")
    (auto simp: update_badge_def Let_def setBadge_def setIcon_def clearBadge_def badge_shows_def
      badge_shown_def badge_for_def)

text \<open>Whatever states came before, the toolbar shows the badge of the current state: the cached key never hides a change.\<close>

lemma update_badge_shows:
  assumes ok: "\<forall>i. ok i"
  shows "badge_shows s (fold (update_badge ok) (states @ [s]) badge_init)"
proof (induction states arbitrary: s rule: rev_induct)
  case Nil
  show ?case using update_badge_fresh [OF ok, of s badge_init] by (simp add: badge_init_def)
next
  case (snoc t states)
  let ?b = "fold (update_badge ok) (states @ [t]) badge_init"
  show ?case
  proof (cases "computeBadgeKey s = computeBadgeKey t")
    case True
    have "bm_lastBadgeKey ?b = computeBadgeKey t" by simp
    with True have "update_badge ok s ?b = ?b" by (simp add: update_badge_def)
    moreover have "badge_shows s ?b"
      using snoc.IH [of t] badge_key_determines [OF True] by (simp add: badge_shows_def)
    ultimately show ?thesis by simp
  next
    case False
    then have "computeBadgeKey s \<noteq> bm_lastBadgeKey ?b" by simp
    from update_badge_fresh [OF ok this] show ?thesis by simp
  qed
qed

end
