(* ===== verification/Auto_Connect.thy ===== *)
theory Auto_Connect
  imports Types
begin

text \<open>
  Stored connection decisions (\<open>packages/shared/src/background/auto-connect.ts\<close>): the auto-connect
  preference and the persisted intent in local storage, the handled flag and the session intent in
  session storage. A storage area is a function from keys to values, \<^const>\<open>JUndef\<close> for a key
  that is not there; the session area may be missing altogether.
\<close>

type_synonym storage = "string \<Rightarrow> jsval"

definition AUTO_CONNECT_PREF_KEY :: string where
  "AUTO_CONNECT_PREF_KEY = ''autoConnectOnStart''"

definition SESSION_KEY :: string where
  "SESSION_KEY = ''autoConnectHandled''"

definition INTENT_KEY :: string where
  "INTENT_KEY = ''desiredWantRunning''"

definition LAST_INTENT_KEY :: string where
  "LAST_INTENT_KEY = ''lastSessionWantRunning''"

definition js_bool_option :: "jsval \<Rightarrow> bool option" where
  "js_bool_option v = (case v of JBool b \<Rightarrow> Some b | _ \<Rightarrow> None)"

definition readAutoConnectPref :: "storage \<Rightarrow> bool" where
  "readAutoConnectPref area \<longleftrightarrow> area AUTO_CONNECT_PREF_KEY = JBool True"

definition writeAutoConnectPref :: "bool \<Rightarrow> storage \<Rightarrow> storage" where
  "writeAutoConnectPref v area = area(AUTO_CONNECT_PREF_KEY := JBool v)"

definition isAutoConnectHandled :: "storage option \<Rightarrow> bool" where
  "isAutoConnectHandled area = (case area of None \<Rightarrow> False | Some a \<Rightarrow> a SESSION_KEY = JBool True)"

definition markAutoConnectHandled :: "storage option \<Rightarrow> storage option" where
  "markAutoConnectHandled area = map_option (\<lambda>a. a(SESSION_KEY := JBool True)) area"

definition readSessionIntent :: "storage option \<Rightarrow> bool option" where
  "readSessionIntent area = (case area of None \<Rightarrow> None | Some a \<Rightarrow> js_bool_option (a INTENT_KEY))"

definition writeSessionIntent :: "bool \<Rightarrow> storage option \<Rightarrow> storage option" where
  "writeSessionIntent v area = map_option (\<lambda>a. a(INTENT_KEY := JBool v)) area"

definition clearSessionIntent :: "storage option \<Rightarrow> storage option" where
  "clearSessionIntent area = map_option (\<lambda>a. a(INTENT_KEY := JUndef)) area"

definition readPersistedIntent :: "storage \<Rightarrow> bool option" where
  "readPersistedIntent area = js_bool_option (area LAST_INTENT_KEY)"

definition writePersistedIntent :: "bool \<Rightarrow> storage \<Rightarrow> storage" where
  "writePersistedIntent v area = area(LAST_INTENT_KEY := JBool v)"

definition clearPersistedIntent :: "storage \<Rightarrow> storage" where
  "clearPersistedIntent area = area(LAST_INTENT_KEY := JUndef)"

definition shouldAutoConnect :: "BackendState \<Rightarrow> bool" where
  "shouldAutoConnect s \<longleftrightarrow> s = Stopped \<or> s = NoState"

lemmas storage_keys = AUTO_CONNECT_PREF_KEY_def SESSION_KEY_def INTENT_KEY_def LAST_INTENT_KEY_def

section \<open>Lemmas\<close>

text \<open>
  Both copies of a connection decision are cells: where the storage is present, a read returns
  what was written last and nothing after a clear.
\<close>

locale intent_cell =
  fixes present :: "'a \<Rightarrow> bool"
    and get_intent :: "'a \<Rightarrow> bool option"
    and put_intent :: "bool \<Rightarrow> 'a \<Rightarrow> 'a"
    and drop_intent :: "'a \<Rightarrow> 'a"
  assumes get_put: "present a \<Longrightarrow> get_intent (put_intent v a) = Some v"
    and get_drop: "get_intent (drop_intent a) = None"
    and present_put: "present a \<Longrightarrow> present (put_intent v a)"
begin

lemma present_puts: "present a \<Longrightarrow> present (fold put_intent vs a)"
  by (induction vs arbitrary: a) (auto simp: present_put)

lemma last_put_wins: "present a \<Longrightarrow> get_intent (fold put_intent (vs @ [v]) a) = Some v"
  by (simp add: get_put present_puts)

lemma get_Some_put: "present a \<Longrightarrow> get_intent (put_intent v a) \<noteq> None"
  by (simp add: get_put)

end

interpretation persisted: intent_cell "\<lambda>_. True" readPersistedIntent writePersistedIntent clearPersistedIntent
  by unfold_locales
    (simp_all add: readPersistedIntent_def writePersistedIntent_def clearPersistedIntent_def
      js_bool_option_def)

interpretation session: intent_cell "\<lambda>a. a \<noteq> None" readSessionIntent writeSessionIntent clearSessionIntent
  by unfold_locales
    (auto simp: readSessionIntent_def writeSessionIntent_def clearSessionIntent_def
      js_bool_option_def split: option.splits)

end
