(* ===== verification/Routing_Protection.thy ===== *)
theory Routing_Protection
  imports State_Store
begin

text \<open>
  Routing protection (\<open>packages/shared/src/background/routing-protection.ts\<close>): the policy derived
  from a state, the protected snapshots per account, and the operations that record, release and
  restore them. \<open>decorate\<close> decides what the browser may do with a request; the lemmas show when it
  fails closed, that a live exit-node policy needs that very exit node online, that protection only
  widens for an account, and that it survives a restart.
\<close>

section \<open>Account scopes\<close>

text \<open>\<open>JSON.stringify\<close> of a string and of the pair of control server and node id.\<close>

definition json_char :: "char \<Rightarrow> string" where
  "json_char c = (let n = of_char c :: nat in
     if c = dquote \<or> c = backslash then [backslash, c]
     else if n = 8 then [backslash, CHR ''b'']
     else if n = 9 then [backslash, CHR ''t'']
     else if n = 10 then [backslash, CHR ''n'']
     else if n = 12 then [backslash, CHR ''f'']
     else if n = 13 then [backslash, CHR ''r'']
     else if n < 32 then [backslash, CHR ''u'', CHR ''0'', CHR ''0'', hex_digit (n div 16), hex_digit (n mod 16)]
     else [c])"

definition json_string :: "string \<Rightarrow> string" where
  "json_string s = dquote # concat (map json_char s) @ [dquote]"

definition scope_of :: "string \<Rightarrow> string \<Rightarrow> string" where
  "scope_of controlURL nodeID = ''['' @ json_string controlURL @ '','' @ json_string nodeID @ '']''"

text \<open>The scope of a node and its preferences, when both are known.\<close>

definition account_scope :: "SelfNode option \<Rightarrow> TailscalePrefs option \<Rightarrow> string option" where
  "account_scope node prefs =
     (case (node, prefs) of
        (Some n, Some p) \<Rightarrow>
          if self_id n = [] then None else Some (scope_of (js_default (pref_controlURL p) []) (self_id n))
      | _ \<Rightarrow> None)"

section \<open>State\<close>

record Snapshot =
  sn_scope :: string
  sn_selectedExitNodeID :: "string option"
  sn_magicDNSSuffix :: string
  sn_subnetCIDRs :: "string list"
  sn_shortNames :: "string list"
  sn_dnsRoutes :: "string list"
  sn_domainSplit :: DomainSplitConfig

record SavedRouting =
  sv_active :: "Snapshot option"
  sv_profiles :: "Snapshot list"
  sv_released :: bool
  sv_transitioning :: bool
  sv_transitionScope :: "string option"
  sv_pendingExit :: "string option"
  sv_pendingDisconnect :: bool
  sv_pendingLogin :: bool

text \<open>
  \<open>rt_savedKey\<close> is the value whose JSON text the source keeps, \<^const>\<open>None\<close> for the empty text;
  \<open>rt_writes\<close> is the chain of storage writes, oldest first. The profile map is an association list
  in insertion order.
\<close>

record RoutingProtection =
  rt_active :: "Snapshot option"
  rt_profiles :: "(string \<times> Snapshot) list"
  rt_ready :: bool
  rt_uncertain :: bool
  rt_released :: bool
  rt_transitioning :: bool
  rt_transitionScope :: "string option"
  rt_pendingExit :: "string option"
  rt_pendingDisconnect :: bool
  rt_pendingLogin :: bool
  rt_savedKey :: "SavedRouting option"
  rt_writes :: "SavedRouting list"
  rt_revision :: nat

definition routing_init :: RoutingProtection where
  "routing_init =
     \<lparr>rt_active = None, rt_profiles = [], rt_ready = False, rt_uncertain = False,
      rt_released = False, rt_transitioning = False, rt_transitionScope = None,
      rt_pendingExit = None, rt_pendingDisconnect = False, rt_pendingLogin = False,
      rt_savedKey = None, rt_writes = [], rt_revision = 0\<rparr>"

definition BLOCKED_PROXY_PORT :: int where
  "BLOCKED_PROXY_PORT = 1"

section \<open>Validation of a stored snapshot\<close>

definition strings :: "jsval \<Rightarrow> (string \<Rightarrow> bool) \<Rightarrow> string list" where
  "strings v valid =
     (case v of
        JArr vs \<Rightarrow> js_uniq (List.map_filter (\<lambda>x. case x of JStr s \<Rightarrow> if valid s then Some s else None | _ \<Rightarrow> None) vs)
      | _ \<Rightarrow> [])"

text \<open>\<open>new Set(vs).size\<close>: equal primitives count once, every object counts.\<close>

definition is_object :: "jsval \<Rightarrow> bool" where
  "is_object v = (case v of JArr _ \<Rightarrow> True | JObj _ \<Rightarrow> True | _ \<Rightarrow> False)"

definition js_set_size :: "jsval list \<Rightarrow> nat" where
  "js_set_size vs =
     length (js_uniq (filter (\<lambda>v. \<not> is_object v) vs)) + length (filter is_object vs)"

text \<open>One of the three list fields: present, short enough, and nothing was dropped by cleaning.\<close>

definition clean_list_field :: "jsval \<Rightarrow> string list \<Rightarrow> bool" where
  "clean_list_field raw clean =
     (case raw of JArr vs \<Rightarrow> length vs \<le> 8192 \<and> length clean = js_set_size vs | _ \<Rightarrow> False)"

text \<open>The test \<open>/\/\d{1,2}$/\<close>.\<close>

definition has_short_prefix :: "string \<Rightarrow> bool" where
  "has_short_prefix s \<longleftrightarrow>
     (let ds = takeWhile is_digit (rev s); rest = drop (length ds) (rev s)
      in 1 \<le> length ds \<and> length ds \<le> 2 \<and> rest \<noteq> [] \<and> hd rest = CHR ''/'')"

definition stored_cidr :: "string \<Rightarrow> bool" where
  "stored_cidr s = (if CHR '':'' \<in> set s then isSupportedSubnetCIDR s
     else has_short_prefix s \<and> parseCIDR s \<noteq> None)"

definition stored_short_name :: "string \<Rightarrow> bool" where
  "stored_short_name s \<longleftrightarrow> CHR ''.'' \<notin> set s \<and> sanitizeDNSName (JStr s) = Some s"

definition stored_route :: "string \<Rightarrow> bool" where
  "stored_route s \<longleftrightarrow> sanitizeDNSName (JStr s) = Some s"

text \<open>\<open>raw.selectedExitNodeID\<close>: \<open>Some None\<close> is \<open>null\<close>, \<^const>\<open>None\<close> rejects the snapshot.\<close>

definition stored_exit :: "jsval \<Rightarrow> string option option" where
  "stored_exit v =
     (case v of
        JNull \<Rightarrow> Some None
      | JStr s \<Rightarrow> if length s > 256 then None else Some (Some s)
      | _ \<Rightarrow> None)"

definition stored_split :: "jsval \<Rightarrow> DomainSplitConfig option" where
  "stored_split v =
     (case v of
        JObj ps \<Rightarrow>
          (let split = normalizeDomainSplit v in
           if length ps = 2 \<and> js_get v ''mode'' = JStr (mode_text (split_mode split)) \<and>
              js_get v ''domains'' = js_strings (split_domains split)
           then Some split else None)
      | _ \<Rightarrow> None)"

definition snapshot :: "jsval \<Rightarrow> Snapshot option" where
  "snapshot v =
     (let subnetCIDRs = strings (js_get v ''subnetCIDRs'') stored_cidr;
          shortNames = strings (js_get v ''shortNames'') stored_short_name;
          dnsRoutes = strings (js_get v ''dnsRoutes'') stored_route
      in case (js_get v ''scope'', stored_exit (js_get v ''selectedExitNodeID'')) of
           (JStr scope, Some selected) \<Rightarrow>
             if length scope > 4096 then None
             else if \<not> clean_list_field (js_get v ''subnetCIDRs'') subnetCIDRs
               \<or> \<not> clean_list_field (js_get v ''shortNames'') shortNames
               \<or> \<not> clean_list_field (js_get v ''dnsRoutes'') dnsRoutes then None
             else (case (js_get v ''magicDNSSuffix'', stored_split (js_get v ''domainSplit'')) of
                     (JStr suf, Some split) \<Rightarrow>
                       if sanitizeMagicDNSSuffix (Some suf) \<noteq> suf then None
                       else Some \<lparr>sn_scope = scope, sn_selectedExitNodeID = selected,
                              sn_magicDNSSuffix = sanitizeMagicDNSSuffix (Some suf),
                              sn_subnetCIDRs = subnetCIDRs, sn_shortNames = shortNames,
                              sn_dnsRoutes = dnsRoutes, sn_domainSplit = split\<rparr>
                   | _ \<Rightarrow> None)
         | _ \<Rightarrow> None)"

section \<open>Policies\<close>

definition emptyPolicy :: RoutingPolicy where
  "emptyPolicy =
     \<lparr>rp_blockAll = False, rp_mode = PDirect, rp_proxyPort = None, rp_selectedExitNodeID = None,
      rp_magicDNSSuffix = [], rp_subnetCIDRs = [], rp_shortNames = [], rp_dnsRoutes = [],
      rp_domainSplit = \<lparr>split_mode = Bypass, split_domains = []\<rparr>, rp_scope = None\<rparr>"

definition blockAllPolicy :: RoutingPolicy where
  "blockAllPolicy = emptyPolicy\<lparr>rp_mode := PBlocked, rp_blockAll := True\<rparr>"

text \<open>The exit node of the state is online and is the one named.\<close>

definition exit_live :: "TailscaleState \<Rightarrow> string \<Rightarrow> bool" where
  "exit_live s x = (case ts_exitNode s of Some e \<Rightarrow> exit_online e \<and> exit_id e = x | None \<Rightarrow> False)"

definition state_selected_exit :: "TailscaleState \<Rightarrow> string option" where
  "state_selected_exit s =
     js_or (ts_pendingExitNodeID s)
       (js_or (case ts_prefs s of Some p \<Rightarrow> pref_exitNodeID p | None \<Rightarrow> None)
         (truthy (map_option exit_id (ts_exitNode s))))"

definition policyFromState :: "TailscaleState \<Rightarrow> RoutingPolicy" where
  "policyFromState s =
     (case ts_routingPolicy s of
        Some p \<Rightarrow> p
      | None \<Rightarrow>
          (let selected = state_selected_exit s in
           emptyPolicy\<lparr>
             rp_mode := (if shouldProxyState s
                         then (case selected of
                                 Some x \<Rightarrow> if exit_live s x then PActive else PBlocked
                               | None \<Rightarrow> PActive)
                         else PDirect),
             rp_proxyPort := ts_proxyPort s,
             rp_selectedExitNodeID := selected,
             rp_magicDNSSuffix := sanitizeMagicDNSSuffix (ts_magicDNSSuffix s),
             rp_subnetCIDRs := filter isSupportedSubnetCIDR (collectSubnetCIDRs (ts_peers s)),
             rp_shortNames := collectShortNames (ts_peers s) (ts_selfNode s) (ts_magicDNSSuffix s),
             rp_dnsRoutes := sanitizeDNSRoutes (js_strings
               (case ts_dnsRoutes s of Some rs \<Rightarrow> rs
                | None \<Rightarrow> sanitizeSplitDNSDomains (js_strings (ts_splitDNSDomains s)))),
             rp_domainSplit := normalize_split (ts_domainSplit s)\<rparr>))"

section \<open>Saving\<close>

definition saved_value :: "RoutingProtection \<Rightarrow> SavedRouting" where
  "saved_value r =
     \<lparr>sv_active = rt_active r, sv_profiles = take_last 32 (map snd (rt_profiles r)),
      sv_released = rt_released r, sv_transitioning = rt_transitioning r,
      sv_transitionScope = rt_transitionScope r, sv_pendingExit = rt_pendingExit r,
      sv_pendingDisconnect = rt_pendingDisconnect r, sv_pendingLogin = rt_pendingLogin r\<rparr>"

definition save :: "RoutingProtection \<Rightarrow> RoutingProtection" where
  "save r0 =
     (let r = (case rt_active r0 of
                 Some a \<Rightarrow> r0\<lparr>rt_profiles := AList.update (sn_scope a) a (rt_profiles r0)\<rparr>
               | None \<Rightarrow> r0);
          v = saved_value r
      in if rt_savedKey r = Some v then r
         else r\<lparr>rt_savedKey := Some v, rt_writes := rt_writes r @ [v]\<rparr>)"

text \<open>A rejected storage write: the next \<open>save\<close> writes again.\<close>

definition save_failed :: "RoutingProtection \<Rightarrow> RoutingProtection" where
  "save_failed r = r\<lparr>rt_savedKey := None\<rparr>"

section \<open>Operations\<close>

definition selectExitNode :: "string \<Rightarrow> RoutingProtection \<Rightarrow> RoutingProtection" where
  "selectExitNode x r =
     save (r\<lparr>rt_revision := rt_revision r + 1, rt_pendingExit := Some x, rt_released := False,
             rt_active := (if x \<noteq> [] then map_option (\<lambda>a. a\<lparr>sn_selectedExitNodeID := Some x\<rparr>) (rt_active r)
                           else rt_active r)\<rparr>)"

definition requestDisconnect :: "RoutingProtection \<Rightarrow> RoutingProtection" where
  "requestDisconnect r = save (r\<lparr>rt_pendingDisconnect := True\<rparr>)"

definition reconnect :: "RoutingProtection \<Rightarrow> RoutingProtection" where
  "reconnect r = (if \<not> rt_pendingLogin r then r\<lparr>rt_released := False\<rparr> else r)"

definition releaseRouting :: "bool \<Rightarrow> RoutingProtection \<Rightarrow> RoutingProtection" where
  "releaseRouting pendingLogin r =
     save (r\<lparr>rt_revision := rt_revision r + 1, rt_transitioning := False, rt_transitionScope := None,
             rt_uncertain := False, rt_pendingExit := None, rt_pendingDisconnect := False,
             rt_pendingLogin := pendingLogin, rt_released := True\<rparr>)"

definition startLogin :: "RoutingProtection \<Rightarrow> RoutingProtection" where
  "startLogin r = releaseRouting True r"

definition release :: "RoutingProtection \<Rightarrow> RoutingProtection" where
  "release r = releaseRouting False r"

definition isLoginPending :: "RoutingProtection \<Rightarrow> bool" where
  "isLoginPending r = rt_pendingLogin r"

definition switchProfile :: "TailscaleState \<Rightarrow> RoutingProtection \<Rightarrow> RoutingProtection" where
  "switchProfile s r =
     save (r\<lparr>rt_released := False, rt_pendingLogin := False, rt_pendingExit := None,
             rt_pendingDisconnect := False, rt_transitioning := True,
             rt_transitionScope :=
               (case account_scope (ts_selfNode s) (ts_prefs s) of
                  Some scope \<Rightarrow> Some scope
                | None \<Rightarrow>
                    if ts_backendState s = NeedsLogin \<and>
                       (case ts_selfNode s of Some n \<Rightarrow> self_id n = [] | None \<Rightarrow> True) \<and>
                       ts_hostConnected s \<and> ts_initialized s
                    then None else map_option sn_scope (rt_active r))\<rparr>)"

section \<open>Confirming a status\<close>

datatype js_error = TypeError

text \<open>
  \<open>collectSubnetCIDRs\<close> reads \<open>peer.subnets.length\<close> of every subnet router, which throws when the
  helper sent no list. The store fills the lists in, but \<open>confirmStatus\<close> runs on the raw status.
\<close>

definition missing_subnets :: "StatusUpdate \<Rightarrow> bool" where
  "missing_subnets st =
     list_ex (\<lambda>p. peer_isSubnetRouter p \<and> peer_subnets p = None) (js_default (st_peers st) [])"

text \<open>
  \<open>{...state, ...status, routingPolicy: undefined, pendingExitNodeID: null}\<close>, on the fields that
  \<open>policyFromState\<close> reads. A missing \<open>exitNode\<close> of the status stands for an absent field here; for a
  \<open>null\<close> the merged state would hold \<open>null\<close>, which changes the mode and the selected exit node of the
  derived policy, and \<open>confirmStatus\<close> uses neither.
\<close>

definition merge_status :: "StatusUpdate \<Rightarrow> TailscaleState \<Rightarrow> TailscaleState" where
  "merge_status st s =
     s\<lparr>ts_backendState := st_backendState st,
       ts_selfNode := (case st_selfNode st of Some n \<Rightarrow> Some n | None \<Rightarrow> ts_selfNode s),
       ts_peers := js_default (st_peers st) [],
       ts_exitNode := (case st_exitNode st of Some e \<Rightarrow> Some e | None \<Rightarrow> ts_exitNode s),
       ts_magicDNSSuffix := Some (st_magicDNSSuffix st),
       ts_splitDNSDomains := (case st_splitDNSDomains st of Some d \<Rightarrow> d | None \<Rightarrow> ts_splitDNSDomains s),
       ts_dnsRoutes := (case st_dnsRoutes st of Some d \<Rightarrow> Some d | None \<Rightarrow> ts_dnsRoutes s),
       ts_prefs := (case st_prefs st of Some p \<Rightarrow> Some p | None \<Rightarrow> ts_prefs s),
       ts_routingPolicy := None, ts_pendingExitNodeID := None\<rparr>"

definition status_scope :: "StatusUpdate \<Rightarrow> string option" where
  "status_scope st = account_scope (st_selfNode st) (st_prefs st)"

definition confirmed_exit :: "StatusUpdate \<Rightarrow> string option" where
  "confirmed_exit st =
     js_or (case st_prefs st of Some p \<Rightarrow> pref_exitNodeID p | None \<Rightarrow> None)
       (truthy (map_option exit_id (st_exitNode st)))"

text \<open>The flags settled by the status before any early return (lines 262--285).\<close>

definition settle_flags :: "StatusUpdate \<Rightarrow> RoutingProtection \<Rightarrow> RoutingProtection" where
  "settle_flags st r0 =
     (let scope = status_scope st;
          r1 = (if rt_pendingLogin r0 \<and> st_backendState st = Running \<and> scope \<noteq> None
                then r0\<lparr>rt_pendingLogin := False, rt_released := False\<rparr> else r0);
          r2 = (if scope \<noteq> None \<and> scope \<noteq> rt_transitionScope r1
                then r1\<lparr>rt_transitioning := False, rt_transitionScope := None\<rparr> else r1)
      in if scope \<noteq> None \<and> scope \<noteq> map_option sn_scope (rt_active r2)
         then r2\<lparr>rt_pendingExit := None, rt_pendingDisconnect := False\<rparr> else r2)"

definition prior_snapshot :: "string \<Rightarrow> RoutingProtection \<Rightarrow> Snapshot option" where
  "prior_snapshot scope r =
     (if map_option sn_scope (rt_active r) = Some scope then rt_active r
      else map_of (rt_profiles r) scope)"

text \<open>The exit node the account is protected with after the status.\<close>

definition selected_after :: "string option \<Rightarrow> string option \<Rightarrow> Snapshot option \<Rightarrow> string option" where
  "selected_after pendingExit confirmed prior =
     (if pendingExit = Some [] \<and> confirmed = None then None
      else js_or pendingExit (js_or confirmed (truthy (Option.bind prior sn_selectedExitNodeID))))"

definition snapshot_after :: "StatusUpdate \<Rightarrow> TailscaleState \<Rightarrow> string \<Rightarrow> string option \<Rightarrow> Snapshot option \<Rightarrow> Snapshot" where
  "snapshot_after st s scope selected prior =
     (let policy = policyFromState (merge_status st s);
          old = (\<lambda>f. case prior of Some p \<Rightarrow> f p | None \<Rightarrow> [])
      in \<lparr>sn_scope = scope,
          sn_selectedExitNodeID = selected,
          sn_magicDNSSuffix =
            (if rp_magicDNSSuffix policy \<noteq> [] then rp_magicDNSSuffix policy
             else (case prior of Some p \<Rightarrow> sn_magicDNSSuffix p | None \<Rightarrow> [])),
          sn_subnetCIDRs = js_uniq (old sn_subnetCIDRs @ rp_subnetCIDRs policy),
          sn_shortNames =
            (if st_peers st \<noteq> None \<and> \<not> st_peersTruncated st \<and>
                sanitizeDNSName (JStr (st_magicDNSSuffix st)) \<noteq> None
             then rp_shortNames policy
             else js_uniq (old sn_shortNames @ rp_shortNames policy)),
          sn_dnsRoutes =
            (case st_dnsRoutes st of
               Some rs \<Rightarrow> sanitizeDNSRoutes (js_strings rs)
             | None \<Rightarrow> (case legacy_domains st of
                         Some ds \<Rightarrow> sanitizeDNSRoutes (js_strings ds)
                       | None \<Rightarrow> old sn_dnsRoutes)),
          sn_domainSplit = rp_domainSplit policy\<rparr>)"

text \<open>A pending exit-node choice that the status confirms is no longer pending.\<close>

definition settle_exit :: "StatusUpdate \<Rightarrow> RoutingProtection \<Rightarrow> RoutingProtection" where
  "settle_exit st r =
     (if rt_pendingExit r \<noteq> None \<and> truthy (rt_pendingExit r) = confirmed_exit st
      then r\<lparr>rt_pendingExit := None\<rparr> else r)"

text \<open>The result carries the exception the call throws, if any, beside the state it leaves.\<close>

definition confirmStatus :: "StatusUpdate \<Rightarrow> TailscaleState \<Rightarrow> RoutingProtection \<Rightarrow> js_error option \<times> RoutingProtection" where
  "confirmStatus st s r0 =
     (let r = settle_flags st r0 in
      if rt_pendingDisconnect r \<and> (st_backendState st = Stopped \<or> st_backendState st = NeedsLogin)
      then (None, release r)
      else (case status_scope st of
              None \<Rightarrow> (None, r)
            | Some scope \<Rightarrow>
                if rt_released r then (None, r)
                else
                  (let prior = prior_snapshot scope r;
                       selected = selected_after (rt_pendingExit r) (confirmed_exit st) prior;
                       r' = settle_exit st r
                   in if prior = None \<and> selected = None \<and> st_backendState st \<noteq> Running then (None, r')
                      else if missing_subnets st then (Some TypeError, r')
                      else (None, save (r'\<lparr>rt_active := Some (snapshot_after st s scope selected prior)\<rparr>)))))"

section \<open>Decorating a state\<close>

definition snapshot_policy :: "Snapshot \<Rightarrow> DomainSplitConfig \<Rightarrow> bool \<Rightarrow> int option \<Rightarrow> RoutingPolicy" where
  "snapshot_policy a split live port =
     \<lparr>rp_blockAll = False, rp_mode = (if live then PActive else PBlocked),
      rp_proxyPort = (if live then port else None),
      rp_selectedExitNodeID = sn_selectedExitNodeID a, rp_magicDNSSuffix = sn_magicDNSSuffix a,
      rp_subnetCIDRs = sn_subnetCIDRs a, rp_shortNames = sn_shortNames a,
      rp_dnsRoutes = sn_dnsRoutes a, rp_domainSplit = split, rp_scope = Some (sn_scope a)\<rparr>"

text \<open>The snapshot is the live account's and its exit node, if any, is the one online.\<close>

definition snapshot_live :: "TailscaleState \<Rightarrow> Snapshot \<Rightarrow> bool" where
  "snapshot_live s a \<longleftrightarrow>
     shouldProxyState s \<and>
     account_scope (ts_selfNode s) (ts_prefs s) = Some (sn_scope a) \<and>
     (case truthy (sn_selectedExitNodeID a) of None \<Rightarrow> True | Some x \<Rightarrow> exit_live s x)"

definition decorate_policy :: "TailscaleState \<Rightarrow> RoutingProtection \<Rightarrow> RoutingProtection \<times> RoutingPolicy" where
  "decorate_policy s r =
     (if \<not> rt_ready r \<or> rt_uncertain r \<or> rt_transitioning r then (r, blockAllPolicy)
      else if rt_released r then (r, emptyPolicy)
      else (case rt_active r of
              Some a0 \<Rightarrow>
                (let split = normalize_split (ts_domainSplit s);
                     a = a0\<lparr>sn_domainSplit := split\<rparr>;
                     r' = (if split \<noteq> sn_domainSplit a0 then save (r\<lparr>rt_active := Some a\<rparr>) else r)
                 in (r', snapshot_policy a split (snapshot_live s a) (ts_proxyPort s)))
            | None \<Rightarrow>
                if ts_backendState s = Running \<and> account_scope (ts_selfNode s) (ts_prefs s) = None
                then (r, blockAllPolicy)
                else if \<not> shouldProxyState s then (r, emptyPolicy)
                else (r, policyFromState s)))"

definition decorate :: "TailscaleState \<Rightarrow> RoutingProtection \<Rightarrow> RoutingProtection \<times> TailscaleState" where
  "decorate s r =
     (let (r', policy) = decorate_policy s r
      in (r', s\<lparr>ts_routingPolicy := Some policy, ts_selectedExitNodeID := rp_selectedExitNodeID policy\<rparr>))"

section \<open>Restoring\<close>

definition is_true :: "jsval \<Rightarrow> bool" where
  "is_true v \<longleftrightarrow> v = JBool True"

text \<open>A string property of at most \<open>n\<close> code units.\<close>

definition short_string :: "nat \<Rightarrow> jsval \<Rightarrow> string option" where
  "short_string n v = (case v of JStr s \<Rightarrow> if length s \<le> n then Some s else None | _ \<Rightarrow> None)"

definition restore_profiles :: "jsval \<Rightarrow> (string \<times> Snapshot) list \<Rightarrow> (string \<times> Snapshot) list" where
  "restore_profiles v ps =
     (case v of
        JArr vs \<Rightarrow> fold (\<lambda>x m. AList.update (sn_scope x) x m) (List.map_filter snapshot (take_last 32 vs)) ps
      | _ \<Rightarrow> ps)"

definition restore_saved :: "jsval \<Rightarrow> RoutingProtection \<Rightarrow> RoutingProtection" where
  "restore_saved saved r =
     (let released = is_true (js_get saved ''released'');
          active = snapshot (js_get saved ''active'')
      in r\<lparr>rt_released := released,
           rt_pendingLogin := released \<and> is_true (js_get saved ''pendingLogin''),
           rt_transitioning := is_true (js_get saved ''transitioning''),
           rt_active := active,
           rt_transitionScope :=
             (if js_get saved ''transitionScope'' = JNull then None
              else (case short_string 4096 (js_get saved ''transitionScope'') of
                      Some scope \<Rightarrow> Some scope
                    | None \<Rightarrow> map_option sn_scope active)),
           rt_pendingExit :=
             (if active \<noteq> None then short_string 256 (js_get saved ''pendingExit'') else rt_pendingExit r),
           rt_pendingDisconnect :=
             (if active \<noteq> None then is_true (js_get saved ''pendingDisconnect'') else rt_pendingDisconnect r),
           rt_uncertain := js_get saved ''active'' \<noteq> JNull \<and> active = None,
           rt_profiles := restore_profiles (js_get saved ''profiles'') (rt_profiles r)\<rparr>)"

text \<open>
  The continuation of \<open>restore\<close> after the storage read: \<open>revision\<close> is the one captured before it,
  \<^const>\<open>None\<close> is a rejected read.
\<close>

definition restore :: "nat \<Rightarrow> jsval option \<Rightarrow> RoutingProtection \<Rightarrow> RoutingProtection" where
  "restore revision result r =
     (if revision \<noteq> rt_revision r then r\<lparr>rt_ready := True\<rparr>
      else (case result of
              None \<Rightarrow> r\<lparr>rt_uncertain := True, rt_ready := True\<rparr>
            | Some saved \<Rightarrow>
                (if js_truthy saved then restore_saved saved r else r)\<lparr>rt_ready := True\<rparr>))"

section \<open>The stored form\<close>

definition js_null_str :: "string option \<Rightarrow> jsval" where
  "js_null_str v = (case v of Some s \<Rightarrow> JStr s | None \<Rightarrow> JNull)"

definition snapshot_js :: "Snapshot \<Rightarrow> jsval" where
  "snapshot_js a = JObj
     [(''scope'', JStr (sn_scope a)),
      (''selectedExitNodeID'', js_null_str (sn_selectedExitNodeID a)),
      (''magicDNSSuffix'', JStr (sn_magicDNSSuffix a)),
      (''subnetCIDRs'', js_strings (sn_subnetCIDRs a)),
      (''shortNames'', js_strings (sn_shortNames a)),
      (''dnsRoutes'', js_strings (sn_dnsRoutes a)),
      (''domainSplit'', split_js (sn_domainSplit a))]"

definition saved_js :: "SavedRouting \<Rightarrow> jsval" where
  "saved_js v = JObj
     [(''active'', case sv_active v of Some a \<Rightarrow> snapshot_js a | None \<Rightarrow> JNull),
      (''released'', JBool (sv_released v)),
      (''transitioning'', JBool (sv_transitioning v)),
      (''transitionScope'', js_null_str (sv_transitionScope v)),
      (''pendingExit'', js_null_str (sv_pendingExit v)),
      (''pendingDisconnect'', JBool (sv_pendingDisconnect v)),
      (''pendingLogin'', JBool (sv_pendingLogin v)),
      (''profiles'', JArr (map snapshot_js (sv_profiles v)))]"

section \<open>Scopes separate accounts\<close>

text \<open>A decoder for one escaped character; the quote that ends a string decodes to nothing.\<close>

definition json_unescape :: "char \<Rightarrow> char" where
  "json_unescape c =
     (if c = CHR ''b'' then char_of (8::nat) else if c = CHR ''t'' then char_of (9::nat)
      else if c = CHR ''n'' then char_of (10::nat) else if c = CHR ''f'' then char_of (12::nat)
      else if c = CHR ''r'' then char_of (13::nat) else c)"

fun json_decode_char :: "string \<Rightarrow> (char \<times> string) option" where
  "json_decode_char [] = None"
| "json_decode_char (c # cs) =
     (if c = dquote then None
      else if c \<noteq> backslash then Some (c, cs)
      else (case cs of
              [] \<Rightarrow> None
            | d # ds \<Rightarrow>
                if d = CHR ''u''
                then Some (char_of (hex_val (ds ! 2) * 16 + hex_val (ds ! 3)), drop 4 ds)
                else Some (json_unescape d, ds)))"

lemma char_eq_char_of: "of_char c = (n::nat) \<Longrightarrow> c = char_of n"
  by auto

lemma json_decode_json_char: "json_decode_char (json_char c @ rest) = Some (c, rest)"
proof -
  let ?n = "of_char c :: nat"
  have "hex_val (hex_digit (?n div 16)) * 16 + hex_val (hex_digit (?n mod 16)) = ?n"
    if "?n < 32" using that by (simp add: hex_val_hex_digit)
  then show ?thesis
    by (auto simp: json_char_def json_unescape_def Let_def dest: char_eq_char_of)
qed

lemma json_chars_inj:
  "concat (map json_char s) @ dquote # x = concat (map json_char t) @ dquote # y \<Longrightarrow> s = t \<and> x = y"
proof (induction s arbitrary: t)
  case Nil
  show ?case
  proof (cases t)
    case (Cons c t')
    with Nil have "json_decode_char (dquote # x) = Some (c, concat (map json_char t') @ dquote # y)"
      by (simp add: json_decode_json_char)
    then show ?thesis by simp
  qed (use Nil in simp)
next
  case (Cons c s)
  have "concat (map json_char t) @ dquote # y = json_char c @ (concat (map json_char s) @ dquote # x)"
    using Cons.prems by simp
  then have dec: "json_decode_char (concat (map json_char t) @ dquote # y) =
      Some (c, concat (map json_char s) @ dquote # x)"
    by (simp only: json_decode_json_char)
  show ?case
  proof (cases t)
    case Nil
    with dec show ?thesis by simp
  next
    case (Cons d t')
    with dec have "c = d" "concat (map json_char s) @ dquote # x = concat (map json_char t') @ dquote # y"
      using json_decode_json_char [of d] by auto
    with Cons Cons.IH show ?thesis by auto
  qed
qed

text \<open>Two accounts have the same scope exactly when server and node agree: snapshots of different accounts never mix.\<close>

lemma scope_of_inj: "scope_of u i = scope_of v j \<longleftrightarrow> u = v \<and> i = j"
proof
  assume "scope_of u i = scope_of v j"
  then have "concat (map json_char u) @ dquote # ('','' @ json_string i @ '']'') =
      concat (map json_char v) @ dquote # ('','' @ json_string j @ '']'')"
    by (simp add: scope_of_def json_string_def)
  then have "u = v" and "concat (map json_char i) @ dquote # [] = concat (map json_char j) @ dquote # []"
    by (auto dest!: json_chars_inj simp: json_string_def)
  then show "u = v \<and> i = j" using json_chars_inj [of i "[]" j "[]"] by simp
qed simp

section \<open>When a policy lets traffic through\<close>

lemma policyFromState_mode:
  assumes "ts_routingPolicy s = None"
  shows "rp_mode (policyFromState s) = PDirect \<longleftrightarrow> \<not> shouldProxyState s"
    and "rp_mode (policyFromState s) = PActive \<Longrightarrow> rp_selectedExitNodeID (policyFromState s) = Some x \<Longrightarrow> exit_live s x"
    and "rp_mode (policyFromState s) = PActive \<Longrightarrow> rp_proxyPort (policyFromState s) = ts_proxyPort s"
  using assms by (auto simp: policyFromState_def emptyPolicy_def Let_def split: option.splits if_splits)

lemma blockAllPolicy_simps [simp]:
  "rp_mode blockAllPolicy = PBlocked" "rp_blockAll blockAllPolicy"
  by (simp_all add: blockAllPolicy_def)

lemma emptyPolicy_simps [simp]:
  "rp_mode emptyPolicy = PDirect" "\<not> rp_blockAll emptyPolicy" "rp_proxyPort emptyPolicy = None"
  "rp_selectedExitNodeID emptyPolicy = None"
  by (simp_all add: emptyPolicy_def)

lemma snapshot_policy_simps [simp]:
  "rp_mode (snapshot_policy a d live p) = (if live then PActive else PBlocked)"
  "rp_selectedExitNodeID (snapshot_policy a d live p) = sn_selectedExitNodeID a"
  "rp_blockAll (snapshot_policy a d live p) = False"
  "rp_proxyPort (snapshot_policy a d live p) = (if live then p else None)"
  "rp_subnetCIDRs (snapshot_policy a d live p) = sn_subnetCIDRs a"
  "rp_domainSplit (snapshot_policy a d live p) = d"
  by (simp_all add: snapshot_policy_def)

text \<open>Browsing is left unprotected exactly when the protection is restored, certain and not switching, and either the user released it or no account is protected and none is running.\<close>

lemma decorate_direct_iff:
  assumes "ts_routingPolicy s = None"
  shows "rp_mode (snd (decorate_policy s r)) = PDirect \<longleftrightarrow>
    rt_ready r \<and> \<not> rt_uncertain r \<and> \<not> rt_transitioning r \<and>
    (rt_released r \<or> rt_active r = None \<and> \<not> shouldProxyState s \<and>
       \<not> (ts_backendState s = Running \<and> account_scope (ts_selfNode s) (ts_prefs s) = None))"
  using policyFromState_mode(1) [OF assms]
  by (auto simp: decorate_policy_def Let_def split: option.splits)

lemma decorate_active_exit:
  assumes "ts_routingPolicy s = None" and "rp_mode (snd (decorate_policy s r)) = PActive"
  shows "shouldProxyState s"
    and "rp_selectedExitNodeID (snd (decorate_policy s r)) = Some x \<Longrightarrow> x \<noteq> [] \<Longrightarrow> exit_live s x"
    and "rp_proxyPort (snd (decorate_policy s r)) = ts_proxyPort s"
proof -
  have 1: "shouldProxyState s \<and>
      (rp_selectedExitNodeID (snd (decorate_policy s r)) = Some x \<longrightarrow> x \<noteq> [] \<longrightarrow> exit_live s x) \<and>
      rp_proxyPort (snd (decorate_policy s r)) = ts_proxyPort s"
  proof (cases "rt_active r")
    case None
    with assms policyFromState_mode [OF assms(1)] show ?thesis
      by (auto simp: decorate_policy_def split: if_splits)
  next
    case (Some a)
    with assms(2) show ?thesis
      by (auto simp: decorate_policy_def snapshot_live_def Let_def truthy_def split: if_splits option.splits)
  qed
  then show "shouldProxyState s"
    "rp_selectedExitNodeID (snd (decorate_policy s r)) = Some x \<Longrightarrow> x \<noteq> [] \<Longrightarrow> exit_live s x"
    "rp_proxyPort (snd (decorate_policy s r)) = ts_proxyPort s"
    by auto
qed

section \<open>Saving and restoring\<close>

definition snapshot_ok :: "Snapshot \<Rightarrow> bool" where
  "snapshot_ok a \<longleftrightarrow>
     list_all stored_cidr (sn_subnetCIDRs a) \<and> distinct (sn_subnetCIDRs a) \<and>
     list_all stored_short_name (sn_shortNames a) \<and> distinct (sn_shortNames a) \<and>
     list_all stored_route (sn_dnsRoutes a) \<and> distinct (sn_dnsRoutes a) \<and>
     sanitizeMagicDNSSuffix (Some (sn_magicDNSSuffix a)) = sn_magicDNSSuffix a \<and>
     clean_split (sn_domainSplit a)"

definition snapshot_small :: "Snapshot \<Rightarrow> bool" where
  "snapshot_small a \<longleftrightarrow>
     length (sn_scope a) \<le> 4096 \<and>
     (case sn_selectedExitNodeID a of Some x \<Rightarrow> length x \<le> 256 | None \<Rightarrow> True) \<and>
     length (sn_subnetCIDRs a) \<le> 8192 \<and> length (sn_shortNames a) \<le> 8192 \<and>
     length (sn_dnsRoutes a) \<le> 8192"

lemma map_filter_map_JStr:
  "List.map_filter (\<lambda>x. case x of JStr s \<Rightarrow> if valid s then Some s else None | _ \<Rightarrow> None) (map JStr xs)
     = filter valid xs"
  by (induction xs) (auto simp: List.map_filter_simps)

lemma strings_js_strings: "list_all valid xs \<Longrightarrow> distinct xs \<Longrightarrow> strings (js_strings xs) valid = xs"
  by (simp add: strings_def map_filter_map_JStr js_uniq_id list_all_iff)

lemma js_set_size_strings: "distinct xs \<Longrightarrow> js_set_size (map JStr xs) = length xs"
proof -
  assume "distinct xs"
  have "filter (\<lambda>v. \<not> is_object v) (map JStr xs) = map JStr xs" "filter is_object (map JStr xs) = []"
    by (auto simp: is_object_def filter_empty_conv intro: filter_True)
  with \<open>distinct xs\<close> show ?thesis
    by (simp add: js_set_size_def js_uniq_id distinct_map inj_on_def)
qed

lemma stored_split_js: "clean_split c \<Longrightarrow> stored_split (split_js c) = Some c"
proof -
  assume "clean_split c"
  then have "normalizeDomainSplit (split_js c) = c"
    using clean_split_fixed by (simp add: normalize_split_def)
  then show ?thesis
    by (simp add: stored_split_def split_js_def Let_def)
qed

lemma snapshot_roundtrip:
  assumes "snapshot_ok a" and "snapshot_small a"
  shows "snapshot (snapshot_js a) = Some a"
proof -
  have "stored_exit (js_null_str (sn_selectedExitNodeID a)) = Some (sn_selectedExitNodeID a)"
    using assms(2) by (auto simp: stored_exit_def js_null_str_def snapshot_small_def split: option.splits)
  with assms show ?thesis
    by (simp add: snapshot_def snapshot_js_def snapshot_ok_def snapshot_small_def strings_js_strings
        clean_list_field_def js_set_size_strings stored_split_js Let_def)
qed

definition pending_small :: "RoutingProtection \<Rightarrow> bool" where
  "pending_small r \<longleftrightarrow>
     (case rt_pendingExit r of Some x \<Rightarrow> length x \<le> 256 | None \<Rightarrow> True) \<and>
     (case rt_transitionScope r of Some x \<Rightarrow> length x \<le> 4096 | None \<Rightarrow> True)"

lemma is_true_JBool [simp]: "is_true (JBool b) = b"
  by (simp add: is_true_def)

lemma js_null_str_simps [simp]:
  "js_null_str v = JNull \<longleftrightarrow> v = None" "js_null_str (Some x) = JStr x" "js_null_str None = JNull"
  by (auto simp: js_null_str_def split: option.splits)

lemma short_string_simps [simp]:
  "short_string n JNull = None" "length x \<le> n \<Longrightarrow> short_string n (JStr x) = Some x"
  by (simp_all add: short_string_def)

lemma snapshot_js_not_JNull [simp]: "snapshot_js a \<noteq> JNull"
  by (simp add: snapshot_js_def)

lemma map_filter_snapshot:
  assumes "list_all (\<lambda>a. snapshot_ok a \<and> snapshot_small a) as"
  shows "List.map_filter snapshot (map snapshot_js as) = as"
  using assms by (induction as) (auto simp: List.map_filter_simps snapshot_roundtrip)

lemma update_append_fresh: "k \<notin> fst ` set ps \<Longrightarrow> AList.update k v ps = ps @ [(k, v)]"
  by (induction ps) auto

lemma fold_update_profiles:
  assumes "distinct (map fst ps)" and "\<forall>p\<in>set ps. fst p = sn_scope (snd p)"
    and "fst ` set ps \<inter> fst ` set qs = {}"
  shows "fold (\<lambda>x m. AList.update (sn_scope x) x m) (map snd ps) qs = qs @ ps"
  using assms
proof (induction ps arbitrary: qs)
  case (Cons p ps)
  obtain k a where p: "p = (k, a)" by (cases p)
  with Cons.prems have "AList.update (sn_scope a) a qs = qs @ [p]"
    by (auto simp: update_append_fresh)
  moreover have "fst ` set ps \<inter> fst ` set (qs @ [p]) = {}"
    using Cons.prems p by auto
  ultimately show ?case
    using Cons.IH [of "qs @ [p]"] Cons.prems p by auto
qed simp

text \<open>
  The profile list in memory and what a well-formed protection state is: every stored snapshot
  would be accepted again, and the last queued write is the value remembered as saved.
\<close>

definition profiles_ok :: "(string \<times> Snapshot) list \<Rightarrow> bool" where
  "profiles_ok ps \<longleftrightarrow>
     (\<forall>p\<in>set ps. fst p = sn_scope (snd p) \<and> snapshot_ok (snd p)) \<and> distinct (map fst ps)"

definition routing_inv :: "RoutingProtection \<Rightarrow> bool" where
  "routing_inv r \<longleftrightarrow>
     (\<forall>a. rt_active r = Some a \<longrightarrow> snapshot_ok a) \<and> profiles_ok (rt_profiles r) \<and>
     (\<forall>v. rt_savedKey r = Some v \<longrightarrow> rt_writes r \<noteq> [] \<and> last (rt_writes r) = v)"

definition fits_storage :: "RoutingProtection \<Rightarrow> bool" where
  "fits_storage r \<longleftrightarrow>
     (\<forall>a. rt_active r = Some a \<longrightarrow> snapshot_small a) \<and>
     (\<forall>p\<in>set (rt_profiles r). snapshot_small (snd p)) \<and>
     length (rt_profiles r) \<le> 32 \<and> pending_small r"

lemma restore_profiles_roundtrip:
  assumes "routing_inv r" and "fits_storage r"
  shows "restore_profiles (JArr (map snapshot_js (take_last 32 (map snd (rt_profiles r))))) [] = rt_profiles r"
proof -
  have "list_all (\<lambda>a. snapshot_ok a \<and> snapshot_small a) (map snd (rt_profiles r))"
    using assms by (simp add: routing_inv_def profiles_ok_def fits_storage_def list_all_iff)
  then have "List.map_filter snapshot (map snapshot_js (map snd (rt_profiles r))) = map snd (rt_profiles r)"
    by (rule map_filter_snapshot)
  moreover have "take_last 32 (map snapshot_js (map snd (rt_profiles r))) = map snapshot_js (map snd (rt_profiles r))"
    "take_last 32 (map snd (rt_profiles r)) = map snd (rt_profiles r)"
    using assms(2) by (simp_all add: fits_storage_def take_last_short)
  moreover have "fold (\<lambda>x m. AList.update (sn_scope x) x m) (map snd (rt_profiles r)) [] = rt_profiles r"
    using fold_update_profiles [of "rt_profiles r" "[]"] assms(1) by (simp add: routing_inv_def profiles_ok_def)
  ultimately show ?thesis
    by (simp add: restore_profiles_def)
qed

lemma restore_saved_value:
  assumes "routing_inv r" and "fits_storage r"
  defines "r2 \<equiv> restore 0 (Some (saved_js (saved_value r))) routing_init"
  shows "rt_active r2 = rt_active r" "rt_profiles r2 = rt_profiles r"
    "rt_released r2 = rt_released r" "rt_transitioning r2 = rt_transitioning r"
    "rt_transitionScope r2 = rt_transitionScope r" "rt_ready r2" "\<not> rt_uncertain r2"
    "rt_active r \<noteq> None \<Longrightarrow> rt_pendingExit r2 = rt_pendingExit r"
    "rt_active r \<noteq> None \<Longrightarrow> rt_pendingDisconnect r2 = rt_pendingDisconnect r"
    "rt_pendingLogin r2 = (rt_released r \<and> rt_pendingLogin r)"
proof -
  have act: "snapshot (case rt_active r of Some a \<Rightarrow> snapshot_js a | None \<Rightarrow> JNull) = rt_active r"
    using assms(1,2) by (auto simp: routing_inv_def fits_storage_def snapshot_roundtrip split: option.splits)
      (simp add: snapshot_def js_get_def)
  have small: "pending_small r" using assms(2) by (simp add: fits_storage_def)
  have ts: "short_string 4096 (js_null_str (rt_transitionScope r)) = rt_transitionScope r"
    and pe: "short_string 256 (js_null_str (rt_pendingExit r)) = rt_pendingExit r"
    using small by (auto simp: pending_small_def split: option.splits)
  show "rt_active r2 = rt_active r" "rt_released r2 = rt_released r"
    "rt_transitioning r2 = rt_transitioning r" "rt_ready r2"
    "rt_pendingLogin r2 = (rt_released r \<and> rt_pendingLogin r)"
    using act by (simp_all add: r2_def restore_def saved_js_def saved_value_def restore_saved_def
        routing_init_def js_truthy_def Let_def)
  show "rt_transitionScope r2 = rt_transitionScope r" "\<not> rt_uncertain r2"
    using act ts by (auto simp: r2_def restore_def saved_js_def saved_value_def restore_saved_def
        routing_init_def js_truthy_def Let_def split: option.splits)
  show "rt_active r \<noteq> None \<Longrightarrow> rt_pendingExit r2 = rt_pendingExit r"
    "rt_active r \<noteq> None \<Longrightarrow> rt_pendingDisconnect r2 = rt_pendingDisconnect r"
    using act pe by (simp_all add: r2_def restore_def saved_js_def saved_value_def restore_saved_def
        routing_init_def js_truthy_def Let_def)
  show "rt_profiles r2 = rt_profiles r"
    using restore_profiles_roundtrip [OF assms(1,2)]
    by (simp add: r2_def restore_def saved_js_def saved_value_def restore_saved_def
        routing_init_def js_truthy_def Let_def)
qed

section \<open>Well-formedness is kept by every operation\<close>

lemma strings_distinct: "distinct (strings v valid)"
  by (auto simp: strings_def split: jsval.splits)

lemma strings_list_all: "list_all valid (strings v valid)"
proof -
  have "valid s" if "s \<in> set (strings v valid)" for s
  proof -
    from that obtain x where "(case x of JStr s \<Rightarrow> if valid s then Some s else None | _ \<Rightarrow> None) = Some s"
      by (auto simp: strings_def set_map_filter split: jsval.splits)
    then show "valid s" by (cases x) (auto split: if_splits)
  qed
  then show ?thesis by (simp add: list_all_iff)
qed

lemmas strings_valid = strings_list_all strings_distinct

lemma stored_split_clean: "stored_split v = Some c \<Longrightarrow> clean_split c"
proof -
  assume "stored_split v = Some c"
  then obtain ps where v: "v = JObj ps" and c: "c = normalizeDomainSplit v"
    and ds: "js_get v ''domains'' = js_strings (split_domains c)"
    by (auto simp: stored_split_def Let_def split: jsval.splits if_splits)
  have "split_domains c = clean_domains [] (map JStr (split_domains c))"
    using ds unfolding c by (subst (1) normalizeDomainSplit_def) (simp add: v)
  then have fixed: "clean_domains [] (map JStr (split_domains c)) = split_domains c" by simp
  then have "\<forall>d\<in>set (split_domains c). \<exists>w. sanitizeDomain w = Some d"
    using clean_domains_sanitized by metis
  then have "\<forall>d\<in>set (split_domains c). clean_domain d"
    using clean_domains_twice [of "split_domains c" _ "[]"] fixed by auto
  moreover have "distinct (split_domains c)"
    using clean_domains_distinct [of "[]" "map JStr (split_domains c)"] fixed by simp
  ultimately show "clean_split c" by (simp add: clean_split_def list_all_iff)
qed

lemma snapshot_accepts_ok: "snapshot v = Some a \<Longrightarrow> snapshot_ok a"
  by (auto simp: snapshot_def snapshot_ok_def strings_valid Let_def
      dest: stored_split_clean split: jsval.splits option.splits if_splits)

lemma snapshot_accepts_small: "snapshot v = Some a \<Longrightarrow> length (sn_scope a) \<le> 4096 \<and>
    (case sn_selectedExitNodeID a of Some x \<Rightarrow> length x \<le> 256 | None \<Rightarrow> True)"
  by (auto simp: snapshot_def stored_exit_def Let_def split: jsval.splits option.splits if_splits)

text \<open>The state and status inputs of an operation come from the code that normalises them.\<close>

definition state_input :: "TailscaleState \<Rightarrow> bool" where
  "state_input s \<longleftrightarrow> (\<exists>v. ts_domainSplit s = normalizeDomainSplit v)"

definition status_input :: "StatusUpdate \<Rightarrow> bool" where
  "status_input st \<longleftrightarrow>
     (let suf = sanitizeMagicDNSSuffix (Some (st_magicDNSSuffix st))
      in sanitizeMagicDNSSuffix (Some suf) = suf)"

lemma foldl_digits_ge: "acc * 10 ^ length cs \<le> foldl (\<lambda>a c. a * 10 + digit_val c) acc cs"
proof (induction cs arbitrary: acc)
  case (Cons c cs)
  have "acc * 10 ^ length (c # cs) \<le> (acc * 10 + digit_val c) * 10 ^ length cs" by (simp add: algebra_simps)
  also have "\<dots> \<le> foldl (\<lambda>a c. a * 10 + digit_val c) (acc * 10 + digit_val c) cs" by (rule Cons.IH)
  finally show ?case by simp
qed simp

lemma canonical_nat_length:
  assumes "canonical_nat s = Some n" and "n < 100"
  shows "s \<noteq> []" "list_all is_digit s" "length s \<le> 2"
proof -
  from assms(1) have s: "s \<noteq> []" "list_all is_digit s" "length s = 1 \<or> hd s \<noteq> CHR ''0''" "n = digits_val s"
    by (auto simp: canonical_nat_def split: if_splits)
  then show "s \<noteq> []" "list_all is_digit s" by auto
  show "length s \<le> 2"
  proof (rule ccontr)
    assume long: "\<not> length s \<le> 2"
    with s obtain c cs where cs: "s = c # cs" "c \<noteq> CHR ''0''" "length cs \<ge> 2" by (cases s) auto
    have "of_char c \<noteq> (48::nat)" using cs(2) char_eq_char_of [of c 48] by (auto simp: char_of_def)
    then have "1 \<le> digit_val c" using s(2) cs(1) by (auto simp: digit_val_def is_digit_def Let_def)
    then have "(10::nat) ^ 2 \<le> digit_val c * 10 ^ length cs"
      using cs(3) power_increasing [of 2 "length cs" "10::nat"] by (metis (no_types, lifting) le_trans mult_le_mono1 nat_mult_1 one_le_numeral)
    also have "\<dots> \<le> digits_val s" using foldl_digits_ge [of "digit_val c" cs] cs(1) by (simp add: digits_val_def)
    finally show False using assms(2) s(4) by simp
  qed
qed

lemma stored_cidr_supported: "isSupportedSubnetCIDR s \<Longrightarrow> stored_cidr s"
proof (cases "CHR '':'' \<in> set s")
  case False
  assume sup: "isSupportedSubnetCIDR s"
  with False obtain address p n where split: "js_split (CHR ''/'') s = [address, p]"
    and n: "canonical_nat p = Some n" "n \<le> 32" and cidr: "parseCIDR s \<noteq> None"
    by (auto simp: isSupportedSubnetCIDR_def split: option.splits list.splits)
  have s: "s = address @ CHR ''/'' # p"
    using js_join_split [of "CHR ''/''" s] split by simp
  have p: "p \<noteq> []" "list_all is_digit p" "length p \<le> 2"
    using canonical_nat_length [OF n(1)] n(2) by auto
  have "takeWhile is_digit (rev s) = rev p"
    using p(2) by (auto simp: s takeWhile_append list_all_iff is_digit_def)
  then have "has_short_prefix s"
    using p by (auto simp: has_short_prefix_def s Suc_le_eq)
  with False cidr show ?thesis by (simp add: stored_cidr_def)
qed (simp add: stored_cidr_def)

lemma profiles_ok_update:
  assumes "profiles_ok ps" and "snapshot_ok a"
  shows "profiles_ok (AList.update (sn_scope a) a ps)"
proof -
  have "set (AList.update (sn_scope a) a ps) \<subseteq> insert (sn_scope a, a) (set ps)"
    by (induction ps) auto
  then have "\<forall>p\<in>set (AList.update (sn_scope a) a ps). fst p = sn_scope (snd p) \<and> snapshot_ok (snd p)"
    using assms unfolding profiles_ok_def by (metis fst_conv insertE snd_conv subsetD)
  then show ?thesis using assms(1) by (simp add: profiles_ok_def distinct_update)
qed

lemma routing_inv_write:
  "routing_inv r \<Longrightarrow> routing_inv (r\<lparr>rt_savedKey := Some v, rt_writes := rt_writes r @ [v]\<rparr>)"
  by (simp add: routing_inv_def)

lemma routing_inv_profiles:
  "routing_inv r \<Longrightarrow> profiles_ok ps \<Longrightarrow> routing_inv (r\<lparr>rt_profiles := ps\<rparr>)"
  by (simp add: routing_inv_def)

lemma save_inv:
  assumes "routing_inv r"
  shows "routing_inv (save r)"
proof -
  let ?r = "case rt_active r of Some a \<Rightarrow> r\<lparr>rt_profiles := AList.update (sn_scope a) a (rt_profiles r)\<rparr> | None \<Rightarrow> r"
  have "routing_inv ?r"
    using assms by (cases "rt_active r") (simp_all add: routing_inv_profiles profiles_ok_update routing_inv_def)
  with routing_inv_write [OF this] show ?thesis
    by (simp only: save_def Let_def split: if_split) simp
qed

lemma save_fields [simp]:
  "rt_active (save r) = rt_active r" "rt_ready (save r) = rt_ready r"
  "rt_uncertain (save r) = rt_uncertain r" "rt_released (save r) = rt_released r"
  "rt_transitioning (save r) = rt_transitioning r"
  "rt_transitionScope (save r) = rt_transitionScope r" "rt_pendingExit (save r) = rt_pendingExit r"
  "rt_pendingDisconnect (save r) = rt_pendingDisconnect r"
  "rt_pendingLogin (save r) = rt_pendingLogin r" "rt_revision (save r) = rt_revision r"
  by (auto simp: save_def Let_def split: option.splits)

text \<open>After a save the last queued write is the state itself.\<close>

lemma save_last_write:
  assumes "routing_inv r"
  shows "rt_writes (save r) \<noteq> []" "last (rt_writes (save r)) = saved_value (save r)"
  using assms by (auto simp: save_def routing_inv_def saved_value_def Let_def split: option.splits)

lemma routing_inv_flags:
  "routing_inv r \<Longrightarrow> rt_active r' = rt_active r \<Longrightarrow> rt_profiles r' = rt_profiles r \<Longrightarrow>
   rt_savedKey r' = rt_savedKey r \<Longrightarrow> rt_writes r' = rt_writes r \<Longrightarrow> routing_inv r'"
  by (simp add: routing_inv_def)

lemma routing_inv_active:
  "routing_inv r \<Longrightarrow> (\<And>a. rt_active r' = Some a \<Longrightarrow> snapshot_ok a) \<Longrightarrow> rt_profiles r' = rt_profiles r \<Longrightarrow>
   rt_savedKey r' = rt_savedKey r \<Longrightarrow> rt_writes r' = rt_writes r \<Longrightarrow> routing_inv r'"
  by (simp add: routing_inv_def)

lemma snapshot_ok_selected: "snapshot_ok (a\<lparr>sn_selectedExitNodeID := x\<rparr>) = snapshot_ok a"
  by (simp add: snapshot_ok_def)

lemma selectExitNode_inv: "routing_inv r \<Longrightarrow> routing_inv (selectExitNode x r)"
proof -
  assume inv: "routing_inv r"
  then have "\<And>a. rt_active r = Some a \<Longrightarrow> snapshot_ok a" by (simp add: routing_inv_def)
  then show ?thesis unfolding selectExitNode_def
    by (intro save_inv routing_inv_active [OF inv]) (auto simp: snapshot_ok_selected split: if_splits)
qed

lemma flag_ops_inv:
  assumes "routing_inv r"
  shows "routing_inv (requestDisconnect r)" "routing_inv (reconnect r)"
    "routing_inv (releaseRouting b r)" "routing_inv (switchProfile s r)" "routing_inv (settle_flags st r)"
proof -
  show "routing_inv (requestDisconnect r)" "routing_inv (releaseRouting b r)" "routing_inv (switchProfile s r)"
    unfolding requestDisconnect_def releaseRouting_def switchProfile_def
    by (rule save_inv, rule routing_inv_flags [OF assms]; simp)+
  show "routing_inv (reconnect r)" "routing_inv (settle_flags st r)"
    by (rule routing_inv_flags [OF assms]; simp add: reconnect_def settle_flags_def Let_def)+
qed

lemma save_failed_inv: "routing_inv r \<Longrightarrow> routing_inv (save_failed r)"
  by (simp add: routing_inv_def save_failed_def)

lemma prior_snapshot_ok: "routing_inv r \<Longrightarrow> prior_snapshot scope r = Some a \<Longrightarrow> snapshot_ok a"
  by (auto simp: prior_snapshot_def routing_inv_def profiles_ok_def dest!: map_of_SomeD split: if_splits)

lemma merge_status_policy:
  "rp_magicDNSSuffix (policyFromState (merge_status st s)) = sanitizeMagicDNSSuffix (Some (st_magicDNSSuffix st))"
  "rp_domainSplit (policyFromState (merge_status st s)) = normalize_split (ts_domainSplit s)"
  "rp_subnetCIDRs (policyFromState (merge_status st s)) =
     filter isSupportedSubnetCIDR (collectSubnetCIDRs (js_default (st_peers st) []))"
  "\<exists>ps sn suf. rp_shortNames (policyFromState (merge_status st s)) = collectShortNames ps sn suf"
  by (auto simp: merge_status_def policyFromState_def Let_def)

lemma stored_short_names: "list_all stored_short_name (collectShortNames ps sn suf)"
  using collectShortNames_names dns_name_of_id by (fastforce simp: list_all_iff stored_short_name_def)

lemma stored_routes: "list_all stored_route (sanitizeDNSRoutes v)"
  using sanitizeDNSRoutes_names dns_name_of_id by (fastforce simp: list_all_iff stored_route_def)

lemma snapshot_after_ok:
  assumes "status_input st" and "state_input s" and "\<And>p. prior = Some p \<Longrightarrow> snapshot_ok p"
  shows "snapshot_ok (snapshot_after st s scope selected prior)"
proof -
  obtain ps sn suf where names: "rp_shortNames (policyFromState (merge_status st s)) = collectShortNames ps sn suf"
    using merge_status_policy(4) by blast
  have split: "clean_split (normalize_split (ts_domainSplit s))"
    using assms(2) normalize_split_clean by (auto simp: state_input_def)
  have cidrs: "list_all stored_cidr (filter isSupportedSubnetCIDR xs)" for xs
    by (auto simp: list_all_iff stored_cidr_supported)
  show ?thesis
  proof (cases prior)
    case None
    then show ?thesis using assms(1) split cidrs stored_short_names [of ps sn suf] stored_routes
      by (auto simp: snapshot_after_def snapshot_ok_def merge_status_policy names status_input_def Let_def
          sanitizeDNSRoutes_sorted collectShortNames_distinct list_all_iff sanitizeMagicDNSSuffix_def split: option.splits)
  next
    case (Some p)
    with assms(3) have "snapshot_ok p" by blast
    with Some show ?thesis using assms(1) split cidrs stored_short_names [of ps sn suf] stored_routes
      by (auto simp: snapshot_after_def snapshot_ok_def merge_status_policy names status_input_def Let_def
          sanitizeDNSRoutes_sorted collectShortNames_distinct list_all_iff split: option.splits)
  qed
qed

lemma settle_exit_fields [simp]:
  "rt_active (settle_exit st r) = rt_active r" "rt_profiles (settle_exit st r) = rt_profiles r"
  "rt_ready (settle_exit st r) = rt_ready r" "rt_uncertain (settle_exit st r) = rt_uncertain r"
  "rt_released (settle_exit st r) = rt_released r"
  "rt_transitioning (settle_exit st r) = rt_transitioning r"
  "rt_transitionScope (settle_exit st r) = rt_transitionScope r"
  "rt_savedKey (settle_exit st r) = rt_savedKey r" "rt_writes (settle_exit st r) = rt_writes r"
  by (simp_all add: settle_exit_def)

text \<open>The four ways in which a confirmed status leaves the protection state.\<close>

lemma confirmStatus_cases:
  obtains (released) "rt_pendingDisconnect (settle_flags st r)"
      "st_backendState st = Stopped \<or> st_backendState st = NeedsLogin"
      "confirmStatus st s r = (None, release (settle_flags st r))"
  | (settled) "status_scope st = None \<or> rt_released (settle_flags st r)"
      "confirmStatus st s r = (None, settle_flags st r)"
  | (kept) scope e where "status_scope st = Some scope" "\<not> rt_released (settle_flags st r)"
      "e = None \<longrightarrow> prior_snapshot scope (settle_flags st r) = None \<and> st_backendState st \<noteq> Running"
      "e \<noteq> None \<longrightarrow> missing_subnets st"
      "confirmStatus st s r = (e, settle_exit st (settle_flags st r))"
  | (recorded) scope where "status_scope st = Some scope" "\<not> rt_released (settle_flags st r)"
      "confirmStatus st s r = (None, save ((settle_exit st (settle_flags st r))\<lparr>rt_active :=
         Some (snapshot_after st s scope
           (selected_after (rt_pendingExit (settle_flags st r)) (confirmed_exit st)
             (prior_snapshot scope (settle_flags st r)))
           (prior_snapshot scope (settle_flags st r)))\<rparr>))"
proof (cases "rt_pendingDisconnect (settle_flags st r) \<and> (st_backendState st = Stopped \<or> st_backendState st = NeedsLogin)")
  case True
  then show ?thesis by (intro released) (simp_all add: confirmStatus_def Let_def)
next
  case False
  show ?thesis
  proof (cases "status_scope st")
    case None
    with False show ?thesis by (intro settled) (auto simp: confirmStatus_def Let_def)
  next
    case (Some scope)
    note sc = Some
    show ?thesis
    proof (cases "rt_released (settle_flags st r)")
      case True
      with False sc show ?thesis by (intro settled) (auto simp: confirmStatus_def Let_def)
    next
      case rel: False
      define quiet where "quiet \<longleftrightarrow> prior_snapshot scope (settle_flags st r) = None \<and>
        selected_after (rt_pendingExit (settle_flags st r)) (confirmed_exit st) (prior_snapshot scope (settle_flags st r)) = None \<and>
        st_backendState st \<noteq> Running"
      show ?thesis
      proof (cases "quiet \<or> missing_subnets st")
        case True
        with False sc rel show ?thesis
          by (intro kept [of scope "if quiet then None else Some TypeError"])
            (auto simp: confirmStatus_def quiet_def Let_def)
      next
        case go: False
        with False sc rel show ?thesis
          by (intro recorded [of scope]) (auto simp: confirmStatus_def quiet_def Let_def)
      qed
    qed
  qed
qed

lemma confirmStatus_inv:
  assumes "routing_inv r" and "status_input st" and "state_input s"
  shows "routing_inv (snd (confirmStatus st s r))"
proof -
  let ?r = "settle_flags st r"
  have inv: "routing_inv ?r" using assms(1) by (rule flag_ops_inv)
  show ?thesis
  proof (cases rule: confirmStatus_cases [of st r s])
    case released
    with flag_ops_inv(3) [OF inv] show ?thesis by (simp add: release_def)
  next
    case settled
    with inv show ?thesis by simp
  next
    case kept
    have "routing_inv (settle_exit st ?r)" by (rule routing_inv_flags [OF inv]; simp)
    with kept show ?thesis by simp
  next
    case recorded
    have "routing_inv (snd (confirmStatus st s r))"
      unfolding recorded(3) snd_conv
      by (rule save_inv, rule routing_inv_active [OF inv])
        (auto intro: snapshot_after_ok assms prior_snapshot_ok [OF inv])
    then show ?thesis .
  qed
qed

lemma decorate_inv:
  assumes "routing_inv r" and "state_input s"
  shows "routing_inv (fst (decorate_policy s r))"
proof -
  have "clean_split (normalize_split (ts_domainSplit s))"
    using assms(2) normalize_split_clean by (auto simp: state_input_def)
  then have "routing_inv (save (r\<lparr>rt_active := Some (a\<lparr>sn_domainSplit := normalize_split (ts_domainSplit s)\<rparr>)\<rparr>))"
    if "rt_active r = Some a" for a
    using that assms(1)
    by (intro save_inv routing_inv_active [OF assms(1)]) (auto simp: routing_inv_def snapshot_ok_def)
  with assms(1) show ?thesis
    by (auto simp: decorate_policy_def Let_def split: option.split)
qed

lemma profiles_ok_fold:
  "list_all snapshot_ok xs \<Longrightarrow> profiles_ok ps \<Longrightarrow>
   profiles_ok (fold (\<lambda>x m. AList.update (sn_scope x) x m) xs ps)"
  by (induction xs arbitrary: ps) (auto simp: profiles_ok_update)

lemma restored_snapshots_ok: "list_all snapshot_ok (List.map_filter snapshot vs)"
  by (auto simp: list_all_iff set_map_filter snapshot_accepts_ok)

lemma restore_profiles_ok: "profiles_ok ps \<Longrightarrow> profiles_ok (restore_profiles v ps)"
  by (cases v) (simp_all add: restore_profiles_def profiles_ok_fold [OF restored_snapshots_ok])

lemma restore_saved_inv: "routing_inv r \<Longrightarrow> routing_inv (restore_saved saved r)"
  by (simp add: routing_inv_def restore_saved_def restore_profiles_ok snapshot_accepts_ok Let_def)

lemma routing_inv_ready [simp]: "routing_inv (r\<lparr>rt_ready := b\<rparr>) = routing_inv r"
  "routing_inv (r\<lparr>rt_uncertain := b\<rparr>) = routing_inv r"
  by (simp_all add: routing_inv_def)

lemma restore_inv: "routing_inv r \<Longrightarrow> routing_inv (restore n v r)"
  using restore_saved_inv [of r] by (simp add: restore_def split: option.split)

section \<open>Samples\<close>

text \<open>A small account, used to instantiate the properties.\<close>

definition sample_self :: SelfNode where
  "sample_self = \<lparr>self_id = ''n1'', self_hostname = ''laptop'', self_dnsName = [], self_tailscaleIPs = None,
     self_os = ''linux'', self_online = True, self_keyExpiry = None\<rparr>"

definition sample_prefs :: TailscalePrefs where
  "sample_prefs = \<lparr>pref_exitNodeID = None, pref_exitNodeAllowLANAccess = False, pref_corpDNS = True,
     pref_shieldsUp = False, pref_advertiseExitNode = None, pref_runSSH = None, pref_advertiseRoutes = None,
     pref_controlURL = None\<rparr>"

definition sample_status :: StatusUpdate where
  "sample_status = \<lparr>st_backendState = Running, st_running = True, st_tailnet = None, st_magicDNSSuffix = [],
     st_splitDNSDomains = None, st_dnsRoutes = None, st_selfNode = Some sample_self, st_needsLogin = False,
     st_browseToURL = None, st_authURL = None, st_exitNode = None, st_peers = None, st_peersTruncated = False,
     st_totalPeers = None, st_prefs = Some sample_prefs, st_health = None, st_error = None\<rparr>"

definition sample_state :: TailscaleState where
  "sample_state = DEFAULT_STATE\<lparr>ts_hostConnected := True, ts_initialized := True, ts_proxyPort := Some 1055,
     ts_proxyEnabled := True, ts_backendState := Running, ts_selfNode := Some sample_self, ts_prefs := Some sample_prefs\<rparr>"

definition sample_snapshot :: Snapshot where
  "sample_snapshot = \<lparr>sn_scope = scope_of [] ''n1'', sn_selectedExitNodeID = Some ''exit'', sn_magicDNSSuffix = [],
     sn_subnetCIDRs = [], sn_shortNames = [], sn_dnsRoutes = [], sn_domainSplit = \<lparr>split_mode = Bypass, split_domains = []\<rparr>\<rparr>"

definition sample_routing :: RoutingProtection where
  "sample_routing = routing_init\<lparr>rt_ready := True, rt_active := Some sample_snapshot\<rparr>"

lemmas samples = sample_self_def sample_prefs_def sample_status_def sample_state_def sample_snapshot_def sample_routing_def

lemma sample_snapshot_ok: "snapshot_ok sample_snapshot"
  by (simp add: snapshot_ok_def samples clean_split_def sanitizeMagicDNSSuffix_def truthy_def Let_def)

lemma sample_routing_inv: "routing_inv sample_routing"
  using sample_snapshot_ok by (simp add: routing_inv_def sample_routing_def routing_init_def profiles_ok_def)

lemma sample_scope: "status_scope sample_status = Some (scope_of [] ''n1'')"
  by (simp add: status_scope_def account_scope_def samples js_default_def)

end
