(* ===== verification/Proxy_Session.thy ===== *)
theory Proxy_Session
  imports Types
begin

text \<open>
  The credential of the helper's local proxy (\<open>packages/shared/src/background/proxy-session.ts\<close>):
  validation of what the helper sends and the holder that only answers for its own port.
\<close>

definition credential_char :: "char \<Rightarrow> bool" where
  "credential_char c \<longleftrightarrow> is_upper c \<or> is_lower c \<or> is_digit c \<or> c = CHR ''_'' \<or> c = CHR ''-''"

definition valid_username :: "string \<Rightarrow> bool" where
  "valid_username u \<longleftrightarrow> 1 \<le> length u \<and> length u \<le> 64 \<and> list_all credential_char u"

definition valid_password :: "string \<Rightarrow> bool" where
  "valid_password p \<longleftrightarrow> 32 \<le> length p \<and> length p \<le> 128 \<and> list_all credential_char p"

definition is_port :: "rat \<Rightarrow> bool" where
  "is_port p \<longleftrightarrow> p = of_int \<lfloor>p\<rfloor> \<and> 1 \<le> p \<and> p \<le> 65535"

definition readProxySession :: "ProcRunning \<Rightarrow> ProxySessionCredentials option" where
  "readProxySession reply =
     (let auth = proc_proxyAuth reply in
      if \<not> is_port (proc_port reply) then None
      else if \<not> js_truthy auth \<or> js_get auth ''version'' \<noteq> JNum (Fin 1) then None
      else (case (js_get auth ''username'', js_get auth ''password'') of
              (JStr u, JStr p) \<Rightarrow>
                if valid_username u \<and> valid_password p
                then Some \<lparr>cred_port = \<lfloor>proc_port reply\<rfloor>, cred_username = u, cred_password = p\<rparr>
                else None
            | _ \<Rightarrow> None))"

type_synonym ProxySession = "ProxySessionCredentials option"

definition set_session :: "ProxySessionCredentials option \<Rightarrow> ProxySession \<Rightarrow> ProxySession" where
  "set_session session old = session"

definition credentialsFor :: "ProxySession \<Rightarrow> int \<Rightarrow> (string \<times> string) option" where
  "credentialsFor session port =
     (case session of
        None \<Rightarrow> None
      | Some c \<Rightarrow> if cred_port c \<noteq> port then None else Some (cred_username c, cred_password c))"

section \<open>Lemmas\<close>

definition session_ok :: "ProxySession \<Rightarrow> bool" where
  "session_ok session = (case session of
     None \<Rightarrow> True
   | Some c \<Rightarrow> 1 \<le> cred_port c \<and> cred_port c \<le> 65535 \<and>
       valid_username (cred_username c) \<and> valid_password (cred_password c))"

lemma is_port_floor: "is_port p \<Longrightarrow> 1 \<le> \<lfloor>p\<rfloor> \<and> \<lfloor>p\<rfloor> \<le> 65535"
  by (simp add: is_port_def le_floor_iff floor_le_iff)

lemma readProxySession_ok [sanitize_intros]: "session_ok (readProxySession reply)"
  using is_port_floor [of "proc_port reply"]
  by (auto simp: readProxySession_def session_ok_def Let_def split: jsval.splits)

lemma credentialsFor_None [simp]: "credentialsFor None port = None"
  by (simp add: credentialsFor_def)

lemma credentialsFor_Some_iff:
  "credentialsFor session port = Some (u, p) \<longleftrightarrow>
     session = Some \<lparr>cred_port = port, cred_username = u, cred_password = p\<rparr>"
proof (cases session)
  case (Some c)
  then show ?thesis by (cases c) (auto simp: credentialsFor_def)
qed simp

lemma credentialsFor_port_range:
  "session_ok session \<Longrightarrow> credentialsFor session port \<noteq> None \<Longrightarrow> 1 \<le> port \<and> port \<le> 65535"
  by (auto simp: credentialsFor_def session_ok_def split: option.splits if_splits)

text \<open>Credentials are only given out for a valid port, the very port the helper announced, with a well-formed name and password.\<close>

lemma session_credentials_valid:
  assumes "credentialsFor (readProxySession reply) port = Some (u, p)"
  shows "1 \<le> port \<and> port \<le> 65535 \<and> proc_port reply = of_int port \<and> valid_username u \<and> valid_password p"
  using assms credentialsFor_port_range [OF readProxySession_ok, of reply port]
  by (auto simp: credentialsFor_Some_iff readProxySession_def is_port_def Let_def split: if_splits jsval.splits)

section \<open>Samples\<close>

definition sample_credentials :: ProxySessionCredentials where
  "sample_credentials = \<lparr>cred_port = 1055, cred_username = ''tc'', cred_password = ''secret''\<rparr>"

end
