(* ===== verification/Native_Reply.thy ===== *)
theory Native_Reply
  imports Constants "HOL-Library.Monad_Syntax"
begin

text \<open>
  The screen on messages from the native helper (the second half of
  \<open>packages/shared/src/background/native-host.ts\<close>): one predicate per message part, on untyped
  JavaScript values. After the screen the source casts the value to \<open>NativeReply\<close>; here the cast is the
  decoder \<open>decode_reply\<close>, which fails wherever a value does not have its declared type. The lemmas
  show that each predicate accepts exactly the values its decoder accepts.
\<close>

section \<open>Predicates\<close>

definition isRecord :: "jsval \<Rightarrow> bool" where
  "isRecord v = (case v of JObj _ \<Rightarrow> True | _ \<Rightarrow> False)"

definition isString :: "jsval \<Rightarrow> bool" where
  "isString v = (case v of JStr _ \<Rightarrow> True | _ \<Rightarrow> False)"

definition isBoolean :: "jsval \<Rightarrow> bool" where
  "isBoolean v = (case v of JBool _ \<Rightarrow> True | _ \<Rightarrow> False)"

definition isFiniteNumber :: "jsval \<Rightarrow> bool" where
  "isFiniteNumber v = (case v of JNum (Fin _) \<Rightarrow> True | _ \<Rightarrow> False)"

definition isNullableString :: "jsval \<Rightarrow> bool" where
  "isNullableString v \<longleftrightarrow> v = JNull \<or> isString v"

definition js_every :: "(jsval \<Rightarrow> bool) \<Rightarrow> jsval \<Rightarrow> bool" where
  "js_every P v = (case v of JArr vs \<Rightarrow> list_all P vs | _ \<Rightarrow> False)"

definition isStringArray :: "jsval \<Rightarrow> bool" where
  "isStringArray v = js_every isString v"

definition isNullableStringArray :: "jsval \<Rightarrow> bool" where
  "isNullableStringArray v \<longleftrightarrow> v = JNull \<or> isStringArray v"

definition hasOwn :: "jsval \<Rightarrow> string \<Rightarrow> bool" where
  "hasOwn v k = (case v of JObj ps \<Rightarrow> k \<in> fst ` set ps | _ \<Rightarrow> False)"

definition optionalField :: "jsval \<Rightarrow> string \<Rightarrow> (jsval \<Rightarrow> bool) \<Rightarrow> bool" where
  "optionalField v k P \<longleftrightarrow> \<not> hasOwn v k \<or> P (js_get v k)"

definition isLocation :: "jsval \<Rightarrow> bool" where
  "isLocation v \<longleftrightarrow>
     isRecord v \<and>
     optionalField v ''city'' isString \<and> optionalField v ''cityCode'' isString \<and>
     optionalField v ''country'' isString \<and> optionalField v ''countryCode'' isString \<and>
     optionalField v ''latitude'' isFiniteNumber \<and> optionalField v ''longitude'' isFiniteNumber \<and>
     optionalField v ''priority'' isFiniteNumber"

definition isNullableLocation :: "jsval \<Rightarrow> bool" where
  "isNullableLocation v \<longleftrightarrow> v = JNull \<or> isLocation v"

definition isSelfNode :: "jsval \<Rightarrow> bool" where
  "isSelfNode v \<longleftrightarrow>
     isRecord v \<and>
     isString (js_get v ''id'') \<and> isString (js_get v ''hostname'') \<and> isString (js_get v ''dnsName'') \<and>
     isNullableStringArray (js_get v ''tailscaleIPs'') \<and> isString (js_get v ''os'') \<and>
     isBoolean (js_get v ''online'') \<and> optionalField v ''keyExpiry'' isNullableString"

definition isPeer :: "jsval \<Rightarrow> bool" where
  "isPeer v \<longleftrightarrow>
     isRecord v \<and>
     isString (js_get v ''id'') \<and> isString (js_get v ''hostname'') \<and> isString (js_get v ''dnsName'') \<and>
     isNullableStringArray (js_get v ''tailscaleIPs'') \<and> isString (js_get v ''os'') \<and>
     isBoolean (js_get v ''online'') \<and> isBoolean (js_get v ''active'') \<and> isBoolean (js_get v ''exitNode'') \<and>
     isBoolean (js_get v ''exitNodeOption'') \<and> isBoolean (js_get v ''isSubnetRouter'') \<and>
     optionalField v ''subnets'' isNullableStringArray \<and> optionalField v ''tags'' isNullableStringArray \<and>
     isFiniteNumber (js_get v ''rxBytes'') \<and> isFiniteNumber (js_get v ''txBytes'') \<and>
     optionalField v ''lastSeen'' isNullableString \<and> optionalField v ''lastHandshake'' isNullableString \<and>
     optionalField v ''keyExpiry'' isNullableString \<and> optionalField v ''location'' isNullableLocation \<and>
     isBoolean (js_get v ''taildropTarget'') \<and> isBoolean (js_get v ''sshHost'') \<and>
     isFiniteNumber (js_get v ''userId'') \<and> isString (js_get v ''userName'') \<and>
     isString (js_get v ''userLoginName'') \<and> isString (js_get v ''userProfilePicURL'')"

definition isExitNode :: "jsval \<Rightarrow> bool" where
  "isExitNode v \<longleftrightarrow>
     isRecord v \<and>
     isString (js_get v ''id'') \<and> isString (js_get v ''hostname'') \<and> isString (js_get v ''dnsName'') \<and>
     optionalField v ''location'' isNullableLocation \<and> isBoolean (js_get v ''online'')"

definition isPrefs :: "jsval \<Rightarrow> bool" where
  "isPrefs v \<longleftrightarrow>
     isRecord v \<and>
     optionalField v ''exitNodeID'' isString \<and> isBoolean (js_get v ''exitNodeAllowLANAccess'') \<and>
     isBoolean (js_get v ''corpDNS'') \<and> isBoolean (js_get v ''shieldsUp'') \<and>
     optionalField v ''advertiseExitNode'' isBoolean \<and> optionalField v ''runSSH'' isBoolean \<and>
     optionalField v ''advertiseRoutes'' isNullableStringArray \<and> optionalField v ''controlURL'' isString"

definition backendStates :: "(string \<times> BackendState) list" where
  "backendStates =
     [(''NoState'', NoState), (''NeedsMachineAuth'', NeedsMachineAuth), (''NeedsLogin'', NeedsLogin),
      (''InUseOtherUser'', InUseOtherUser), (''Stopped'', Stopped), (''Starting'', Starting), (''Running'', Running)]"

definition isBackendState :: "jsval \<Rightarrow> bool" where
  "isBackendState v = (case v of JStr s \<Rightarrow> s \<in> set (map fst backendStates) | _ \<Rightarrow> False)"

definition isStatus :: "jsval \<Rightarrow> bool" where
  "isStatus v \<longleftrightarrow>
     isRecord v \<and>
     isBackendState (js_get v ''backendState'') \<and> isBoolean (js_get v ''running'') \<and>
     isNullableString (js_get v ''tailnet'') \<and> isString (js_get v ''magicDNSSuffix'') \<and>
     optionalField v ''splitDNSDomains'' isStringArray \<and> optionalField v ''dnsRoutes'' (js_every isString) \<and>
     optionalField v ''selfNode'' (\<lambda>f. f = JNull \<or> isSelfNode f) \<and>
     isBoolean (js_get v ''needsLogin'') \<and>
     optionalField v ''browseToURL'' isString \<and> optionalField v ''authURL'' isString \<and>
     optionalField v ''exitNode'' (\<lambda>f. f = JNull \<or> isExitNode f) \<and>
     hasOwn v ''peers'' \<and> (js_get v ''peers'' = JNull \<or> js_every isPeer (js_get v ''peers'')) \<and>
     optionalField v ''prefs'' (\<lambda>f. f = JNull \<or> isPrefs f) \<and>
     hasOwn v ''health'' \<and> isNullableStringArray (js_get v ''health'') \<and>
     optionalField v ''error'' isNullableString \<and> optionalField v ''peersTruncated'' isBoolean \<and>
     optionalField v ''totalPeers'' isFiniteNumber"

definition isProfile :: "jsval \<Rightarrow> bool" where
  "isProfile v \<longleftrightarrow> isRecord v \<and> isString (js_get v ''id'') \<and> isString (js_get v ''name'')"

definition isProcRunning :: "jsval \<Rightarrow> bool" where
  "isProcRunning v \<longleftrightarrow>
     isRecord v \<and>
     isFiniteNumber (js_get v ''port'') \<and> isFiniteNumber (js_get v ''pid'') \<and>
     optionalField v ''version'' isString \<and> optionalField v ''error'' isString \<and>
     optionalField v ''supportsNetcheck'' isBoolean \<and> optionalField v ''supportsPingPeer'' isBoolean \<and>
     optionalField v ''supportsLogin'' isBoolean \<and> optionalField v ''supportsCustomControlURL'' isBoolean \<and>
     optionalField v ''supportsDaemonControl'' isBoolean \<and> optionalField v ''supportsExternalProxy'' isBoolean \<and>
     optionalField v ''supportsExternalProxyLAN'' isBoolean"

definition isExternalProxy :: "jsval \<Rightarrow> bool" where
  "isExternalProxy v \<longleftrightarrow>
     isRecord v \<and>
     isBoolean (js_get v ''enabled'') \<and> isBoolean (js_get v ''running'') \<and> isString (js_get v ''host'') \<and>
     optionalField v ''allowLAN'' isBoolean \<and> optionalField v ''lanAddresses'' isStringArray \<and>
     optionalField v ''pacPath'' (\<lambda>p. p = JStr ''/proxy.pac'') \<and> optionalField v ''port'' isFiniteNumber \<and>
     isStringArray (js_get v ''protocols'') \<and> isBoolean (js_get v ''authRequired'') \<and>
     optionalField v ''username'' isString \<and> optionalField v ''password'' isString \<and>
     optionalField v ''error'' isString"

definition isInit :: "jsval \<Rightarrow> bool" where
  "isInit v \<longleftrightarrow> isRecord v \<and> optionalField v ''error'' isString"

definition isPong :: "jsval \<Rightarrow> bool" where
  "isPong v \<longleftrightarrow> isRecord v"

definition isProfiles :: "jsval \<Rightarrow> bool" where
  "isProfiles v \<longleftrightarrow> isRecord v \<and> isProfile (js_get v ''current'') \<and> js_every isProfile (js_get v ''profiles'')"

definition isExitNodeSuggestion :: "jsval \<Rightarrow> bool" where
  "isExitNodeSuggestion v \<longleftrightarrow>
     isRecord v \<and> isString (js_get v ''id'') \<and> isString (js_get v ''hostname'') \<and>
     optionalField v ''location'' isNullableLocation"

definition isFileSendProgress :: "jsval \<Rightarrow> bool" where
  "isFileSendProgress v \<longleftrightarrow>
     isRecord v \<and> isString (js_get v ''targetNodeID'') \<and> isString (js_get v ''name'') \<and>
     isFiniteNumber (js_get v ''percent'') \<and> isBoolean (js_get v ''done'') \<and>
     optionalField v ''error'' isNullableString"

definition isDiagnostic :: "jsval \<Rightarrow> bool" where
  "isDiagnostic v \<longleftrightarrow> isRecord v \<and> isString (js_get v ''title'') \<and> isString (js_get v ''body'')"

definition isNativeError :: "jsval \<Rightarrow> bool" where
  "isNativeError v \<longleftrightarrow> isRecord v \<and> isString (js_get v ''cmd'') \<and> isString (js_get v ''message'')"

definition validators :: "(string \<times> (jsval \<Rightarrow> bool)) list" where
  "validators =
     [(''procRunning'', isProcRunning), (''init'', isInit), (''pong'', isPong), (''status'', isStatus),
      (''profiles'', isProfiles), (''exitNodeSuggestion'', isExitNodeSuggestion),
      (''fileSendProgress'', isFileSendProgress), (''diagnostic'', isDiagnostic),
      (''externalProxy'', isExternalProxy), (''error'', isNativeError)]"

text \<open>The loop over the validators with its flag \<open>recognized\<close>.\<close>

fun validate_fields :: "(string \<times> (jsval \<Rightarrow> bool)) list \<Rightarrow> bool \<Rightarrow> jsval \<Rightarrow> bool" where
  "validate_fields [] recognized v = recognized"
| "validate_fields ((key, validator) # rest) recognized v =
     (if \<not> hasOwn v key then validate_fields rest recognized v
      else if \<not> validator (js_get v key) then False
      else validate_fields rest True v)"

definition isValidNativeReply :: "jsval \<Rightarrow> bool" where
  "isValidNativeReply v \<longleftrightarrow> isRecord v \<and> validate_fields validators False v"

section \<open>The cast\<close>

definition d_str :: "jsval \<Rightarrow> string option" where
  "d_str v = (case v of JStr s \<Rightarrow> Some s | _ \<Rightarrow> None)"

definition d_bool :: "jsval \<Rightarrow> bool option" where
  "d_bool v = (case v of JBool b \<Rightarrow> Some b | _ \<Rightarrow> None)"

definition d_num :: "jsval \<Rightarrow> rat option" where
  "d_num v = (case v of JNum (Fin q) \<Rightarrow> Some q | _ \<Rightarrow> None)"

definition d_int :: "jsval \<Rightarrow> int option" where
  "d_int v = (case v of JNum (Fin q) \<Rightarrow> if q = of_int \<lfloor>q\<rfloor> then Some \<lfloor>q\<rfloor> else None | _ \<Rightarrow> None)"

definition d_nat :: "jsval \<Rightarrow> nat option" where
  "d_nat v = (case d_int v of Some i \<Rightarrow> if 0 \<le> i then Some (nat i) else None | None \<Rightarrow> None)"

fun d_all :: "(jsval \<Rightarrow> 'a option) \<Rightarrow> jsval list \<Rightarrow> 'a list option" where
  "d_all d [] = Some []"
| "d_all d (v # vs) = do { x \<leftarrow> d v; xs \<leftarrow> d_all d vs; Some (x # xs) }"

definition d_list :: "(jsval \<Rightarrow> 'a option) \<Rightarrow> jsval \<Rightarrow> 'a list option" where
  "d_list d v = (case v of JArr vs \<Rightarrow> d_all d vs | _ \<Rightarrow> None)"

definition d_nullable :: "(jsval \<Rightarrow> 'a option) \<Rightarrow> jsval \<Rightarrow> 'a option option" where
  "d_nullable d v = (if v = JNull then Some None else map_option Some (d v))"

text \<open>An optional field: absent reads as \<open>undefined\<close>.\<close>

definition d_opt :: "(jsval \<Rightarrow> 'a option) \<Rightarrow> jsval \<Rightarrow> string \<Rightarrow> 'a option option" where
  "d_opt d v k = (if hasOwn v k then map_option Some (d (js_get v k)) else Some None)"

text \<open>An optional field that may also be \<open>null\<close>; the model does not tell the two apart.\<close>

definition d_optn :: "(jsval \<Rightarrow> 'a option) \<Rightarrow> jsval \<Rightarrow> string \<Rightarrow> 'a option option" where
  "d_optn d v k = (if hasOwn v k then d_nullable d (js_get v k) else Some None)"

definition d_flag :: "jsval \<Rightarrow> string \<Rightarrow> bool option" where
  "d_flag v k = map_option (\<lambda>b. b = Some True) (d_opt d_bool v k)"

definition d_record :: "jsval \<Rightarrow> unit option" where
  "d_record v = (if isRecord v then Some () else None)"

definition decode_location :: "jsval \<Rightarrow> PeerLocation option" where
  "decode_location v = do {
     _ \<leftarrow> d_record v;
     city \<leftarrow> d_opt d_str v ''city''; cityCode \<leftarrow> d_opt d_str v ''cityCode'';
     country \<leftarrow> d_opt d_str v ''country''; countryCode \<leftarrow> d_opt d_str v ''countryCode'';
     lat \<leftarrow> d_opt d_num v ''latitude''; lon \<leftarrow> d_opt d_num v ''longitude'';
     prio \<leftarrow> d_opt d_num v ''priority'';
     Some \<lparr>loc_city = city, loc_cityCode = cityCode, loc_country = country, loc_countryCode = countryCode,
       loc_latitude = lat, loc_longitude = lon, loc_priority = prio\<rparr> }"

definition decode_self :: "jsval \<Rightarrow> SelfNode option" where
  "decode_self v = do {
     _ \<leftarrow> d_record v;
     i \<leftarrow> d_str (js_get v ''id''); h \<leftarrow> d_str (js_get v ''hostname''); d \<leftarrow> d_str (js_get v ''dnsName'');
     ips \<leftarrow> d_nullable (d_list d_str) (js_get v ''tailscaleIPs''); os \<leftarrow> d_str (js_get v ''os'');
     on \<leftarrow> d_bool (js_get v ''online''); key \<leftarrow> d_optn d_str v ''keyExpiry'';
     Some \<lparr>self_id = i, self_hostname = h, self_dnsName = d, self_tailscaleIPs = ips, self_os = os,
       self_online = on, self_keyExpiry = key\<rparr> }"

definition decode_peer :: "jsval \<Rightarrow> PeerInfo option" where
  "decode_peer v = do {
     _ \<leftarrow> d_record v;
     i \<leftarrow> d_str (js_get v ''id''); h \<leftarrow> d_str (js_get v ''hostname''); d \<leftarrow> d_str (js_get v ''dnsName'');
     ips \<leftarrow> d_nullable (d_list d_str) (js_get v ''tailscaleIPs''); os \<leftarrow> d_str (js_get v ''os'');
     on \<leftarrow> d_bool (js_get v ''online''); act \<leftarrow> d_bool (js_get v ''active'');
     ex \<leftarrow> d_bool (js_get v ''exitNode''); exo \<leftarrow> d_bool (js_get v ''exitNodeOption'');
     sr \<leftarrow> d_bool (js_get v ''isSubnetRouter'');
     sub \<leftarrow> d_optn (d_list d_str) v ''subnets''; tags \<leftarrow> d_optn (d_list d_str) v ''tags'';
     rxb \<leftarrow> d_num (js_get v ''rxBytes''); txb \<leftarrow> d_num (js_get v ''txBytes'');
     seen \<leftarrow> d_optn d_str v ''lastSeen''; shake \<leftarrow> d_optn d_str v ''lastHandshake'';
     key \<leftarrow> d_optn d_str v ''keyExpiry''; loc \<leftarrow> d_optn decode_location v ''location'';
     drop_ok \<leftarrow> d_bool (js_get v ''taildropTarget''); ssh \<leftarrow> d_bool (js_get v ''sshHost'');
     uid \<leftarrow> d_num (js_get v ''userId''); un \<leftarrow> d_str (js_get v ''userName'');
     ul \<leftarrow> d_str (js_get v ''userLoginName''); up \<leftarrow> d_str (js_get v ''userProfilePicURL'');
     Some \<lparr>peer_id = i, peer_hostname = h, peer_dnsName = d, peer_tailscaleIPs = ips, peer_os = os,
       peer_online = on, peer_active = act, peer_exitNode = ex, peer_exitNodeOption = exo,
       peer_isSubnetRouter = sr, peer_subnets = sub, peer_tags = tags, peer_rxBytes = rxb,
       peer_txBytes = txb, peer_lastSeen = seen, peer_lastHandshake = shake, peer_keyExpiry = key,
       peer_location = loc, peer_taildropTarget = drop_ok, peer_sshHost = ssh, peer_userId = uid,
       peer_userName = un, peer_userLoginName = ul, peer_userProfilePicURL = up\<rparr> }"

definition decode_exit_node :: "jsval \<Rightarrow> ExitNodeInfo option" where
  "decode_exit_node v = do {
     _ \<leftarrow> d_record v;
     i \<leftarrow> d_str (js_get v ''id''); h \<leftarrow> d_str (js_get v ''hostname''); d \<leftarrow> d_str (js_get v ''dnsName'');
     loc \<leftarrow> d_optn decode_location v ''location''; on \<leftarrow> d_bool (js_get v ''online'');
     Some \<lparr>exit_id = i, exit_hostname = h, exit_dnsName = d, exit_location = loc, exit_online = on\<rparr> }"

definition decode_prefs :: "jsval \<Rightarrow> TailscalePrefs option" where
  "decode_prefs v = do {
     _ \<leftarrow> d_record v;
     ex \<leftarrow> d_opt d_str v ''exitNodeID''; lan \<leftarrow> d_bool (js_get v ''exitNodeAllowLANAccess'');
     dns \<leftarrow> d_bool (js_get v ''corpDNS''); sh \<leftarrow> d_bool (js_get v ''shieldsUp'');
     adv \<leftarrow> d_opt d_bool v ''advertiseExitNode''; ssh \<leftarrow> d_opt d_bool v ''runSSH'';
     routes \<leftarrow> d_optn (d_list d_str) v ''advertiseRoutes''; url \<leftarrow> d_opt d_str v ''controlURL'';
     Some \<lparr>pref_exitNodeID = ex, pref_exitNodeAllowLANAccess = lan, pref_corpDNS = dns, pref_shieldsUp = sh,
       pref_advertiseExitNode = adv, pref_runSSH = ssh, pref_advertiseRoutes = routes, pref_controlURL = url\<rparr> }"

definition decode_backend_state :: "jsval \<Rightarrow> BackendState option" where
  "decode_backend_state v = (case v of JStr s \<Rightarrow> map_of backendStates s | _ \<Rightarrow> None)"

definition d_field :: "(jsval \<Rightarrow> 'a option) \<Rightarrow> jsval \<Rightarrow> string \<Rightarrow> 'a option option" where
  "d_field d v k = (if hasOwn v k then d_nullable d (js_get v k) else None)"

definition decode_status :: "jsval \<Rightarrow> StatusUpdate option" where
  "decode_status v = do {
     _ \<leftarrow> d_record v;
     bs \<leftarrow> decode_backend_state (js_get v ''backendState''); run \<leftarrow> d_bool (js_get v ''running'');
     net \<leftarrow> d_nullable d_str (js_get v ''tailnet''); suf \<leftarrow> d_str (js_get v ''magicDNSSuffix'');
     legacy \<leftarrow> d_opt (d_list d_str) v ''splitDNSDomains''; routes \<leftarrow> d_opt (d_list d_str) v ''dnsRoutes'';
     self \<leftarrow> d_optn decode_self v ''selfNode''; login \<leftarrow> d_bool (js_get v ''needsLogin'');
     browse \<leftarrow> d_opt d_str v ''browseToURL''; auth \<leftarrow> d_opt d_str v ''authURL'';
     ex \<leftarrow> d_optn decode_exit_node v ''exitNode''; peers \<leftarrow> d_field (d_list decode_peer) v ''peers'';
     prefs \<leftarrow> d_optn decode_prefs v ''prefs''; health \<leftarrow> d_field (d_list d_str) v ''health'';
     err \<leftarrow> d_optn d_str v ''error''; trunc \<leftarrow> d_flag v ''peersTruncated''; tot \<leftarrow> d_opt d_nat v ''totalPeers'';
     Some \<lparr>st_backendState = bs, st_running = run, st_tailnet = net, st_magicDNSSuffix = suf,
       st_splitDNSDomains = legacy, st_dnsRoutes = routes, st_selfNode = self, st_needsLogin = login,
       st_browseToURL = browse, st_authURL = auth, st_exitNode = ex, st_peers = peers,
       st_peersTruncated = trunc, st_totalPeers = tot, st_prefs = prefs, st_health = health, st_error = err\<rparr> }"

section \<open>The screen accepts exactly the typed values\<close>

lemma bind_defined: "Option.bind x f \<noteq> None \<longleftrightarrow> x \<noteq> None \<and> f (the x) \<noteq> None"
  by (cases x) auto

lemma d_str_defined: "d_str v \<noteq> None \<longleftrightarrow> isString v"
  by (simp add: d_str_def isString_def split: jsval.splits)

lemma d_bool_defined: "d_bool v \<noteq> None \<longleftrightarrow> isBoolean v"
  by (simp add: d_bool_def isBoolean_def split: jsval.splits)

lemma d_num_defined: "d_num v \<noteq> None \<longleftrightarrow> isFiniteNumber v"
  by (simp add: d_num_def isFiniteNumber_def split: jsval.splits jsnum.splits)

lemma d_list_defined: "d_list d v \<noteq> None \<longleftrightarrow> js_every (\<lambda>x. d x \<noteq> None) v"
proof -
  have "d_all d vs \<noteq> None \<longleftrightarrow> list_all (\<lambda>x. d x \<noteq> None) vs" for vs
  proof (induction vs)
    case (Cons v vs)
    then show ?case unfolding d_all.simps bind_defined by simp
  qed simp
  then show ?thesis by (simp add: d_list_def js_every_def split: jsval.splits)
qed

lemma d_nullable_defined: "d_nullable d v \<noteq> None \<longleftrightarrow> v = JNull \<or> d v \<noteq> None"
  by (simp add: d_nullable_def)

lemma d_opt_defined: "d_opt d v k \<noteq> None \<longleftrightarrow> optionalField v k (\<lambda>x. d x \<noteq> None)"
  by (simp add: d_opt_def optionalField_def)

lemma d_optn_defined: "d_optn d v k \<noteq> None \<longleftrightarrow> optionalField v k (\<lambda>x. x = JNull \<or> d x \<noteq> None)"
  by (simp add: d_optn_def optionalField_def d_nullable_def)

lemma d_field_defined: "d_field d v k \<noteq> None \<longleftrightarrow> hasOwn v k \<and> (js_get v k = JNull \<or> d (js_get v k) \<noteq> None)"
  by (simp add: d_field_def d_nullable_def)

lemma d_flag_defined: "d_flag v k \<noteq> None \<longleftrightarrow> optionalField v k isBoolean"
proof -
  have "d_flag v k \<noteq> None \<longleftrightarrow> d_opt d_bool v k \<noteq> None" by (simp add: d_flag_def)
  then show ?thesis unfolding d_opt_defined d_bool_defined .
qed

lemma d_record_defined: "d_record v \<noteq> None \<longleftrightarrow> isRecord v"
  by (simp add: d_record_def)

lemmas d_defined =
  bind_defined d_str_defined d_bool_defined d_num_defined d_list_defined d_nullable_defined
  d_opt_defined d_optn_defined d_field_defined d_flag_defined d_record_defined option.distinct(2)

lemma isStringArray_every: "isStringArray = js_every isString"
  by (simp add: isStringArray_def fun_eq_iff)

lemma decode_location_defined: "decode_location v \<noteq> None \<longleftrightarrow> isLocation v"
  unfolding decode_location_def isLocation_def d_defined by simp

lemma decode_self_defined: "decode_self v \<noteq> None \<longleftrightarrow> isSelfNode v"
  unfolding decode_self_def isSelfNode_def d_defined
  by (simp add: isNullableStringArray_def isNullableString_def [abs_def] isStringArray_every)

lemma decode_peer_defined: "decode_peer v \<noteq> None \<longleftrightarrow> isPeer v"
  unfolding decode_peer_def isPeer_def d_defined decode_location_defined
  by (simp add: isNullableStringArray_def [abs_def] isNullableString_def [abs_def] isStringArray_every
      isNullableLocation_def [abs_def])

lemma decode_exit_node_defined: "decode_exit_node v \<noteq> None \<longleftrightarrow> isExitNode v"
  unfolding decode_exit_node_def isExitNode_def d_defined decode_location_defined
  by (simp add: isNullableLocation_def [abs_def])

lemma decode_prefs_defined: "decode_prefs v \<noteq> None \<longleftrightarrow> isPrefs v"
  unfolding decode_prefs_def isPrefs_def d_defined
  by (simp add: isNullableStringArray_def [abs_def] isStringArray_every)

lemma decode_backend_state_defined: "decode_backend_state v \<noteq> None \<longleftrightarrow> isBackendState v"
proof (cases v)
  case (JStr s)
  show ?thesis
    unfolding JStr decode_backend_state_def isBackendState_def jsval.case using map_of_eq_None_iff [of backendStates s] by simp
qed (simp_all add: decode_backend_state_def isBackendState_def)

text \<open>A count of peers is a natural number whenever the helper sends one.\<close>

definition counts_natural :: "jsval \<Rightarrow> bool" where
  "counts_natural v \<longleftrightarrow> optionalField v ''totalPeers'' (\<lambda>x. d_nat x \<noteq> None)"

lemma d_nat_num: "d_nat v \<noteq> None \<Longrightarrow> isFiniteNumber v"
  by (auto simp: d_nat_def d_int_def isFiniteNumber_def split: jsval.splits jsnum.splits)

lemma decode_status_defined: "decode_status v \<noteq> None \<longleftrightarrow> isStatus v \<and> counts_natural v"
proof -
  have "counts_natural v \<Longrightarrow> optionalField v ''totalPeers'' isFiniteNumber"
    using d_nat_num by (auto simp: counts_natural_def optionalField_def)
  then show ?thesis
    unfolding decode_status_def isStatus_def d_defined decode_backend_state_defined decode_self_defined
      decode_exit_node_defined decode_peer_defined decode_prefs_defined counts_natural_def
    by (auto simp add: isNullableStringArray_def [abs_def] isStringArray_every isNullableString_def [abs_def])
qed

section \<open>Whole replies\<close>

definition decode_proc :: "jsval \<Rightarrow> ProcRunning option" where
  "decode_proc v = do {
     _ \<leftarrow> d_record v;
     p \<leftarrow> d_num (js_get v ''port''); pid \<leftarrow> d_num (js_get v ''pid'');
     ver \<leftarrow> d_opt d_str v ''version''; err \<leftarrow> d_opt d_str v ''error'';
     f1 \<leftarrow> d_flag v ''supportsNetcheck''; f2 \<leftarrow> d_flag v ''supportsPingPeer''; f3 \<leftarrow> d_flag v ''supportsLogin'';
     f4 \<leftarrow> d_flag v ''supportsCustomControlURL''; f5 \<leftarrow> d_flag v ''supportsDaemonControl'';
     f6 \<leftarrow> d_flag v ''supportsExternalProxy''; f7 \<leftarrow> d_flag v ''supportsExternalProxyLAN'';
     Some \<lparr>proc_port = p, proc_pid = pid, proc_version = ver, proc_error = err, proc_supportsNetcheck = f1,
       proc_supportsPingPeer = f2, proc_supportsLogin = f3, proc_supportsCustomControlURL = f4,
       proc_supportsDaemonControl = f5, proc_supportsExternalProxy = f6, proc_supportsExternalProxyLAN = f7,
       proc_proxyAuth = js_get v ''proxyAuth''\<rparr> }"

definition decode_external_proxy :: "jsval \<Rightarrow> ExternalProxyStatus option" where
  "decode_external_proxy v = do {
     _ \<leftarrow> d_record v;
     pac \<leftarrow> d_opt (\<lambda>p. if p = JStr ''/proxy.pac'' then Some ''/proxy.pac'' else None) v ''pacPath'';
     en \<leftarrow> d_bool (js_get v ''enabled''); run \<leftarrow> d_bool (js_get v ''running''); h \<leftarrow> d_str (js_get v ''host'');
     lan \<leftarrow> d_opt d_bool v ''allowLAN''; addrs \<leftarrow> d_opt (d_list d_str) v ''lanAddresses'';
     p \<leftarrow> d_opt d_num v ''port''; prots \<leftarrow> d_list d_str (js_get v ''protocols'');
     auth \<leftarrow> d_bool (js_get v ''authRequired''); u \<leftarrow> d_opt d_str v ''username''; w \<leftarrow> d_opt d_str v ''password'';
     err \<leftarrow> d_opt d_str v ''error'';
     Some \<lparr>ep_pacPath = pac, ep_enabled = en, ep_running = run, ep_host = h, ep_allowLAN = lan,
       ep_lanAddresses = addrs, ep_port = p, ep_protocols = prots, ep_authRequired = auth,
       ep_username = u, ep_password = w, ep_error = err\<rparr> }"

definition decode_init :: "jsval \<Rightarrow> string option option" where
  "decode_init v = do { _ \<leftarrow> d_record v; d_opt d_str v ''error'' }"

definition decode_profile :: "jsval \<Rightarrow> ProfileInfo option" where
  "decode_profile v = do {
     _ \<leftarrow> d_record v; i \<leftarrow> d_str (js_get v ''id''); n \<leftarrow> d_str (js_get v ''name'');
     Some \<lparr>prof_id = i, prof_name = n\<rparr> }"

definition decode_profiles :: "jsval \<Rightarrow> ProfilesResult option" where
  "decode_profiles v = do {
     _ \<leftarrow> d_record v; c \<leftarrow> decode_profile (js_get v ''current''); ps \<leftarrow> d_list decode_profile (js_get v ''profiles'');
     Some \<lparr>pr_current = c, pr_profiles = ps\<rparr> }"

definition decode_suggestion :: "jsval \<Rightarrow> ExitNodeSuggestion option" where
  "decode_suggestion v = do {
     _ \<leftarrow> d_record v; i \<leftarrow> d_str (js_get v ''id''); h \<leftarrow> d_str (js_get v ''hostname'');
     loc \<leftarrow> d_optn decode_location v ''location'';
     Some \<lparr>sug_id = i, sug_hostname = h, sug_location = loc\<rparr> }"

definition decode_progress :: "jsval \<Rightarrow> FileSendProgress option" where
  "decode_progress v = do {
     _ \<leftarrow> d_record v; t \<leftarrow> d_str (js_get v ''targetNodeID''); n \<leftarrow> d_str (js_get v ''name'');
     p \<leftarrow> d_int (js_get v ''percent''); d \<leftarrow> d_bool (js_get v ''done''); err \<leftarrow> d_optn d_str v ''error'';
     Some \<lparr>fsp_targetNodeID = t, fsp_name = n, fsp_percent = p, fsp_done = d, fsp_error = err\<rparr> }"

definition decode_pair :: "string \<Rightarrow> string \<Rightarrow> jsval \<Rightarrow> (string \<times> string) option" where
  "decode_pair a b v = do {
     _ \<leftarrow> d_record v; x \<leftarrow> d_str (js_get v a); y \<leftarrow> d_str (js_get v b); Some (x, y) }"

definition decode_reply :: "jsval \<Rightarrow> NativeReply option" where
  "decode_reply v = do {
     _ \<leftarrow> d_record v;
     proc \<leftarrow> d_opt decode_proc v ''procRunning''; ini \<leftarrow> d_opt decode_init v ''init'';
     pong \<leftarrow> d_opt d_record v ''pong''; st \<leftarrow> d_opt decode_status v ''status'';
     profs \<leftarrow> d_opt decode_profiles v ''profiles''; sug \<leftarrow> d_opt decode_suggestion v ''exitNodeSuggestion'';
     prog \<leftarrow> d_opt decode_progress v ''fileSendProgress'';
     diag \<leftarrow> d_opt (decode_pair ''title'' ''body'') v ''diagnostic'';
     ep \<leftarrow> d_opt decode_external_proxy v ''externalProxy''; err \<leftarrow> d_opt (decode_pair ''cmd'' ''message'') v ''error'';
     Some \<lparr>nr_procRunning = proc, nr_init = ini, nr_pong = (pong \<noteq> None), nr_status = st, nr_profiles = profs,
       nr_exitNodeSuggestion = sug, nr_fileSendProgress = prog, nr_diagnostic = diag,
       nr_externalProxy = ep, nr_error = err\<rparr> }"

lemma decode_proc_defined: "decode_proc v \<noteq> None \<longleftrightarrow> isProcRunning v"
  unfolding decode_proc_def isProcRunning_def d_defined by simp

lemma decode_external_proxy_defined: "decode_external_proxy v \<noteq> None \<longleftrightarrow> isExternalProxy v"
proof -
  have pac: "((if p = JStr ''/proxy.pac'' then Some ''/proxy.pac'' else None) \<noteq> None) = (p = JStr ''/proxy.pac'')" for p
    by simp
  show ?thesis
    unfolding decode_external_proxy_def isExternalProxy_def d_defined pac isStringArray_every by auto
qed

lemma decode_init_defined: "decode_init v \<noteq> None \<longleftrightarrow> isInit v"
  unfolding decode_init_def isInit_def d_defined ..

lemma decode_profile_defined: "decode_profile v \<noteq> None \<longleftrightarrow> isProfile v"
  unfolding decode_profile_def isProfile_def d_defined by simp

lemma decode_profiles_defined: "decode_profiles v \<noteq> None \<longleftrightarrow> isProfiles v"
  unfolding decode_profiles_def isProfiles_def d_defined decode_profile_defined by simp

lemma decode_suggestion_defined: "decode_suggestion v \<noteq> None \<longleftrightarrow> isExitNodeSuggestion v"
  unfolding decode_suggestion_def isExitNodeSuggestion_def d_defined decode_location_defined
  by (simp add: isNullableLocation_def [abs_def])

lemma decode_pair_defined: "decode_pair a b v \<noteq> None \<longleftrightarrow> isRecord v \<and> isString (js_get v a) \<and> isString (js_get v b)"
  unfolding decode_pair_def d_defined by simp

lemma d_int_num: "d_int v \<noteq> None \<Longrightarrow> isFiniteNumber v"
  by (auto simp: d_int_def isFiniteNumber_def split: jsval.splits jsnum.splits)

lemma decode_progress_defined:
  "decode_progress v \<noteq> None \<longleftrightarrow> isFileSendProgress v \<and> d_int (js_get v ''percent'') \<noteq> None"
  unfolding decode_progress_def isFileSendProgress_def d_defined
  using d_int_num [of "js_get v ''percent''"] by (auto simp: isNullableString_def [abs_def])

text \<open>The two numbers the model keeps as integers are integers in the message.\<close>

definition integral_reply :: "jsval \<Rightarrow> bool" where
  "integral_reply v \<longleftrightarrow>
     optionalField v ''status'' counts_natural \<and>
     optionalField v ''fileSendProgress'' (\<lambda>p. d_int (js_get p ''percent'') \<noteq> None)"

lemma validate_fields_iff:
  "validate_fields vs r v \<longleftrightarrow>
     (\<forall>(k, P)\<in>set vs. optionalField v k P) \<and> (r \<or> (\<exists>(k, P)\<in>set vs. hasOwn v k))"
  by (induction vs r v rule: validate_fields.induct) (auto simp: optionalField_def)



end
