(* ===== verification/Native_Host.thy ===== *)
theory Native_Host
  imports Native_Reply Helper_Diagnostics
begin

text \<open>
  The connection to the native helper (\<open>packages/shared/src/background/native-host.ts\<close>): connecting in
  asynchronous stages, the message and disconnect handlers of the port, classification of
  failures and the reconnect back-off. A port is its number. What the source awaits splits
  \<open>performConnect\<close>: \<open>nh_phase\<close> says which await is pending, so the \<open>connectPromise\<close> is set while it is not
  \<open>NotConnecting\<close>. Every call to the outside is appended to \<open>nh_log\<close>.
\<close>

datatype NativeConnectionEvent =
    Connected
  | Disconnected "HelperFailure option" bool
  | DiagnosticEvent string "string option"

datatype host_effect =
    Emit NativeConnectionEvent
  | Deliver jsval
  | OpenPort nat
  | PostMessage nat NativeRequest
  | ClosePort nat
  | PortLost nat
  | SetReconnectTimer nat
  | ClearReconnectTimer
  | StoreProfileID string

datatype ConnectPhase = NotConnecting | AwaitProfile | AwaitWantRunning

record NativeHostConnection =
  nh_port :: "nat option"
  nh_profileID :: "string option"
  nh_reconnectDelay :: nat
  nh_intentionalDisconnect :: bool
  nh_hasReceivedValidMessage :: bool
  nh_phase :: ConnectPhase
  nh_hasWantRunning :: bool
  nh_timer :: "nat option"
  nh_ports :: nat
  nh_log :: "host_effect list"

definition host_init :: "bool \<Rightarrow> NativeHostConnection" where
  "host_init hasWantRunning =
     \<lparr>nh_port = None, nh_profileID = None, nh_reconnectDelay = RECONNECT_BASE_MS,
      nh_intentionalDisconnect = False, nh_hasReceivedValidMessage = False, nh_phase = NotConnecting,
      nh_hasWantRunning = hasWantRunning, nh_timer = None, nh_ports = 0, nh_log = []\<rparr>"

definition logs :: "host_effect list \<Rightarrow> NativeHostConnection \<Rightarrow> NativeHostConnection" where
  "logs es h = h\<lparr>nh_log := nh_log h @ es\<rparr>"

definition emit :: "NativeConnectionEvent \<Rightarrow> NativeHostConnection \<Rightarrow> NativeHostConnection" where
  "emit ev h = logs [Emit ev] h"

definition emitDiagnostic :: "string \<Rightarrow> detail \<Rightarrow> NativeHostConnection \<Rightarrow> NativeHostConnection" where
  "emitDiagnostic code det h = emit (DiagnosticEvent code (sanitizeDiagnosticMessage det)) h"

definition clear_reconnect :: "NativeHostConnection \<Rightarrow> NativeHostConnection" where
  "clear_reconnect h = logs [ClearReconnectTimer] (h\<lparr>nh_timer := None\<rparr>)"

text \<open>The timer service replaces a pending timer of the same name.\<close>

definition backoffAndReconnect :: "NativeHostConnection \<Rightarrow> NativeHostConnection" where
  "backoffAndReconnect h =
     (let delay = nh_reconnectDelay h
      in logs [SetReconnectTimer delay]
           (h\<lparr>nh_reconnectDelay := min (nh_reconnectDelay h * 2) RECONNECT_MAX_MS, nh_timer := Some delay\<rparr>))"

definition handleStartFailure :: "string \<Rightarrow> detail \<Rightarrow> NativeHostConnection \<Rightarrow> NativeHostConnection" where
  "handleStartFailure code det h =
     backoffAndReconnect (emit (Disconnected (Some \<lparr>hf_kind = HelperStartFailed, hf_code = code,
       hf_message = sanitizeDiagnosticMessage det\<rparr>) True) h)"

section \<open>Connecting\<close>

definition nh_connect :: "NativeHostConnection \<Rightarrow> NativeHostConnection" where
  "nh_connect h =
     (if nh_phase h \<noteq> NotConnecting then h
      else (clear_reconnect (h\<lparr>nh_intentionalDisconnect := False\<rparr>))\<lparr>nh_phase := AwaitProfile\<rparr>)"

text \<open>The stored profile id, or a fresh one (\<open>uuid\<close>, from \<open>crypto.randomUUID\<close>) that is stored.\<close>

definition getOrCreateProfileID :: "jsval \<Rightarrow> string \<Rightarrow> string \<times> host_effect list" where
  "getOrCreateProfileID stored uuid =
     (case stored of
        JStr s \<Rightarrow> if s \<noteq> [] then (s, []) else (uuid, [StoreProfileID uuid])
      | _ \<Rightarrow> (uuid, [StoreProfileID uuid]))"

text \<open>What the browser does when a port is opened: it may throw, and so may the first post.\<close>

datatype OpenResult = OpenThrows detail | InitThrows detail | Opened

definition open_port :: "bool option \<Rightarrow> OpenResult \<Rightarrow> NativeHostConnection \<Rightarrow> NativeHostConnection" where
  "open_port wantRunning res h0 =
     (let h = h0\<lparr>nh_phase := NotConnecting\<rparr>; n = nh_ports h in
      case res of
        OpenThrows err \<Rightarrow> handleStartFailure ''native-connect-threw'' err h
      | InitThrows err \<Rightarrow>
          handleStartFailure ''native-init-send-failed'' err
            (logs [OpenPort n, ClosePort n] (h\<lparr>nh_port := None, nh_ports := Suc n\<rparr>))
      | Opened \<Rightarrow>
          logs [OpenPort n, PostMessage n (Init (js_default (nh_profileID h) []) wantRunning)]
            (h\<lparr>nh_port := Some n, nh_ports := Suc n\<rparr>))"

text \<open>
  The profile id arrives (\<open>Inl\<close> is a rejected storage call). Without a hint provider the port is
  opened at once; otherwise the hint is awaited first.
\<close>

definition profile_ready :: "detail + (jsval \<times> string) \<Rightarrow> OpenResult \<Rightarrow> NativeHostConnection \<Rightarrow> NativeHostConnection" where
  "profile_ready res opened h =
     (if nh_phase h \<noteq> AwaitProfile then h
      else (case res of
              Inl err \<Rightarrow> handleStartFailure ''native-profile-initialization-failed'' err (h\<lparr>nh_phase := NotConnecting\<rparr>)
            | Inr (stored, uuid) \<Rightarrow>
                (let (pid, effs) = getOrCreateProfileID stored uuid;
                     h1 = logs (effs @ (case nh_port h of Some n \<Rightarrow> [ClosePort n] | None \<Rightarrow> []))
                            (h\<lparr>nh_profileID := Some pid, nh_port := None, nh_hasReceivedValidMessage := False\<rparr>)
                 in if nh_hasWantRunning h then h1\<lparr>nh_phase := AwaitWantRunning\<rparr> else open_port None opened h1)))"

definition want_running_ready :: "detail + bool option \<Rightarrow> OpenResult \<Rightarrow> NativeHostConnection \<Rightarrow> NativeHostConnection" where
  "want_running_ready res opened h =
     (if nh_phase h \<noteq> AwaitWantRunning then h
      else (case res of
              Inl err \<Rightarrow> open_port None opened (emitDiagnostic ''native-want-running-failed'' err h)
            | Inr w \<Rightarrow> open_port w opened h))"

definition nh_disconnect :: "NativeHostConnection \<Rightarrow> NativeHostConnection" where
  "nh_disconnect h =
     (let h1 = clear_reconnect (h\<lparr>nh_intentionalDisconnect := True\<rparr>);
          h2 = logs (case nh_port h1 of Some n \<Rightarrow> [ClosePort n] | None \<Rightarrow> [])
                 (h1\<lparr>nh_port := None, nh_hasReceivedValidMessage := False\<rparr>)
      in emit (Disconnected None False) h2)"

definition cmd_text :: "NativeRequest \<Rightarrow> string" where
  "cmd_text r = (case r of
     Init _ _ \<Rightarrow> ''init'' | Login \<Rightarrow> ''login'' | Up \<Rightarrow> ''up'' | Down \<Rightarrow> ''down'' | GetStatus \<Rightarrow> ''get-status''
   | Ping \<Rightarrow> ''ping'' | SetExitNode _ \<Rightarrow> ''set-exit-node'' | SetPrefs _ \<Rightarrow> ''set-prefs''
   | ListProfiles \<Rightarrow> ''list-profiles'' | SwitchProfile _ \<Rightarrow> ''switch-profile'' | NewProfile \<Rightarrow> ''new-profile''
   | DeleteProfile _ \<Rightarrow> ''delete-profile'' | SendFile _ \<Rightarrow> ''send-file'' | SuggestExitNode \<Rightarrow> ''suggest-exit-node''
   | Logout \<Rightarrow> ''logout'' | PingPeer _ \<Rightarrow> ''ping-peer'' | Netcheck \<Rightarrow> ''netcheck''
   | GetExternalProxyStatus \<Rightarrow> ''get-external-proxy-status'' | SetExternalProxy _ \<Rightarrow> ''set-external-proxy''
   | SetExternalProxyLAN _ \<Rightarrow> ''set-external-proxy-lan'' | RevealExternalProxy \<Rightarrow> ''reveal-external-proxy''
   | RotateExternalProxyCredentials \<Rightarrow> ''rotate-external-proxy-credentials'')"

text \<open>\<open>post\<close> is the exception \<open>postMessage\<close> throws, if any.\<close>

definition nh_send :: "NativeRequest \<Rightarrow> detail option \<Rightarrow> NativeHostConnection \<Rightarrow> bool \<times> NativeHostConnection" where
  "nh_send r post h =
     (case nh_port h of
        None \<Rightarrow> (False, h)
      | Some n \<Rightarrow>
          (case post of
             None \<Rightarrow> (True, logs [PostMessage n r] h)
           | Some err \<Rightarrow> (False, emitDiagnostic (''native-send-'' @ cmd_text r @ ''-failed'') err h)))"

section \<open>The port's listeners\<close>

definition handleMessage :: "nat \<Rightarrow> jsval \<Rightarrow> NativeHostConnection \<Rightarrow> NativeHostConnection" where
  "handleMessage sourcePort msg h =
     (if nh_port h \<noteq> Some sourcePort then h
      else if \<not> isValidNativeReply msg then emitDiagnostic ''native-message-invalid'' NoDetail h
      else (let h1 = h\<lparr>nh_reconnectDelay := RECONNECT_BASE_MS\<rparr>;
                h2 = (if \<not> nh_hasReceivedValidMessage h1
                      then emit Connected (h1\<lparr>nh_hasReceivedValidMessage := True\<rparr>) else h1)
            in logs [Deliver msg] h2))"

definition dot_star :: rx where
  "dot_star = Star (Cls (\<lambda>c. c \<noteq> newline \<and> c \<noteq> CHR 0x0D))"

definition classifyDisconnect :: "string \<Rightarrow> bool \<Rightarrow> HelperFailure" where
  "classifyDisconnect errorMessage wasHealthy =
     (let message = sanitizeDiagnosticMessage (TextDetail errorMessage);
          normalized = js_lower errorMessage
      in if wasHealthy
         then \<lparr>hf_kind = HelperStopped, hf_code = ''native-host-stopped'', hf_message = message\<rparr>
         else if rx_test (rx_seq [rx_lit ''specified native messaging host '', dot_star, rx_lit ''not found'']) normalized
           \<or> rx_test (rx_seq [rx_lit ''native messaging host '', dot_star, rx_lit ''not found'']) normalized
           \<or> js_includes ''no such native application'' normalized
         then \<lparr>hf_kind = HelperUnavailable, hf_code = ''native-host-unavailable'', hf_message = message\<rparr>
         else if rx_test (rx_seq [rx_lit ''native messaging host '', dot_star, rx_lit ''forbidden'']) normalized
           \<or> rx_test (rx_seq [rx_lit ''native messaging host '', dot_star, rx_lit ''not allowed'']) normalized
           \<or> js_includes ''is forbidden'' normalized \<or> js_includes ''not allowed'' normalized
         then \<lparr>hf_kind = HelperNotAllowed, hf_code = ''native-host-not-allowed'', hf_message = message\<rparr>
         else \<lparr>hf_kind = HelperStartFailed, hf_code = ''native-host-start-failed'', hf_message = message\<rparr>)"

text \<open>\<open>lastError\<close> is Chrome's message and \<open>portError\<close> Firefox's.\<close>

definition handleDisconnect :: "nat \<Rightarrow> string option \<Rightarrow> string option \<Rightarrow> NativeHostConnection \<Rightarrow> NativeHostConnection" where
  "handleDisconnect disconnectedPort lastError portError h =
     (if nh_port h \<noteq> Some disconnectedPort then h
      else (let errorMessage = (case lastError of Some m \<Rightarrow> m | None \<Rightarrow> js_default portError []);
                wasHealthy = nh_hasReceivedValidMessage h;
                h1 = logs [PortLost disconnectedPort] (h\<lparr>nh_port := None, nh_hasReceivedValidMessage := False\<rparr>)
            in if nh_intentionalDisconnect h1 then h1
               else (let failure = classifyDisconnect errorMessage wasHealthy;
                         reconnecting = (hf_kind failure = HelperStartFailed \<or> hf_kind failure = HelperStopped)
                     in backoffAndReconnect (emit (Disconnected (Some failure) reconnecting) h1))))"

text \<open>The reconnect timer fires.\<close>

definition reconnect_fired :: "NativeHostConnection \<Rightarrow> NativeHostConnection" where
  "reconnect_fired h = (case nh_timer h of None \<Rightarrow> h | Some d \<Rightarrow> nh_connect (h\<lparr>nh_timer := None\<rparr>))"

section \<open>The connection as a state machine\<close>

datatype host_event =
    HConnect
  | HProfile "detail + (jsval \<times> string)" OpenResult
  | HWantRunning "detail + bool option" OpenResult
  | HDisconnect
  | HSend NativeRequest "detail option"
  | HMessage nat jsval
  | HPortDisconnect nat "string option" "string option"
  | HTimer

fun host_run :: "host_event \<Rightarrow> NativeHostConnection \<Rightarrow> NativeHostConnection" where
  "host_run HConnect h = nh_connect h"
| "host_run (HProfile r p) h = profile_ready r p h"
| "host_run (HWantRunning r p) h = want_running_ready r p h"
| "host_run HDisconnect h = nh_disconnect h"
| "host_run (HSend r p) h = snd (nh_send r p h)"
| "host_run (HMessage n m) h = handleMessage n m h"
| "host_run (HPortDisconnect n a b) h = handleDisconnect n a b h"
| "host_run HTimer h = reconnect_fired h"

inductive host_reach :: "NativeHostConnection \<Rightarrow> bool" where
  start: "host_reach (host_init w)"
| step: "host_reach h \<Longrightarrow> host_reach (host_run e h)"

text \<open>The ports opened and neither closed nor lost.\<close>

definition live_ports :: "host_effect list \<Rightarrow> nat set" where
  "live_ports es = {n. OpenPort n \<in> set es \<and> ClosePort n \<notin> set es \<and> PortLost n \<notin> set es}"

definition delay_ok :: "nat \<Rightarrow> bool" where
  "delay_ok d \<longleftrightarrow> RECONNECT_BASE_MS \<le> d \<and> d \<le> RECONNECT_MAX_MS"

definition effect_ok :: "nat \<Rightarrow> host_effect \<Rightarrow> bool" where
  "effect_ok k e = (case e of
     OpenPort n \<Rightarrow> n < k | ClosePort n \<Rightarrow> n < k | PortLost n \<Rightarrow> n < k | PostMessage n r \<Rightarrow> n < k
   | SetReconnectTimer d \<Rightarrow> delay_ok d | _ \<Rightarrow> True)"

definition host_inv :: "NativeHostConnection \<Rightarrow> bool" where
  "host_inv h \<longleftrightarrow>
     delay_ok (nh_reconnectDelay h) \<and>
     list_all (effect_ok (nh_ports h)) (nh_log h) \<and>
     live_ports (nh_log h) = set_option (nh_port h) \<and>
     (nh_hasReceivedValidMessage h \<longrightarrow> nh_port h \<noteq> None) \<and>
     (\<forall>n. nh_port h = Some n \<longrightarrow> (\<exists>pid w. PostMessage n (Init pid w) \<in> set (nh_log h)))"

lemma delay_ok_next: "delay_ok d \<Longrightarrow> delay_ok (min (d * 2) RECONNECT_MAX_MS)"
  by (simp add: delay_ok_def RECONNECT_BASE_MS_def RECONNECT_MAX_MS_def)

lemma delay_ok_base: "delay_ok RECONNECT_BASE_MS"
  by (simp add: delay_ok_def RECONNECT_BASE_MS_def RECONNECT_MAX_MS_def)

lemma host_init_inv: "host_inv (host_init w)"
  by (simp add: host_inv_def host_init_def delay_ok_base live_ports_def)

lemma live_ports_append:
  "live_ports (xs @ ys) = (live_ports xs \<union> {n. OpenPort n \<in> set ys \<and> ClosePort n \<notin> set xs \<and> PortLost n \<notin> set xs})
     - {n. ClosePort n \<in> set ys \<or> PortLost n \<in> set ys}"
  by (auto simp: live_ports_def)

text \<open>Effects that concern no port leave the invariant alone.\<close>

definition neutral :: "host_effect \<Rightarrow> bool" where
  "neutral e = (case e of OpenPort _ \<Rightarrow> False | ClosePort _ \<Rightarrow> False | PortLost _ \<Rightarrow> False
     | PostMessage _ _ \<Rightarrow> False | SetReconnectTimer d \<Rightarrow> delay_ok d | _ \<Rightarrow> True)"

lemma neutral_live: "list_all neutral es \<Longrightarrow> live_ports (xs @ es) = live_ports xs"
  by (auto simp: live_ports_def list_all_iff neutral_def split: host_effect.splits)

lemma neutral_effect_ok: "list_all neutral es \<Longrightarrow> list_all (effect_ok k) es"
  by (auto simp: list_all_iff neutral_def effect_ok_def split: host_effect.splits)

lemma logs_inv: "host_inv h \<Longrightarrow> list_all neutral es \<Longrightarrow> host_inv (logs es h)"
  unfolding host_inv_def logs_def by (simp add: neutral_live neutral_effect_ok) blast

lemma flags_inv [simp]:
  "host_inv (h\<lparr>nh_phase := p\<rparr>) = host_inv h" "host_inv (h\<lparr>nh_timer := t\<rparr>) = host_inv h"
  "host_inv (h\<lparr>nh_intentionalDisconnect := b\<rparr>) = host_inv h" "host_inv (h\<lparr>nh_profileID := i\<rparr>) = host_inv h"
  by (simp_all add: host_inv_def)

lemma emit_inv [simp]: "host_inv h \<Longrightarrow> host_inv (emit ev h)"
  unfolding emit_def by (rule logs_inv) (simp_all add: neutral_def)

lemma emitDiagnostic_inv [simp]: "host_inv h \<Longrightarrow> host_inv (emitDiagnostic c d h)"
  by (simp add: emitDiagnostic_def)

lemma clear_reconnect_inv [simp]: "host_inv h \<Longrightarrow> host_inv (clear_reconnect h)"
  unfolding clear_reconnect_def by (rule logs_inv) (simp_all add: neutral_def)

lemma backoff_inv [simp]: "host_inv h \<Longrightarrow> host_inv (backoffAndReconnect h)"
proof -
  assume inv: "host_inv h"
  then have "delay_ok (nh_reconnectDelay h)" by (simp add: host_inv_def)
  with inv show ?thesis unfolding backoffAndReconnect_def Let_def
    by (intro logs_inv) (simp_all add: host_inv_def neutral_def delay_ok_next)
qed

lemma handleStartFailure_inv [simp]: "host_inv h \<Longrightarrow> host_inv (handleStartFailure c d h)"
  by (simp add: handleStartFailure_def)

text \<open>Letting the current port go, and opening the next.\<close>

lemma drop_port_inv:
  assumes "host_inv h" and "e = ClosePort \<or> e = PortLost"
  shows "host_inv (logs (case nh_port h of Some n \<Rightarrow> [e n] | None \<Rightarrow> []) (h\<lparr>nh_port := None, nh_hasReceivedValidMessage := False\<rparr>))"
proof (cases "nh_port h")
  case None
  with assms(1) show ?thesis by (simp add: host_inv_def logs_def)
next
  case (Some n)
  have "live_ports (nh_log h @ [e n]) = {}"
    using assms Some unfolding live_ports_append host_inv_def by auto
  moreover have "n \<in> live_ports (nh_log h)" using assms(1) Some by (simp add: host_inv_def)
  then have "n < nh_ports h"
    using assms(1) by (auto simp: host_inv_def live_ports_def list_all_iff effect_ok_def)
  then have "effect_ok (nh_ports h) (e n)" using assms(2) by (auto simp: effect_ok_def)
  ultimately show ?thesis using assms(1) Some by (simp add: host_inv_def logs_def)
qed

lemma effect_ok_mono: "effect_ok k e \<Longrightarrow> k \<le> l \<Longrightarrow> effect_ok l e"
  by (auto simp: effect_ok_def split: host_effect.splits)

lemma fresh_port:
  assumes "host_inv h"
  shows "OpenPort (nh_ports h) \<notin> set (nh_log h)" "ClosePort (nh_ports h) \<notin> set (nh_log h)"
    "PortLost (nh_ports h) \<notin> set (nh_log h)"
  using assms by (auto simp: host_inv_def list_all_iff effect_ok_def)

lemma effects_mono: "host_inv h \<Longrightarrow> list_all (effect_ok (Suc (nh_ports h))) (nh_log h)"
  by (auto simp: host_inv_def list_all_iff intro: effect_ok_mono)

lemma new_port_inv:
  assumes "host_inv h" and "nh_port h = None"
  shows "host_inv (logs [OpenPort (nh_ports h), PostMessage (nh_ports h) (Init pid w)]
      (h\<lparr>nh_port := Some (nh_ports h), nh_ports := Suc (nh_ports h)\<rparr>))"
    and "host_inv (logs [OpenPort (nh_ports h), ClosePort (nh_ports h)]
      (h\<lparr>nh_port := None, nh_ports := Suc (nh_ports h)\<rparr>))"
proof -
  note fresh = fresh_port [OF assms(1)]
  have dead: "live_ports (nh_log h) = {}" using assms by (simp add: host_inv_def)
  have "live_ports (nh_log h @ [OpenPort (nh_ports h), PostMessage (nh_ports h) (Init pid w)]) = {nh_ports h}"
    "live_ports (nh_log h @ [OpenPort (nh_ports h), ClosePort (nh_ports h)]) = {}"
    unfolding live_ports_append dead using fresh by auto
  then show "host_inv (logs [OpenPort (nh_ports h), PostMessage (nh_ports h) (Init pid w)]
      (h\<lparr>nh_port := Some (nh_ports h), nh_ports := Suc (nh_ports h)\<rparr>))"
    "host_inv (logs [OpenPort (nh_ports h), ClosePort (nh_ports h)]
      (h\<lparr>nh_port := None, nh_ports := Suc (nh_ports h)\<rparr>))"
    using assms effects_mono [OF assms(1)]
    by (auto simp: host_inv_def logs_def effect_ok_def)
qed

definition host_ok :: "NativeHostConnection \<Rightarrow> bool" where
  "host_ok h \<longleftrightarrow> host_inv h \<and> (nh_phase h = AwaitWantRunning \<longrightarrow> nh_port h = None)"

lemma port_unchanged [simp]:
  "nh_port (logs es h) = nh_port h" "nh_phase (logs es h) = nh_phase h" "nh_ports (logs es h) = nh_ports h"
  "nh_port (emitDiagnostic c d h) = nh_port h" "nh_phase (emitDiagnostic c d h) = nh_phase h"
  "nh_phase (handleStartFailure c d h) = nh_phase h" "nh_port (handleStartFailure c d h) = nh_port h"
  "nh_phase (backoffAndReconnect h) = nh_phase h" "nh_port (backoffAndReconnect h) = nh_port h"
  "nh_port (emit ev h) = nh_port h" "nh_phase (emit ev h) = nh_phase h"
  "nh_hasWantRunning (logs es h) = nh_hasWantRunning h" "nh_port (clear_reconnect h) = nh_port h"
  "nh_phase (clear_reconnect h) = nh_phase h"
  by (simp_all add: logs_def emitDiagnostic_def emit_def handleStartFailure_def backoffAndReconnect_def
      clear_reconnect_def Let_def)

lemma open_port_ok:
  assumes "host_inv h" and "nh_port h = None"
  shows "host_ok (open_port w res h)"
proof -
  have h: "host_inv (h\<lparr>nh_phase := NotConnecting\<rparr>)" "nh_port (h\<lparr>nh_phase := NotConnecting\<rparr>) = None"
    using assms by simp_all
  from new_port_inv [OF h] h show ?thesis
    by (cases res) (simp_all add: open_port_def host_ok_def Let_def)
qed

lemma connect_ok: "host_ok h \<Longrightarrow> host_ok (nh_connect h)"
  by (simp add: nh_connect_def host_ok_def)

lemma logs_append: "logs (xs @ ys) h = logs ys (logs xs h)"
  by (simp add: logs_def)

lemma profile_ready_ok:
  assumes "host_ok h"
  shows "host_ok (profile_ready res p h)"
proof (cases "nh_phase h = AwaitProfile")
  case True
  show ?thesis
  proof (cases res)
    case (Inl err)
    with True assms show ?thesis by (simp add: profile_ready_def host_ok_def)
  next
    case (Inr sv)
    obtain pid effs where g: "getOrCreateProfileID (fst sv) (snd sv) = (pid, effs)"
      by (cases "getOrCreateProfileID (fst sv) (snd sv)")
    then have neutral: "list_all neutral effs"
      by (auto simp: getOrCreateProfileID_def neutral_def split: jsval.splits if_splits)
    let ?h = "logs effs (h\<lparr>nh_profileID := Some pid\<rparr>)"
    let ?d = "logs (case nh_port h of Some n \<Rightarrow> [ClosePort n] | None \<Rightarrow> []) (?h\<lparr>nh_port := None, nh_hasReceivedValidMessage := False\<rparr>)"
    have "host_inv ?h" using assms neutral by (intro logs_inv) (simp_all add: host_ok_def)
    from drop_port_inv [OF this, of ClosePort] have inv: "host_inv ?d" by simp
    have eq: "logs (effs @ (case nh_port h of Some n \<Rightarrow> [ClosePort n] | None \<Rightarrow> []))
        (h\<lparr>nh_profileID := Some pid, nh_port := None, nh_hasReceivedValidMessage := False\<rparr>) = ?d"
      by (simp add: logs_def)
    have "profile_ready res p h = (if nh_hasWantRunning h then ?d\<lparr>nh_phase := AwaitWantRunning\<rparr> else open_port None p ?d)"
      using True Inr g eq by (simp add: profile_ready_def case_prod_beta Let_def)
    with inv show ?thesis by (simp add: host_ok_def) (use open_port_ok [OF inv] in \<open>simp add: host_ok_def\<close>)
  qed
qed (simp add: profile_ready_def assms)

lemma want_running_ok: "host_ok h \<Longrightarrow> host_ok (want_running_ready res p h)"
  by (auto simp: want_running_ready_def host_ok_def [of h] intro: open_port_ok split: sum.split)

lemma disconnect_ok: "host_ok h \<Longrightarrow> host_ok (nh_disconnect h)"
  using drop_port_inv [of "clear_reconnect (h\<lparr>nh_intentionalDisconnect := True\<rparr>)" ClosePort]
  by (simp add: nh_disconnect_def host_ok_def Let_def)

lemma post_inv:
  assumes "host_inv h" and "nh_port h = Some n"
  shows "host_inv (logs [PostMessage n r] h)"
proof -
  have "n \<in> live_ports (nh_log h)" using assms by (simp add: host_inv_def)
  then have "n < nh_ports h"
    using assms(1) by (auto simp: host_inv_def live_ports_def list_all_iff effect_ok_def)
  moreover have "live_ports (nh_log h @ [PostMessage n r]) = live_ports (nh_log h)"
    by (auto simp: live_ports_def)
  ultimately show ?thesis using assms by (auto simp: host_inv_def logs_def effect_ok_def)
qed

lemma send_ok: "host_ok h \<Longrightarrow> host_ok (snd (nh_send r p h))"
  using post_inv [of h] by (auto simp: nh_send_def host_ok_def split: option.split)

lemma handleMessage_ok:
  assumes "host_ok h"
  shows "host_ok (handleMessage n m h)"
proof -
  have "host_inv (h\<lparr>nh_reconnectDelay := RECONNECT_BASE_MS, nh_hasReceivedValidMessage := True\<rparr>)"
    "host_inv (h\<lparr>nh_reconnectDelay := RECONNECT_BASE_MS\<rparr>)" if "nh_port h = Some n"
    using assms that delay_ok_base by (simp_all add: host_ok_def host_inv_def)
  then show ?thesis
    using assms by (auto simp: handleMessage_def host_ok_def Let_def neutral_def intro!: logs_inv)
qed

lemma handleDisconnect_ok:
  assumes "host_ok h"
  shows "host_ok (handleDisconnect n a b h)"
proof -
  have "host_inv (logs [PortLost n] (h\<lparr>nh_port := None, nh_hasReceivedValidMessage := False\<rparr>))" if "nh_port h = Some n"
    using drop_port_inv [of h PortLost] assms that by (simp add: host_ok_def)
  then show ?thesis
    using assms by (auto simp: handleDisconnect_def host_ok_def Let_def)
qed

lemma host_run_ok: "host_ok h \<Longrightarrow> host_ok (host_run e h)"
  by (cases e) (simp_all add: connect_ok profile_ready_ok want_running_ok disconnect_ok send_ok
      handleMessage_ok handleDisconnect_ok, simp add: reconnect_fired_def connect_ok host_ok_def split: option.split,
      auto simp: nh_connect_def)

lemma host_reach_ok: "host_reach h \<Longrightarrow> host_ok h"
  by (induction rule: host_reach.induct)
    (auto simp: host_run_ok, simp add: host_ok_def host_init_inv, simp add: host_init_def)

text \<open>C16: in every reachable state the live port, if any, is the only one opened and neither closed nor lost, and the init message was posted to it.\<close>

theorem host_single_port:
  assumes "host_reach h"
  shows "live_ports (nh_log h) = set_option (nh_port h) \<and>
    (\<forall>n. nh_port h = Some n \<longrightarrow> (\<exists>pid w. PostMessage n (Init pid w) \<in> set (nh_log h)))"
  using host_reach_ok [OF assms] by (simp add: host_ok_def host_inv_def)

lemma host_reach_fold: "host_reach h \<Longrightarrow> host_reach (fold host_run es h)"
  by (induction es arbitrary: h) (simp_all add: host_reach.step)

theorem host_single_port_witness:
  "live_ports (nh_log (fold host_run [HConnect, HProfile (Inr (JStr ''p'', ''u'')) Opened] (host_init False))) = {0}"
  using host_single_port [OF host_reach_fold [OF host_reach.start, of "[HConnect, HProfile (Inr (JStr ''p'', ''u'')) Opened]" False]]
  by (simp add: host_init_def nh_connect_def clear_reconnect_def logs_def profile_ready_def getOrCreateProfileID_def
      open_port_def Let_def)

text \<open>C39: every reconnect delay lies between one and thirty seconds.\<close>

theorem reconnect_delays_bounded:
  assumes "host_reach h"
  shows "1000 \<le> nh_reconnectDelay h \<and> nh_reconnectDelay h \<le> 30000 \<and>
    list_all (\<lambda>e. case e of SetReconnectTimer d \<Rightarrow> 1000 \<le> d \<and> d \<le> 30000 | _ \<Rightarrow> True) (nh_log h)"
proof -
  have inv: "delay_ok (nh_reconnectDelay h)" "list_all (effect_ok (nh_ports h)) (nh_log h)"
    using host_reach_ok [OF assms] by (simp_all add: host_ok_def host_inv_def)
  have "case e of SetReconnectTimer d \<Rightarrow> 1000 \<le> d \<and> d \<le> 30000 | _ \<Rightarrow> True" if "effect_ok k e" for k e
    using that by (auto simp: effect_ok_def delay_ok_def RECONNECT_BASE_MS_def RECONNECT_MAX_MS_def split: host_effect.splits)
  with inv show ?thesis
    by (auto simp: delay_ok_def RECONNECT_BASE_MS_def RECONNECT_MAX_MS_def list_all_iff)
qed

theorem reconnect_delays_bounded_witness:
  "nh_reconnectDelay (fold host_run [HConnect, HProfile (Inl NoDetail) Opened] (host_init True)) \<le> 30000"
  using reconnect_delays_bounded [OF host_reach_fold [OF host_reach.start]] by blast

end
