(* ===== verification/Background_State.thy ===== *)
theory Background_State
  imports Background_Util Badge_Manager Auto_Connect Routing_Protection Proxy_Session Native_Host
begin

text \<open>
  The background script's closure state (\<open>initBackground\<close> in
  \<open>packages/shared/src/background/background.ts\<close>) and the helpers its handlers share: store updates
  with their notification, sends to the helper, toasts, timers, recorded connection decisions,
  profile refresh and login.

  The collaborators are part of the state: the store's \<open>TailscaleState\<close>, the routing protection, the
  badge and the native connection. The proxy manager is behind an interface, so its calls are
  logged in \<open>bg_effects\<close> and its health reports come in as operations of their own, after the handler
  that caused them. What the source awaits is queued: storage writes of the connection decision in
  \<open>bg_intentQueue\<close>, other continuations in \<open>bg_tasks\<close>. The environment is the record \<open>Env\<close>.
\<close>

record Env =
  env_parse_url :: url_parser
  env_releaseVersion :: string
  env_icon_ok :: "IconSet \<Rightarrow> bool"

datatype bg_effect =
    ApplyProxy TailscaleState
  | SetSession "ProxySessionCredentials option"
  | PostPopup nat PopupMessage
  | OpenTab string
  | CreateContextMenu

datatype bg_callback =
    OnLoginOpenTimeout
  | OnLoginRoutingTimeout
  | OnProfileRefresh
  | OnLifecycleSettled
  | OnHelperRetry HelperRetryRecord
  | OnKeepalive

text \<open>The jobs of \<open>intentWriteChain\<close>.\<close>

datatype intent_job = WriteIntent bool | ClearPersisted | ClearIntent

datatype bg_task =
    AutoConnectCheck
  | AutoConnectMarked
  | AutoDisconnectRead
  | ArmRetry HelperRetryRecord

record StartupResolution =
  sr_pref :: bool
  sr_persisted :: "bool option"
  sr_usedRecovery :: bool

text \<open>
  Where the \<open>wantRunning\<close> hint provider is: the number is how many jobs of \<open>intentWriteChain\<close> are left
  up to its own.
\<close>

datatype HintPhase =
    HintIdle
  | HintAwaitReady
  | HintReadSession
  | HintReadPrefs
  | HintDecide bool "bool option"
  | HintWriting nat

record Background =
  bg_store :: TailscaleState
  bg_routing :: RoutingProtection
  bg_badge :: BadgeManager
  bg_host :: NativeHostConnection
  bg_postError :: "detail option"
  bg_storageFails :: bool
  bg_popupPorts :: "nat list"
  bg_closedPorts :: "nat list"
  bg_sessionIntentMirror :: "bool option"
  bg_intentQueue :: "intent_job list"
  bg_autoDisconnectAttempted :: bool
  bg_intentExplicitlyDecided :: bool
  bg_startupResolution :: "StartupResolution option"
  bg_sawBrowserStartup :: bool
  bg_sawExtensionUpdate :: bool
  bg_lifecycleSettled :: bool
  bg_splitReady :: bool
  bg_hint :: HintPhase
  bg_exitNodeRestoreAttempted :: bool
  bg_latestBackendState :: "BackendState option"
  bg_profileRefreshNeeded :: bool
  bg_profileRefreshInFlight :: bool
  bg_profileRefreshRetryIndex :: nat
  bg_sawHealthyProcRunning :: bool
  bg_sawHealthyInit :: bool
  bg_helperRetryRecord :: "HelperRetryRecord option"
  bg_lastConfirmedControlURL :: "string option"
  bg_pendingLoginOpen :: bool
  bg_pendingLoginRouting :: bool
  bg_pendingExternalProxyPort :: "nat option"
  bg_timers :: "(string \<times> bg_callback) list"
  bg_tasks :: "bg_task list"
  bg_local :: storage
  bg_session :: "storage option"
  bg_effects :: "bg_effect list"

section \<open>Effects, timers and the popup\<close>

definition effect :: "bg_effect \<Rightarrow> Background \<Rightarrow> Background" where
  "effect e b = b\<lparr>bg_effects := bg_effects b @ [e]\<rparr>"

definition set_timer :: "string \<Rightarrow> bg_callback \<Rightarrow> Background \<Rightarrow> Background" where
  "set_timer name cb b = b\<lparr>bg_timers := AList.update name cb (bg_timers b)\<rparr>"

definition clear_timer :: "string \<Rightarrow> Background \<Rightarrow> Background" where
  "clear_timer name b = b\<lparr>bg_timers := AList.delete name (bg_timers b)\<rparr>"

definition LOGIN_OPEN_TIMEOUT_NAME :: string where
  "LOGIN_OPEN_TIMEOUT_NAME = ''login-open-timeout''"

definition LOGIN_ROUTING_TIMEOUT_NAME :: string where
  "LOGIN_ROUTING_TIMEOUT_NAME = ''login-routing-timeout''"

definition PROFILE_REFRESH_RETRY_TIMER_NAME :: string where
  "PROFILE_REFRESH_RETRY_TIMER_NAME = ''profile-refresh-retry''"

definition HELPER_RETRY_TIMER_NAME :: string where
  "HELPER_RETRY_TIMER_NAME = ''helper-activation-retry''"

definition HELPER_RETRY_STORAGE_KEY :: string where
  "HELPER_RETRY_STORAGE_KEY = ''helperActivationRetry''"

definition HELPER_REPAIR_STORAGE_KEY :: string where
  "HELPER_REPAIR_STORAGE_KEY = ''helperRegistrationRepairAvailable''"

text \<open>
  Storage calls nobody waits for; \<open>bg_storageFails\<close> says whether the browser rejects them. A removed
  key reads as \<^const>\<open>JUndef\<close>.
\<close>

definition session_set :: "string \<Rightarrow> jsval \<Rightarrow> Background \<Rightarrow> Background" where
  "session_set k v b =
     (if bg_storageFails b then b else b\<lparr>bg_session := map_option (\<lambda>a. a(k := v)) (bg_session b)\<rparr>)"

definition local_set :: "string \<Rightarrow> jsval \<Rightarrow> Background \<Rightarrow> Background" where
  "local_set k v b = (if bg_storageFails b then b else b\<lparr>bg_local := (bg_local b)(k := v)\<rparr>)"

text \<open>\<open>broadcastToPopup\<close> drops the ports whose \<open>postMessage\<close> throws; \<open>sendToastToPopup\<close> skips them.\<close>

fun post_all :: "nat list \<Rightarrow> PopupMessage \<Rightarrow> nat list \<Rightarrow> bg_effect list" where
  "post_all gone msg [] = []"
| "post_all gone msg (p # ps) =
     (if p \<in> set gone then post_all gone msg ps else PostPopup p msg # post_all gone msg ps)"

definition broadcastToPopup :: "TailscaleState \<Rightarrow> Background \<Rightarrow> Background" where
  "broadcastToPopup s b =
     b\<lparr>bg_effects := bg_effects b @ post_all (bg_closedPorts b) (StateMsg s) (bg_popupPorts b),
       bg_popupPorts := filter (\<lambda>p. p \<notin> set (bg_closedPorts b)) (bg_popupPorts b)\<rparr>"

definition toast_with :: "string \<Rightarrow> ToastLevel \<Rightarrow> bool \<Rightarrow> nat option \<Rightarrow> Background \<Rightarrow> Background" where
  "toast_with message level persistent dismissMs b =
     b\<lparr>bg_effects := bg_effects b @
        post_all (bg_closedPorts b) (Toast message level persistent dismissMs) (bg_popupPorts b)\<rparr>"

definition sendToastToPopup :: "string \<Rightarrow> ToastLevel \<Rightarrow> Background \<Rightarrow> Background" where
  "sendToastToPopup message level b = toast_with message level False None b"

section \<open>The store and its subscriber\<close>

definition decorated :: "Background \<Rightarrow> TailscaleState \<times> Background" where
  "decorated b = (let (r, s) = decorate (bg_store b) (bg_routing b) in (s, b\<lparr>bg_routing := r\<rparr>))"

definition apply_proxy :: "Background \<Rightarrow> Background" where
  "apply_proxy b = (let (s, b1) = decorated b in effect (ApplyProxy s) b1)"

definition notify :: "Env \<Rightarrow> Background \<Rightarrow> Background" where
  "notify E b =
     (let b1 = apply_proxy b;
          (current, b2) = decorated b1
      in broadcastToPopup current (b2\<lparr>bg_badge := update_badge (env_icon_ok E) current (bg_badge b2)\<rparr>))"

definition update_store :: "Env \<Rightarrow> state_write list \<Rightarrow> Background \<Rightarrow> Background" where
  "update_store E ws b =
     (case update ws (bg_store b) of None \<Rightarrow> b | Some s \<Rightarrow> notify E (b\<lparr>bg_store := s\<rparr>))"

section \<open>Diagnostics and sends\<close>

definition diagnosticFrom :: "string \<Rightarrow> detail \<Rightarrow> HelperDiagnostic" where
  "diagnosticFrom code det = \<lparr>hd_code = code, hd_message = sanitizeDiagnosticMessage det\<rparr>"

definition on_diagnostic_event :: "Env \<Rightarrow> string \<Rightarrow> string option \<Rightarrow> Background \<Rightarrow> Background" where
  "on_diagnostic_event E code msg b =
     update_store E [WHelperDiagnostic (reuseEquivalentHelperDiagnostic (ts_helperDiagnostic (bg_store b))
       (Some \<lparr>hd_code = code, hd_message = msg\<rparr>))] b"

text \<open>
  \<open>nativeHost.send\<close>. When \<open>postMessage\<close> throws (\<open>bg_postError\<close>), the connection emits a diagnostic, which
  the background records.
\<close>

definition send :: "Env \<Rightarrow> NativeRequest \<Rightarrow> Background \<Rightarrow> bool \<times> Background" where
  "send E r b =
     (let (ok, h) = nh_send r (bg_postError b) (bg_host b);
          b1 = b\<lparr>bg_host := h\<rparr>
      in case (nh_port (bg_host b), bg_postError b) of
           (Some _, Some err) \<Rightarrow>
             (ok, on_diagnostic_event E (''native-send-'' @ cmd_text r @ ''-failed'') (sanitizeDiagnosticMessage err) b1)
         | _ \<Rightarrow> (ok, b1))"

definition send_ignore :: "Env \<Rightarrow> NativeRequest \<Rightarrow> Background \<Rightarrow> Background" where
  "send_ignore E r b = snd (send E r b)"

definition send_or_toast :: "Env \<Rightarrow> NativeRequest \<Rightarrow> Background \<Rightarrow> Background" where
  "send_or_toast E r b =
     (let (ok, b1) = send E r b in if ok then b1 else sendToastToPopup NATIVE_HOST_UNREACHABLE Error b1)"

definition setHelperReportedFailure :: "Env \<Rightarrow> string \<Rightarrow> detail \<Rightarrow> Background \<Rightarrow> Background" where
  "setHelperReportedFailure E code det b =
     (let cur = bg_store b;
          diagnostic = reuseEquivalentHelperDiagnostic (ts_helperDiagnostic cur) (Some (diagnosticFrom code det));
          message = (case put (ts_helperDiagnostic cur) diagnostic of Some d \<Rightarrow> hd_message d | None \<Rightarrow> None);
          failure = reuseEquivalentHelperFailure (ts_helperFailure cur)
            (Some \<lparr>hf_kind = HelperReportedError, hf_code = code, hf_message = message\<rparr>)
      in update_store E [WHelperFailure failure, WHelperDiagnostic diagnostic, WReconnecting False] b)"

definition clearHelperRetryStorage :: "Background \<Rightarrow> Background" where
  "clearHelperRetryStorage b =
     session_set HELPER_REPAIR_STORAGE_KEY JUndef (session_set HELPER_RETRY_STORAGE_KEY JUndef
       (clear_timer HELPER_RETRY_TIMER_NAME (b\<lparr>bg_helperRetryRecord := None\<rparr>)))"

definition maybeCompleteHelperRecovery :: "Env \<Rightarrow> Background \<Rightarrow> Background" where
  "maybeCompleteHelperRecovery E b =
     (if \<not> bg_sawHealthyProcRunning b \<or> \<not> bg_sawHealthyInit b then b
      else clearHelperRetryStorage (update_store E
        [WHelperFailure (Put None), WHelperDiagnostic (Put None), WRepairRegistrationAvailable False,
         WReconnecting False] b))"

section \<open>Connection decisions\<close>

definition enqueueIntentWrite :: "bool \<Rightarrow> Background \<Rightarrow> Background" where
  "enqueueIntentWrite persistAcrossUpdate b =
     b\<lparr>bg_intentQueue := bg_intentQueue b @ [WriteIntent persistAcrossUpdate]\<rparr>"

definition recordIntent :: "bool \<Rightarrow> Background \<Rightarrow> Background" where
  "recordIntent v b =
     enqueueIntentWrite True (b\<lparr>bg_sessionIntentMirror := Some v, bg_intentExplicitlyDecided := True\<rparr>)"

definition clearIntent :: "Background \<Rightarrow> Background" where
  "clearIntent b =
     b\<lparr>bg_sessionIntentMirror := None, bg_intentExplicitlyDecided := True, bg_autoDisconnectAttempted := True,
       bg_intentQueue := bg_intentQueue b @ [ClearIntent]\<rparr>"

fun hint_progress :: "HintPhase \<Rightarrow> HintPhase" where
  "hint_progress (HintWriting n) = HintWriting (n - 1)"
| "hint_progress h = h"

text \<open>One job of the chain runs; the flags say whether its two storage calls succeed.\<close>

definition run_intent_job :: "bool \<Rightarrow> bool \<Rightarrow> Background \<Rightarrow> Background" where
  "run_intent_job ok1 ok2 b0 =
     (case bg_intentQueue b0 of
        [] \<Rightarrow> b0
      | job # rest \<Rightarrow>
          (let b = b0\<lparr>bg_intentQueue := rest, bg_hint := hint_progress (bg_hint b0)\<rparr> in
           case job of
             WriteIntent persist \<Rightarrow>
               (case bg_sessionIntentMirror b of
                  None \<Rightarrow> b
                | Some v \<Rightarrow>
                    b\<lparr>bg_session := (if ok1 then writeSessionIntent v (bg_session b) else bg_session b),
                      bg_local := (if persist \<and> ok2 then writePersistedIntent v (bg_local b) else bg_local b)\<rparr>)
           | ClearPersisted \<Rightarrow>
               b\<lparr>bg_local := (if ok1 then clearPersistedIntent (bg_local b) else bg_local b)\<rparr>
           | ClearIntent \<Rightarrow>
               if bg_sessionIntentMirror b \<noteq> None then b
               else b\<lparr>bg_session := (if ok1 then clearSessionIntent (bg_session b) else bg_session b),
                      bg_local := (if ok2 then clearPersistedIntent (bg_local b) else bg_local b)\<rparr>))"

section \<open>Profile refresh\<close>

definition resetProfileRefreshRetry :: "Background \<Rightarrow> Background" where
  "resetProfileRefreshRetry b =
     clear_timer PROFILE_REFRESH_RETRY_TIMER_NAME (b\<lparr>bg_profileRefreshRetryIndex := 0\<rparr>)"

definition scheduleProfileRefreshRetry :: "Background \<Rightarrow> Background" where
  "scheduleProfileRefreshRetry b =
     (if bg_latestBackendState b \<noteq> Some Running \<or> bg_profileRefreshInFlight b \<or> \<not> bg_profileRefreshNeeded b \<or>
         bg_profileRefreshRetryIndex b \<ge> length PROFILE_REFRESH_RETRY_DELAYS_MS then b
      else set_timer PROFILE_REFRESH_RETRY_TIMER_NAME OnProfileRefresh
             (b\<lparr>bg_profileRefreshRetryIndex := Suc (bg_profileRefreshRetryIndex b)\<rparr>))"

definition markProfileRefreshNeeded :: "Background \<Rightarrow> Background" where
  "markProfileRefreshNeeded b = (resetProfileRefreshRetry b)\<lparr>bg_profileRefreshNeeded := True\<rparr>"

definition requestProfiles :: "Env \<Rightarrow> Background \<Rightarrow> Background" where
  "requestProfiles E b0 =
     (let (sent, b1) = send E ListProfiles (clear_timer PROFILE_REFRESH_RETRY_TIMER_NAME b0);
          b = b1\<lparr>bg_profileRefreshInFlight := sent\<rparr>
      in if sent \<and> bg_latestBackendState b = Some Running then b\<lparr>bg_profileRefreshNeeded := False\<rparr>
         else if \<not> sent then scheduleProfileRefreshRetry (b\<lparr>bg_profileRefreshNeeded := True\<rparr>)
         else b)"

section \<open>Login\<close>

definition clearPendingLoginOpen :: "Background \<Rightarrow> Background" where
  "clearPendingLoginOpen b = clear_timer LOGIN_OPEN_TIMEOUT_NAME (b\<lparr>bg_pendingLoginOpen := False\<rparr>)"

definition startPendingLoginOpen :: "Background \<Rightarrow> Background" where
  "startPendingLoginOpen b =
     set_timer LOGIN_OPEN_TIMEOUT_NAME OnLoginOpenTimeout (b\<lparr>bg_pendingLoginOpen := True\<rparr>)"

definition reconnect_routing :: "Background \<Rightarrow> Background" where
  "reconnect_routing b = b\<lparr>bg_routing := reconnect (bg_routing b)\<rparr>"

definition prefs_controlURL :: "TailscalePrefs option \<Rightarrow> string option" where
  "prefs_controlURL p = Option.bind p pref_controlURL"

definition requestLogin :: "Env \<Rightarrow> Background \<Rightarrow> Background" where
  "requestLogin E b0 =
     (let s = bg_store b0;
          b = recordIntent True (reconnect_routing b0)
      in case truthy (ts_browseToURL s) of
           Some url \<Rightarrow>
             if isValidLoginURL (env_parse_url E) url (prefs_controlURL (ts_prefs s))
             then effect (OpenTab url) b
             else if \<not> ts_supportsLogin s
             then sendToastToPopup ''Please update the native helper to request a fresh Tailscale login URL.'' Error b
             else (let (ok, b1) = send E Login b in
                   if \<not> ok
                   then sendToastToPopup ''Could not request a Tailscale login URL. Please check that the native host is installed.''
                          Error (clearPendingLoginOpen b1)
                   else startPendingLoginOpen b1)
         | None \<Rightarrow>
             if \<not> ts_supportsLogin s
             then sendToastToPopup ''Please update the native helper to request a fresh Tailscale login URL.'' Error b
             else (let (ok, b1) = send E Login b in
                   if \<not> ok
                   then sendToastToPopup ''Could not request a Tailscale login URL. Please check that the native host is installed.''
                          Error (clearPendingLoginOpen b1)
                   else startPendingLoginOpen b1))"

section \<open>Auto-connect and the corrective down\<close>

definition add_task :: "bg_task \<Rightarrow> Background \<Rightarrow> Background" where
  "add_task t b = b\<lparr>bg_tasks := bg_tasks b @ [t]\<rparr>"

definition maybeAutoConnect :: "BackendState \<Rightarrow> Background \<Rightarrow> Background" where
  "maybeAutoConnect backendState b =
     (if \<not> ts_autoConnectOnStart (bg_store b) then b
      else if \<not> shouldAutoConnect backendState then b
      else if bg_sessionIntentMirror b = Some False then b
      else add_task AutoConnectCheck b)"

definition sendCorrectiveDown :: "Env \<Rightarrow> Background \<Rightarrow> Background" where
  "sendCorrectiveDown E b =
     (let (ok, b1) = send E Down (b\<lparr>bg_autoDisconnectAttempted := True\<rparr>)
      in if ok then b1 else b1\<lparr>bg_autoDisconnectAttempted := False\<rparr>)"

definition maybeAutoDisconnect :: "Env \<Rightarrow> BackendState \<Rightarrow> Background \<Rightarrow> Background" where
  "maybeAutoDisconnect E backendState b =
     (if backendState \<noteq> Starting \<and> backendState \<noteq> Running then b
      else if bg_autoDisconnectAttempted b then b
      else (case bg_sessionIntentMirror b of
              Some v \<Rightarrow> if v = False then sendCorrectiveDown E b else b
            | None \<Rightarrow> add_task AutoDisconnectRead b))"

text \<open>A queued continuation runs; \<open>ok\<close> is whether the storage call it waited for resolved.\<close>

definition run_task_body :: "Env \<Rightarrow> bool \<Rightarrow> bg_task \<Rightarrow> Background \<Rightarrow> Background" where
  "run_task_body E ok t b =
     (case t of
        AutoConnectCheck \<Rightarrow>
          if \<not> ok \<or> isAutoConnectHandled (bg_session b) then b
          else add_task AutoConnectMarked (b\<lparr>bg_session := markAutoConnectHandled (bg_session b)\<rparr>)
      | AutoConnectMarked \<Rightarrow>
          if \<not> ok then b else send_or_toast E Up (recordIntent True (reconnect_routing b))
      | AutoDisconnectRead \<Rightarrow>
          if \<not> ok then b
          else if readSessionIntent (bg_session b) \<noteq> Some False then b
          else if bg_autoDisconnectAttempted b then b
          else if bg_sessionIntentMirror b = Some True then b
          else sendCorrectiveDown E (b\<lparr>bg_sessionIntentMirror := Some False\<rparr>)
      | ArmRetry r \<Rightarrow>
          set_timer HELPER_RETRY_TIMER_NAME (OnHelperRetry r) (b\<lparr>bg_helperRetryRecord := Some r\<rparr>))"

end
