(* ===== verification/Background_Native.thy ===== *)
theory Background_Native
  imports Background_State
begin

text \<open>
  The background script's side of the native connection: \<open>handleNativeMessage\<close> and
  \<open>handleNativeConnectionEvent\<close> of \<open>packages/shared/src/background/background.ts\<close>, one definition per
  field of the reply, and the dispatch of what the connection logs to them.
\<close>

section \<open>Process and init\<close>

definition PROXY_AUTH_REQUIRED :: HelperFailure where
  "PROXY_AUTH_REQUIRED =
     \<lparr>hf_kind = HelperIncompatible, hf_code = ''helper-proxy-auth-required'',
      hf_message = Some ''Update the helper and extension together to enable authenticated browsing.''\<rparr>"

definition proc_session :: "ProcRunning \<Rightarrow> ProxySessionCredentials option" where
  "proc_session p = (if truthy (proc_error p) \<noteq> None then None else readProxySession p)"

text \<open>The fields every healthy \<open>procRunning\<close> writes, and the ones an error resets.\<close>

definition proc_writes :: "Env \<Rightarrow> ProcRunning \<Rightarrow> state_write list" where
  "proc_writes E p =
     (let hostVersion = normalizedHelperVersion (proc_version p)
      in [WProxyPort (Some \<lfloor>proc_port p\<rfloor>), WProxyEnabled True, WHostVersion hostVersion,
          WHelperVersionNotice (getHelperVersionNotice hostVersion (env_releaseVersion E)),
          WSupportsNetcheck (proc_supportsNetcheck p), WSupportsPingPeer (proc_supportsPingPeer p),
          WSupportsLogin (proc_supportsLogin p), WSupportsCustomControlURL (proc_supportsCustomControlURL p),
          WSupportsDaemonControl (proc_supportsDaemonControl p),
          WSupportsExternalProxy (proc_supportsExternalProxy p),
          WSupportsExternalProxyLAN (proc_supportsExternalProxyLAN p)])"

definition unsupported_writes :: "state_write list" where
  "unsupported_writes =
     [WSupportsNetcheck False, WSupportsPingPeer False, WSupportsLogin False, WSupportsCustomControlURL False,
      WSupportsDaemonControl False, WSupportsExternalProxy False, WSupportsExternalProxyLAN False,
      WExternalProxy None]"

definition proc_error_writes :: "Env \<Rightarrow> ProcRunning \<Rightarrow> state_write list" where
  "proc_error_writes E p =
     (let hostVersion = normalizedHelperVersion (proc_version p)
      in [WHostVersion hostVersion,
          WHelperVersionNotice (getHelperVersionNotice hostVersion (env_releaseVersion E)),
          WProxyPort None, WProxyEnabled False] @ unsupported_writes)"

text \<open>A helper without proxy credentials ends the handler: the flag says whether it goes on.\<close>

definition on_proc_running :: "Env \<Rightarrow> ProcRunning \<Rightarrow> Background \<Rightarrow> bool \<times> Background" where
  "on_proc_running E p b0 =
     (let session = proc_session p;
          b = effect (SetSession session) b0
      in if truthy (proc_error p) = None \<and> session = None
         then (False, update_store E [WProxyPort None, WProxyEnabled False, WHelperFailure (Put (Some PROXY_AUTH_REQUIRED))]
                        (b\<lparr>bg_sawHealthyProcRunning := False\<rparr>))
         else
           (let b1 = (case truthy (proc_version p) of
                        Some v \<Rightarrow>
                          if normalizedHelperVersion (proc_version p) = None
                          then update_store E [WHelperDiagnostic (Put (Some (diagnosticFrom ''helper-version-unparseable'' (TextDetail v))))] b
                          else b
                      | None \<Rightarrow> b)
            in case truthy (proc_error p) of
                 Some err \<Rightarrow>
                   (True, update_store E (proc_error_writes E p)
                            (setHelperReportedFailure E ''helper-proc-running-error'' (TextDetail err)
                               (b1\<lparr>bg_sawHealthyProcRunning := False\<rparr>)))
               | None \<Rightarrow>
                   (let b2 = update_store E (proc_writes E p) (b1\<lparr>bg_sawHealthyProcRunning := True\<rparr>);
                        b3 = (if proc_supportsExternalProxy p then send_ignore E GetExternalProxyStatus b2 else b2)
                    in (True, maybeCompleteHelperRecovery E b3))))"

definition on_init :: "Env \<Rightarrow> string option \<Rightarrow> Background \<Rightarrow> Background" where
  "on_init E err b =
     (case truthy err of
        Some e \<Rightarrow>
          update_store E [WInitialized False]
            (setHelperReportedFailure E ''helper-init-error'' (TextDetail e) (b\<lparr>bg_sawHealthyInit := False\<rparr>))
      | None \<Rightarrow>
          requestProfiles E (send_ignore E GetStatus (maybeCompleteHelperRecovery E
            (update_store E [WInitialized True] (b\<lparr>bg_sawHealthyInit := True\<rparr>)))))"

section \<open>The external proxy\<close>

text \<open>The password stays out of the store; only the port that asked is sent the full details.\<close>

definition on_external_proxy :: "Env \<Rightarrow> ExternalProxyStatus \<Rightarrow> Background \<Rightarrow> Background" where
  "on_external_proxy E x b =
     (let b1 = update_store E [WExternalProxy (Some (x\<lparr>ep_password := None\<rparr>))] b
      in case bg_pendingExternalProxyPort b1 of
           None \<Rightarrow> b1
         | Some p \<Rightarrow>
             (if p \<in> set (bg_closedPorts b1) then b1 else effect (PostPopup p (ExternalProxyDetails x)) b1)
               \<lparr>bg_pendingExternalProxyPort := None\<rparr>)"

section \<open>Status\<close>

definition status_begin :: "StatusUpdate \<Rightarrow> Background \<Rightarrow> Background" where
  "status_begin st b =
     (let b1 = (if st_backendState st = NeedsLogin
                then (if bg_latestBackendState b \<noteq> Some NeedsLogin then resetProfileRefreshRetry b else b)
                       \<lparr>bg_profileRefreshNeeded := True\<rparr>
                else b)
      in b1\<lparr>bg_latestBackendState := Some (st_backendState st)\<rparr>)"

definition status_control :: "Env \<Rightarrow> StatusUpdate \<Rightarrow> Background \<Rightarrow> Background" where
  "status_control E st b =
     (let confirmed = js_default (prefs_controlURL (st_prefs st)) []
      in case bg_lastConfirmedControlURL b of
           None \<Rightarrow> b\<lparr>bg_lastConfirmedControlURL := Some confirmed\<rparr>
         | Some old \<Rightarrow>
             if controlServerChanged (env_parse_url E) (Some confirmed) (Some old)
             then local_set ''lastExitNodeID'' JUndef
                    ((markProfileRefreshNeeded (b\<lparr>bg_lastConfirmedControlURL := Some confirmed\<rparr>))
                       \<lparr>bg_exitNodeRestoreAttempted := False\<rparr>)
             else b)"

definition status_profiles :: "Env \<Rightarrow> StatusUpdate \<Rightarrow> Background \<Rightarrow> Background" where
  "status_profiles E st b =
     (if st_backendState st = Running \<and>
         (bg_profileRefreshNeeded b \<or> truthy (map_option prof_id (ts_currentProfile (bg_store b))) = None) \<and>
         \<not> bg_profileRefreshInFlight b
      then requestProfiles E b else b)"

definition status_login :: "Env \<Rightarrow> StatusUpdate \<Rightarrow> Background \<Rightarrow> Background" where
  "status_login E st b =
     (if \<not> bg_pendingLoginOpen b then b
      else (let allowed = prefs_controlURL (st_prefs st) in
            case loginURLFromStatus st of
              Some url \<Rightarrow>
                if isValidLoginURL (env_parse_url E) url allowed
                then effect (OpenTab url) (clearPendingLoginOpen b)
                else if isCustomControlURL (env_parse_url E) allowed \<and> isDefaultOriginLoginURL (env_parse_url E) url
                then b
                else sendToastToPopup ''Could not open the login URL Tailscale returned.'' Error (clearPendingLoginOpen b)
            | None \<Rightarrow> if st_backendState st = Running then clearPendingLoginOpen b else b))"

definition status_exit_node :: "Env \<Rightarrow> StatusUpdate \<Rightarrow> Background \<Rightarrow> Background" where
  "status_exit_node E st b0 =
     (let (s, b) = decorated b0
      in case truthy (ts_selectedExitNodeID s) of
           None \<Rightarrow> b
         | Some selected \<Rightarrow>
             if \<not> bg_exitNodeRestoreAttempted b \<and> st_backendState st = Running
             then (let b1 = b\<lparr>bg_exitNodeRestoreAttempted := True\<rparr>
                   in if Some selected \<noteq> confirmed_exit st then send_ignore E (SetExitNode selected) b1 else b1)
             else b)"

text \<open>\<open>confirmStatus\<close> may throw, which ends the handler with what was done so far.\<close>

definition on_status :: "Env \<Rightarrow> StatusUpdate \<Rightarrow> Background \<Rightarrow> js_error option \<times> Background" where
  "on_status E st b0 =
     (let b1 = status_begin st b0;
          (err, r) = confirmStatus st (bg_store b1) (bg_routing b1);
          b2 = b1\<lparr>bg_routing := r\<rparr>
      in if err \<noteq> None then (err, b2)
         else
           (let b3 = update_store E (status_writes st (bg_store b2)) b2;
                b4 = status_exit_node E st (status_login E st (status_profiles E st (status_control E st b3)))
            in (None, maybeAutoDisconnect E (st_backendState st) (maybeAutoConnect (st_backendState st) b4))))"

section \<open>The other replies\<close>

definition on_profiles :: "Env \<Rightarrow> ProfilesResult \<Rightarrow> Background \<Rightarrow> Background" where
  "on_profiles E p b0 =
     (let b = update_store E [WCurrentProfile (Some (pr_current p)), WProfiles (pr_profiles p)]
                (b0\<lparr>bg_profileRefreshInFlight := False\<rparr>);
          refreshAfterReply = (bg_profileRefreshNeeded b \<and> bg_latestBackendState b = Some Running);
          b1 = (if prof_id (pr_current p) = [] \<or> bg_latestBackendState b = Some NeedsLogin
                then b\<lparr>bg_profileRefreshNeeded := True\<rparr> else b)
      in if refreshAfterReply then requestProfiles E (resetProfileRefreshRetry b1)
         else if bg_profileRefreshNeeded b1 then scheduleProfileRefreshRetry b1
         else resetProfileRefreshRetry b1)"

definition on_suggestion :: "Env \<Rightarrow> ExitNodeSuggestion \<Rightarrow> Background \<Rightarrow> Background" where
  "on_suggestion E x b = update_store E [WExitNodeSuggestion (Some x)] b"

definition on_file_progress :: "Env \<Rightarrow> FileSendProgress \<Rightarrow> Background \<Rightarrow> Background" where
  "on_file_progress E p b =
     (if fsp_done p
      then (case truthy (fsp_error p) of
              Some err \<Rightarrow>
                sendToastToPopup ''The helper could not send the file.'' Error
                  (update_store E [WHelperDiagnostic (Put (Some (diagnosticFrom ''helper-file-send-error'' (TextDetail err))))] b)
            | None \<Rightarrow> sendToastToPopup (''File '' @ [CHR 0x22] @ fsp_name p @ [CHR 0x22] @ '' sent successfully'') Info b)
      else toast_with (''Sending '' @ [CHR 0x22] @ fsp_name p @ [CHR 0x22] @ '': '' @ int_to_string (fsp_percent p) @ ''%'')
             Info True None b)"

definition middle_dot :: string where
  "middle_dot = [CHR '' '', CHR 0xB7, CHR '' '']"

definition join_lines :: "string \<Rightarrow> string" where
  "join_lines body = concat (map (\<lambda>c. if c = CHR 0x0A then middle_dot else [c]) body)"

definition on_diagnostic :: "string \<times> string \<Rightarrow> Background \<Rightarrow> Background" where
  "on_diagnostic d b = toast_with (fst d @ '': '' @ join_lines (snd d)) Info False (Some 7000) b"

text \<open>\<open>/^[a-z][a-z0-9-]{0,48}$/\<close>.\<close>

definition safe_command :: "string \<Rightarrow> string" where
  "safe_command c =
     (case c of
        [] \<Rightarrow> ''unknown''
      | x # xs \<Rightarrow> if is_lower x \<and> list_all (\<lambda>y. is_lower y \<or> is_digit y \<or> y = CHR ''-'') xs \<and> length xs \<le> 48
                  then c else ''unknown'')"

definition on_error :: "Env \<Rightarrow> string \<Rightarrow> string \<Rightarrow> Background \<Rightarrow> Background" where
  "on_error E cmd message b0 =
     (let b1 = (if cmd \<in> {''reveal-external-proxy'', ''rotate-external-proxy-credentials''}
                then b0\<lparr>bg_pendingExternalProxyPort := None\<rparr> else b0);
          b2 = (if cmd = ''list-profiles''
                then scheduleProfileRefreshRetry (b1\<lparr>bg_profileRefreshNeeded := True, bg_profileRefreshInFlight := False\<rparr>)
                else b1);
          b3 = update_store E
                 ([WHelperDiagnostic (Put (Some (diagnosticFrom (''helper-command-'' @ safe_command cmd @ ''-error'')
                     (TextDetail message))))] @ (if cmd = ''set-exit-node'' then [WPendingExitNodeID None] else [])) b2
      in if cmd = ''suggest-exit-node'' then b3
         else sendToastToPopup (nativeCommandErrorCopy cmd) Error (if cmd = ''login'' then clearPendingLoginOpen b3 else b3))"

section \<open>Replies and connection events\<close>

definition when_some :: "'a option \<Rightarrow> ('a \<Rightarrow> Background \<Rightarrow> Background) \<Rightarrow> Background \<Rightarrow> Background" where
  "when_some x f b = (case x of Some v \<Rightarrow> f v b | None \<Rightarrow> b)"

definition handleNativeMessage :: "Env \<Rightarrow> NativeReply \<Rightarrow> Background \<Rightarrow> js_error option \<times> Background" where
  "handleNativeMessage E msg b0 =
     (let (goes_on, b1) = (case nr_procRunning msg of Some p \<Rightarrow> on_proc_running E p b0 | None \<Rightarrow> (True, b0))
      in if \<not> goes_on then (None, b1)
         else
           (let b2 = when_some (nr_init msg) (on_init E) b1;
                b3 = when_some (nr_externalProxy msg) (on_external_proxy E) b2;
                (err, b4) = (case nr_status msg of Some st \<Rightarrow> on_status E st b3 | None \<Rightarrow> (None, b3))
            in if err \<noteq> None then (err, b4)
               else
                 (let b5 = when_some (nr_profiles msg) (on_profiles E) b4;
                      b6 = when_some (nr_exitNodeSuggestion msg) (on_suggestion E) b5;
                      b7 = when_some (nr_fileSendProgress msg) (on_file_progress E) b6;
                      b8 = when_some (nr_diagnostic msg) on_diagnostic b7
                  in (None, when_some (nr_error msg) (\<lambda>(cmd, m). on_error E cmd m) b8))))"

definition specific_failure :: "HelperFailure option \<Rightarrow> bool" where
  "specific_failure f =
     (case f of Some x \<Rightarrow> hf_kind x = HelperReportedError \<or> hf_kind x = HelperIncompatible | None \<Rightarrow> False)"

definition authoritative_failure :: "HelperFailure option \<Rightarrow> bool" where
  "authoritative_failure f =
     (case f of Some x \<Rightarrow> hf_kind x \<in> {HelperUnavailable, HelperNotAllowed, HelperReportedError, HelperIncompatible}
      | None \<Rightarrow> False)"

definition on_connected :: "Env \<Rightarrow> Background \<Rightarrow> Background" where
  "on_connected E b =
     (let failure = ts_helperFailure (bg_store b)
      in update_store E
           [WHostConnected True, WReconnecting False,
            WHelperFailure (if specific_failure failure then Same else Put None)]
           (b\<lparr>bg_sawHealthyProcRunning := False, bg_sawHealthyInit := False\<rparr>))"

definition on_disconnected :: "Env \<Rightarrow> HelperFailure option \<Rightarrow> bool \<Rightarrow> Background \<Rightarrow> Background" where
  "on_disconnected E failure reconnecting b0 =
     (let b = clearPendingLoginOpen (resetProfileRefreshRetry ((effect (SetSession None) b0)
                \<lparr>bg_exitNodeRestoreAttempted := False, bg_autoDisconnectAttempted := False,
                 bg_sawHealthyProcRunning := False, bg_sawHealthyInit := False, bg_profileRefreshInFlight := False\<rparr>));
          s = bg_store b;
          current = ts_helperFailure s;
          w = reuseEquivalentHelperFailure current (if specific_failure current then current else failure);
          helperFailure = put current w;
          d = (case helperFailure of
                 Some f \<Rightarrow> reuseEquivalentHelperDiagnostic (ts_helperDiagnostic s)
                            (Some \<lparr>hd_code = hf_code f, hd_message = hf_message f\<rparr>)
               | None \<Rightarrow> Same)
      in update_store E
           ([WHostConnected False, WInitialized False, WProxyPort None, WProxyEnabled False, WBackendState NoState,
             WHostVersion None, WHelperVersionNotice None, WHelperFailure w, WHelperDiagnostic d,
             WReconnecting (\<not> authoritative_failure helperFailure \<and> reconnecting)] @ unsupported_writes) b)"

definition handleNativeConnectionEvent :: "Env \<Rightarrow> NativeConnectionEvent \<Rightarrow> Background \<Rightarrow> Background" where
  "handleNativeConnectionEvent E ev b =
     (case ev of
        DiagnosticEvent code msg \<Rightarrow> on_diagnostic_event E code msg b
      | Connected \<Rightarrow> on_connected E b
      | Disconnected failure reconnecting \<Rightarrow> on_disconnected E failure reconnecting b)"

text \<open>
  What an operation of the connection logged is handed to the two handlers in order. A delivered
  message has passed \<open>isValidNativeReply\<close>; \<open>decode_reply\<close> reads it as the \<open>NativeReply\<close> it is cast to.
\<close>

fun dispatch :: "Env \<Rightarrow> host_effect list \<Rightarrow> Background \<Rightarrow> js_error option \<times> Background" where
  "dispatch E [] b = (None, b)"
| "dispatch E (e # es) b =
     (case e of
        Emit ev \<Rightarrow> dispatch E es (handleNativeConnectionEvent E ev b)
      | Deliver v \<Rightarrow>
          (case decode_reply v of
             Some msg \<Rightarrow>
               (let (err, b1) = handleNativeMessage E msg b
                in if err \<noteq> None then (err, b1) else dispatch E es b1)
           | None \<Rightarrow> dispatch E es b)
      | _ \<Rightarrow> dispatch E es b)"

definition run_host :: "Env \<Rightarrow> host_event \<Rightarrow> Background \<Rightarrow> js_error option \<times> Background" where
  "run_host E ev b =
     (let h = host_run ev (bg_host b)
      in dispatch E (drop (length (nh_log (bg_host b))) (nh_log h)) (b\<lparr>bg_host := h\<rparr>))"

end
