(* ===== verification/Background_Popup.thy ===== *)
theory Background_Popup
  imports Background_Native
begin

text \<open>
  The other inputs of the background script (\<open>packages/shared/src/background/background.ts\<close>): the popup's
  messages, the helper-discovery retries, the routing-health listener, the browser's lifecycle
  events and the \<open>wantRunning\<close> hint asked for before a port is opened. \<open>now\<close> is \<open>Date.now()\<close>.
\<close>

section \<open>Helper retries\<close>

definition host_connect :: "Background \<Rightarrow> Background" where
  "host_connect b = b\<lparr>bg_host := nh_connect (bg_host b)\<rparr>"

definition writeHelperRetryRecord :: "HelperRetryRecord \<Rightarrow> Background \<Rightarrow> Background" where
  "writeHelperRetryRecord r b = session_set HELPER_RETRY_STORAGE_KEY (retry_js r) (b\<lparr>bg_helperRetryRecord := Some r\<rparr>)"

definition armHelperRetry :: "HelperRetryRecord \<Rightarrow> Background \<Rightarrow> Background" where
  "armHelperRetry r b = set_timer HELPER_RETRY_TIMER_NAME (OnHelperRetry r) (b\<lparr>bg_helperRetryRecord := Some r\<rparr>)"

definition persistAndArmHelperRetry :: "HelperRetryRecord \<Rightarrow> Background \<Rightarrow> Background" where
  "persistAndArmHelperRetry r b = add_task (ArmRetry r) (writeHelperRetryRecord r b)"

definition finishUnsuccessfulHelperRetries :: "Env \<Rightarrow> RetrySource \<Rightarrow> Background \<Rightarrow> Background" where
  "finishUnsuccessfulHelperRetries E source b0 =
     (let b = session_set HELPER_RETRY_STORAGE_KEY JUndef
                (clear_timer HELPER_RETRY_TIMER_NAME (b0\<lparr>bg_helperRetryRecord := None\<rparr>));
          s = bg_store b
      in if source = Manual \<or> ts_hostConnected s \<or>
            (case ts_helperFailure s of Some f \<Rightarrow> hf_kind f \<notin> {HelperUnavailable, HelperNotAllowed} | None \<Rightarrow> True)
         then b
         else session_set HELPER_REPAIR_STORAGE_KEY (JBool True)
                (update_store E [WRepairRegistrationAvailable True] b))"

definition next_retry_delay :: "nat \<Rightarrow> rat" where
  "next_retry_delay i =
     (if i < length INSTALL_RETRY_DELAYS_MS then INSTALL_RETRY_DELAYS_MS ! i else INSTALL_RETRY_SETTLE_MS)"

definition executeHelperRetry :: "Env \<Rightarrow> rat \<Rightarrow> HelperRetryRecord \<Rightarrow> Background \<Rightarrow> Background" where
  "executeHelperRetry E now expected b =
     (case bg_helperRetryRecord b of
        None \<Rightarrow> b
      | Some current \<Rightarrow>
          if current \<noteq> expected then b
          else if ts_hostConnected (bg_store b) then clearHelperRetryStorage b
          else if hr_nextRetryIndex current \<ge> length INSTALL_RETRY_DELAYS_MS
          then finishUnsuccessfulHelperRetries E (hr_source current) b
          else (let i = hr_nextRetryIndex current + 1
                in persistAndArmHelperRetry
                     \<lparr>hr_source = hr_source current, hr_nextRetryIndex = i, hr_nextRetryAt = now + next_retry_delay i\<rparr>
                     (host_connect b)))"

definition startHelperRetries :: "Env \<Rightarrow> rat \<Rightarrow> RetrySource \<Rightarrow> Background \<Rightarrow> Background" where
  "startHelperRetries E now source b0 =
     (let b1 = clear_timer HELPER_RETRY_TIMER_NAME b0;
          b2 = (if source \<noteq> Manual
                then session_set HELPER_REPAIR_STORAGE_KEY JUndef (update_store E [WRepairRegistrationAvailable False] b1)
                else host_connect b1)
      in persistAndArmHelperRetry
           \<lparr>hr_source = source, hr_nextRetryIndex = 0, hr_nextRetryAt = now + INSTALL_RETRY_DELAYS_MS ! 0\<rparr> b2)"

definition session_get :: "string \<Rightarrow> Background \<Rightarrow> jsval" where
  "session_get k b = (case bg_session b of Some a \<Rightarrow> a k | None \<Rightarrow> JUndef)"

text \<open>The continuation of \<open>rehydrateHelperRetries\<close> after the session storage is read.\<close>

definition rehydrateHelperRetries :: "Env \<Rightarrow> rat \<Rightarrow> Background \<Rightarrow> Background" where
  "rehydrateHelperRetries E now b0 =
     (let b = (if session_get HELPER_REPAIR_STORAGE_KEY b0 = JBool True
               then update_store E [WRepairRegistrationAvailable True] b0 else b0)
      in case isHelperRetryRecord (session_get HELPER_RETRY_STORAGE_KEY b0) of
           None \<Rightarrow> b
         | Some r \<Rightarrow>
             (let b1 = b\<lparr>bg_helperRetryRecord := Some r\<rparr>
              in if ts_hostConnected (bg_store b1) then clearHelperRetryStorage b1
                 else if hr_nextRetryAt r \<le> now then executeHelperRetry E now r b1
                 else armHelperRetry r b1))"

section \<open>The popup's messages\<close>

definition on_routing :: "(RoutingProtection \<Rightarrow> RoutingProtection) \<Rightarrow> Background \<Rightarrow> Background" where
  "on_routing f b = b\<lparr>bg_routing := f (bg_routing b)\<rparr>"

definition SWITCHING :: RoutingHealth where
  "SWITCHING = \<lparr>rh_status = RBlocked, rh_message = ''Switching accounts '' @ em_dash @ '' browsing is blocked.''\<rparr>"

definition RESTORING :: RoutingHealth where
  "RESTORING = \<lparr>rh_status = RUnavailable, rh_message = ''Restoring normal browsing'' @ ellipsis\<rparr>"

definition release_routing :: "Env \<Rightarrow> Background \<Rightarrow> Background" where
  "release_routing E b =
     update_store E [WRoutingHealth RESTORING] (send_ignore E Down (recordIntent False (on_routing release b)))"

definition mark_handled :: "Background \<Rightarrow> Background" where
  "mark_handled b = (if bg_storageFails b then b else b\<lparr>bg_session := markAutoConnectHandled (bg_session b)\<rparr>)"

definition toggle :: "Env \<Rightarrow> Background \<Rightarrow> Background" where
  "toggle E b =
     (case ts_backendState (bg_store b) of
        Running \<Rightarrow> send_or_toast E Down (recordIntent False (on_routing requestDisconnect (mark_handled b)))
      | Stopped \<Rightarrow> send_or_toast E Up (recordIntent True (reconnect_routing b))
      | NoState \<Rightarrow> send_or_toast E Up (recordIntent True (reconnect_routing b))
      | Starting \<Rightarrow> sendToastToPopup (''Tailscale is starting up'' @ ellipsis) Info b
      | NeedsLogin \<Rightarrow> sendToastToPopup ''Please log in to Tailscale first.'' Info b
      | NeedsMachineAuth \<Rightarrow> sendToastToPopup ''This machine needs admin approval to join the tailnet.'' Error b
      | InUseOtherUser \<Rightarrow> sendToastToPopup ''Tailscale is in use by another user on this machine.'' Error b)"

text \<open>Logging in waits for the browser to confirm normal routing when a released login is pending.\<close>

definition begin_login :: "Env \<Rightarrow> Background \<Rightarrow> Background" where
  "begin_login E b =
     (if isLoginPending (bg_routing b)
      then apply_proxy (set_timer LOGIN_ROUTING_TIMEOUT_NAME OnLoginRoutingTimeout (b\<lparr>bg_pendingLoginRouting := True\<rparr>))
      else requestLogin E b)"

definition login :: "Env \<Rightarrow> bool \<Rightarrow> Background \<Rightarrow> Background" where
  "login E disconnectFirst b =
     (if bg_pendingLoginOpen b \<or> bg_pendingLoginRouting b
      then sendToastToPopup ''Still waiting for Tailscale to return a login URL.'' Info b
      else if disconnectFirst
      then (if ts_backendState (bg_store b) \<noteq> NeedsLogin then b
            else begin_login E (recordIntent True (on_routing startLogin b)))
      else begin_login E b)"

definition set_control_url :: "Env \<Rightarrow> string \<Rightarrow> Background \<Rightarrow> Background" where
  "set_control_url E v b =
     (let s = bg_store b in
      if \<not> ts_supportsCustomControlURL s \<and> v \<noteq> []
      then sendToastToPopup ''Please update the native helper to change the coordination server.'' Error b
      else if v \<noteq> [] \<and> \<not> isValidControlURL (env_parse_url E) v
      then sendToastToPopup ''Enter a valid coordination server URL (http:// or https://).'' Error b
      else send_ignore E (SetPrefs (SetControlURL v))
             (if controlServerChanged (env_parse_url E) (Some v) (prefs_controlURL (ts_prefs s))
              then update_store E [WBrowseToURL (Some [])]
                     (on_routing (switchProfile s) (markProfileRefreshNeeded b))
              else b))"

text \<open>The steps every account switch shares.\<close>

definition switch_account :: "Env \<Rightarrow> TailscaleState \<Rightarrow> Background \<Rightarrow> Background" where
  "switch_account E s b =
     clearIntent (update_store E [WRoutingHealth SWITCHING]
       (on_routing (switchProfile s) (b\<lparr>bg_exitNodeRestoreAttempted := False\<rparr>)))"

definition current_profile_id :: "TailscaleState \<Rightarrow> string option" where
  "current_profile_id s = map_option prof_id (ts_currentProfile s)"

definition switch_profile :: "Env \<Rightarrow> string \<Rightarrow> Background \<Rightarrow> Background" where
  "switch_profile E profileID b =
     (if Some profileID = current_profile_id (bg_store b) then b
      else send_ignore E (SwitchProfile profileID) (switch_account E (bg_store b)
             ((resetProfileRefreshRetry b)\<lparr>bg_profileRefreshNeeded := False, bg_profileRefreshInFlight := False\<rparr>)))"

definition new_profile :: "Env \<Rightarrow> Background \<Rightarrow> Background" where
  "new_profile E b =
     send_ignore E NewProfile (switch_account E (bg_store b)
       ((markProfileRefreshNeeded b)\<lparr>bg_profileRefreshInFlight := False\<rparr>))"

definition delete_profile :: "Env \<Rightarrow> string \<Rightarrow> Background \<Rightarrow> Background" where
  "delete_profile E profileID b =
     send_ignore E (DeleteProfile profileID)
       (if current_profile_id (bg_store b) = Some profileID then switch_account E (bg_store b) b else b)"

definition set_exit_node :: "Env \<Rightarrow> string \<Rightarrow> Background \<Rightarrow> Background" where
  "set_exit_node E nodeID b =
     send_ignore E (SetExitNode nodeID)
       (update_store E [WPendingExitNodeID (Some nodeID)] (on_routing (selectExitNode nodeID) b))"

definition set_domain_split :: "Env \<Rightarrow> jsval \<Rightarrow> Background \<Rightarrow> Background" where
  "set_domain_split E config b =
     (let new = normalizeDomainSplit config
      in local_set DOMAIN_SPLIT_STORAGE_KEY (writeDomainSplit new) (update_store E [WDomainSplit new] b))"

text \<open>The requests of the device menu, the settings and the local app proxy.\<close>

definition send_file :: "Env \<Rightarrow> FileChunk \<Rightarrow> Background \<Rightarrow> Background" where
  "send_file E chunk b = send_ignore E (SendFile chunk) b"

definition set_auto_connect :: "Env \<Rightarrow> bool \<Rightarrow> Background \<Rightarrow> Background" where
  "set_auto_connect E v b = local_set AUTO_CONNECT_PREF_KEY (JBool v) (update_store E [WAutoConnectOnStart v] b)"

definition set_external_proxy :: "Env \<Rightarrow> bool \<Rightarrow> Background \<Rightarrow> Background" where
  "set_external_proxy E enabled b =
     (if \<not> ts_supportsExternalProxy (bg_store b)
      then sendToastToPopup ''Please update the macOS helper to use the local app proxy.'' Error b
      else send_ignore E (SetExternalProxy enabled) b)"

definition set_external_proxy_lan :: "Env \<Rightarrow> bool \<Rightarrow> Background \<Rightarrow> Background" where
  "set_external_proxy_lan E allowLAN b =
     (if ts_supportsExternalProxyLAN (bg_store b) then send_ignore E (SetExternalProxyLAN allowLAN) b
      else sendToastToPopup ''Please update the macOS helper to enable LAN access.'' Error b)"

definition reveal_external_proxy :: "Env \<Rightarrow> nat option \<Rightarrow> Background \<Rightarrow> Background" where
  "reveal_external_proxy E sourcePort b = send_ignore E RevealExternalProxy (b\<lparr>bg_pendingExternalProxyPort := sourcePort\<rparr>)"

definition rotate_external_proxy :: "Env \<Rightarrow> nat option \<Rightarrow> Background \<Rightarrow> Background" where
  "rotate_external_proxy E sourcePort b =
     send_ignore E RotateExternalProxyCredentials (b\<lparr>bg_pendingExternalProxyPort := sourcePort\<rparr>)"

definition handlePopupMessage :: "Env \<Rightarrow> rat \<Rightarrow> nat option \<Rightarrow> BackgroundMessage \<Rightarrow> Background \<Rightarrow> Background" where
  "handlePopupMessage E now sourcePort msg b =
     (case msg of
        MReleaseRouting \<Rightarrow> release_routing E b
      | MToggle \<Rightarrow> toggle E b
      | MLogin \<Rightarrow> login E False b
      | MDisconnectAndLogin \<Rightarrow> login E True b
      | MLogout \<Rightarrow> send_ignore E Logout (recordIntent False (on_routing requestDisconnect (markProfileRefreshNeeded b)))
      | MRetryNativeHost source \<Rightarrow> startHelperRetries E now source b
      | MOpenAdmin \<Rightarrow> effect (OpenTab ADMIN_URL) b
      | MOpenWebClient \<Rightarrow> effect (OpenTab (''http://'' @ TAILSCALE_SERVICE_IP)) b
      | MSetExitNode nodeID \<Rightarrow> set_exit_node E nodeID b
      | MClearExitNode \<Rightarrow> local_set ''lastExitNodeID'' JUndef (set_exit_node E [] b)
      | MSetPref p \<Rightarrow>
          (case p of
             SetControlURL v \<Rightarrow> set_control_url E v b
           | _ \<Rightarrow> send_ignore E (SetPrefs p) b)
      | MSwitchProfile profileID \<Rightarrow> switch_profile E profileID b
      | MNewProfile \<Rightarrow> new_profile E b
      | MDeleteProfile profileID \<Rightarrow> delete_profile E profileID b
      | MSendFile chunk \<Rightarrow> send_file E chunk b
      | MSuggestExitNode \<Rightarrow> send_ignore E SuggestExitNode b
      | MPingPeer nodeID \<Rightarrow> send_ignore E (PingPeer nodeID) b
      | MNetcheck \<Rightarrow> send_ignore E Netcheck b
      | MSetAdvertiseRoutes routes \<Rightarrow> send_ignore E (SetPrefs (SetAdvertiseRoutes routes)) b
      | MSetAutoConnectOnStart v \<Rightarrow> set_auto_connect E v b
      | MSetExternalProxy enabled \<Rightarrow> set_external_proxy E enabled b
      | MRevealExternalProxy \<Rightarrow> reveal_external_proxy E sourcePort b
      | MSetExternalProxyLAN allowLAN \<Rightarrow> set_external_proxy_lan E allowLAN b
      | MRotateExternalProxyCredentials \<Rightarrow> rotate_external_proxy E sourcePort b
      | MSetDomainSplit config \<Rightarrow> set_domain_split E config b)"

text \<open>A popup connects; the first post may throw, and then its listeners are never added.\<close>

definition popup_connect :: "nat \<Rightarrow> Background \<Rightarrow> Background" where
  "popup_connect p b0 =
     (let (s, b) = decorated b0
      in if p \<in> set (bg_closedPorts b) then b
         else (effect (PostPopup p (StateMsg s)) b)\<lparr>bg_popupPorts := List.insert p (bg_popupPorts b)\<rparr>)"

definition popup_disconnect :: "nat \<Rightarrow> Background \<Rightarrow> Background" where
  "popup_disconnect p b =
     b\<lparr>bg_popupPorts := removeAll p (bg_popupPorts b),
       bg_pendingExternalProxyPort :=
         (if bg_pendingExternalProxyPort b = Some p then None else bg_pendingExternalProxyPort b)\<rparr>"

section \<open>The routing-health listener\<close>

definition login_may_go_on :: "RoutingHealth \<Rightarrow> Background \<Rightarrow> bool \<times> Background" where
  "login_may_go_on health b =
     (if \<not> isLoginPending (bg_routing b) then (True, b)
      else if rh_status health \<noteq> RInactive then (False, b)
      else (let (s, b1) = decorated b
            in ((case ts_routingPolicy s of Some p \<Rightarrow> rp_mode p = PDirect | None \<Rightarrow> False), b1)))"

definition on_health :: "Env \<Rightarrow> RoutingHealth \<Rightarrow> Background \<Rightarrow> Background" where
  "on_health E health b0 =
     (let b = (if ts_routingHealth (bg_store b0) \<noteq> Some health then update_store E [WRoutingHealth health] b0 else b0)
      in if \<not> bg_pendingLoginRouting b then b
         else (let (go, b1) = login_may_go_on health b
               in if \<not> go then b1
                  else (let b2 = clear_timer LOGIN_ROUTING_TIMEOUT_NAME (b1\<lparr>bg_pendingLoginRouting := False\<rparr>)
                        in if isLoginPending (bg_routing b2) \<and> ts_backendState (bg_store b2) = NeedsLogin
                           then requestLogin E b2 else b2)))"

section \<open>Lifecycle events\<close>

datatype InstalledReason = InstallReason | UpdateReason | ChromeUpdateReason | SharedModuleUpdateReason

definition handleBrowserStartup :: "Env \<Rightarrow> Background \<Rightarrow> Background" where
  "handleBrowserStartup E b0 =
     (let b = b0\<lparr>bg_sawBrowserStartup := True, bg_intentQueue := bg_intentQueue b0 @ [ClearPersisted]\<rparr>
      in case bg_startupResolution b of
           None \<Rightarrow> b
         | Some res \<Rightarrow>
             if sr_usedRecovery res \<and> \<not> bg_intentExplicitlyDecided b \<and> bg_sessionIntentMirror b \<noteq> Some (sr_pref res)
             then (let b1 = enqueueIntentWrite False (b\<lparr>bg_sessionIntentMirror := Some (sr_pref res)\<rparr>)
                   in case bg_latestBackendState b1 of
                        None \<Rightarrow> b1
                      | Some s \<Rightarrow> maybeAutoDisconnect E s b1)
             else b)"

definition handleInstalled :: "Env \<Rightarrow> InstalledReason \<Rightarrow> Background \<Rightarrow> Background" where
  "handleInstalled E reason b0 =
     (let b1 = effect CreateContextMenu b0
      in if reason \<noteq> UpdateReason then b1
         else
           (let b = b1\<lparr>bg_sawExtensionUpdate := True\<rparr>
            in case bg_startupResolution b of
                 None \<Rightarrow> b
               | Some res \<Rightarrow>
                   if \<not> sr_usedRecovery res \<and> sr_persisted res = Some True \<and> \<not> bg_sawBrowserStartup b \<and>
                      \<not> bg_intentExplicitlyDecided b
                   then (let b2 = enqueueIntentWrite True
                                (b\<lparr>bg_startupResolution := Some (res\<lparr>sr_usedRecovery := True\<rparr>),
                                   bg_sessionIntentMirror := Some True\<rparr>)
                         in if (case bg_latestBackendState b2 of None \<Rightarrow> True | Some s \<Rightarrow> shouldAutoConnect s)
                            then send_ignore E Up b2 else b2)
                   else b))"

section \<open>The \<open>wantRunning\<close> hint\<close>

definition resume_connect :: "Env \<Rightarrow> detail + bool option \<Rightarrow> OpenResult \<Rightarrow> Background \<Rightarrow> js_error option \<times> Background" where
  "resume_connect E res opened b = run_host E (HWantRunning res opened) (b\<lparr>bg_hint := HintIdle\<rparr>)"

definition reconnect_if :: "bool option \<Rightarrow> Background \<Rightarrow> Background" where
  "reconnect_if v b = (if v = Some True then reconnect_routing b else b)"

text \<open>A decision made while the resolution was in flight wins over it.\<close>

definition hint_resolved :: "bool \<Rightarrow> Background \<Rightarrow> Background" where
  "hint_resolved resolved b0 =
     (let mirror = (case bg_sessionIntentMirror b0 of Some v \<Rightarrow> Some v | None \<Rightarrow> Some resolved);
          b = enqueueIntentWrite False (apply_proxy (reconnect_if mirror (b0\<lparr>bg_sessionIntentMirror := mirror\<rparr>)))
      in b\<lparr>bg_hint := HintWriting (length (bg_intentQueue b))\<rparr>)"

definition hint_decided :: "bool \<Rightarrow> bool option \<Rightarrow> Background \<Rightarrow> Background" where
  "hint_decided pref persisted b =
     (let recover = (persisted \<noteq> None \<and> bg_sawExtensionUpdate b \<and> \<not> bg_sawBrowserStartup b);
          resolved = (case persisted of Some v \<Rightarrow> if recover then v else pref | None \<Rightarrow> pref)
      in hint_resolved resolved (b\<lparr>bg_startupResolution :=
           Some \<lparr>sr_pref = pref, sr_persisted = persisted, sr_usedRecovery = recover\<rparr>\<rparr>))"

text \<open>
  The provider goes on after what it awaits; \<open>failed\<close> is a rejected storage read. It stays where it
  is while what it waits for is not there.
\<close>

definition hint_step :: "Env \<Rightarrow> detail option \<Rightarrow> OpenResult \<Rightarrow> Background \<Rightarrow> js_error option \<times> Background" where
  "hint_step E failed opened b =
     (case bg_hint b of
        HintIdle \<Rightarrow> (None, b)
      | HintAwaitReady \<Rightarrow>
          if \<not> rt_ready (bg_routing b) \<or> \<not> bg_splitReady b then (None, b)
          else (case bg_sessionIntentMirror b of
                  Some v \<Rightarrow> resume_connect E (Inr (Some v)) opened (reconnect_if (Some v) b)
                | None \<Rightarrow> (None, b\<lparr>bg_hint := HintReadSession\<rparr>))
      | HintReadSession \<Rightarrow>
          (case failed of
             Some err \<Rightarrow> resume_connect E (Inl err) opened b
           | None \<Rightarrow> (case readSessionIntent (bg_session b) of
                       Some v \<Rightarrow> (None, hint_resolved v b)
                     | None \<Rightarrow> (None, b\<lparr>bg_hint := HintReadPrefs\<rparr>)))
      | HintReadPrefs \<Rightarrow>
          (case failed of
             Some err \<Rightarrow> resume_connect E (Inl err) opened b
           | None \<Rightarrow> (None, b\<lparr>bg_hint := HintDecide (readAutoConnectPref (bg_local b)) (readPersistedIntent (bg_local b))\<rparr>))
      | HintDecide pref persisted \<Rightarrow>
          if persisted \<noteq> None \<and> \<not> bg_lifecycleSettled b then (None, b)
          else if bg_sawBrowserStartup b \<and> ClearPersisted \<in> set (bg_intentQueue b) then (None, b)
          else (None, hint_decided pref persisted b)
      | HintWriting n \<Rightarrow>
          if n \<noteq> 0 then (None, b) else resume_connect E (Inr (bg_sessionIntentMirror b)) opened b)"

end
