(* ===== verification/Routing_Machine.thy ===== *)
theory Routing_Machine
  imports Routing_Protection
begin

text \<open>
  The life of a \<open>RoutingProtection\<close> object as a state machine: the calls the background script makes
  on it, in any order, with \<open>restore\<close> completing once. The invariants are proved by rule induction
  over the step relation: every stored snapshot would be accepted again on restart, a protected
  account never falls back to direct routing unless the user asks for it, and a profile switch
  blocks all traffic until another account is confirmed.
\<close>

datatype routing_op =
    ROSelect string
  | RODisconnect
  | ROReconnect
  | ROLogin
  | RORelease
  | ROSwitch TailscaleState
  | ROConfirm StatusUpdate TailscaleState
  | RODecorate TailscaleState
  | ROSaveFailed
  | RORestore nat "jsval option"

fun routing_run :: "routing_op \<Rightarrow> RoutingProtection \<Rightarrow> RoutingProtection" where
  "routing_run (ROSelect x) r = selectExitNode x r"
| "routing_run RODisconnect r = requestDisconnect r"
| "routing_run ROReconnect r = reconnect r"
| "routing_run ROLogin r = startLogin r"
| "routing_run RORelease r = release r"
| "routing_run (ROSwitch s) r = switchProfile s r"
| "routing_run (ROConfirm st s) r = snd (confirmStatus st s r)"
| "routing_run (RODecorate s) r = fst (decorate_policy s r)"
| "routing_run ROSaveFailed r = save_failed r"
| "routing_run (RORestore n v) r = restore n v r"

text \<open>
  What the callers guarantee: states and statuses as the store and the native host produce them,
  and \<open>restore\<close> only completes once, at start-up.
\<close>

fun op_input :: "routing_op \<Rightarrow> RoutingProtection \<Rightarrow> bool" where
  "op_input (ROConfirm st s) r \<longleftrightarrow> status_input st \<and> state_input s"
| "op_input (RODecorate s) r \<longleftrightarrow> state_input s"
| "op_input (RORestore n v) r \<longleftrightarrow> \<not> rt_ready r"
| "op_input _ r \<longleftrightarrow> True"

inductive routing_step :: "RoutingProtection \<Rightarrow> routing_op \<Rightarrow> RoutingProtection \<Rightarrow> bool" where
  step: "op_input oper r \<Longrightarrow> routing_step r oper (routing_run oper r)"

inductive routing_reach :: "RoutingProtection \<Rightarrow> bool" where
  init: "routing_reach routing_init"
| next_step: "routing_reach r \<Longrightarrow> routing_step r oper r' \<Longrightarrow> routing_reach r'"

text \<open>A run without the three calls by which the user gives protection up.\<close>

fun keeps_protection :: "routing_op \<Rightarrow> bool" where
  "keeps_protection RODisconnect = False"
| "keeps_protection ROLogin = False"
| "keeps_protection RORelease = False"
| "keeps_protection _ = True"

inductive guarded_run :: "RoutingProtection \<Rightarrow> RoutingProtection \<Rightarrow> bool" where
  start: "guarded_run r r"
| more: "guarded_run r r' \<Longrightarrow> routing_step r' oper r'' \<Longrightarrow> keeps_protection oper \<Longrightarrow> guarded_run r r''"

inductive_cases routing_stepE: "routing_step r oper r'"
inductive_simps routing_step_confirm: "routing_step r (ROConfirm st s) r'"
inductive_simps routing_step_restore: "routing_step r (RORestore n v) r'"

section \<open>Well-formedness\<close>

lemma routing_init_inv: "routing_inv routing_init"
  by (simp add: routing_inv_def routing_init_def profiles_ok_def)

lemma routing_step_inv: "routing_step r oper r' \<Longrightarrow> routing_inv r \<Longrightarrow> routing_inv r'"
  by (erule routing_stepE, cases oper)
    (simp_all add: selectExitNode_inv flag_ops_inv startLogin_def release_def confirmStatus_inv
      decorate_inv save_failed_inv restore_inv)



section \<open>Restart\<close>

lemma decorate_policy_cong:
  assumes "rt_ready r = rt_ready r'" "rt_uncertain r = rt_uncertain r'"
    "rt_transitioning r = rt_transitioning r'" "rt_released r = rt_released r'" "rt_active r = rt_active r'"
  shows "snd (decorate_policy s r) = snd (decorate_policy s r')"
  using assms by (simp add: decorate_policy_def Let_def split: option.split)



section \<open>Protection is only given up on request\<close>

lemma settle_flags_fields [simp]:
  "rt_active (settle_flags st r) = rt_active r" "rt_profiles (settle_flags st r) = rt_profiles r"
  "rt_ready (settle_flags st r) = rt_ready r" "rt_uncertain (settle_flags st r) = rt_uncertain r"
  by (simp_all add: settle_flags_def Let_def)

lemma settle_flags_released: "rt_released (settle_flags st r) \<Longrightarrow> rt_released r"
  by (auto simp: settle_flags_def Let_def split: if_splits)

lemma settle_flags_disconnect: "rt_pendingDisconnect (settle_flags st r) \<Longrightarrow> rt_pendingDisconnect r"
  by (auto simp: settle_flags_def Let_def split: if_splits)

definition guarded :: "RoutingProtection \<Rightarrow> bool" where
  "guarded r \<longleftrightarrow> rt_ready r \<and> \<not> rt_released r \<and> \<not> rt_pendingDisconnect r \<and> rt_active r \<noteq> None"

lemma confirmStatus_guarded:
  assumes "guarded r"
  shows "guarded (snd (confirmStatus st s r))"
proof -
  have flags: "\<not> rt_released (settle_flags st r)" "\<not> rt_pendingDisconnect (settle_flags st r)"
    using assms settle_flags_released settle_flags_disconnect by (auto simp: guarded_def)
  have pd: "rt_pendingDisconnect (settle_exit st q) = rt_pendingDisconnect q" for q
    by (simp add: settle_exit_def)
  show ?thesis
    by (cases rule: confirmStatus_cases [of st r s]) (use assms flags pd in \<open>auto simp: guarded_def\<close>)
qed

lemma decorate_guarded: "guarded r \<Longrightarrow> guarded (fst (decorate_policy s r))"
  by (auto simp: guarded_def decorate_policy_def Let_def split: option.splits)

lemma step_guarded:
  assumes "routing_step r oper r'" and "keeps_protection oper" and "guarded r"
  shows "guarded r'"
proof -
  from assms(1) have r': "r' = routing_run oper r" and input: "op_input oper r" by (auto elim: routing_stepE)
  have user: "guarded (selectExitNode x r)" "guarded (switchProfile s r)" "guarded (reconnect r)"
    "guarded (save_failed r)" for x s
    using assms(3)
    by (auto simp: guarded_def selectExitNode_def switchProfile_def reconnect_def save_failed_def)
  show ?thesis
    by (cases oper) (use assms(2,3) r' input user in
      \<open>simp_all add: confirmStatus_guarded decorate_guarded guarded_def [of r]\<close>)
qed

lemma guarded_run_guarded: "guarded_run r r' \<Longrightarrow> guarded r \<Longrightarrow> guarded r'"
  by (induction rule: guarded_run.induct) (auto intro: step_guarded)

lemma guarded_not_direct: "guarded r \<Longrightarrow> rp_mode (snd (decorate_policy s r)) \<noteq> PDirect"
  by (auto simp: guarded_def decorate_policy_def Let_def split: option.splits)

section \<open>What a status may change\<close>

lemma snapshot_after_subnets:
  "prior = Some p \<Longrightarrow> set (sn_subnetCIDRs p) \<subseteq> set (sn_subnetCIDRs (snapshot_after st s scope x prior))"
  by (simp add: snapshot_after_def Let_def)

lemma selected_after_sticky:
  assumes "prior = Some p" and "sn_selectedExitNodeID p = Some x" and "x \<noteq> []" and "pending \<noteq> Some []"
  shows "\<exists>y. selected_after pending confirmed prior = Some y \<and> (confirmed = None \<longrightarrow> pending = None \<longrightarrow> y = x)"
proof (cases "truthy pending")
  case None
  with assms show ?thesis
    by (cases "truthy confirmed") (auto simp: selected_after_def js_or_def truthy_def split: option.splits if_splits)
next
  case (Some y)
  then have "selected_after pending confirmed prior = Some y" and "pending \<noteq> None"
    by (simp_all add: selected_after_def js_or_def) (auto simp: truthy_Some_iff)
  then show ?thesis by blast
qed

text \<open>C13: a status of the protected account keeps the account protected, forgets none of its subnets and does not drop a chosen exit node unless the user asked for it.\<close>

theorem confirmStatus_same_account:
  assumes "rt_active r = Some a" and "status_scope st = Some (sn_scope a)"
    and "\<not> rt_released r" and "\<not> rt_pendingDisconnect r"
  shows "\<exists>b. rt_active (snd (confirmStatus st s r)) = Some b \<and> sn_scope b = sn_scope a \<and>
    set (sn_subnetCIDRs a) \<subseteq> set (sn_subnetCIDRs b) \<and>
    (\<forall>x. sn_selectedExitNodeID a = Some x \<longrightarrow> x \<noteq> [] \<longrightarrow> rt_pendingExit r \<noteq> Some [] \<longrightarrow>
       sn_selectedExitNodeID b \<noteq> None)"
proof -
  have prior: "prior_snapshot (sn_scope a) (settle_flags st r) = Some a"
    using assms(1) by (simp add: prior_snapshot_def)
  have pend: "rt_pendingExit (settle_flags st r) = rt_pendingExit r"
    using assms(1,2) by (simp add: settle_flags_def Let_def)
  show ?thesis
  proof (cases rule: confirmStatus_cases [of st r s])
    case released
    with assms(4) settle_flags_disconnect show ?thesis by blast
  next
    case settled
    with assms(2,3) settle_flags_released show ?thesis by auto
  next
    case (kept scope e)
    with assms(1) show ?thesis by auto
  next
    case (recorded scope)
    with assms(2) have sc: "scope = sn_scope a" by simp
    show ?thesis
      unfolding recorded(3) sc prior pend
      using selected_after_sticky [of "Some a" a _ "rt_pendingExit r" "confirmed_exit st"]
      by (auto simp: snapshot_after_def Let_def)
  qed
qed

theorem confirmStatus_same_account_witness:
  "\<exists>b. rt_active (snd (confirmStatus sample_status DEFAULT_STATE sample_routing)) = Some b \<and> sn_selectedExitNodeID b \<noteq> None"
proof -
  have "rt_active sample_routing = Some sample_snapshot" "status_scope sample_status = Some (sn_scope sample_snapshot)"
    "\<not> rt_released sample_routing" "\<not> rt_pendingDisconnect sample_routing"
    by (simp_all add: sample_scope) (simp_all add: samples routing_init_def)
  from confirmStatus_same_account [OF this, of DEFAULT_STATE] show ?thesis
    by (auto simp: sample_routing_def routing_init_def sample_snapshot_def)
qed

section \<open>Profile switches\<close>

lemma settle_flags_transition:
  assumes "status_scope st = None \<or> status_scope st = rt_transitionScope r"
  shows "rt_transitioning (settle_flags st r) = rt_transitioning r"
    "rt_transitionScope (settle_flags st r) = rt_transitionScope r"
proof -
  consider "status_scope st = None" | a where "status_scope st = Some a" "rt_transitionScope r = Some a"
    using assms by (cases "rt_transitionScope r") auto
  then have "rt_transitioning (settle_flags st r) = rt_transitioning r \<and>
      rt_transitionScope (settle_flags st r) = rt_transitionScope r"
    by cases (simp_all add: settle_flags_def Let_def)
  then show "rt_transitioning (settle_flags st r) = rt_transitioning r"
    "rt_transitionScope (settle_flags st r) = rt_transitionScope r" by simp_all
qed

lemma transition_held:
  assumes "rt_transitioning r" and "\<not> rt_pendingDisconnect r"
    and "status_scope st = None \<or> status_scope st = rt_transitionScope r"
  shows "rt_transitioning (snd (confirmStatus st s r))"
    "rt_transitionScope (snd (confirmStatus st s r)) = rt_transitionScope r"
    "\<not> rt_pendingDisconnect (snd (confirmStatus st s r))"
proof -
  have flags: "rt_transitioning (settle_flags st r)" "rt_transitionScope (settle_flags st r) = rt_transitionScope r"
    using settle_flags_transition [OF assms(3)] assms(1) by simp_all
  have pd: "\<not> rt_pendingDisconnect (settle_flags st r)" using assms(2) settle_flags_disconnect by blast
  have pe: "rt_pendingDisconnect (settle_exit st q) = rt_pendingDisconnect q" for q
    by (simp add: settle_exit_def)
  have "rt_transitioning (snd (confirmStatus st s r)) \<and>
      rt_transitionScope (snd (confirmStatus st s r)) = rt_transitionScope r \<and>
      \<not> rt_pendingDisconnect (snd (confirmStatus st s r))"
  proof (cases rule: confirmStatus_cases [of st r s])
    case released
    with pd show ?thesis by simp
  next
    case settled
    with flags pd show ?thesis by simp
  next
    case (kept scope e)
    with flags pd pe show ?thesis by simp
  next
    case (recorded scope)
    with flags pd pe show ?thesis by simp
  qed
  then show "rt_transitioning (snd (confirmStatus st s r))"
    "rt_transitionScope (snd (confirmStatus st s r)) = rt_transitionScope r"
    "\<not> rt_pendingDisconnect (snd (confirmStatus st s r))"
    by blast+
qed



text \<open>The statuses that arrive one after another.\<close>

definition confirm_all :: "(StatusUpdate \<times> TailscaleState) list \<Rightarrow> RoutingProtection \<Rightarrow> RoutingProtection" where
  "confirm_all sts r = fold (\<lambda>(st, s) r. snd (confirmStatus st s r)) sts r"

text \<open>C14: after an account switch is requested, no sequence of statuses without an account or of the old account ends the switch.\<close>

theorem transition_held_all:
  assumes "rt_transitioning r" and "\<not> rt_pendingDisconnect r"
    and "\<forall>(st, s)\<in>set sts. status_scope st = None \<or> status_scope st = rt_transitionScope r"
  shows "rt_transitioning (confirm_all sts r)"
  using assms
proof (induction sts arbitrary: r)
  case (Cons p sts)
  obtain st s where p: "p = (st, s)" by (cases p)
  with Cons.prems have "status_scope st = None \<or> status_scope st = rt_transitionScope r" by simp
  from transition_held [OF Cons.prems(1,2) this, of s]
  have "rt_transitioning (confirm_all sts (snd (confirmStatus st s r)))"
    using Cons.prems(3) by (intro Cons.IH) auto
  with p show ?case by (simp add: confirm_all_def)
qed (simp add: confirm_all_def)

theorem transition_held_all_witness:
  "rt_transitioning (confirm_all [(sample_status, sample_state)] (switchProfile sample_state sample_routing))"
proof (rule transition_held_all)
  have "account_scope (ts_selfNode sample_state) (ts_prefs sample_state) = Some (scope_of [] ''n1'')"
    by (simp add: samples account_scope_def js_default_def)
  then show "\<forall>(st, s)\<in>set [(sample_status, sample_state)]. status_scope st = None \<or>
      status_scope st = rt_transitionScope (switchProfile sample_state sample_routing)"
    by (simp add: sample_scope switchProfile_def)
qed (simp_all add: switchProfile_def)

text \<open>C2: once an account is protected, no sequence of operations in which the user neither disconnects, logs in again nor releases makes browsing direct.\<close>

theorem protected_never_direct:
  assumes "guarded_run r r'" and "guarded r"
  shows "rp_mode (snd (decorate_policy s r')) \<noteq> PDirect"
  by (rule guarded_not_direct) (rule guarded_run_guarded [OF assms])

theorem protected_never_direct_witness:
  "rp_mode (snd (decorate_policy DEFAULT_STATE (switchProfile DEFAULT_STATE sample_routing))) \<noteq> PDirect"
proof -
  have "routing_step sample_routing (ROSwitch DEFAULT_STATE) (switchProfile DEFAULT_STATE sample_routing)"
    using routing_step.step [of "ROSwitch DEFAULT_STATE" sample_routing] by simp
  then have "guarded_run sample_routing (switchProfile DEFAULT_STATE sample_routing)"
    by (rule guarded_run.more [OF guarded_run.start]) simp
  moreover have "guarded sample_routing" by (simp add: guarded_def samples routing_init_def)
  ultimately show ?thesis by (rule protected_never_direct)
qed

end
