(* ===== verification/Js_Base64.thy ===== *)
theory Js_Base64
  imports Prelude
begin

text \<open>
  The browser's \<open>btoa\<close> on byte strings and UTF-8 encoding, as the extension uses them to put file
  contents into messages, and the inverse that a receiver computes.
\<close>

text \<open>\<open>unescape(encodeURIComponent(s))\<close>: the UTF-8 bytes of the text.\<close>

definition utf8 :: "string \<Rightarrow> string" where
  "utf8 s = concat (map (\<lambda>c. let n = of_char c :: nat in
     if n < 128 then [c] else [char_of (192 + n div 64), char_of (128 + n mod 64)]) s)"

definition b64_digit :: "nat \<Rightarrow> char" where
  "b64_digit n =
     (if n < 26 then char_of (65 + n) else if n < 52 then char_of (71 + n) else if n < 62 then char_of (n - 4)
      else if n = 62 then CHR ''+'' else CHR ''/'')"

fun btoa :: "string \<Rightarrow> string" where
  "btoa [] = []"
| "btoa [a] = (let n = of_char a * 16 :: nat in [b64_digit (n div 64), b64_digit (n mod 64), CHR ''='', CHR ''=''])"
| "btoa [a, b] =
     (let n = (of_char a * 256 + of_char b) * 4 :: nat
      in [b64_digit (n div 4096), b64_digit (n div 64 mod 64), b64_digit (n mod 64), CHR ''=''])"
| "btoa (a # b # c # cs) =
     (let n = (of_char a * 256 + of_char b) * 256 + of_char c :: nat
      in b64_digit (n div 262144) # b64_digit (n div 4096 mod 64) # b64_digit (n div 64 mod 64) # b64_digit (n mod 64)
           # btoa cs)"

section \<open>Decoding\<close>

definition b64_val :: "char \<Rightarrow> nat" where
  "b64_val c =
     (let n = of_char c :: nat in
      if is_upper c then n - 65 else if is_lower c then n - 71 else if is_digit c then n + 4
      else if c = CHR ''+'' then 62 else 63)"

fun b64_decode :: "string \<Rightarrow> string" where
  "b64_decode (p # q # r # s # rest) =
     (let n = ((b64_val p * 64 + b64_val q) * 64 + b64_val r) * 64 + b64_val s in
      if r = CHR ''='' then [char_of ((b64_val p * 64 + b64_val q) div 16)]
      else if s = CHR ''='' then
        (let k = (b64_val p * 64 + b64_val q) * 64 + b64_val r in [char_of (k div 1024), char_of (k div 4 mod 256)])
      else char_of (n div 65536) # char_of (n div 256 mod 256) # char_of (n mod 256) # b64_decode rest)"
| "b64_decode _ = []"

lemma b64_digit_inverse:
  assumes "n < 64"
  shows "b64_val (b64_digit n) = n" and "b64_digit n \<noteq> CHR ''=''"
proof -
  consider "n < 26" | "26 \<le> n" "n < 52" | "52 \<le> n" "n < 62" | "n = 62" | "n = 63" using assms by linarith
  then have "b64_val (b64_digit n) = n \<and> of_char (b64_digit n) \<noteq> (61 :: nat)"
    by cases (auto simp: b64_digit_def b64_val_def is_upper_def is_lower_def is_digit_def Let_def)
  then show "b64_val (b64_digit n) = n" and "b64_digit n \<noteq> CHR ''=''" by auto
qed

lemma of_char_bound: "(of_char c :: nat) < 256"
  by (cases c) (simp add: of_char_def horner_sum_simps)

lemma byte_pair_bound: "x < 256 \<Longrightarrow> y < 256 \<Longrightarrow> x * 256 + y < (65536 :: nat)"
  by linarith

lemma bytes_split:
  assumes "y < (256 :: nat)"
  shows "(x * 256 + y) div 256 = x" and "(x * 256 + y) mod 256 = y"
  using assms by simp_all

lemma sextets:
  fixes n :: nat
  shows "(n div 4096 * 64 + n div 64 mod 64) * 64 + n mod 64 = n"
    and "((n div 262144 * 64 + n div 4096 mod 64) * 64 + n div 64 mod 64) * 64 + n mod 64 = n"
proof -
  have d: "n div 4096 = n div 64 div 64" "n div 262144 = n div 64 div 64 div 64"
    by (simp_all add: div_mult2_eq [symmetric])
  show "(n div 4096 * 64 + n div 64 mod 64) * 64 + n mod 64 = n"
    "((n div 262144 * 64 + n div 4096 mod 64) * 64 + n div 64 mod 64) * 64 + n mod 64 = n"
    unfolding d by (simp_all only: div_mult_mod_eq)
qed

lemma b64_roundtrip: "b64_decode (btoa s) = s"
proof (induction s rule: btoa.induct)
  case (2 a)
  define n where "n = of_char a * (16 :: nat)"
  have d: "n div 64 < 64" "n mod 64 < 64" using of_char_bound [of a] by (simp_all add: n_def div_less_iff_less_mult)
  have "(n div 64 * 64 + n mod 64) div 16 = of_char a" unfolding div_mult_mod_eq n_def by simp
  with d show ?case by (simp add: b64_digit_inverse n_def [symmetric] Let_def)
next
  case (3 a b)
  define m where "m = of_char a * 256 + (of_char b :: nat)"
  define n where "n = m * 4"
  have "m < 65536" unfolding m_def by (rule byte_pair_bound [OF of_char_bound of_char_bound])
  then have d: "n div 4096 < 64" "n div 64 mod 64 < 64" "n mod 64 < 64" by (simp_all add: n_def div_less_iff_less_mult)
  have "n div 1024 = m div 256" "n div 4 = m" by (simp_all add: n_def div_mult2_eq [of _ 4 256, simplified])
  then have "n div 1024 = of_char a" "n div 4 mod 256 = of_char b"
    using bytes_split [OF of_char_bound [of b], of "of_char a"] by (simp_all add: m_def)
  moreover have "btoa [a, b] = [b64_digit (n div 4096), b64_digit (n div 64 mod 64), b64_digit (n mod 64), CHR ''='']"
    by (simp only: btoa.simps Let_def n_def m_def)
  ultimately show ?case
    by (simp only: b64_decode.simps Let_def b64_digit_inverse d sextets char_of_char if_False if_True refl)
next
  case (4 a b c cs)
  define m where "m = of_char a * 256 + (of_char b :: nat)"
  define n where "n = m * 256 + (of_char c :: nat)"
  have "m < 65536" unfolding m_def by (rule byte_pair_bound [OF of_char_bound of_char_bound])
  then have "n < 16777216" using of_char_bound [of c] unfolding n_def by linarith
  then have d: "n div 262144 < 64" "n div 4096 mod 64 < 64" "n div 64 mod 64 < 64" "n mod 64 < 64"
    by (simp_all add: div_less_iff_less_mult)
  have m: "n div 256 = m" "n mod 256 = of_char c" unfolding n_def by (rule bytes_split [OF of_char_bound])+
  then have "n div 65536 = m div 256" by (simp add: div_mult2_eq [of _ 256 256, simplified])
  then have "n div 65536 = of_char a" "n div 256 mod 256 = of_char b"
    using bytes_split [OF of_char_bound [of b], of "of_char a"] m by (simp_all add: m_def)
  moreover have "btoa (a # b # c # cs) =
      b64_digit (n div 262144) # b64_digit (n div 4096 mod 64) # b64_digit (n div 64 mod 64) # b64_digit (n mod 64)
        # btoa cs"
    by (simp only: btoa.simps Let_def n_def m_def)
  ultimately show ?case
    by (simp only: b64_decode.simps Let_def b64_digit_inverse d m 4 sextets char_of_char if_False refl)
qed simp

end
