(* ===== verification/Background.thy ===== *)
theory Background
  imports Background_Popup Routing_Machine Js_Base64
begin

text \<open>
  The background script as a state machine: \<open>initBackground\<close> of
  \<open>packages/shared/src/background/background.ts\<close> and, as \<open>bg_event\<close>, everything that may call into it
  afterwards: the browser's events, the helper's messages, the popup, timers and the continuations
  of what it awaits. \<open>bg_reach\<close> is the set of states it can be in, for any order of events.
\<close>

section \<open>Timers, storage and the context menu\<close>

definition RUNTIME_LIFECYCLE_SETTLE_TIMER_NAME :: string where
  "RUNTIME_LIFECYCLE_SETTLE_TIMER_NAME = ''runtime-lifecycle-settle''"

definition KEEPALIVE_TIMER_NAME :: string where
  "KEEPALIVE_TIMER_NAME = ''keepalive''"

definition sendKeepalive :: "Env \<Rightarrow> Background \<Rightarrow> Background" where
  "sendKeepalive E b = (if ts_hostConnected (bg_store b) then send_ignore E Ping b else b)"

definition run_callback :: "Env \<Rightarrow> rat \<Rightarrow> bg_callback \<Rightarrow> Background \<Rightarrow> Background" where
  "run_callback E now cb b =
     (case cb of
        OnLoginOpenTimeout \<Rightarrow>
          if \<not> bg_pendingLoginOpen b then b
          else sendToastToPopup ''Still waiting for a Tailscale login URL. Please try again.'' Error
                 (b\<lparr>bg_pendingLoginOpen := False\<rparr>)
      | OnLoginRoutingTimeout \<Rightarrow>
          sendToastToPopup ''Could not restore normal browsing. Check browser routing and try again.'' Error
            (b\<lparr>bg_pendingLoginRouting := False\<rparr>)
      | OnProfileRefresh \<Rightarrow>
          if bg_latestBackendState b = Some Running \<and> bg_profileRefreshNeeded b \<and> \<not> bg_profileRefreshInFlight b
          then requestProfiles E b else b
      | OnLifecycleSettled \<Rightarrow> b\<lparr>bg_lifecycleSettled := True\<rparr>
      | OnHelperRetry r \<Rightarrow> executeHelperRetry E now r b
      | OnKeepalive \<Rightarrow> sendKeepalive E b)"

text \<open>A timer fires and is gone, unless it is the keepalive interval.\<close>

definition fire_timer :: "Env \<Rightarrow> rat \<Rightarrow> string \<Rightarrow> Background \<Rightarrow> Background" where
  "fire_timer E now name b =
     (case map_of (bg_timers b) name of
        None \<Rightarrow> b
      | Some cb \<Rightarrow> run_callback E now cb (if cb = OnKeepalive then b else clear_timer name b))"

definition run_task :: "Env \<Rightarrow> nat \<Rightarrow> bool \<Rightarrow> Background \<Rightarrow> Background" where
  "run_task E i ok b =
     (if i < length (bg_tasks b)
      then run_task_body E ok (bg_tasks b ! i) (b\<lparr>bg_tasks := take i (bg_tasks b) @ drop (Suc i) (bg_tasks b)\<rparr>)
      else b)"

definition set_split :: "Env \<Rightarrow> DomainSplitConfig \<Rightarrow> Background \<Rightarrow> Background" where
  "set_split E config b =
     (if domainSplitEquals (ts_domainSplit (bg_store b)) config then b else update_store E [WDomainSplit config] b)"

definition when_ready :: "Background \<Rightarrow> Background" where
  "when_ready b = (if rt_ready (bg_routing b) \<and> bg_splitReady b then apply_proxy b else b)"

text \<open>\<open>routing.restore()\<close> and \<open>readDomainSplit()\<close> complete; both were started at revision 0.\<close>

definition routing_restored :: "jsval option \<Rightarrow> Background \<Rightarrow> Background" where
  "routing_restored result b = when_ready (on_routing (restore 0 result) b)"

definition split_read :: "Env \<Rightarrow> jsval option \<Rightarrow> Background \<Rightarrow> Background" where
  "split_read E result b = when_ready ((set_split E (readDomainSplit result) b)\<lparr>bg_splitReady := True\<rparr>)"

definition pref_read :: "Env \<Rightarrow> Background \<Rightarrow> Background" where
  "pref_read E b =
     (let v = readAutoConnectPref (bg_local b);
          b1 = update_store E [WAutoConnectOnStart v] b
      in case bg_latestBackendState b1 of
           Some s \<Rightarrow> if v then maybeAutoConnect s b1 else b1
         | None \<Rightarrow> b1)"

definition context_click :: "Env \<Rightarrow> string \<Rightarrow> string option \<Rightarrow> Background \<Rightarrow> Background" where
  "context_click E menuItemId pageUrl b =
     (if menuItemId \<noteq> ''tailscale-send-page'' \<or> ts_backendState (bg_store b) \<noteq> Running then b
      else (case truthy pageUrl of
              None \<Rightarrow> b
            | Some url \<Rightarrow>
                (case filter (\<lambda>p. peer_online p \<and> peer_taildropTarget p) (ts_peers (bg_store b)) of
                   [] \<Rightarrow> b
                 | target # _ \<Rightarrow>
                     send_ignore E (SendFile \<lparr>fc_nodeID = peer_id target, fc_fileName = ''shared-url.txt'',
                       fc_fileData = btoa (utf8 url), fc_fileSize = int (length (utf8 url)), fc_transfer = None\<rparr>) b)))"

section \<open>Start-up\<close>

definition bg_blank :: "storage \<Rightarrow> storage option \<Rightarrow> Background" where
  "bg_blank local_area session_area =
     \<lparr>bg_store = DEFAULT_STATE, bg_routing = routing_init, bg_badge = badge_init, bg_host = host_init True,
      bg_postError = None, bg_storageFails = False, bg_popupPorts = [], bg_closedPorts = [],
      bg_sessionIntentMirror = None, bg_intentQueue = [], bg_autoDisconnectAttempted = False,
      bg_intentExplicitlyDecided = False, bg_startupResolution = None, bg_sawBrowserStartup = False,
      bg_sawExtensionUpdate = False, bg_lifecycleSettled = False, bg_splitReady = False, bg_hint = HintIdle,
      bg_exitNodeRestoreAttempted = False, bg_latestBackendState = None, bg_profileRefreshNeeded = False,
      bg_profileRefreshInFlight = False, bg_profileRefreshRetryIndex = 0, bg_sawHealthyProcRunning = False,
      bg_sawHealthyInit = False, bg_helperRetryRecord = None, bg_lastConfirmedControlURL = None,
      bg_pendingLoginOpen = False, bg_pendingLoginRouting = False, bg_pendingExternalProxyPort = None,
      bg_timers = [], bg_tasks = [], bg_local = local_area, bg_session = session_area, bg_effects = []\<rparr>"

record InitOptions =
  opt_browserStartup :: bool
  opt_installedReason :: "InstalledReason option"
  opt_skipKeepalive :: bool

definition lifecycle_captured :: "InitOptions \<Rightarrow> bool" where
  "lifecycle_captured opts \<longleftrightarrow>
     opt_browserStartup opts \<or> (opt_installedReason opts \<noteq> None \<and> opt_installedReason opts \<noteq> Some UpdateReason)"

definition initBackground :: "Env \<Rightarrow> InitOptions \<Rightarrow> storage \<Rightarrow> storage option \<Rightarrow> Background" where
  "initBackground E opts local_area session_area =
     (let b0 = bg_blank local_area session_area;
          b1 = (if opt_browserStartup opts then handleBrowserStartup E b0 else b0);
          b2 = (case opt_installedReason opts of Some reason \<Rightarrow> handleInstalled E reason b1 | None \<Rightarrow> b1);
          b3 = (if lifecycle_captured opts then b2\<lparr>bg_lifecycleSettled := True\<rparr>
                else set_timer RUNTIME_LIFECYCLE_SETTLE_TIMER_NAME OnLifecycleSettled b2);
          b4 = host_connect (apply_proxy b3)
      in if opt_skipKeepalive opts then b4 else set_timer KEEPALIVE_TIMER_NAME OnKeepalive b4)"

section \<open>Events\<close>

datatype bg_event =
    EvRoutingRestored "jsval option"
  | EvSplitRead "jsval option"
  | EvPrefRead
  | EvRoutingSaveFailed
  | EvStorageChanged jsval
  | EvHealth RoutingHealth
  | EvProfileRead "detail + (jsval \<times> string)" OpenResult
  | EvHint "detail option" OpenResult
  | EvMessage nat jsval
  | EvPortDisconnect nat "string option" "string option"
  | EvReconnectTimer
  | EvIntentJob bool bool
  | EvTask nat bool
  | EvTimer string rat
  | EvPopupConnect nat
  | EvPopupMessage nat BackgroundMessage rat
  | EvPopupDisconnect nat
  | EvPopupClosed nat
  | EvBrowserStartup
  | EvInstalled InstalledReason
  | EvContextClick string "string option"
  | EvKeepalive
  | EvReconnect
  | EvRehydrate rat
  | EvPosts "detail option"
  | EvStorageFails bool

definition begin_hint :: "Background \<Rightarrow> Background" where
  "begin_hint b =
     (if nh_phase (bg_host b) = AwaitWantRunning \<and> bg_hint b = HintIdle then b\<lparr>bg_hint := HintAwaitReady\<rparr> else b)"

fun bg_run :: "Env \<Rightarrow> bg_event \<Rightarrow> Background \<Rightarrow> Background" where
  "bg_run E (EvRoutingRestored v) b = routing_restored v b"
| "bg_run E (EvSplitRead v) b = split_read E v b"
| "bg_run E EvPrefRead b = pref_read E b"
| "bg_run E EvRoutingSaveFailed b = on_routing save_failed b"
| "bg_run E (EvStorageChanged v) b = set_split E (normalizeDomainSplit v) b"
| "bg_run E (EvHealth h) b = on_health E h b"
| "bg_run E (EvProfileRead r p) b = begin_hint (snd (run_host E (HProfile r p) b))"
| "bg_run E (EvHint f p) b = snd (hint_step E f p b)"
| "bg_run E (EvMessage n v) b = snd (run_host E (HMessage n v) b)"
| "bg_run E (EvPortDisconnect n x y) b = snd (run_host E (HPortDisconnect n x y) b)"
| "bg_run E EvReconnectTimer b = snd (run_host E HTimer b)"
| "bg_run E (EvIntentJob ok1 ok2) b = run_intent_job ok1 ok2 b"
| "bg_run E (EvTask i ok) b = run_task E i ok b"
| "bg_run E (EvTimer name now) b = fire_timer E now name b"
| "bg_run E (EvPopupConnect p) b = popup_connect p b"
| "bg_run E (EvPopupMessage p m now) b = handlePopupMessage E now (Some p) m b"
| "bg_run E (EvPopupDisconnect p) b = popup_disconnect p b"
| "bg_run E (EvPopupClosed p) b = b\<lparr>bg_closedPorts := p # bg_closedPorts b\<rparr>"
| "bg_run E EvBrowserStartup b = handleBrowserStartup E b"
| "bg_run E (EvInstalled r) b = handleInstalled E r b"
| "bg_run E (EvContextClick i u) b = context_click E i u b"
| "bg_run E EvKeepalive b = sendKeepalive E b"
| "bg_run E EvReconnect b = host_connect b"
| "bg_run E (EvRehydrate now) b = rehydrateHelperRetries E now b"
| "bg_run E (EvPosts p) b = b\<lparr>bg_postError := p\<rparr>"
| "bg_run E (EvStorageFails f) b = b\<lparr>bg_storageFails := f\<rparr>"

text \<open>
  \<open>restore\<close> completes once, and the MagicDNS suffix of a status is a fixed point of its sanitizer
  (it does not end in two dots).
\<close>

definition event_input :: "bg_event \<Rightarrow> Background \<Rightarrow> bool" where
  "event_input ev b =
     (case ev of
        EvRoutingRestored v \<Rightarrow> \<not> rt_ready (bg_routing b)
      | EvMessage n v \<Rightarrow>
          (case decode_reply v of
             Some msg \<Rightarrow> (case nr_status msg of Some st \<Rightarrow> status_input st | None \<Rightarrow> True)
           | None \<Rightarrow> True)
      | _ \<Rightarrow> True)"

inductive bg_reach :: "Env \<Rightarrow> Background \<Rightarrow> bool" for E where
  init: "bg_reach E (initBackground E opts local_area session_area)"
| step: "bg_reach E b \<Longrightarrow> event_input ev b \<Longrightarrow> bg_reach E (bg_run E ev b)"

end
