(* ===== verification/Background_Safety.thy ===== *)
theory Background_Safety
  imports Background
begin

text \<open>
  What holds in every state the background script can reach: the store holds no routing policy of its
  own and no external-proxy password, the routing protection and the native connection only move
  by their own operations (so that everything proved of those machines holds of the script), every
  state handed to the proxy manager or a popup went through the routing protection, and every tab
  opened and every coordination server sent passed its check.
\<close>

definition no_password :: "TailscaleState \<Rightarrow> bool" where
  "no_password s \<longleftrightarrow> (case ts_externalProxy s of Some x \<Rightarrow> ep_password x = None | None \<Rightarrow> True)"

text \<open>
  \<open>H\<close> is what is known of the health reports, of which only those of active routing are of interest;
  \<open>any_health\<close> asks nothing of them.
\<close>

abbreviation any_health :: "RoutingHealth \<Rightarrow> bool" where
  "any_health \<equiv> \<lambda>h. True"

definition health_ok :: "(RoutingHealth \<Rightarrow> bool) \<Rightarrow> RoutingHealth \<Rightarrow> bool" where
  "health_ok H h \<longleftrightarrow> (rh_status h = RActive \<longrightarrow> H h)"

definition store_ok :: "(RoutingHealth \<Rightarrow> bool) \<Rightarrow> TailscaleState \<Rightarrow> bool" where
  "store_ok H s \<longleftrightarrow> ts_routingPolicy s = None \<and> state_input s \<and> no_password s \<and>
     (\<forall>h. ts_routingHealth s = Some h \<longrightarrow> health_ok H h)"

text \<open>A state decorated by a reachable routing protection.\<close>

definition routed :: "(RoutingHealth \<Rightarrow> bool) \<Rightarrow> TailscaleState \<Rightarrow> bool" where
  "routed H s \<longleftrightarrow> (\<exists>base r. store_ok H base \<and> routing_reach r \<and> s = snd (decorate base r))"

definition tab_safe :: "Env \<Rightarrow> string \<Rightarrow> bool" where
  "tab_safe E url \<longleftrightarrow>
     url = ADMIN_URL \<or> url = ''http://'' @ TAILSCALE_SERVICE_IP \<or>
     (\<exists>controlURL. isValidLoginURL (env_parse_url E) url controlURL)"

definition message_safe :: "(RoutingHealth \<Rightarrow> bool) \<Rightarrow> PopupMessage \<Rightarrow> bool" where
  "message_safe H m = (case m of StateMsg s \<Rightarrow> routed H s | _ \<Rightarrow> True)"

definition effect_safe :: "(RoutingHealth \<Rightarrow> bool) \<Rightarrow> Env \<Rightarrow> bg_effect \<Rightarrow> bool" where
  "effect_safe H E e =
     (case e of
        ApplyProxy s \<Rightarrow> routed H s
      | PostPopup p m \<Rightarrow> message_safe H m
      | OpenTab url \<Rightarrow> tab_safe E url
      | _ \<Rightarrow> True)"

text \<open>Before the routing protection is restored, only the policy that blocks everything goes out.\<close>

definition effect_blocked :: "bg_effect \<Rightarrow> bool" where
  "effect_blocked e =
     (case e of
        ApplyProxy s \<Rightarrow> ts_routingPolicy s = Some blockAllPolicy
      | PostPopup p (StateMsg s) \<Rightarrow> ts_routingPolicy s = Some blockAllPolicy
      | _ \<Rightarrow> True)"

definition request_safe :: "Env \<Rightarrow> NativeRequest \<Rightarrow> bool" where
  "request_safe E r =
     (case r of SetPrefs (SetControlURL v) \<Rightarrow> v = [] \<or> isValidControlURL (env_parse_url E) v | _ \<Rightarrow> True)"

definition post_safe :: "Env \<Rightarrow> host_effect \<Rightarrow> bool" where
  "post_safe E e = (case e of PostMessage n r \<Rightarrow> request_safe E r | _ \<Rightarrow> True)"

text \<open>\<open>past\<close> are effects that have happened: the log only grows.\<close>

definition bg_ok :: "(RoutingHealth \<Rightarrow> bool) \<Rightarrow> bg_effect list \<Rightarrow> Env \<Rightarrow> Background \<Rightarrow> bool" where
  "bg_ok H past E b \<longleftrightarrow>
     store_ok H (bg_store b) \<and> routing_reach (bg_routing b) \<and> host_reach (bg_host b) \<and>
     prefix past (bg_effects b) \<and> list_all (effect_safe H E) (bg_effects b) \<and> list_all (post_safe E) (nh_log (bg_host b)) \<and>
     (\<not> rt_ready (bg_routing b) \<longrightarrow> list_all effect_blocked (bg_effects b))"

named_theorems bg_ok_intros \<open>operations that keep bg_ok\<close>

lemma bg_ok_past: "bg_ok H past E b \<Longrightarrow> bg_ok H (bg_effects b) E b"
  by (simp add: bg_ok_def)

lemma prefix_grows [simp]: "prefix past es \<Longrightarrow> prefix past (es @ es')"
  by (rule prefix_prefix)

section \<open>Fields that do not matter\<close>

lemma bg_ok_updates [simp]:
  "bg_ok H past E (b\<lparr>bg_badge := x1\<rparr>) = bg_ok H past E b" "bg_ok H past E (b\<lparr>bg_postError := x2\<rparr>) = bg_ok H past E b"
  "bg_ok H past E (b\<lparr>bg_storageFails := x3\<rparr>) = bg_ok H past E b" "bg_ok H past E (b\<lparr>bg_popupPorts := x4\<rparr>) = bg_ok H past E b"
  "bg_ok H past E (b\<lparr>bg_closedPorts := x5\<rparr>) = bg_ok H past E b" "bg_ok H past E (b\<lparr>bg_sessionIntentMirror := x6\<rparr>) = bg_ok H past E b"
  "bg_ok H past E (b\<lparr>bg_intentQueue := x7\<rparr>) = bg_ok H past E b" "bg_ok H past E (b\<lparr>bg_autoDisconnectAttempted := x8\<rparr>) = bg_ok H past E b"
  "bg_ok H past E (b\<lparr>bg_intentExplicitlyDecided := x9\<rparr>) = bg_ok H past E b"
  "bg_ok H past E (b\<lparr>bg_startupResolution := x10\<rparr>) = bg_ok H past E b" "bg_ok H past E (b\<lparr>bg_sawBrowserStartup := x11\<rparr>) = bg_ok H past E b"
  "bg_ok H past E (b\<lparr>bg_sawExtensionUpdate := x12\<rparr>) = bg_ok H past E b" "bg_ok H past E (b\<lparr>bg_lifecycleSettled := x13\<rparr>) = bg_ok H past E b"
  "bg_ok H past E (b\<lparr>bg_splitReady := x14\<rparr>) = bg_ok H past E b" "bg_ok H past E (b\<lparr>bg_hint := x15\<rparr>) = bg_ok H past E b"
  "bg_ok H past E (b\<lparr>bg_exitNodeRestoreAttempted := x16\<rparr>) = bg_ok H past E b"
  "bg_ok H past E (b\<lparr>bg_latestBackendState := x17\<rparr>) = bg_ok H past E b" "bg_ok H past E (b\<lparr>bg_profileRefreshNeeded := x18\<rparr>) = bg_ok H past E b"
  "bg_ok H past E (b\<lparr>bg_profileRefreshInFlight := x19\<rparr>) = bg_ok H past E b"
  "bg_ok H past E (b\<lparr>bg_profileRefreshRetryIndex := x20\<rparr>) = bg_ok H past E b"
  "bg_ok H past E (b\<lparr>bg_sawHealthyProcRunning := x21\<rparr>) = bg_ok H past E b" "bg_ok H past E (b\<lparr>bg_sawHealthyInit := x22\<rparr>) = bg_ok H past E b"
  "bg_ok H past E (b\<lparr>bg_helperRetryRecord := x23\<rparr>) = bg_ok H past E b" "bg_ok H past E (b\<lparr>bg_lastConfirmedControlURL := x24\<rparr>) = bg_ok H past E b"
  "bg_ok H past E (b\<lparr>bg_pendingLoginOpen := x25\<rparr>) = bg_ok H past E b" "bg_ok H past E (b\<lparr>bg_pendingLoginRouting := x26\<rparr>) = bg_ok H past E b"
  "bg_ok H past E (b\<lparr>bg_pendingExternalProxyPort := x27\<rparr>) = bg_ok H past E b" "bg_ok H past E (b\<lparr>bg_timers := x28\<rparr>) = bg_ok H past E b"
  "bg_ok H past E (b\<lparr>bg_tasks := x29\<rparr>) = bg_ok H past E b" "bg_ok H past E (b\<lparr>bg_local := x30\<rparr>) = bg_ok H past E b"
  "bg_ok H past E (b\<lparr>bg_session := x31\<rparr>) = bg_ok H past E b"
  by (simp_all add: bg_ok_def)

lemma bg_ok_plain [simp]:
  "bg_ok H past E (set_timer n c b) = bg_ok H past E b" "bg_ok H past E (clear_timer n b) = bg_ok H past E b"
  "bg_ok H past E (session_set k v b) = bg_ok H past E b" "bg_ok H past E (local_set k v b) = bg_ok H past E b"
  "bg_ok H past E (clearHelperRetryStorage b) = bg_ok H past E b" "bg_ok H past E (enqueueIntentWrite p b) = bg_ok H past E b"
  "bg_ok H past E (recordIntent w b) = bg_ok H past E b" "bg_ok H past E (clearIntent b) = bg_ok H past E b"
  "bg_ok H past E (resetProfileRefreshRetry b) = bg_ok H past E b" "bg_ok H past E (scheduleProfileRefreshRetry b) = bg_ok H past E b"
  "bg_ok H past E (markProfileRefreshNeeded b) = bg_ok H past E b" "bg_ok H past E (clearPendingLoginOpen b) = bg_ok H past E b"
  "bg_ok H past E (startPendingLoginOpen b) = bg_ok H past E b" "bg_ok H past E (add_task t b) = bg_ok H past E b"
  "bg_ok H past E (maybeAutoConnect s b) = bg_ok H past E b" "bg_ok H past E (mark_handled b) = bg_ok H past E b"
  "bg_ok H past E (writeHelperRetryRecord r b) = bg_ok H past E b" "bg_ok H past E (armHelperRetry r b) = bg_ok H past E b"
  "bg_ok H past E (persistAndArmHelperRetry r b) = bg_ok H past E b" "bg_ok H past E (popup_disconnect q b) = bg_ok H past E b"
  "bg_ok H past E (begin_hint b) = bg_ok H past E b" "bg_ok H past E (status_begin st b) = bg_ok H past E b"
  by (simp_all add: set_timer_def clear_timer_def session_set_def local_set_def clearHelperRetryStorage_def
      enqueueIntentWrite_def recordIntent_def clearIntent_def resetProfileRefreshRetry_def
      scheduleProfileRefreshRetry_def markProfileRefreshNeeded_def clearPendingLoginOpen_def
      startPendingLoginOpen_def add_task_def maybeAutoConnect_def mark_handled_def writeHelperRetryRecord_def
      armHelperRetry_def persistAndArmHelperRetry_def popup_disconnect_def begin_hint_def status_begin_def)

lemma bg_ok_run_intent_job [simp]: "bg_ok H past E (run_intent_job x y b) = bg_ok H past E b"
  by (auto simp: run_intent_job_def Let_def split: list.split intent_job.split option.split)

section \<open>Effects and the store\<close>

definition state_blocked :: "Background \<Rightarrow> TailscaleState \<Rightarrow> bool" where
  "state_blocked b s \<longleftrightarrow> (\<not> rt_ready (bg_routing b) \<longrightarrow> ts_routingPolicy s = Some blockAllPolicy)"

lemma effect_blocked_simps [simp]:
  "effect_blocked (SetSession cr)" "effect_blocked CreateContextMenu" "effect_blocked (OpenTab url)"
  "effect_blocked (PostPopup p (ExternalProxyDetails x))" "effect_blocked (PostPopup p (Toast a b c d))"
  "effect_blocked (ApplyProxy s) = (ts_routingPolicy s = Some blockAllPolicy)"
  "effect_blocked (PostPopup p (StateMsg s)) = (ts_routingPolicy s = Some blockAllPolicy)"
  by (simp_all add: effect_blocked_def)

lemma bg_ok_state_effect:
  "bg_ok H past E b \<Longrightarrow> routed H s \<Longrightarrow> state_blocked b s \<Longrightarrow> bg_ok H past E (effect (ApplyProxy s) b)"
  "bg_ok H past E b \<Longrightarrow> routed H s \<Longrightarrow> state_blocked b s \<Longrightarrow> bg_ok H past E (effect (PostPopup p (StateMsg s)) b)"
  by (simp_all add: bg_ok_def effect_def state_blocked_def effect_safe_def message_safe_def)

lemma bg_ok_effect [bg_ok_intros]:
  "bg_ok H past E b \<Longrightarrow> bg_ok H past E (effect (SetSession cr) b)" "bg_ok H past E b \<Longrightarrow> bg_ok H past E (effect CreateContextMenu b)"
  "bg_ok H past E b \<Longrightarrow> tab_safe E url \<Longrightarrow> bg_ok H past E (effect (OpenTab url) b)"
  "bg_ok H past E b \<Longrightarrow> bg_ok H past E (effect (PostPopup p (ExternalProxyDetails x)) b)"
  by (simp_all add: bg_ok_def effect_def effect_safe_def message_safe_def)

lemma effect_safe_simps [simp]:
  "effect_safe H E (SetSession cr)" "effect_safe H E CreateContextMenu" "effect_safe H E (ApplyProxy s) = routed H s"
  "effect_safe H E (PostPopup p m) = message_safe H m" "effect_safe H E (OpenTab url) = tab_safe E url"
  "message_safe H (StateMsg s) = routed H s" "message_safe H (ExternalProxyDetails x)" "message_safe H (Toast a b c d)"
  by (simp_all add: effect_safe_def message_safe_def)

lemma post_all_safe: "message_safe H m \<Longrightarrow> list_all (effect_safe H E) (post_all gone m ps)"
  by (induction ps) simp_all

lemma post_all_blocked:
  "list_all effect_blocked (post_all gone (Toast a l c d) ps)"
  "ts_routingPolicy s = Some blockAllPolicy \<Longrightarrow> list_all effect_blocked (post_all gone (StateMsg s) ps)"
  by (induction ps) simp_all

lemma bg_ok_toast [bg_ok_intros]:
  "bg_ok H past E b \<Longrightarrow> bg_ok H past E (toast_with m l p d b)" "bg_ok H past E b \<Longrightarrow> bg_ok H past E (sendToastToPopup m l b)"
  by (simp_all add: sendToastToPopup_def toast_with_def bg_ok_def post_all_safe post_all_blocked)

lemma bg_ok_broadcast: "bg_ok H past E b \<Longrightarrow> routed H s \<Longrightarrow> state_blocked b s \<Longrightarrow> bg_ok H past E (broadcastToPopup s b)"
  by (simp add: broadcastToPopup_def bg_ok_def post_all_safe post_all_blocked state_blocked_def)

lemma routing_reach_run:
  "routing_reach r \<Longrightarrow> op_input oper r \<Longrightarrow> routing_reach (routing_run oper r)"
  by (blast intro: routing_reach.intros routing_step.intros)

lemma decorate_ready: "rt_ready (fst (decorate_policy s r)) = rt_ready r"
  by (auto simp: decorate_policy_def Let_def split: option.split)

lemma decorate_unready: "\<not> rt_ready r \<Longrightarrow> snd (decorate_policy s r) = blockAllPolicy"
  by (simp add: decorate_policy_def)

lemma decorated_ok:
  assumes "bg_ok H past E b"
  shows "bg_ok H past E (snd (decorated b))" "routed H (fst (decorated b))" "state_blocked (snd (decorated b)) (fst (decorated b))"
    "bg_store (snd (decorated b)) = bg_store b"
proof -
  from assms have s: "store_ok H (bg_store b)" and r: "routing_reach (bg_routing b)" by (simp_all add: bg_ok_def)
  have "routing_reach (fst (decorate_policy (bg_store b) (bg_routing b)))"
    using routing_reach_run [OF r, of "RODecorate (bg_store b)"] s by (simp add: store_ok_def)
  then show "bg_ok H past E (snd (decorated b))"
    using assms by (simp add: decorated_def decorate_def bg_ok_def case_prod_beta Let_def decorate_ready)
  show "state_blocked (snd (decorated b)) (fst (decorated b))"
    by (simp add: decorated_def decorate_def state_blocked_def case_prod_beta Let_def decorate_ready decorate_unready)
  show "routed H (fst (decorated b))"
    using s r by (auto simp: decorated_def routed_def case_prod_beta Let_def)
  show "bg_store (snd (decorated b)) = bg_store b"
    by (simp add: decorated_def case_prod_beta Let_def)
qed

lemma bg_ok_apply_proxy [bg_ok_intros]: "bg_ok H past E b \<Longrightarrow> bg_ok H past E (apply_proxy b)"
  using decorated_ok [of H past E b] by (simp add: apply_proxy_def case_prod_beta Let_def bg_ok_state_effect)

lemma bg_ok_notify [bg_ok_intros]: "bg_ok H past E b \<Longrightarrow> bg_ok H past E (notify E b)"
  using decorated_ok [of H past E "apply_proxy b"] bg_ok_apply_proxy [of H past E b]
  by (simp add: notify_def case_prod_beta Let_def bg_ok_broadcast state_blocked_def)

definition write_ok :: "(RoutingHealth \<Rightarrow> bool) \<Rightarrow> state_write \<Rightarrow> bool" where
  "write_ok H w = (case w of
     WDomainSplit c \<Rightarrow> \<exists>v. c = normalizeDomainSplit v
   | WExternalProxy (Some x) \<Rightarrow> ep_password x = None
   | WRoutingHealth h \<Rightarrow> health_ok H h
   | _ \<Rightarrow> True)"

lemma set_field_ok: "store_ok H s \<Longrightarrow> write_ok H w \<Longrightarrow> store_ok H (set_field w s)"
  by (cases w) (auto simp: store_ok_def state_input_def no_password_def write_ok_def
      split: obj_write.splits option.splits)

lemma write_all_ok: "store_ok H s \<Longrightarrow> list_all (write_ok H) ws \<Longrightarrow> store_ok H (write_all ws s)"
  unfolding write_all_def by (induction ws arbitrary: s) (simp_all add: set_field_ok)

lemma update_ok: "store_ok H s \<Longrightarrow> list_all (write_ok H) ws \<Longrightarrow> update ws s = Some s' \<Longrightarrow> store_ok H s'"
  using write_all_ok [of H s ws] by (auto simp: update_def store_ok_def state_input_def no_password_def split: if_splits)

lemma bg_ok_update_store [bg_ok_intros]:
  assumes "bg_ok H past E b" and "list_all (write_ok H) ws"
  shows "bg_ok H past E (update_store E ws b)"
proof (cases "update ws (bg_store b)")
  case (Some s)
  with assms have "bg_ok H past E (b\<lparr>bg_store := s\<rparr>)" by (auto simp: bg_ok_def update_ok)
  with Some show ?thesis by (simp add: update_store_def bg_ok_notify)
qed (simp add: update_store_def assms(1))

lemma write_ok_simps [simp]:
  "write_ok H (WRoutingHealth h) = health_ok H h"
  "write_ok H (WExternalProxy None)" "write_ok H (WExternalProxy (Some x)) = (ep_password x = None)"
  "write_ok H (WDomainSplit (normalizeDomainSplit v))"
  by (auto simp: write_ok_def)

lemma status_writes_ok: "list_all (write_ok H) (status_writes st s)"
  by (simp add: status_writes_def write_ok_def split: option.split)

section \<open>Sends\<close>

lemma host_reach_run: "host_reach h \<Longrightarrow> host_reach (host_run ev h)"
  by (rule host_reach.step)

lemma nh_send_log_safe:
  assumes "list_all (post_safe E) (nh_log h)" and "request_safe E r"
  shows "list_all (post_safe E) (nh_log (snd (nh_send r p h)))"
  using assms
  by (auto simp: nh_send_def logs_def emitDiagnostic_def emit_def post_safe_def split: option.split)

lemma bg_ok_host:
  "bg_ok H past E b \<Longrightarrow> host_reach h \<Longrightarrow> list_all (post_safe E) (nh_log h) \<Longrightarrow> bg_ok H past E (b\<lparr>bg_host := h\<rparr>)"
  by (simp add: bg_ok_def)

lemma on_diagnostic_event_ok [bg_ok_intros]: "bg_ok H past E b \<Longrightarrow> bg_ok H past E (on_diagnostic_event E c m b)"
  by (simp add: on_diagnostic_event_def bg_ok_update_store write_ok_def)

lemma bg_ok_send:
  assumes "bg_ok H past E b" and "request_safe E r"
  shows "bg_ok H past E (snd (send E r b))"
proof -
  have "host_reach (snd (nh_send r (bg_postError b) (bg_host b)))"
    using host_reach_run [of "bg_host b" "HSend r (bg_postError b)"] assms by (simp add: bg_ok_def)
  then have "bg_ok H past E (b\<lparr>bg_host := snd (nh_send r (bg_postError b) (bg_host b))\<rparr>)"
    using assms by (intro bg_ok_host nh_send_log_safe) (simp_all add: bg_ok_def)
  then show ?thesis
    by (auto simp: send_def case_prod_beta Let_def on_diagnostic_event_ok split: option.split)
qed

lemma request_safe_simps [simp]:
  "request_safe E Login" "request_safe E Up" "request_safe E Down" "request_safe E GetStatus" "request_safe E Ping"
  "request_safe E (SetExitNode x)" "request_safe E ListProfiles" "request_safe E (SwitchProfile x)"
  "request_safe E NewProfile" "request_safe E (DeleteProfile x)" "request_safe E (SendFile ch)"
  "request_safe E SuggestExitNode" "request_safe E Logout" "request_safe E (PingPeer x)" "request_safe E Netcheck"
  "request_safe E GetExternalProxyStatus" "request_safe E (SetExternalProxy e)" "request_safe E (SetExternalProxyLAN l)"
  "request_safe E RevealExternalProxy" "request_safe E RotateExternalProxyCredentials" "request_safe E (Init p w)"
  "request_safe E (SetPrefs (SetControlURL v)) = (v = [] \<or> isValidControlURL (env_parse_url E) v)"
  "(\<forall>v. u \<noteq> SetControlURL v) \<Longrightarrow> request_safe E (SetPrefs u)"
  by (simp_all add: request_safe_def split: PrefUpdate.split)

lemma bg_ok_sends [bg_ok_intros]:
  assumes "bg_ok H past E b" and "request_safe E r"
  shows "bg_ok H past E (send_ignore E r b)" "bg_ok H past E (send_or_toast E r b)"
  using bg_ok_send [OF assms] by (simp_all add: send_ignore_def send_or_toast_def case_prod_beta Let_def bg_ok_intros)

section \<open>The shared helpers\<close>

lemma health_ok_plain [simp]: "health_ok any_health h" "health_ok H SWITCHING" "health_ok H RESTORING"
  by (simp_all add: health_ok_def SWITCHING_def RESTORING_def)

lemma write_ok_plain [simp]:
  "write_ok H (WHostConnected x1)" "write_ok H (WInitialized x2)" "write_ok H (WProxyPort x3)"
  "write_ok H (WProxyEnabled x4)" "write_ok H (WBackendState x5)" "write_ok H (WBrowseToURL x6)"
  "write_ok H (WPendingExitNodeID x7)" "write_ok H (WCurrentProfile x8)" "write_ok H (WProfiles x9)"
  "write_ok H (WExitNodeSuggestion x10)" "write_ok H (WHostVersion x11)" "write_ok H (WHelperFailure x12)"
  "write_ok H (WHelperDiagnostic x13)" "write_ok H (WHelperVersionNotice x14)" "write_ok H (WRepairRegistrationAvailable x15)"
  "write_ok H (WSupportsNetcheck x16)" "write_ok H (WSupportsPingPeer x17)" "write_ok H (WSupportsLogin x18)"
  "write_ok H (WSupportsCustomControlURL x19)" "write_ok H (WSupportsDaemonControl x20)"
  "write_ok H (WSupportsExternalProxy x21)" "write_ok H (WSupportsExternalProxyLAN x22)" "write_ok H (WReconnecting x23)"
  "write_ok H (WAutoConnectOnStart x24)"
  by (simp_all add: write_ok_def)

lemma bg_ok_failures [bg_ok_intros]:
  assumes "bg_ok H past E b"
  shows "bg_ok H past E (setHelperReportedFailure E c d b)" "bg_ok H past E (maybeCompleteHelperRecovery E b)"
  using assms by (simp_all add: setHelperReportedFailure_def maybeCompleteHelperRecovery_def Let_def bg_ok_intros)

lemma bg_ok_requestProfiles [bg_ok_intros]: "bg_ok H past E b \<Longrightarrow> bg_ok H past E (requestProfiles E b)"
  using bg_ok_send [of H past E "clear_timer PROFILE_REFRESH_RETRY_TIMER_NAME b" ListProfiles]
  by (simp add: requestProfiles_def case_prod_beta Let_def)

lemma bg_ok_on_routing:
  "bg_ok H past E b \<Longrightarrow> routing_reach (f (bg_routing b)) \<Longrightarrow> (rt_ready (bg_routing b) \<Longrightarrow> rt_ready (f (bg_routing b))) \<Longrightarrow>
   bg_ok H past E (on_routing f b)"
  by (auto simp: on_routing_def bg_ok_def)

lemma routing_ops_ready [simp]:
  "rt_ready (reconnect r) = rt_ready r" "rt_ready (release r) = rt_ready r" "rt_ready (requestDisconnect r) = rt_ready r"
  "rt_ready (startLogin r) = rt_ready r" "rt_ready (switchProfile s r) = rt_ready r"
  "rt_ready (selectExitNode x r) = rt_ready r" "rt_ready (save_failed r) = rt_ready r"
  by (simp_all add: reconnect_def release_def requestDisconnect_def startLogin_def switchProfile_def
      selectExitNode_def save_failed_def releaseRouting_def)

lemma confirmStatus_ready [simp]: "rt_ready (snd (confirmStatus st s r)) = rt_ready r"
  by (cases rule: confirmStatus_cases [of st r s]) simp_all

lemma bg_ok_routing_ops [bg_ok_intros]:
  assumes "bg_ok H past E b"
  shows "bg_ok H past E (reconnect_routing b)" "bg_ok H past E (on_routing release b)" "bg_ok H past E (on_routing requestDisconnect b)"
    "bg_ok H past E (on_routing startLogin b)" "bg_ok H past E (on_routing (switchProfile s) b)"
    "bg_ok H past E (on_routing (selectExitNode x) b)" "bg_ok H past E (on_routing save_failed b)"
proof -
  from assms have r: "routing_reach (bg_routing b)" by (simp add: bg_ok_def)
  note run = routing_reach_run [OF r]
  show "bg_ok H past E (reconnect_routing b)"
    using assms run [of ROReconnect] by (simp add: reconnect_routing_def bg_ok_def)
  show "bg_ok H past E (on_routing release b)" "bg_ok H past E (on_routing requestDisconnect b)"
    "bg_ok H past E (on_routing startLogin b)" "bg_ok H past E (on_routing (switchProfile s) b)"
    "bg_ok H past E (on_routing (selectExitNode x) b)" "bg_ok H past E (on_routing save_failed b)"
    using assms run [of RORelease] run [of RODisconnect] run [of ROLogin] run [of "ROSwitch s"]
      run [of "ROSelect x"] run [of ROSaveFailed]
    by (simp_all add: bg_ok_on_routing)
qed

lemma tab_safe_login: "isValidLoginURL (env_parse_url E) url c \<Longrightarrow> tab_safe E url"
  by (auto simp: tab_safe_def)

lemma bg_ok_requestLogin [bg_ok_intros]:
  assumes "bg_ok H past E b"
  shows "bg_ok H past E (requestLogin E b)"
proof -
  have "bg_ok H past E (recordIntent True (reconnect_routing b))" using assms by (simp add: bg_ok_intros)
  with bg_ok_send [OF this, of Login] show ?thesis
    by (auto simp: requestLogin_def Let_def case_prod_beta bg_ok_intros tab_safe_login split: option.split)
qed

lemma bg_ok_corrective [bg_ok_intros]:
  assumes "bg_ok H past E b"
  shows "bg_ok H past E (sendCorrectiveDown E b)" "bg_ok H past E (maybeAutoDisconnect E s b)"
proof -
  show down: "bg_ok H past E (sendCorrectiveDown E b)"
    using bg_ok_send [of H past E "b\<lparr>bg_autoDisconnectAttempted := True\<rparr>" Down] assms
    by (simp add: sendCorrectiveDown_def case_prod_beta Let_def)
  show "bg_ok H past E (maybeAutoDisconnect E s b)"
    using assms down by (simp add: maybeAutoDisconnect_def split: option.split)
qed

lemma bg_ok_run_task_body [bg_ok_intros]: "bg_ok H past E b \<Longrightarrow> bg_ok H past E (run_task_body E ok t b)"
  by (simp add: run_task_body_def bg_ok_intros split: bg_task.split)

section \<open>Native messages\<close>

lemma unsupported_writes_ok [simp]: "list_all (write_ok H) unsupported_writes"
  by (simp add: unsupported_writes_def)

lemma bg_ok_on_proc_running [bg_ok_intros]: "bg_ok H past E b \<Longrightarrow> bg_ok H past E (snd (on_proc_running E p b))"
  by (simp add: on_proc_running_def Let_def bg_ok_intros proc_writes_def proc_error_writes_def split: option.split)

lemma bg_ok_replies [bg_ok_intros]:
  assumes "bg_ok H past E b"
  shows "bg_ok H past E (on_init E e b)" "bg_ok H past E (on_external_proxy E x b)" "bg_ok H past E (on_profiles E ps b)"
    "bg_ok H past E (on_suggestion E sug b)" "bg_ok H past E (on_file_progress E fp b)" "bg_ok H past E (on_diagnostic d b)"
    "bg_ok H past E (on_error E cmd m b)"
  using assms
  by (simp_all add: on_init_def on_external_proxy_def on_profiles_def on_suggestion_def on_file_progress_def
      on_diagnostic_def on_error_def Let_def bg_ok_intros split: option.split)

lemma bg_ok_status_parts [bg_ok_intros]:
  assumes "bg_ok H past E b"
  shows "bg_ok H past E (status_control E st b)" "bg_ok H past E (status_profiles E st b)" "bg_ok H past E (status_login E st b)"
    "bg_ok H past E (status_exit_node E st b)"
  using assms decorated_ok(1) [OF assms]
  by (auto simp: status_control_def status_profiles_def status_login_def status_exit_node_def Let_def
      case_prod_beta bg_ok_intros tab_safe_login split: option.split)

lemma bg_ok_on_status [bg_ok_intros]:
  assumes "bg_ok H past E b" and "status_input st"
  shows "bg_ok H past E (snd (on_status E st b))"
proof -
  let ?b = "status_begin st b"
  let ?b2 = "?b\<lparr>bg_routing := snd (confirmStatus st (bg_store ?b) (bg_routing ?b))\<rparr>"
  have ok: "bg_ok H past E ?b" using assms(1) by simp
  then have "routing_reach (snd (confirmStatus st (bg_store ?b) (bg_routing ?b)))"
    using routing_reach_run [of "bg_routing ?b" "ROConfirm st (bg_store ?b)"] assms(2)
    by (simp add: bg_ok_def store_ok_def)
  with ok have b2: "bg_ok H past E ?b2" by (simp add: bg_ok_def)
  then have "bg_ok H past E (update_store E (status_writes st (bg_store ?b2)) ?b2)"
    by (intro bg_ok_update_store status_writes_ok)
  with b2 show ?thesis
    by (simp add: on_status_def Let_def case_prod_beta bg_ok_intros)
qed

definition reply_input :: "NativeReply \<Rightarrow> bool" where
  "reply_input msg = (case nr_status msg of Some st \<Rightarrow> status_input st | None \<Rightarrow> True)"

lemma bg_ok_when_some: "bg_ok H past E b \<Longrightarrow> (\<And>x b. bg_ok H past E b \<Longrightarrow> bg_ok H past E (f x b)) \<Longrightarrow> bg_ok H past E (when_some v f b)"
  by (simp add: when_some_def split: option.split)

lemma bg_ok_handleNativeMessage [bg_ok_intros]:
  assumes "bg_ok H past E b" and "reply_input msg"
  shows "bg_ok H past E (snd (handleNativeMessage E msg b))"
proof -
  define b1 where "b1 = snd (case nr_procRunning msg of Some p \<Rightarrow> on_proc_running E p b | None \<Rightarrow> (True, b))"
  define b3 where "b3 = when_some (nr_externalProxy msg) (on_external_proxy E) (when_some (nr_init msg) (on_init E) b1)"
  define b4 where "b4 = snd (case nr_status msg of Some st \<Rightarrow> on_status E st b3 | None \<Rightarrow> (None, b3))"
  have b1: "bg_ok H past E b1" using assms(1) by (simp add: b1_def bg_ok_intros split: option.split)
  then have b3: "bg_ok H past E b3" unfolding b3_def by (intro bg_ok_when_some) (simp_all add: bg_ok_intros)
  then have b4: "bg_ok H past E b4"
    using assms(2) by (cases "nr_status msg") (simp_all add: b4_def reply_input_def bg_ok_on_status)
  have rest: "bg_ok H past E (when_some (nr_error msg) (\<lambda>(cmd, m). on_error E cmd m) (when_some (nr_diagnostic msg) on_diagnostic
      (when_some (nr_fileSendProgress msg) (on_file_progress E) (when_some (nr_exitNodeSuggestion msg) (on_suggestion E)
      (when_some (nr_profiles msg) (on_profiles E) b4)))))"
    by (intro bg_ok_when_some b4) (auto simp: bg_ok_intros)
  show ?thesis
    using b1 b4 rest
    unfolding handleNativeMessage_def Let_def case_prod_beta b1_def [symmetric] b3_def [symmetric] b4_def [symmetric]
    by simp
qed

lemma bg_ok_handleNativeConnectionEvent [bg_ok_intros]:
  "bg_ok H past E b \<Longrightarrow> bg_ok H past E (handleNativeConnectionEvent E ev b)"
  by (simp add: handleNativeConnectionEvent_def on_connected_def on_disconnected_def Let_def bg_ok_intros
      split: NativeConnectionEvent.split option.split)

section \<open>Events of the connection\<close>

text \<open>What an event of the connection adds to its log.\<close>

definition entry_of :: "host_event \<Rightarrow> host_effect \<Rightarrow> bool" where
  "entry_of ev e = (case e of
     Deliver v \<Rightarrow> (\<exists>n. ev = HMessage n v)
   | PostMessage n r \<Rightarrow> (\<exists>p w. r = Init p w) \<or> (\<exists>p. ev = HSend r p)
   | _ \<Rightarrow> True)"

definition extends :: "host_event \<Rightarrow> NativeHostConnection \<Rightarrow> NativeHostConnection \<Rightarrow> bool" where
  "extends ev h h' \<longleftrightarrow> (\<exists>es. nh_log h' = nh_log h @ es \<and> list_all (entry_of ev) es)"

lemma extends_logs: "extends ev h h1 \<Longrightarrow> list_all (entry_of ev) es \<Longrightarrow> extends ev h (logs es h1)"
  by (auto simp: extends_def logs_def)

lemma extends_same [simp]: "nh_log h' = nh_log h \<Longrightarrow> extends ev h h'"
  by (simp add: extends_def)

lemma entry_of_plain [simp]:
  "entry_of ev (Emit c)" "entry_of ev (OpenPort n)" "entry_of ev (ClosePort n)" "entry_of ev (PortLost n)"
  "entry_of ev (SetReconnectTimer n)" "entry_of ev ClearReconnectTimer" "entry_of ev (StoreProfileID s)"
  "entry_of ev (PostMessage n (Init p w))" "entry_of (HMessage n v) (Deliver v)" "entry_of (HSend r q) (PostMessage n r)"
  by (auto simp: entry_of_def)

lemmas host_logs = emit_def emitDiagnostic_def clear_reconnect_def backoffAndReconnect_def handleStartFailure_def Let_def

lemma extends_open_port: "extends ev h h1 \<Longrightarrow> extends ev h (open_port w res h1)"
  by (auto simp: extends_def logs_def open_port_def host_logs split: OpenResult.split)

lemma extends_host_run: "extends ev h (host_run ev h)"
proof (cases ev)
  case (HProfile r p)
  then show ?thesis
    by (auto simp: profile_ready_def host_logs getOrCreateProfileID_def case_prod_beta
        intro!: extends_logs extends_open_port split: sum.split option.split jsval.split)
      (auto simp: extends_def logs_def)
next
  case (HWantRunning r p)
  then show ?thesis
    by (auto simp: want_running_ready_def host_logs intro!: extends_logs extends_open_port split: sum.split)
qed (auto simp: nh_connect_def reconnect_fired_def nh_disconnect_def nh_send_def handleMessage_def handleDisconnect_def
    host_logs extends_def logs_def split: option.split)

definition delivery_input :: "host_effect \<Rightarrow> bool" where
  "delivery_input e =
     (case e of Deliver v \<Rightarrow> (case decode_reply v of Some msg \<Rightarrow> reply_input msg | None \<Rightarrow> True) | _ \<Rightarrow> True)"

lemma bg_ok_dispatch:
  "bg_ok H past E b \<Longrightarrow> list_all delivery_input es \<Longrightarrow> bg_ok H past E (snd (dispatch E es b))"
proof (induction es arbitrary: b)
  case (Cons e es)
  then show ?case
  proof (cases e)
    case (Deliver v)
    with Cons show ?thesis
      by (cases "decode_reply v")
        (simp_all add: delivery_input_def Let_def case_prod_beta bg_ok_handleNativeMessage)
  qed (simp_all add: bg_ok_handleNativeConnectionEvent)
qed simp

definition host_event_input :: "host_event \<Rightarrow> bool" where
  "host_event_input ev =
     (case ev of HMessage n v \<Rightarrow> delivery_input (Deliver v) | HSend r p \<Rightarrow> False | _ \<Rightarrow> True)"

lemma bg_ok_run_host:
  assumes "bg_ok H past E b" and "host_event_input ev"
  shows "bg_ok H past E (snd (run_host E ev b))"
proof -
  let ?h = "host_run ev (bg_host b)"
  obtain es where es: "nh_log ?h = nh_log (bg_host b) @ es" and entries: "list_all (entry_of ev) es"
    using extends_host_run [of ev "bg_host b"] by (auto simp: extends_def)
  have entry: "delivery_input e \<and> post_safe E e" if "entry_of ev e" for e
    using that assms(2)
    by (auto simp: entry_of_def host_event_input_def delivery_input_def post_safe_def split: host_effect.splits)
  have "bg_ok H past E (b\<lparr>bg_host := ?h\<rparr>)"
    using assms(1) entries entry host_reach_run [of "bg_host b" ev]
    by (intro bg_ok_host) (auto simp: bg_ok_def es list_all_iff)
  moreover have "list_all delivery_input es" using entries entry by (auto simp: list_all_iff)
  ultimately show ?thesis by (simp add: run_host_def Let_def es bg_ok_dispatch)
qed

section \<open>The popup, retries and the hint\<close>

lemma nh_connect_log: "nh_log (nh_connect h) = nh_log h \<or> nh_log (nh_connect h) = nh_log h @ [ClearReconnectTimer]"
  by (simp add: nh_connect_def clear_reconnect_def logs_def)

lemma bg_ok_host_connect [bg_ok_intros]: "bg_ok H past E b \<Longrightarrow> bg_ok H past E (host_connect b)"
  using nh_connect_log [of "bg_host b"] host_reach_run [of "bg_host b" HConnect]
  by (auto simp: host_connect_def bg_ok_def post_safe_def)

lemma bg_ok_finish [bg_ok_intros]: "bg_ok H past E b \<Longrightarrow> bg_ok H past E (finishUnsuccessfulHelperRetries E src b)"
  by (simp add: finishUnsuccessfulHelperRetries_def Let_def bg_ok_intros)

lemma bg_ok_execute [bg_ok_intros]: "bg_ok H past E b \<Longrightarrow> bg_ok H past E (executeHelperRetry E now r b)"
  by (simp add: executeHelperRetry_def Let_def bg_ok_intros split: option.split)

lemma bg_ok_retries [bg_ok_intros]:
  assumes "bg_ok H past E b"
  shows "bg_ok H past E (startHelperRetries E now src b)" "bg_ok H past E (rehydrateHelperRetries E now b)"
  using assms
  by (simp_all add: startHelperRetries_def rehydrateHelperRetries_def Let_def bg_ok_intros split: option.split)

lemma bg_ok_user_actions [bg_ok_intros]:
  assumes "bg_ok H past E b"
  shows "bg_ok H past E (release_routing E b)" "bg_ok H past E (toggle E b)" "bg_ok H past E (begin_login E b)"
    "bg_ok H past E (switch_account E s b)" "bg_ok H past E (set_exit_node E x b)" "bg_ok H past E (set_domain_split E v b)"
    "bg_ok H past E (set_control_url E u b)"
  using assms
  by (simp_all add: release_routing_def toggle_def begin_login_def switch_account_def set_exit_node_def
      set_domain_split_def set_control_url_def Let_def bg_ok_intros split: BackendState.split)

lemma bg_ok_requests [bg_ok_intros]:
  assumes "bg_ok H past E b"
  shows "bg_ok H past E (send_file E c b)" "bg_ok H past E (set_auto_connect E v b)" "bg_ok H past E (set_external_proxy E v b)"
    "bg_ok H past E (set_external_proxy_lan E v b)" "bg_ok H past E (reveal_external_proxy E p b)" "bg_ok H past E (rotate_external_proxy E p b)"
  using assms
  by (simp_all add: send_file_def set_auto_connect_def set_external_proxy_def set_external_proxy_lan_def reveal_external_proxy_def
      rotate_external_proxy_def bg_ok_intros)

lemma bg_ok_profiles [bg_ok_intros]:
  assumes "bg_ok H past E b"
  shows "bg_ok H past E (login E d b)" "bg_ok H past E (switch_profile E x b)" "bg_ok H past E (new_profile E b)" "bg_ok H past E (delete_profile E x b)"
  using assms
  by (simp_all add: login_def switch_profile_def new_profile_def delete_profile_def bg_ok_intros)

lemma bg_ok_handlePopupMessage [bg_ok_intros]: "bg_ok H past E b \<Longrightarrow> bg_ok H past E (handlePopupMessage E now p m b)"
  by (simp add: handlePopupMessage_def bg_ok_intros tab_safe_def split: BackgroundMessage.split PrefUpdate.split)

lemma bg_ok_popup_connect [bg_ok_intros]: "bg_ok H past E b \<Longrightarrow> bg_ok H past E (popup_connect p b)"
  using decorated_ok [of H past E b] by (simp add: popup_connect_def case_prod_beta Let_def bg_ok_state_effect)

lemma bg_ok_on_health:
  assumes "bg_ok H past E b" and "health_ok H h"
  shows "bg_ok H past E (on_health E h b)"
proof -
  have go: "bg_ok H past E (snd (login_may_go_on h b))" if "bg_ok H past E b" for b
    using that decorated_ok [of H past E b] by (simp add: login_may_go_on_def case_prod_beta Let_def)
  have upd: "bg_ok H past E (update_store E [WRoutingHealth h] b)" using assms by (simp add: bg_ok_intros)
  show ?thesis
    using assms go [OF assms(1)] upd go [OF upd] by (simp add: on_health_def case_prod_beta Let_def bg_ok_requestLogin)
qed

lemma bg_ok_lifecycle [bg_ok_intros]:
  assumes "bg_ok H past E b"
  shows "bg_ok H past E (handleBrowserStartup E b)" "bg_ok H past E (handleInstalled E r b)"
  using assms by (simp_all add: handleBrowserStartup_def handleInstalled_def Let_def bg_ok_intros split: option.split)

lemma bg_ok_hint:
  assumes "bg_ok H past E b"
  shows "bg_ok H past E (snd (hint_step E f p b))"
proof -
  have resume: "bg_ok H past E (snd (resume_connect E r p b))" if "bg_ok H past E b" for r b
    using that bg_ok_run_host [of H past E "b\<lparr>bg_hint := HintIdle\<rparr>" "HWantRunning r p"]
    by (simp add: resume_connect_def host_event_input_def)
  have again: "bg_ok H past E (reconnect_if v b)" if "bg_ok H past E b" for v b
    using that by (simp add: reconnect_if_def bg_ok_intros)
  have resolved: "bg_ok H past E (hint_resolved v b)" if "bg_ok H past E b" for v b
    using that by (simp add: hint_resolved_def Let_def bg_ok_intros again)
  have decided: "bg_ok H past E (hint_decided q v b)" for q v
    using assms by (simp add: hint_decided_def Let_def resolved)
  show ?thesis
    using assms by (simp add: hint_step_def resume again resolved decided split: HintPhase.split option.split)
qed

section \<open>The machine\<close>

lemma bg_ok_events [bg_ok_intros]:
  assumes "bg_ok H past E b"
  shows "bg_ok H past E (sendKeepalive E b)" "bg_ok H past E (run_task E i ok b)" "bg_ok H past E (set_split E (normalizeDomainSplit v) b)"
    "bg_ok H past E (when_ready b)" "bg_ok H past E (pref_read E b)" "bg_ok H past E (context_click E m u b)"
  using assms
  by (simp_all add: sendKeepalive_def run_task_def set_split_def when_ready_def pref_read_def context_click_def Let_def
      bg_ok_intros split: option.split list.split)

lemma readDomainSplit_normalized: "\<exists>v. readDomainSplit r = normalizeDomainSplit v"
proof (cases r)
  case None
  have "defaultDomainSplit = normalizeDomainSplit JUndef" by (simp add: normalizeDomainSplit_def)
  with None show ?thesis by (auto simp: readDomainSplit_def)
qed (auto simp: readDomainSplit_def)

lemma bg_ok_reads [bg_ok_intros]:
  assumes "bg_ok H past E b"
  shows "bg_ok H past E (split_read E r b)" "\<not> rt_ready (bg_routing b) \<Longrightarrow> bg_ok H past E (routing_restored r b)"
proof -
  obtain v where v: "readDomainSplit r = normalizeDomainSplit v" using readDomainSplit_normalized by blast
  show "bg_ok H past E (split_read E r b)" using assms by (simp add: split_read_def v bg_ok_events)
  assume "\<not> rt_ready (bg_routing b)"
  then have "bg_ok H past E (on_routing (restore 0 r) b)"
    using assms routing_reach_run [of "bg_routing b" "RORestore 0 r"] by (intro bg_ok_on_routing) (simp_all add: bg_ok_def)
  then show "bg_ok H past E (routing_restored r b)" by (simp add: routing_restored_def bg_ok_events)
qed

lemma bg_ok_fire_timer [bg_ok_intros]: "bg_ok H past E b \<Longrightarrow> bg_ok H past E (fire_timer E now n b)"
  by (simp add: fire_timer_def run_callback_def bg_ok_intros split: option.split bg_callback.split)

lemma bg_ok_run:
  assumes "bg_ok H past E b" and "event_input ev b" and "\<And>h. ev = EvHealth h \<Longrightarrow> health_ok H h"
  shows "bg_ok H past E (bg_run E ev b)"
proof (cases ev)
  case (EvMessage n v)
  with assms(2) have "host_event_input (HMessage n v)"
    by (auto simp: event_input_def host_event_input_def delivery_input_def reply_input_def split: option.splits)
  with EvMessage assms(1) show ?thesis by (simp add: bg_ok_run_host)
next
  case (EvRoutingRestored v)
  with assms show ?thesis by (simp add: event_input_def bg_ok_reads)
qed (use assms in \<open>simp_all add: bg_ok_intros bg_ok_on_health bg_ok_run_host host_event_input_def bg_ok_hint\<close>)

lemma bg_ok_blank: "bg_ok H [] E (bg_blank l s)"
proof -
  have "state_input DEFAULT_STATE"
    by (auto simp: state_input_def DEFAULT_STATE_def normalizeDomainSplit_def defaultDomainSplit_def intro: exI [of _ JUndef])
  then show ?thesis
    by (simp add: bg_ok_def bg_blank_def store_ok_def no_password_def routing_reach.init host_reach.start)
      (simp add: DEFAULT_STATE_def host_init_def)
qed

lemma bg_ok_init: "bg_ok H [] E (initBackground E opts l s)"
  by (simp add: initBackground_def Let_def bg_ok_intros bg_ok_blank split: option.split)

lemma bg_reach_ok: "bg_reach E b \<Longrightarrow> bg_ok any_health [] E b"
  by (induction rule: bg_reach.induct) (simp_all add: bg_ok_init bg_ok_run)

text \<open>What is known of the health reports may be weakened.\<close>

lemma store_ok_mono: "store_ok H s \<Longrightarrow> (\<And>h. H h \<Longrightarrow> H' h) \<Longrightarrow> store_ok H' s"
  by (auto simp: store_ok_def health_ok_def)

lemma effect_safe_mono: "effect_safe H E e \<Longrightarrow> (\<And>h. H h \<Longrightarrow> H' h) \<Longrightarrow> effect_safe H' E e"
  unfolding effect_safe_def message_safe_def routed_def
  by (auto split: bg_effect.splits PopupMessage.splits intro: store_ok_mono)

lemma bg_ok_mono: "bg_ok H past E b \<Longrightarrow> (\<And>h. H h \<Longrightarrow> H' h) \<Longrightarrow> bg_ok H' past E b"
  by (auto simp: bg_ok_def list_all_iff intro: store_ok_mono effect_safe_mono)

end
