(* ===== verification/Timer_Service.thy ===== *)
theory Timer_Service
  imports Prelude
begin

text \<open>
  Named timers (\<open>packages/shared/src/background/timer-service.ts\<close> and
  \<open>chrome-alarm-timer-service.ts\<close>). The locale \<open>timer_service\<close> is the contract of the \<open>TimerService\<close>
  interface for one-shot timers: at most one pending callback per name, which runs at most once. The
  default service and the alarm-backed one are both instances. The runtime's own timers are a table
  from ids to what they will run; whether a tick comes in time is the runtime's business.
\<close>

section \<open>The contract\<close>

locale timer_service =
  fixes invar :: "'s \<Rightarrow> bool"
    and pending :: "'s \<Rightarrow> string \<Rightarrow> 'c option"
    and set_timeout :: "string \<Rightarrow> 'c \<Rightarrow> 's \<Rightarrow> 's"
    and clear_timer :: "string \<Rightarrow> 's \<Rightarrow> 's"
    and fire_timer :: "string \<Rightarrow> 's \<Rightarrow> 'c option \<times> 's"
  assumes set_invar: "invar s \<Longrightarrow> invar (set_timeout n c s)"
    and clear_invar: "invar s \<Longrightarrow> invar (clear_timer n s)"
    and fire_invar: "invar s \<Longrightarrow> invar (snd (fire_timer n s))"
    and pending_set: "invar s \<Longrightarrow> pending (set_timeout n c s) = (pending s)(n \<mapsto> c)"
    and pending_clear: "invar s \<Longrightarrow> pending (clear_timer n s) = (pending s)(n := None)"
    and fire_result: "invar s \<Longrightarrow> fst (fire_timer n s) = pending s n"
    and pending_fire: "invar s \<Longrightarrow> pending (snd (fire_timer n s)) = (pending s)(n := None)"
begin

text \<open>A callback runs once: a second tick of the same name finds nothing, whatever other names did.\<close>

lemma fires_once:
  assumes "invar s"
  shows "fst (fire_timer n (snd (fire_timer n s))) = None"
  using assms by (simp add: fire_result fire_invar pending_fire)

lemma cleared_never_fires: "invar s \<Longrightarrow> fst (fire_timer n (clear_timer n s)) = None"
  by (simp add: fire_result clear_invar pending_clear)

lemma last_set_fires:
  "invar s \<Longrightarrow> fst (fire_timer n (set_timeout n c s)) = Some c"
  by (simp add: fire_result set_invar pending_set)

lemma other_timers_kept:
  assumes "invar s" and "m \<noteq> n"
  shows "fst (fire_timer m (set_timeout n c s)) = fst (fire_timer m s)"
    "fst (fire_timer m (clear_timer n s)) = fst (fire_timer m s)"
    "fst (fire_timer m (snd (fire_timer n s))) = fst (fire_timer m s)"
  using assms by (simp_all add: fire_result set_invar clear_invar fire_invar pending_set pending_clear pending_fire)

end

section \<open>The default service\<close>

datatype timer_kind = IntervalTimer | TimeoutTimer

text \<open>
  \<open>dt_native\<close> is the runtime: its live timers by id, with the name and callback their closure holds
  and whether they repeat.
\<close>

record 'c DefaultTimerService =
  dt_timers :: "(string \<times> nat \<times> timer_kind) list"
  dt_native :: "(nat \<times> string \<times> timer_kind \<times> 'c) list"
  dt_next :: nat

definition default_timers :: "'c DefaultTimerService" where
  "default_timers = \<lparr>dt_timers = [], dt_native = [], dt_next = 0\<rparr>"

definition dt_clear :: "string \<Rightarrow> 'c DefaultTimerService \<Rightarrow> 'c DefaultTimerService" where
  "dt_clear name s =
     (case map_of (dt_timers s) name of
        None \<Rightarrow> s
      | Some (i, k) \<Rightarrow>
          s\<lparr>dt_native := AList.delete i (dt_native s), dt_timers := AList.delete name (dt_timers s)\<rparr>)"

definition dt_start :: "timer_kind \<Rightarrow> string \<Rightarrow> 'c \<Rightarrow> 'c DefaultTimerService \<Rightarrow> 'c DefaultTimerService" where
  "dt_start k name cb s0 =
     (let s = dt_clear name s0; i = dt_next s
      in s\<lparr>dt_native := AList.update i (name, k, cb) (dt_native s),
           dt_timers := AList.update name (i, k) (dt_timers s), dt_next := Suc i\<rparr>)"

definition dt_setInterval :: "string \<Rightarrow> 'c \<Rightarrow> 'c DefaultTimerService \<Rightarrow> 'c DefaultTimerService" where
  "dt_setInterval name cb s = dt_start IntervalTimer name cb s"

definition dt_setTimeout :: "string \<Rightarrow> 'c \<Rightarrow> 'c DefaultTimerService \<Rightarrow> 'c DefaultTimerService" where
  "dt_setTimeout name cb s = dt_start TimeoutTimer name cb s"

text \<open>
  A native timer of the runtime comes due. A time-out leaves the runtime and its closure deletes the
  name before it calls back; an interval stays.
\<close>

definition dt_tick :: "nat \<Rightarrow> 'c DefaultTimerService \<Rightarrow> 'c option \<times> 'c DefaultTimerService" where
  "dt_tick i s =
     (case map_of (dt_native s) i of
        None \<Rightarrow> (None, s)
      | Some (name, IntervalTimer, cb) \<Rightarrow> (Some cb, s)
      | Some (name, TimeoutTimer, cb) \<Rightarrow>
          (Some cb, s\<lparr>dt_native := AList.delete i (dt_native s), dt_timers := AList.delete name (dt_timers s)\<rparr>))"

text \<open>The time-out registered under a name comes due; its pending callback.\<close>

definition dt_fire :: "string \<Rightarrow> 'c DefaultTimerService \<Rightarrow> 'c option \<times> 'c DefaultTimerService" where
  "dt_fire name s =
     (case map_of (dt_timers s) name of Some (i, TimeoutTimer) \<Rightarrow> dt_tick i s | _ \<Rightarrow> (None, s))"

definition dt_pending :: "'c DefaultTimerService \<Rightarrow> string \<Rightarrow> 'c option" where
  "dt_pending s name =
     (case map_of (dt_timers s) name of
        Some (i, TimeoutTimer) \<Rightarrow> map_option (\<lambda>(n, k, c). c) (map_of (dt_native s) i)
      | _ \<Rightarrow> None)"

text \<open>Names and live native timers correspond one to one.\<close>

definition dt_invar :: "'c DefaultTimerService \<Rightarrow> bool" where
  "dt_invar s \<longleftrightarrow>
     (\<forall>n i k. map_of (dt_timers s) n = Some (i, k) \<longleftrightarrow> (\<exists>c. map_of (dt_native s) i = Some (n, k, c))) \<and>
     (\<forall>i x. map_of (dt_native s) i = Some x \<longrightarrow> i < dt_next s)"

lemma map_of_delete [simp]: "map_of (AList.delete k xs) = (map_of xs)(k := None)"
  by (simp add: delete_conv')

lemma map_of_update [simp]: "map_of (AList.update k v xs) = (map_of xs)(k \<mapsto> v)"
  by (simp add: update_conv')

lemma dt_invarD:
  assumes "dt_invar s" and "map_of (dt_timers s) n = Some (i, k)"
  obtains c where "map_of (dt_native s) i = Some (n, k, c)"
  using assms unfolding dt_invar_def by blast

lemma dt_invar_bound: "dt_invar s \<Longrightarrow> map_of (dt_native s) i = Some x \<Longrightarrow> i < dt_next s"
  unfolding dt_invar_def by blast

lemma dt_native_unique:
  assumes "dt_invar s" and "map_of (dt_timers s) n = Some (i, k)" and "map_of (dt_timers s) m = Some (i, l)"
  shows "m = n"
  using assms unfolding dt_invar_def by (metis option.inject prod.inject)

lemma dt_remove_invar:
  assumes "dt_invar s" and "map_of (dt_timers s) n = Some (i, k)"
  shows "dt_invar (s\<lparr>dt_native := AList.delete i (dt_native s), dt_timers := AList.delete n (dt_timers s)\<rparr>)"
proof -
  have eq: "map_of (dt_timers s) m = Some (j, l) \<longleftrightarrow> (\<exists>c. map_of (dt_native s) j = Some (m, l, c))" for m j l
    using assms(1) by (simp add: dt_invar_def)
  obtain c where ic: "map_of (dt_native s) i = Some (n, k, c)" using assms by (rule dt_invarD)
  have "j = i \<longleftrightarrow> m = n" if "map_of (dt_native s) j = Some (m, l, d)" for j m l d
    using that ic eq assms(2) by (metis option.inject prod.inject)
  then have "((map_of (dt_timers s))(n := None)) m = Some (j, l) \<longleftrightarrow> (\<exists>c. ((map_of (dt_native s))(i := None)) j = Some (m, l, c))" for m j l
    using eq by (auto split: if_splits)
  moreover have "((map_of (dt_native s))(i := None)) j = Some x \<Longrightarrow> j < dt_next s" for j x
    using dt_invar_bound [OF assms(1)] by (simp split: if_splits)
  ultimately show ?thesis unfolding dt_invar_def by simp
qed

lemma dt_clear_invar: "dt_invar s \<Longrightarrow> dt_invar (dt_clear n s)"
  using dt_remove_invar [of s n] by (auto simp: dt_clear_def split: option.split)

lemma dt_clear_pending:
  assumes "dt_invar s"
  shows "dt_pending (dt_clear n s) = (dt_pending s)(n := None)"
proof (cases "map_of (dt_timers s) n")
  case None
  then show ?thesis by (auto simp: dt_clear_def dt_pending_def fun_eq_iff)
next
  case (Some ik)
  obtain i k where ik: "ik = (i, k)" by (cases ik)
  have "m \<noteq> n \<Longrightarrow> map_of (dt_timers s) m = Some (j, l) \<Longrightarrow> j \<noteq> i" for m j l
    using dt_native_unique [OF assms] Some ik by blast
  with Some ik show ?thesis
    by (auto simp: dt_clear_def dt_pending_def fun_eq_iff split: option.splits timer_kind.splits)
qed

lemma dt_clear_gone: "map_of (dt_timers (dt_clear n s)) n = None"
  by (auto simp: dt_clear_def split: option.splits)

lemma dt_clear_next [simp]: "dt_next (dt_clear n s) = dt_next s"
  by (auto simp: dt_clear_def split: option.splits)

lemma dt_add_invar:
  assumes "dt_invar s" and "map_of (dt_timers s) n = None"
  shows "dt_invar (s\<lparr>dt_native := AList.update (dt_next s) (n, k, c) (dt_native s),
    dt_timers := AList.update n (dt_next s, k) (dt_timers s), dt_next := Suc (dt_next s)\<rparr>)"
proof -
  have fresh: "map_of (dt_native s) (dt_next s) = None"
    using dt_invar_bound [OF assms(1), of "dt_next s"] by (cases "map_of (dt_native s) (dt_next s)") blast+
  have "\<And>m l d j. map_of (dt_native s) j = Some (m, l, d) \<Longrightarrow> m \<noteq> n"
    using assms unfolding dt_invar_def by (metis option.distinct(1))
  moreover have "\<And>m l. map_of (dt_timers s) m \<noteq> Some (dt_next s, l)"
    using assms(1) fresh by (auto simp: dt_invar_def)
  ultimately have "((map_of (dt_timers s))(n \<mapsto> (dt_next s, k))) m = Some (j, l) \<longleftrightarrow>
      (\<exists>d. ((map_of (dt_native s))(dt_next s \<mapsto> (n, k, c))) j = Some (m, l, d))" for m j l
    using assms(1) by (auto simp: dt_invar_def)
  moreover have "((map_of (dt_native s))(dt_next s \<mapsto> (n, k, c))) j = Some x \<Longrightarrow> j < Suc (dt_next s)" for j x
    using dt_invar_bound [OF assms(1), of j x] by (simp split: if_splits)
  ultimately show ?thesis unfolding dt_invar_def by simp
qed

lemma dt_start_invar: "dt_invar s \<Longrightarrow> dt_invar (dt_start k n c s)"
  unfolding dt_start_def Let_def by (rule dt_add_invar) (simp_all add: dt_clear_invar dt_clear_gone)

lemma dt_start_pending:
  assumes "dt_invar s"
  shows "dt_pending (dt_start k n c s) = (dt_pending s)(n := (if k = TimeoutTimer then Some c else None))"
proof -
  have inv: "dt_invar (dt_clear n s)" using assms by (rule dt_clear_invar)
  then have "map_of (dt_timers (dt_clear n s)) m = Some (j, l) \<Longrightarrow> j \<noteq> dt_next s" for m j l
    by (metis dt_invarD dt_invar_bound dt_clear_next less_irrefl)
  then have "dt_pending (dt_start k n c s) = (dt_pending (dt_clear n s))(n := (if k = TimeoutTimer then Some c else None))"
    by (auto simp: dt_start_def dt_pending_def Let_def fun_eq_iff split: option.splits timer_kind.splits)
  then show ?thesis by (simp add: dt_clear_pending [OF assms])
qed

lemma dt_fire_laws:
  assumes "dt_invar s"
  shows "fst (dt_fire n s) = dt_pending s n"
    and "snd (dt_fire n s) = (if dt_pending s n = None then s else dt_clear n s)"
proof -
  have "fst (dt_fire n s) = dt_pending s n \<and> snd (dt_fire n s) = (if dt_pending s n = None then s else dt_clear n s)"
  proof (cases "\<exists>i. map_of (dt_timers s) n = Some (i, TimeoutTimer)")
    case True
    then obtain i where i: "map_of (dt_timers s) n = Some (i, TimeoutTimer)" by blast
    with assms obtain c where "map_of (dt_native s) i = Some (n, TimeoutTimer, c)" by (rule dt_invarD)
    with i show ?thesis by (simp add: dt_fire_def dt_tick_def dt_pending_def dt_clear_def)
  next
    case False
    then have "dt_pending s n = None" "dt_fire n s = (None, s)"
      by (auto simp: dt_fire_def dt_pending_def split: option.splits timer_kind.splits)
    then show ?thesis by simp
  qed
  then show "fst (dt_fire n s) = dt_pending s n"
    "snd (dt_fire n s) = (if dt_pending s n = None then s else dt_clear n s)" by blast+
qed

interpretation dflt: timer_service dt_invar dt_pending dt_setTimeout dt_clear dt_fire
  by unfold_locales
    (auto simp: dt_setTimeout_def dt_start_invar dt_clear_invar dt_start_pending dt_clear_pending dt_fire_laws)

section \<open>The alarm-backed service\<close>

definition ALARM_PREFIX :: string where
  "ALARM_PREFIX = ''tailchrome-timer:''"

text \<open>A callback handed to the fallback is \<open>() => this.fire(name)\<close> or an interval's own; times are milliseconds.\<close>

datatype 'c fallback_callback = FireName string | OwnCallback 'c

record 'c ChromeAlarmTimerService =
  ct_fallback :: "'c fallback_callback DefaultTimerService"
  ct_timeouts :: "(string \<times> 'c) list"
  ct_alarms :: "(string \<times> int) list"

definition alarm_timers :: "'c ChromeAlarmTimerService" where
  "alarm_timers = \<lparr>ct_fallback = default_timers, ct_timeouts = [], ct_alarms = []\<rparr>"

definition ct_clear :: "string \<Rightarrow> 'c ChromeAlarmTimerService \<Rightarrow> 'c ChromeAlarmTimerService" where
  "ct_clear name s =
     s\<lparr>ct_fallback := dt_clear name (ct_fallback s), ct_timeouts := AList.delete name (ct_timeouts s),
       ct_alarms := AList.delete (ALARM_PREFIX @ name) (ct_alarms s)\<rparr>"

definition ct_setInterval :: "string \<Rightarrow> 'c \<Rightarrow> 'c ChromeAlarmTimerService \<Rightarrow> 'c ChromeAlarmTimerService" where
  "ct_setInterval name cb s0 =
     (let s = ct_clear name s0 in s\<lparr>ct_fallback := dt_setInterval name (OwnCallback cb) (ct_fallback s)\<rparr>)"

definition ct_setTimeoutAt :: "int \<Rightarrow> string \<Rightarrow> 'c \<Rightarrow> 'c ChromeAlarmTimerService \<Rightarrow> 'c ChromeAlarmTimerService" where
  "ct_setTimeoutAt deadline name cb s0 =
     (let s = ct_clear name s0
      in s\<lparr>ct_timeouts := AList.update name cb (ct_timeouts s),
           ct_fallback := dt_setTimeout name (FireName name) (ct_fallback s),
           ct_alarms := AList.update (ALARM_PREFIX @ name) deadline (ct_alarms s)\<rparr>)"

definition ct_setTimeout :: "int \<Rightarrow> int \<Rightarrow> string \<Rightarrow> 'c \<Rightarrow> 'c ChromeAlarmTimerService \<Rightarrow> 'c ChromeAlarmTimerService" where
  "ct_setTimeout now delay name cb s = ct_setTimeoutAt (now + delay) name cb s"

definition ct_fire :: "string \<Rightarrow> 'c ChromeAlarmTimerService \<Rightarrow> 'c option \<times> 'c ChromeAlarmTimerService" where
  "ct_fire name s =
     (case map_of (ct_timeouts s) name of
        None \<Rightarrow> (None, s)
      | Some cb \<Rightarrow>
          (Some cb, s\<lparr>ct_fallback := dt_clear name (ct_fallback s), ct_timeouts := AList.delete name (ct_timeouts s),
                     ct_alarms := AList.delete (ALARM_PREFIX @ name) (ct_alarms s)\<rparr>))"

text \<open>The fallback's time-out comes due, and an alarm fires (a one-shot alarm is gone when it does).\<close>

definition ct_native :: "string \<Rightarrow> 'c ChromeAlarmTimerService \<Rightarrow> 'c option \<times> 'c ChromeAlarmTimerService" where
  "ct_native name s =
     (case dt_fire name (ct_fallback s) of
        (None, f) \<Rightarrow> (None, s\<lparr>ct_fallback := f\<rparr>)
      | (Some (FireName n), f) \<Rightarrow> ct_fire n (s\<lparr>ct_fallback := f\<rparr>)
      | (Some (OwnCallback cb), f) \<Rightarrow> (Some cb, s\<lparr>ct_fallback := f\<rparr>))"

definition ct_alarm :: "string \<Rightarrow> 'c ChromeAlarmTimerService \<Rightarrow> 'c option \<times> 'c ChromeAlarmTimerService" where
  "ct_alarm alarm s =
     (let s1 = s\<lparr>ct_alarms := AList.delete alarm (ct_alarms s)\<rparr>
      in if prefix ALARM_PREFIX alarm then ct_fire (drop (length ALARM_PREFIX) alarm) s1 else (None, s1))"

text \<open>Every pending fallback time-out fires a name that still has a callback and its own alarm.\<close>

definition ct_invar :: "'c ChromeAlarmTimerService \<Rightarrow> bool" where
  "ct_invar s \<longleftrightarrow> dt_invar (ct_fallback s) \<and>
     (\<forall>n. dt_pending (ct_fallback s) n = (if map_of (ct_timeouts s) n = None then None else Some (FireName n)))"

lemma ct_clear_laws:
  "ct_invar s \<Longrightarrow> ct_invar (ct_clear n s)" "map_of (ct_timeouts (ct_clear n s)) = (map_of (ct_timeouts s))(n := None)"
  by (simp_all add: ct_invar_def ct_clear_def dt_clear_invar dt_clear_pending)

lemma ct_set_laws:
  "ct_invar s \<Longrightarrow> ct_invar (ct_setTimeoutAt d n c s)"
  "map_of (ct_timeouts (ct_setTimeoutAt d n c s)) = (map_of (ct_timeouts s))(n \<mapsto> c)"
  using ct_clear_laws [where s = s and n = n]
  by (simp_all add: ct_invar_def ct_setTimeoutAt_def Let_def dt_setTimeout_def dt_start_invar dt_start_pending)

lemma ct_interval_invar: "ct_invar s \<Longrightarrow> ct_invar (ct_setInterval n c s)"
  using ct_clear_laws [where s = s and n = n]
  by (simp add: ct_invar_def ct_setInterval_def Let_def dt_setInterval_def dt_start_invar dt_start_pending)

lemma ct_fire_eq: "ct_fire n s = (map_of (ct_timeouts s) n, if map_of (ct_timeouts s) n = None then s else ct_clear n s)"
  by (simp add: ct_fire_def ct_clear_def split: option.split)

interpretation alarm: timer_service ct_invar "\<lambda>s. map_of (ct_timeouts s)" "ct_setTimeoutAt d" ct_clear ct_fire for d
  by unfold_locales (auto simp: ct_set_laws ct_clear_laws ct_fire_eq)

text \<open>The fallback's own removal of its timer does not show.\<close>

lemma ct_fallback_cleared:
  assumes "ct_invar s"
  shows "ct_clear n (s\<lparr>ct_fallback := dt_clear n (ct_fallback s)\<rparr>) = ct_clear n s"
  by (simp add: ct_clear_def dt_clear_def dt_clear_gone split: option.split)

lemma ct_native_fire:
  assumes "ct_invar s"
  shows "ct_native n s = ct_fire n s"
proof (cases "map_of (ct_timeouts s) n")
  case None
  with assms have "dt_pending (ct_fallback s) n = None" "dt_invar (ct_fallback s)" by (simp_all add: ct_invar_def)
  then have "dt_fire n (ct_fallback s) = (None, ct_fallback s)"
    by (intro prod_eqI) (simp_all add: dt_fire_laws)
  with None show ?thesis by (simp add: ct_native_def ct_fire_eq)
next
  case (Some c)
  with assms have "dt_pending (ct_fallback s) n = Some (FireName n)" "dt_invar (ct_fallback s)" by (simp_all add: ct_invar_def)
  then have "dt_fire n (ct_fallback s) = (Some (FireName n), dt_clear n (ct_fallback s))"
    by (intro prod_eqI) (simp_all add: dt_fire_laws)
  with Some ct_fallback_cleared [OF assms] show ?thesis by (simp add: ct_native_def ct_fire_eq)
qed

lemma ct_alarm_fire:
  "fst (ct_alarm (ALARM_PREFIX @ n) s) = fst (ct_fire n s)"
  "map_of (ct_timeouts (snd (ct_alarm (ALARM_PREFIX @ n) s))) = map_of (ct_timeouts (snd (ct_fire n s)))"
  by (simp_all add: ct_alarm_def ct_fire_eq ct_clear_def Let_def)

text \<open>C34: a named timeout runs its callback once, whether the in-process timer or the browser alarm comes first; the other one finds nothing.\<close>

theorem alarm_timer_fires_once:
  assumes "ct_invar s"
  shows "fst (ct_native n s) = map_of (ct_timeouts s) n \<and>
    fst (ct_alarm (ALARM_PREFIX @ n) s) = map_of (ct_timeouts s) n \<and>
    fst (ct_alarm (ALARM_PREFIX @ n) (snd (ct_native n s))) = None \<and>
    fst (ct_native n (snd (ct_alarm (ALARM_PREFIX @ n) s))) = None"
proof -
  note once = alarm.fires_once [OF assms, of n]
  have fire: "fst (ct_fire n t) = map_of (ct_timeouts t) n" for t :: "'a ChromeAlarmTimerService"
    by (simp add: ct_fire_eq)
  have "ct_invar (s\<lparr>ct_alarms := as\<rparr>)" for as using assms by (simp add: ct_invar_def)
  then have inv: "ct_invar (snd (ct_alarm (ALARM_PREFIX @ n) s))"
    by (simp add: ct_alarm_def Let_def alarm.fire_invar)
  show ?thesis
    using once fire ct_native_fire [OF assms] ct_native_fire [OF inv] ct_alarm_fire [of n s]
    by (simp add: ct_alarm_fire)
qed

theorem alarm_timer_fires_once_witness:
  "fst (ct_native ''keepalive'' (ct_setTimeoutAt 5 ''keepalive'' True alarm_timers)) = Some True"
proof -
  have "ct_invar (alarm_timers :: bool ChromeAlarmTimerService)"
    by (simp add: ct_invar_def alarm_timers_def default_timers_def dt_invar_def dt_pending_def)
  then have "ct_invar (ct_setTimeoutAt 5 ''keepalive'' True alarm_timers)" by (rule alarm.set_invar)
  from alarm_timer_fires_once [OF this, of "''keepalive''"] show ?thesis by (simp add: ct_set_laws)
qed

end
