(* ===== verification/Background_Decisions.thy ===== *)
theory Background_Decisions
  imports Background_Safety Timer_Service
begin

text \<open>
  How the background script's decisions come out: an account switch blocks browsing at once, the
  stored connection decision converges to the newest one, the corrective \<open>down\<close> obeys the recorded
  decision, helper-discovery retries come to an end, and a status that makes the routing protection
  throw leaves the store as it was.
\<close>

section \<open>Timers by name\<close>

text \<open>The script relies on its timer service as on any other: one pending callback per name.\<close>

interpretation bg_timers: timer_service "\<lambda>_. True" "\<lambda>b. map_of (bg_timers b)" set_timer clear_timer
    "\<lambda>n b. (map_of (bg_timers b) n, clear_timer n b)"
  by unfold_locales (simp_all add: set_timer_def clear_timer_def)

section \<open>Account switches\<close>

lemma decorate_held: "rt_transitioning r \<Longrightarrow> decorate_policy s r = (r, blockAllPolicy)"
  by (simp add: decorate_policy_def)

lemma effect_fields [simp]:
  "bg_routing (effect e b) = bg_routing b" "bg_store (effect e b) = bg_store b"
  "bg_effects (effect e b) = bg_effects b @ [e]"
  by (simp_all add: effect_def)

lemma broadcast_fields [simp]:
  "bg_routing (broadcastToPopup s b) = bg_routing b"
  "bg_effects (broadcastToPopup s b) = bg_effects b @ post_all (bg_closedPorts b) (StateMsg s) (bg_popupPorts b)"
  by (simp_all add: broadcastToPopup_def)

lemma apply_proxy_held:
  assumes "rt_transitioning (bg_routing b)"
  shows "bg_routing (apply_proxy b) = bg_routing b"
    and "\<exists>s. bg_effects (apply_proxy b) = bg_effects b @ [ApplyProxy s] \<and> ts_routingPolicy s = Some blockAllPolicy"
  using assms by (auto simp: apply_proxy_def decorated_def decorate_def decorate_held)

lemma notify_held:
  assumes "rt_transitioning (bg_routing b)"
  shows "bg_routing (notify E b) = bg_routing b"
    and "\<exists>s es. bg_effects (notify E b) = bg_effects b @ ApplyProxy s # es \<and> ts_routingPolicy s = Some blockAllPolicy"
proof -
  obtain s where s: "bg_effects (apply_proxy b) = bg_effects b @ [ApplyProxy s]" "ts_routingPolicy s = Some blockAllPolicy"
    using apply_proxy_held(2) [OF assms] by blast
  have r: "bg_routing (apply_proxy b) = bg_routing b" by (rule apply_proxy_held(1) [OF assms])
  show "bg_routing (notify E b) = bg_routing b"
    using assms by (simp add: notify_def decorated_def decorate_def decorate_held r Let_def)
  show "\<exists>s es. bg_effects (notify E b) = bg_effects b @ ApplyProxy s # es \<and> ts_routingPolicy s = Some blockAllPolicy"
    using assms s by (auto simp: notify_def decorated_def decorate_def decorate_held r Let_def)
qed

lemma update_store_held:
  assumes "rt_transitioning (bg_routing b)"
  shows "bg_routing (update_store E ws b) = bg_routing b"
    and "\<exists>es. bg_effects (update_store E ws b) = bg_effects b @ es"
  using notify_held [of "b\<lparr>bg_store := s\<rparr>" for s] assms
  by (auto simp: update_store_def split: option.split) blast

lemma send_held:
  assumes "rt_transitioning (bg_routing b)"
  shows "bg_routing (send_ignore E r b) = bg_routing b"
    and "\<exists>es. bg_effects (send_ignore E r b) = bg_effects b @ es"
  using update_store_held [of "b\<lparr>bg_host := h\<rparr>" for h] assms
  by (auto simp: send_ignore_def send_def on_diagnostic_event_def case_prod_beta Let_def split: option.split)

lemma switchProfile_transitioning [simp]: "rt_transitioning (switchProfile s r)"
  by (simp add: switchProfile_def)

lemma clearIntent_fields [simp]:
  "bg_routing (clearIntent b) = bg_routing b" "bg_effects (clearIntent b) = bg_effects b"
  by (simp_all add: clearIntent_def)

lemma switch_account_held:
  "bg_routing (switch_account E s b) = switchProfile s (bg_routing b)"
  "\<exists>t es. bg_effects (switch_account E s b) = bg_effects b @ ApplyProxy t # es \<and> ts_routingPolicy t = Some blockAllPolicy"
proof -
  let ?b = "on_routing (switchProfile s) (b\<lparr>bg_exitNodeRestoreAttempted := False\<rparr>)"
  have held: "rt_transitioning (bg_routing ?b)" by (simp add: on_routing_def)
  have changed: "\<exists>t. update [WRoutingHealth SWITCHING] (bg_store ?b) = Some t" by (simp add: update_def)
  show "bg_routing (switch_account E s b) = switchProfile s (bg_routing b)"
    using update_store_held(1) [OF held] by (simp add: switch_account_def on_routing_def)
  show "\<exists>t es. bg_effects (switch_account E s b) = bg_effects b @ ApplyProxy t # es \<and> ts_routingPolicy t = Some blockAllPolicy"
    using changed notify_held(2) [of "?b\<lparr>bg_store := t\<rparr>" for t] held
    by (auto simp: switch_account_def update_store_def on_routing_def)
qed

text \<open>Sending a request after the switch changes neither.\<close>

lemma switch_then_send:
  "bg_routing (send_ignore E r (switch_account E s b)) = switchProfile s (bg_routing b)"
  "\<exists>t es. bg_effects (send_ignore E r (switch_account E s b)) = bg_effects b @ ApplyProxy t # es \<and>
     ts_routingPolicy t = Some blockAllPolicy"
  using send_held [of "switch_account E s b" E r] switch_account_held [of E s b] by auto

lemma refresh_fields [simp]:
  "bg_routing (resetProfileRefreshRetry b) = bg_routing b" "bg_effects (resetProfileRefreshRetry b) = bg_effects b"
  "bg_routing (markProfileRefreshNeeded b) = bg_routing b" "bg_effects (markProfileRefreshNeeded b) = bg_effects b"
  by (simp_all add: resetProfileRefreshRetry_def markProfileRefreshNeeded_def clear_timer_def)

lemma switch_messages:
  assumes "m = MSwitchProfile x \<and> Some x \<noteq> current_profile_id (bg_store b) \<or> m = MNewProfile \<or>
    m = MDeleteProfile x \<and> Some x = current_profile_id (bg_store b)"
  obtains r b0 where "handlePopupMessage E now p m b = send_ignore E r (switch_account E (bg_store b) b0)"
    "bg_routing b0 = bg_routing b" "bg_effects b0 = bg_effects b"
  using assms
  by (elim disjE conjE)
    (auto simp: handlePopupMessage_def switch_profile_def new_profile_def delete_profile_def intro: that)

section \<open>The recorded decision\<close>

lemma run_intent_job_mirror [simp]: "bg_sessionIntentMirror (run_intent_job x y b) = bg_sessionIntentMirror b"
  by (auto simp: run_intent_job_def Let_def split: list.split intent_job.split option.split)

lemma run_intent_job_queue [simp]: "bg_intentQueue (run_intent_job x y b) = tl (bg_intentQueue b)"
  by (auto simp: run_intent_job_def Let_def split: list.split intent_job.split option.split)

lemma run_intent_job_session: "bg_session b \<noteq> None \<Longrightarrow> bg_session (run_intent_job x y b) \<noteq> None"
  by (auto simp: run_intent_job_def Let_def writeSessionIntent_def clearSessionIntent_def
      split: list.split intent_job.split option.split)

text \<open>The chain runs to its end, every storage call succeeding.\<close>

definition drain :: "Background \<Rightarrow> Background" where
  "drain b = (run_intent_job True True ^^ length (bg_intentQueue b)) b"

lemma drain_step: "bg_intentQueue b = j # js \<Longrightarrow> drain b = drain (run_intent_job True True b)"
  by (simp add: drain_def funpow_swap1)

lemma drain_decision:
  assumes "bg_intentQueue b = js @ [WriteIntent True]" and "bg_sessionIntentMirror b = Some v" and "bg_session b \<noteq> None"
  shows "readSessionIntent (bg_session (drain b)) = Some v \<and> readPersistedIntent (bg_local (drain b)) = Some v"
  using assms
proof (induction js arbitrary: b)
  case Nil
  then have "drain b = run_intent_job True True b" by (simp add: drain_def)
  with Nil show ?case
    by (simp add: run_intent_job_def Let_def session.get_put persisted.get_put)
next
  case (Cons j js)
  then have "drain b = drain (run_intent_job True True b)" by (intro drain_step) simp
  with Cons run_intent_job_session [of b True True] show ?case by simp
qed

section \<open>The corrective \<open>down\<close>\<close>

lemma maybeAutoDisconnect_sends:
  assumes "nh_log (bg_host (maybeAutoDisconnect E s b)) \<noteq> nh_log (bg_host b)"
  shows "(s = Starting \<or> s = Running) \<and> \<not> bg_autoDisconnectAttempted b \<and> bg_sessionIntentMirror b = Some False"
  using assms by (auto simp: maybeAutoDisconnect_def add_task_def split: if_splits option.splits)

section \<open>Helper retries\<close>

text \<open>The retry timer fires for the record at hand.\<close>

definition retry_round :: "Env \<Rightarrow> rat \<Rightarrow> Background \<Rightarrow> Background" where
  "retry_round E now b =
     (case bg_helperRetryRecord b of Some r \<Rightarrow> executeHelperRetry E now r b | None \<Rightarrow> b)"

definition retries_left :: "Background \<Rightarrow> nat" where
  "retries_left b =
     (case bg_helperRetryRecord b of
        Some r \<Rightarrow> Suc (length INSTALL_RETRY_DELAYS_MS - hr_nextRetryIndex r)
      | None \<Rightarrow> 0)"

lemma notify_retry [simp]: "bg_helperRetryRecord (notify E b) = bg_helperRetryRecord b"
  by (simp add: notify_def apply_proxy_def decorated_def effect_def broadcastToPopup_def case_prod_beta Let_def)

lemma update_store_retry [simp]: "bg_helperRetryRecord (update_store E ws b) = bg_helperRetryRecord b"
  by (simp add: update_store_def split: option.split)

lemma session_set_retry [simp]: "bg_helperRetryRecord (session_set k v b) = bg_helperRetryRecord b"
  by (simp add: session_set_def)

lemma retry_round_decreases: "retries_left (retry_round E now b) \<le> retries_left b - 1"
  by (auto simp: retry_round_def retries_left_def executeHelperRetry_def clearHelperRetryStorage_def
      finishUnsuccessfulHelperRetries_def persistAndArmHelperRetry_def writeHelperRetryRecord_def add_task_def
      clear_timer_def Let_def split: option.split)

lemma retry_rounds_end: "retries_left b \<le> n \<Longrightarrow> bg_helperRetryRecord ((retry_round E now ^^ n) b) = None"
proof (induction n arbitrary: b)
  case 0
  then show ?case by (simp add: retries_left_def split: option.splits)
next
  case (Suc n)
  from Suc.prems have "retries_left (retry_round E now b) \<le> n" using retry_round_decreases [of E now b] by linarith
  then show ?case using Suc.IH by (simp add: funpow_Suc_right del: funpow.simps)
qed

section \<open>A status that cannot be confirmed\<close>

lemma status_begin_fields [simp]:
  "bg_store (status_begin st b) = bg_store b" "bg_routing (status_begin st b) = bg_routing b"
  by (simp_all add: status_begin_def resetProfileRefreshRetry_def clear_timer_def Let_def)

lemma on_status_throws:
  assumes "fst (confirmStatus st (bg_store b) (bg_routing b)) = Some err"
  shows "fst (on_status E st b) = Some err" "bg_store (snd (on_status E st b)) = bg_store b"
  using assms by (simp_all add: on_status_def Let_def case_prod_beta)

end
