(* ===== verification/Firefox_Proxy_Manager.thy ===== *)
theory Firefox_Proxy_Manager
  imports Routing_Protection Proxy_Session Constants
begin

unbundle bit_operations_syntax

text \<open>
  The Firefox proxy manager (\<open>packages/extension/src/background/firefox-proxy-manager.ts\<close>): the
  routing tables built from a policy and the per-request decision. The browser's URL parser is the
  parameter \<open>parse_url\<close>; whether registering the request listener succeeds is the parameter
  \<open>can_listen\<close>.
\<close>

datatype FirefoxProxyInfo =
    FDirect
  | FSocks int "(string \<times> string) option"

text \<open>
  \<open>ff_policyKey\<close> and \<open>ff_failedKey\<close> are the policies whose JSON text the source keeps, \<^const>\<open>None\<close>
  for the empty text. \<open>ff_reports\<close> is what the health listener was called with, oldest first.
\<close>

record FirefoxProxyManager =
  ff_session :: ProxySession
  ff_proxyPort :: int
  ff_magicDNSSuffix :: string
  ff_exitNodeActive :: bool
  ff_subnetRanges :: "IPv4Range list"
  ff_blockedSubnetRanges :: "IPv4Range list"
  ff_ipv6Subnets :: "IPv6Subnet list"
  ff_splitMode :: DomainSplitMode
  ff_splitDomains :: "string list"
  ff_shortNames :: "string list"
  ff_dnsRoutes :: "string list"
  ff_mode :: PolicyMode
  ff_failedKey :: "RoutingPolicy option"
  ff_policyKey :: "RoutingPolicy option"
  ff_hasHealthListener :: bool
  ff_listening :: bool
  ff_reports :: "RoutingHealth list"

definition firefox_init :: FirefoxProxyManager where
  "firefox_init =
     \<lparr>ff_session = None, ff_proxyPort = BLOCKED_PROXY_PORT, ff_magicDNSSuffix = [],
      ff_exitNodeActive = True, ff_subnetRanges = [], ff_blockedSubnetRanges = [],
      ff_ipv6Subnets = [], ff_splitMode = Bypass, ff_splitDomains = [], ff_shortNames = [],
      ff_dnsRoutes = [], ff_mode = PBlocked, ff_failedKey = None, ff_policyKey = None,
      ff_hasHealthListener = False, ff_listening = False, ff_reports = []\<rparr>"

definition ff_report :: "RoutingHealth \<Rightarrow> FirefoxProxyManager \<Rightarrow> FirefoxProxyManager" where
  "ff_report h m = (if ff_hasHealthListener m then m\<lparr>ff_reports := ff_reports m @ [h]\<rparr> else m)"

definition ff_setProxySession :: "ProxySessionCredentials option \<Rightarrow> FirefoxProxyManager \<Rightarrow> FirefoxProxyManager" where
  "ff_setProxySession session m = m\<lparr>ff_session := set_session session (ff_session m)\<rparr>"

definition ff_setRoutingHealthListener :: "FirefoxProxyManager \<Rightarrow> FirefoxProxyManager" where
  "ff_setRoutingHealthListener m = m\<lparr>ff_hasHealthListener := True\<rparr>"

definition FIREFOX_FAILED :: RoutingHealth where
  "FIREFOX_FAILED = \<lparr>rh_status = RUnavailable, rh_message = ''Firefox could not apply the routing settings.''\<rparr>"

text \<open>The \<open>proxy.onError\<close> handler registered by the constructor.\<close>

definition ff_onError :: "FirefoxProxyManager \<Rightarrow> FirefoxProxyManager" where
  "ff_onError m = ff_report FIREFOX_FAILED (m\<lparr>ff_failedKey := ff_policyKey m\<rparr>)"

fun sanitizeSplitDomains_loop :: "string list \<Rightarrow> string list \<Rightarrow> string list" where
  "sanitizeSplitDomains_loop seen [] = []"
| "sanitizeSplitDomains_loop seen (raw # rest) =
     (case sanitizeDomain (Some raw) of
        None \<Rightarrow> sanitizeSplitDomains_loop seen rest
      | Some cleaned \<Rightarrow>
          if cleaned \<in> set seen then sanitizeSplitDomains_loop seen rest
          else cleaned # sanitizeSplitDomains_loop (seen @ [cleaned]) rest)"

definition sanitizeSplitDomains :: "DomainSplitConfig \<Rightarrow> string list" where
  "sanitizeSplitDomains config = sanitizeSplitDomains_loop [] (split_domains config)"

definition auth_unavailable_text :: string where
  "auth_unavailable_text = ''Helper authentication unavailable '' @ em_dash @ '' protected browsing is blocked.''"

definition exit_unavailable_text :: string where
  "exit_unavailable_text = ''Exit node unavailable '' @ em_dash @ '' protected browsing is blocked.''"

definition connection_unavailable_text :: string where
  "connection_unavailable_text = ''Connection unavailable '' @ em_dash @ '' tailnet browsing is blocked.''"

text \<open>The policy asked for and the one in force, which is blocked without a matching credential.\<close>

definition ff_auth_missing :: "ProxySession \<Rightarrow> RoutingPolicy \<Rightarrow> bool" where
  "ff_auth_missing session p = (credentialsFor session (js_default (rp_proxyPort p) 0) = None)"

definition ff_policy :: "ProxySession \<Rightarrow> RoutingPolicy \<Rightarrow> RoutingPolicy" where
  "ff_policy session p =
     (if rp_mode p = PActive \<and> ff_auth_missing session p
      then p\<lparr>rp_mode := PBlocked, rp_proxyPort := None\<rparr> else p)"

text \<open>The tables assigned from the policy in force (lines 107--125).\<close>

definition ff_tables :: "RoutingPolicy \<Rightarrow> FirefoxProxyManager \<Rightarrow> FirefoxProxyManager" where
  "ff_tables p m =
     m\<lparr>ff_mode := rp_mode p,
       ff_proxyPort := js_default (rp_proxyPort p) BLOCKED_PROXY_PORT,
       ff_exitNodeActive := rp_blockAll p \<or> rp_selectedExitNodeID p \<noteq> None,
       ff_magicDNSSuffix := js_lower (sanitizeMagicDNSSuffix (Some (rp_magicDNSSuffix p))),
       ff_shortNames := filter (\<lambda>n. CHR ''.'' \<notin> set n) (sanitizeDNSRoutes (js_strings (rp_shortNames p))),
       ff_dnsRoutes := sanitizeDNSRoutes (js_strings (rp_dnsRoutes p)),
       ff_subnetRanges := List.map_filter parseCIDR (filter isSupportedSubnetCIDR (rp_subnetCIDRs p)),
       ff_blockedSubnetRanges := List.map_filter parseCIDR (rp_subnetCIDRs p),
       ff_ipv6Subnets := List.map_filter parseIPv6CIDR (rp_subnetCIDRs p),
       ff_splitMode := split_mode (rp_domainSplit p),
       ff_splitDomains := sanitizeSplitDomains (rp_domainSplit p)\<rparr>"

definition ff_health :: "RoutingPolicy \<Rightarrow> FirefoxProxyManager \<Rightarrow> RoutingHealth" where
  "ff_health requested m =
     (if ff_mode m = PBlocked
      then \<lparr>rh_status = RBlocked,
            rh_message = (if ff_auth_missing (ff_session m) requested \<and> rp_mode requested = PActive
                          then auth_unavailable_text
                          else if ff_exitNodeActive m then exit_unavailable_text
                          else connection_unavailable_text)\<rparr>
      else \<lparr>rh_status = (if ff_mode m = PActive then RActive else RInactive), rh_message = []\<rparr>)"

definition ff_apply :: "bool \<Rightarrow> TailscaleState \<Rightarrow> FirefoxProxyManager \<Rightarrow> FirefoxProxyManager" where
  "ff_apply can_listen s m =
     (let requestedPolicy = policyFromState s;
          policy = ff_policy (ff_session m) requestedPolicy;
          m1 = (if Some policy \<noteq> ff_policyKey m then m\<lparr>ff_failedKey := None\<rparr> else m);
          m2 = m1\<lparr>ff_policyKey := Some policy\<rparr>
      in if ff_failedKey m2 = ff_policyKey m2 then m2
         else (let m3 = ff_tables policy m2 in
               if ff_listening m3 \<or> can_listen
               then ff_report (ff_health requestedPolicy m3) (m3\<lparr>ff_listening := True\<rparr>)
               else ff_report FIREFOX_FAILED m3))"

definition ff_clear :: "FirefoxProxyManager \<Rightarrow> FirefoxProxyManager" where
  "ff_clear m = ff_report \<lparr>rh_status = RInactive, rh_message = []\<rparr> (m\<lparr>ff_mode := PDirect\<rparr>)"

section \<open>Routing one request\<close>

definition request_host :: "string \<Rightarrow> string" where
  "request_host hostname = unbracket (strip_trailing_dot (js_lower hostname))"

definition matchSplitDomain :: "string list \<Rightarrow> string \<Rightarrow> bool" where
  "matchSplitDomain domains host = list_ex (in_domain host) domains"

definition ff_credentials :: "FirefoxProxyManager \<Rightarrow> (string \<times> string) option" where
  "ff_credentials m = (if ff_mode m = PActive then credentialsFor (ff_session m) (ff_proxyPort m) else None)"

definition ff_proxy :: "FirefoxProxyManager \<Rightarrow> FirefoxProxyInfo" where
  "ff_proxy m =
     (let credentials = ff_credentials m
      in FSocks (if credentials \<noteq> None then ff_proxyPort m else BLOCKED_PROXY_PORT) credentials)"

text \<open>The tests on the host in the order of the source (lines 189--214).\<close>

definition ff_tailnet_host :: "FirefoxProxyManager \<Rightarrow> string \<Rightarrow> bool" where
  "ff_tailnet_host m host =
     (if host = TAILSCALE_SERVICE_IP then True
      else if host \<in> set (ff_shortNames m) then True
      else if list_ex (in_domain host) (ff_dnsRoutes m) then True
      else if prefix TAILSCALE_IPV6_PREFIX (js_lower host) then True
      else if (case ipToNum host of Some n \<Rightarrow> n AND CGNAT_MASK = CGNAT_NETWORK | None \<Rightarrow> False) then True
      else if ff_magicDNSSuffix m \<noteq> [] \<and> in_domain host (ff_magicDNSSuffix m) then True
      else if (case ipToNum host of
                 Some n \<Rightarrow> list_ex (in_range n)
                   (if ff_credentials m \<noteq> None then ff_subnetRanges m else ff_blockedSubnetRanges m)
               | None \<Rightarrow> False) then True
      else matchesIPv6Subnet host (ff_ipv6Subnets m))"

definition ff_route_host :: "FirefoxProxyManager \<Rightarrow> string \<Rightarrow> FirefoxProxyInfo" where
  "ff_route_host m host =
     (if ff_tailnet_host m host then ff_proxy m
      else if ff_exitNodeActive m
      then (if ff_splitMode m = Only
            then (if matchSplitDomain (ff_splitDomains m) host then ff_proxy m else FDirect)
            else if ff_splitDomains m \<noteq> [] \<and> matchSplitDomain (ff_splitDomains m) host then FDirect
            else ff_proxy m)
      else FDirect)"

definition resolveProxy :: "url_parser \<Rightarrow> FirefoxProxyManager \<Rightarrow> string \<Rightarrow> FirefoxProxyInfo" where
  "resolveProxy parse_url m url =
     (if ff_mode m = PDirect then FDirect
      else (case parse_url url of
              None \<Rightarrow> FDirect
            | Some u \<Rightarrow> ff_route_host m (request_host (url_hostname u))))"

end
