(* ===== verification/Chrome_Proxy_Auth.thy ===== *)
theory Chrome_Proxy_Auth
  imports Proxy_Session
begin

text \<open>
  Chrome's proxy authentication (\<open>packages/extension/src/background/chrome-proxy-auth.ts\<close>): the
  credential holder, the probe request that fills Chrome's authentication cache and the
  \<open>onAuthRequired\<close> listener. An \<open>AbortController\<close> is its number; the awaited fetch of \<open>prepare\<close> splits
  the call into \<open>prepare\<close>, up to the request, and \<open>prepare_done\<close>, from its outcome.
\<close>

definition PROXY_AUTH_PROBE_HOST :: string where
  "PROXY_AUTH_PROBE_HOST = ''tailchrome-proxy-auth.invalid''"

record ChromeProxyAuth =
  ca_session :: ProxySession
  ca_attemptedRequests :: "string list"
  ca_readyPort :: "int option"
  ca_probe :: "nat option"
  ca_controllers :: nat

definition auth_init :: ChromeProxyAuth where
  "auth_init = \<lparr>ca_session = None, ca_attemptedRequests = [], ca_readyPort = None, ca_probe = None,
     ca_controllers = 0\<rparr>"

definition hasSession :: "ChromeProxyAuth \<Rightarrow> int \<Rightarrow> bool" where
  "hasSession a port = (credentialsFor (ca_session a) port \<noteq> None)"

definition auth_set :: "ProxySessionCredentials option \<Rightarrow> ChromeProxyAuth \<Rightarrow> bool \<times> ChromeProxyAuth" where
  "auth_set session a =
     (let previous = (case session of Some c \<Rightarrow> credentialsFor (ca_session a) (cred_port c) | None \<Rightarrow> None)
      in case (session, previous) of
           (Some c, Some (u, p)) \<Rightarrow>
             if u = cred_username c \<and> p = cred_password c then (False, a)
             else (True, a\<lparr>ca_probe := None, ca_readyPort := None,
                           ca_session := set_session session (ca_session a), ca_attemptedRequests := []\<rparr>)
         | _ \<Rightarrow> (True, a\<lparr>ca_probe := None, ca_readyPort := None,
                         ca_session := set_session session (ca_session a), ca_attemptedRequests := []\<rparr>))"

definition isReadyFor :: "ChromeProxyAuth \<Rightarrow> int \<Rightarrow> bool" where
  "isReadyFor a port \<longleftrightarrow> ca_readyPort a = Some port \<and> hasSession a port"

datatype Prepare = Rejected | Resolved | Fetching nat

definition prepare :: "int \<Rightarrow> ChromeProxyAuth \<Rightarrow> Prepare \<times> ChromeProxyAuth" where
  "prepare port a =
     (if \<not> hasSession a port then (Rejected, a)
      else if isReadyFor a port then (Resolved, a)
      else (let controller = ca_controllers a
            in (Fetching controller, a\<lparr>ca_probe := Some controller, ca_controllers := Suc controller\<rparr>)))"

text \<open>
  The awaited fetch settles: \<^const>\<open>None\<close> is a rejection (network error, abort or the five-second
  timeout), \<open>Some status\<close> a response; \<open>aborted\<close> is the controller's signal at that moment.
\<close>

definition prepare_done :: "int \<Rightarrow> nat \<Rightarrow> nat option \<Rightarrow> bool \<Rightarrow> ChromeProxyAuth \<Rightarrow> bool \<times> ChromeProxyAuth" where
  "prepare_done port controller response aborted a =
     (let ok = (case response of
                  None \<Rightarrow> False
                | Some status \<Rightarrow> \<not> (status = 407 \<or> aborted \<or> ca_probe a \<noteq> Some controller));
          a1 = (if ok then a\<lparr>ca_readyPort := Some port\<rparr> else a)
      in (ok, if ca_probe a1 = Some controller then a1\<lparr>ca_probe := None\<rparr> else a1))"

record AuthDetails =
  ad_isProxy :: bool
  ad_host :: string
  ad_port :: int
  ad_requestId :: string

datatype AuthResponse = NoAuth | CancelRequest | AuthCredentials string string

definition remember_request :: "string \<Rightarrow> string list \<Rightarrow> string list" where
  "remember_request rid reqs = (if length reqs \<ge> 1024 then tl reqs else reqs) @ [rid]"

definition auth_listener :: "AuthDetails \<Rightarrow> ChromeProxyAuth \<Rightarrow> AuthResponse \<times> ChromeProxyAuth" where
  "auth_listener d a =
     (if \<not> ad_isProxy d \<or> ad_host d \<noteq> ''127.0.0.1'' then (NoAuth, a)
      else (case credentialsFor (ca_session a) (ad_port d) of
              None \<Rightarrow> (NoAuth, a)
            | Some (u, p) \<Rightarrow>
                if ad_requestId d \<in> set (ca_attemptedRequests a) then (CancelRequest, a)
                else (AuthCredentials u p,
                      a\<lparr>ca_attemptedRequests := remember_request (ad_requestId d) (ca_attemptedRequests a)\<rparr>)))"

section \<open>Lemmas\<close>

text \<open>The remembered requests are distinct and bounded; readiness belongs to the current session.\<close>

definition auth_inv :: "ChromeProxyAuth \<Rightarrow> bool" where
  "auth_inv a \<longleftrightarrow>
     distinct (ca_attemptedRequests a) \<and> length (ca_attemptedRequests a) \<le> 1024 \<and>
     (\<forall>n. ca_probe a = Some n \<longrightarrow> n < ca_controllers a)"

lemma auth_init_inv: "auth_inv auth_init"
  by (simp add: auth_inv_def auth_init_def)

lemma auth_set_cases:
  obtains (same) "auth_set session a = (False, a)" "session = ca_session a" "session \<noteq> None"
  | (changed) "auth_set session a = (True, a\<lparr>ca_probe := None, ca_readyPort := None,
      ca_session := session, ca_attemptedRequests := []\<rparr>)"
proof (cases session)
  case None
  then show ?thesis by (intro changed) (simp add: auth_set_def set_session_def)
next
  case (Some c)
  show ?thesis
  proof (cases "credentialsFor (ca_session a) (cred_port c) = Some (cred_username c, cred_password c)")
    case True
    then have "ca_session a = Some c" by (simp add: credentialsFor_Some_iff)
    with Some True show ?thesis by (intro same) (simp_all add: auth_set_def)
  next
    case False
    with Some show ?thesis
      by (intro changed) (auto simp: auth_set_def set_session_def split: option.split)
  qed
qed

lemma remember_request_inv:
  assumes "distinct reqs" and "length reqs \<le> 1024" and "rid \<notin> set reqs"
  shows "distinct (remember_request rid reqs)" "length (remember_request rid reqs) \<le> 1024"
    "rid \<in> set (remember_request rid reqs)"
  using assms by (auto simp: remember_request_def distinct_tl dest: list.set_sel(2) [rotated])

lemma auth_ops_inv:
  assumes "auth_inv a"
  shows "auth_inv (snd (auth_set session a))" "auth_inv (snd (prepare port a))"
    "auth_inv (snd (prepare_done port n r b a))" "auth_inv (snd (auth_listener d a))"
proof -
  show "auth_inv (snd (auth_set session a))"
    by (cases rule: auth_set_cases [of session a]) (use assms in \<open>auto simp: auth_inv_def\<close>)
  show "auth_inv (snd (prepare port a))" "auth_inv (snd (prepare_done port n r b a))"
    using assms by (auto simp: auth_inv_def prepare_def prepare_done_def Let_def)
  show "auth_inv (snd (auth_listener d a))"
    using assms remember_request_inv [of "ca_attemptedRequests a" "ad_requestId d"]
    by (auto simp: auth_inv_def auth_listener_def split: option.split)
qed

lemma auth_listener_credentials:
  assumes "fst (auth_listener d a) = AuthCredentials u p"
  shows "ad_isProxy d" "ad_host d = ''127.0.0.1''"
    "ca_session a = Some \<lparr>cred_port = ad_port d, cred_username = u, cred_password = p\<rparr>"
    "ad_requestId d \<notin> set (ca_attemptedRequests a)"
    "ad_requestId d \<in> set (ca_attemptedRequests (snd (auth_listener d a)))"
  using assms
  by (auto simp: auth_listener_def credentialsFor_Some_iff remember_request_def split: if_splits option.splits)

lemma auth_listener_session [simp]: "ca_session (snd (auth_listener d a)) = ca_session a"
  by (auto simp: auth_listener_def split: option.split)

text \<open>Challenges one after another, and how often a request was given the credential.\<close>

fun auth_run :: "AuthDetails list \<Rightarrow> ChromeProxyAuth \<Rightarrow> (string \<times> AuthResponse) list \<times> ChromeProxyAuth" where
  "auth_run [] a = ([], a)"
| "auth_run (d # ds) a =
     (let (r, a1) = auth_listener d a; (rs, a2) = auth_run ds a1 in ((ad_requestId d, r) # rs, a2))"

definition answered :: "string \<Rightarrow> string \<times> AuthResponse \<Rightarrow> bool" where
  "answered rid x = (fst x = rid \<and> (case snd x of AuthCredentials _ _ \<Rightarrow> True | _ \<Rightarrow> False))"

lemma auth_listener_grows:
  assumes "length (ca_attemptedRequests a) < 1024"
  shows "set (ca_attemptedRequests a) \<subseteq> set (ca_attemptedRequests (snd (auth_listener d a)))"
    "length (ca_attemptedRequests (snd (auth_listener d a))) \<le> Suc (length (ca_attemptedRequests a))"
  using assms by (auto simp: auth_listener_def remember_request_def split: option.split)

lemma auth_run_no_repeat:
  assumes "length ds + length (ca_attemptedRequests a) \<le> 1024" and "rid \<in> set (ca_attemptedRequests a)"
  shows "filter (answered rid) (fst (auth_run ds a)) = []"
  using assms
proof (induction ds arbitrary: a)
  case (Cons d ds)
  have "\<not> answered rid (ad_requestId d, fst (auth_listener d a))"
    using Cons.prems(2) auth_listener_credentials(4) [of d a]
    by (auto simp: answered_def split: AuthResponse.splits)
  moreover have "filter (answered rid) (fst (auth_run ds (snd (auth_listener d a)))) = []"
    using Cons.prems auth_listener_grows [of a d] by (intro Cons.IH) auto
  ultimately show ?case by (simp add: case_prod_beta)
qed simp



lemma prepare_done_ready:
  assumes "fst (prepare_done port n r b a)"
  shows "ca_readyPort (snd (prepare_done port n r b a)) = Some port" "ca_probe a = Some n"
    "\<exists>status. r = Some status \<and> status \<noteq> 407"
  using assms by (auto simp: prepare_done_def Let_def split: option.splits)

end
