(* ===== verification/Chrome_Pac.thy ===== *)
theory Chrome_Pac
  imports Firefox_Proxy_Manager Chrome_Proxy_Auth
begin

unbundle bit_operations_syntax

text \<open>
  The PAC script of the Chrome proxy manager (\<open>generatePACScript\<close> in
  \<open>packages/extension/src/background/chrome-proxy-manager.ts\<close>). The generator fills a fixed template;
  \<open>PacScript\<close> holds what it puts into the holes, \<open>pac_text\<close> is the text and \<open>pac_eval\<close> what
  \<open>FindProxyForURL\<close> in that text returns for a host. \<open>createIPv6Tools.toString()\<close>, the source text of
  a compiled function, is the parameter \<open>tools_source\<close>.
\<close>

datatype PacCatchAll = CatchDirect | CatchOnly "string list" | CatchBypass "string list" | CatchProxy

record PacScript =
  pac_port :: int
  pac_probePort :: "int option"
  pac_suffix :: string
  pac_names :: "string list"
  pac_domains :: "string list"
  pac_subnets :: "(string \<times> string) list"
  pac_ipv6 :: "IPv6Subnet list"
  pac_catchAll :: PacCatchAll

definition generatePACScript ::
  "int \<Rightarrow> string \<Rightarrow> bool \<Rightarrow> string list \<Rightarrow> DomainSplitMode \<Rightarrow> string list \<Rightarrow> string list \<Rightarrow> string list \<Rightarrow> int option \<Rightarrow> PacScript" where
  "generatePACScript port magicDNSSuffix exitNodeActive subnets splitMode splitDomains shortNames dnsRoutes probePort =
     \<lparr>pac_port = port,
      pac_probePort = (if probePort = Some 0 then None else probePort),
      pac_suffix = js_lower (sanitizeMagicDNSSuffix (Some magicDNSSuffix)),
      pac_names = filter (\<lambda>n. CHR ''.'' \<notin> set n) (sanitizeDNSRoutes (js_strings shortNames)),
      pac_domains = sanitizeDNSRoutes (js_strings dnsRoutes),
      pac_subnets = List.map_filter parseCIDR_string subnets,
      pac_ipv6 = List.map_filter parseIPv6CIDR subnets,
      pac_catchAll =
        (if \<not> exitNodeActive then CatchDirect
         else if splitMode = Only then CatchOnly splitDomains
         else if splitDomains \<noteq> [] then CatchBypass splitDomains
         else CatchProxy)\<rparr>"

section \<open>The text\<close>

definition quoted :: "string \<Rightarrow> string" where
  "quoted s = dquote # s @ [dquote]"

definition proxy_directive :: "int \<Rightarrow> string" where
  "proxy_directive port = ''PROXY 127.0.0.1:'' @ int_to_string port"

definition domain_check :: "string \<Rightarrow> string" where
  "domain_check d = ''(host === '' @ quoted d @ '' || dnsDomainIs(host, '' @ quoted (CHR ''.'' # d) @ ''))''"

definition domain_checks :: "string list \<Rightarrow> string" where
  "domain_checks ds = (if ds = [] then ''false'' else js_join '' || '' (map domain_check ds))"

definition subnet_check :: "string \<Rightarrow> string \<times> string \<Rightarrow> string" where
  "subnet_check proxy nm =
     ''    if (isIPv4 && isInNet(host, '' @ quoted (fst nm) @ '', '' @ quoted (snd nm) @ '')) return ''
       @ quoted proxy @ '';''"

definition catch_all_text :: "PacCatchAll \<Rightarrow> string" where
  "catch_all_text c = (case c of
     CatchDirect \<Rightarrow> ''  return '' @ quoted ''DIRECT'' @ '';''
   | CatchOnly ds \<Rightarrow> ''  if ('' @ domain_checks ds @ '') return proxy;'' @ [newline] @ ''  return '' @ quoted ''DIRECT'' @ '';''
   | CatchBypass ds \<Rightarrow> ''  if ('' @ domain_checks ds @ '') return '' @ quoted ''DIRECT'' @ '';'' @ [newline] @ ''  return proxy;''
   | CatchProxy \<Rightarrow> ''  return proxy;'')"

definition subnet_json :: "IPv6Subnet \<Rightarrow> string" where
  "subnet_json s =
     ''{'' @ quoted ''network'' @ '':['' @ js_join '','' (map nat_to_string (network s)) @ ''],''
       @ quoted ''prefixLength'' @ '':'' @ nat_to_string (prefixLength s) @ ''}''"

definition ipv6SubnetPACSource :: "string \<Rightarrow> IPv6Subnet list \<Rightarrow> string" where
  "ipv6SubnetPACSource tools_source subnets =
     ''var tailchromeIPv6 = ('' @ tools_source @ '')();'' @ [newline]
       @ ''var tailchromeIPv6Subnets = ['' @ js_join '','' (map subnet_json subnets) @ ''];''"

definition dns_checks :: "PacScript \<Rightarrow> string" where
  "dns_checks p = js_join '' || ''
     (map (\<lambda>n. ''host === '' @ quoted n) (pac_names p) @ map domain_check (pac_domains p))"

definition pac_lines :: "PacScript \<Rightarrow> string list" where
  "pac_lines p =
     [''function FindProxyForURL(url, host) {'',
      (case pac_probePort p of
         Some q \<Rightarrow> ''  if (host === '' @ quoted PROXY_AUTH_PROBE_HOST @ '') return '' @ quoted (proxy_directive q) @ '';''
       | None \<Rightarrow> []),
      ''  host = host.toLowerCase().replace(/'' @ [backslash] @ ''.$/, '' @ quoted [] @ '');'',
      ''  if (host.charAt(0) === '' @ quoted ''['' @ '' && host.charAt(host.length - 1) === '' @ quoted '']''
        @ '') host = host.slice(1, -1);'',
      ''  var proxy = '' @ quoted (proxy_directive (pac_port p)) @ '';'',
      ''  var isIPv4 = /^'' @ [backslash] @ ''d{1,3}(?:'' @ [backslash] @ ''.'' @ [backslash] @ ''d{1,3}){3}$/.test(host);'',
      [],
      ''  if (host === '' @ quoted TAILSCALE_SERVICE_IP @ '') return proxy;'',
      (if pac_suffix p \<noteq> []
       then ''  if (dnsDomainIs(host, '' @ quoted (CHR ''.'' # pac_suffix p) @ '') || host === '' @ quoted (pac_suffix p) @ '') return proxy;''
       else ''  // No MagicDNS suffix configured''),
      (if dns_checks p \<noteq> [] then ''  if ('' @ dns_checks p @ '') return proxy;'' else ''  // No additional DNS routes''),
      ''  if (host.toLowerCase().indexOf('' @ quoted TAILSCALE_IPV6_PREFIX @ '') === 0) return proxy;'',
      ''  if (isIPv4 && isInNet(host, '' @ quoted ''100.64.0.0'' @ '', '' @ quoted ''255.192.0.0'' @ '')) return proxy;'',
      [],
      (if pac_subnets p \<noteq> []
       then js_join [newline] (map (subnet_check (proxy_directive (pac_port p))) (pac_subnets p))
       else ''  // No subnet routes''),
      (if pac_ipv6 p \<noteq> [] then ''  if (tailchromeIPv6.matches(host, tailchromeIPv6Subnets)) return proxy;'' else []),
      [],
      catch_all_text (pac_catchAll p),
      ''}'']"

definition pac_text :: "string \<Rightarrow> PacScript \<Rightarrow> string" where
  "pac_text tools_source p =
     (if pac_ipv6 p \<noteq> [] then ipv6SubnetPACSource tools_source (pac_ipv6 p) @ [newline] else [])
       @ js_join [newline] (pac_lines p)"

section \<open>What the script returns\<close>

datatype PacResult = PacDirect | PacProxy int

text \<open>The PAC built-ins \<open>dnsDomainIs\<close> and \<open>isInNet\<close>; the script calls the latter on dotted quads only.\<close>

definition dnsDomainIs :: "string \<Rightarrow> string \<Rightarrow> bool" where
  "dnsDomainIs host domain = suffix domain host"

definition isInNet :: "string \<Rightarrow> string \<Rightarrow> string \<Rightarrow> bool" where
  "isInNet host pat m =
     (case (ipToNum host, ipToNum pat, ipToNum m) of
        (Some h, Some p, Some w) \<Rightarrow> h AND w = p AND w
      | _ \<Rightarrow> False)"

definition pac_domain :: "string \<Rightarrow> string \<Rightarrow> bool" where
  "pac_domain host d \<longleftrightarrow> host = d \<or> dnsDomainIs host (CHR ''.'' # d)"

definition pac_tailnet_host :: "PacScript \<Rightarrow> string \<Rightarrow> bool" where
  "pac_tailnet_host p host =
     (let isIPv4 = dotted_quad host in
      if host = TAILSCALE_SERVICE_IP then True
      else if pac_suffix p \<noteq> [] \<and> (dnsDomainIs host (CHR ''.'' # pac_suffix p) \<or> host = pac_suffix p) then True
      else if host \<in> set (pac_names p) \<or> list_ex (pac_domain host) (pac_domains p) then True
      else if prefix TAILSCALE_IPV6_PREFIX (js_lower host) then True
      else if isIPv4 \<and> isInNet host ''100.64.0.0'' ''255.192.0.0'' then True
      else if list_ex (\<lambda>(n, m). isIPv4 \<and> isInNet host n m) (pac_subnets p) then True
      else pac_ipv6 p \<noteq> [] \<and> matchesIPv6Subnet host (pac_ipv6 p))"

definition pac_catch :: "PacCatchAll \<Rightarrow> string \<Rightarrow> bool" where
  "pac_catch c host = (case c of
     CatchDirect \<Rightarrow> False
   | CatchOnly ds \<Rightarrow> list_ex (pac_domain host) ds
   | CatchBypass ds \<Rightarrow> \<not> list_ex (pac_domain host) ds
   | CatchProxy \<Rightarrow> True)"

definition pac_eval :: "PacScript \<Rightarrow> string \<Rightarrow> PacResult" where
  "pac_eval p host0 =
     (if pac_probePort p \<noteq> None \<and> host0 = PROXY_AUTH_PROBE_HOST then PacProxy (the (pac_probePort p))
      else (let host = request_host host0 in
            if pac_tailnet_host p host then PacProxy (pac_port p)
            else if pac_catch (pac_catchAll p) host then PacProxy (pac_port p)
            else PacDirect))"

end
