(* ===== verification/Chrome_Proxy_Manager.thy ===== *)
theory Chrome_Proxy_Manager
  imports Chrome_Pac
begin

text \<open>
  The Chrome proxy manager (\<open>packages/extension/src/background/chrome-proxy-manager.ts\<close>). Chrome's
  settings API answers through callbacks, so a \<open>flush\<close> is a little state machine: \<open>cp_flight\<close> is where it
  is, and every callback is an operation of its own. \<open>inFlight\<close> is \<open>cp_flight m \<noteq> Idle\<close>. The keys, JSON
  texts of a configuration in the source, are the script texts; the configurations keep the script
  whose text they hold. Reports to the health listener are logged, oldest first, and the calls of the
  settings API likewise; what the listener does in turn is a later operation.
\<close>

datatype ConfigKey = NoKey | ClearKey | ScriptKey string

text \<open>\<open>chrome.proxy.ProxyConfig\<close> as the browser reports it, and the level of control.\<close>

record ProxyConfig =
  pc_mode :: string
  pc_data :: "string option"
  pc_mandatory :: "bool option"

datatype LevelOfControl = NotControllable | OtherExtensions | Controllable | ThisExtension

record FlightContext =
  fl_key :: ConfigKey
  fl_sessionEpoch :: nat
  fl_port :: int
  fl_warming :: bool
  fl_value :: "PacScript option"

datatype Flight =
    Idle
  | Checking FlightContext
  | Writing FlightContext
  | Verifying FlightContext nat
  | Probing FlightContext Prepare

datatype SettingsCall = SettingsSet PacScript | SettingsClear

record ChromeProxyManager =
  cp_auth :: ChromeProxyAuth
  cp_desired :: "PacScript option"
  cp_authPending :: "PacScript option"
  cp_desiredKey :: ConfigKey
  cp_appliedKey :: ConfigKey
  cp_flight :: Flight
  cp_authRoutingPending :: bool
  cp_errorKey :: ConfigKey
  cp_changeEpoch :: nat
  cp_hasHealthListener :: bool
  cp_desiredHealth :: RoutingHealth
  cp_activePort :: int
  cp_sessionEpoch :: nat
  cp_reports :: "RoutingHealth list"
  cp_calls :: "SettingsCall list"

abbreviation inactive_health :: RoutingHealth where
  "inactive_health \<equiv> \<lparr>rh_status = RInactive, rh_message = []\<rparr>"

definition chrome_init :: ChromeProxyManager where
  "chrome_init =
     \<lparr>cp_auth = auth_init, cp_desired = None, cp_authPending = None, cp_desiredKey = NoKey,
      cp_appliedKey = NoKey, cp_flight = Idle, cp_authRoutingPending = False, cp_errorKey = NoKey,
      cp_changeEpoch = 0, cp_hasHealthListener = False, cp_desiredHealth = inactive_health,
      cp_activePort = 0, cp_sessionEpoch = 0, cp_reports = [], cp_calls = []\<rparr>"

definition report :: "RoutingHealth \<Rightarrow> ChromeProxyManager \<Rightarrow> ChromeProxyManager" where
  "report h m = (if cp_hasHealthListener m then m\<lparr>cp_reports := cp_reports m @ [h]\<rparr> else m)"

definition cp_setRoutingHealthListener :: "ChromeProxyManager \<Rightarrow> ChromeProxyManager" where
  "cp_setRoutingHealthListener m = m\<lparr>cp_hasHealthListener := True\<rparr>"

definition cp_setProxySession :: "ProxySessionCredentials option \<Rightarrow> ChromeProxyManager \<Rightarrow> ChromeProxyManager" where
  "cp_setProxySession session m =
     (let (changed, auth) = auth_set session (cp_auth m); m1 = m\<lparr>cp_auth := auth\<rparr>
      in if changed
         then m1\<lparr>cp_sessionEpoch := Suc (cp_sessionEpoch m), cp_appliedKey := NoKey, cp_errorKey := NoKey\<rparr>
         else m1)"

text \<open>\<open>sameProxyConfig(actual, value)\<close> for a \<open>value\<close> built by \<open>config\<close>, which is mandatory.\<close>

definition sameProxyConfig :: "string \<Rightarrow> ProxyConfig \<Rightarrow> PacScript \<Rightarrow> bool" where
  "sameProxyConfig tools actual expected \<longleftrightarrow>
     pc_mode actual = ''pac_script'' \<and> pc_data actual = Some (pac_text tools expected) \<and>
     (pc_mandatory actual = Some True) = True"

definition CONTROLLED_ELSEWHERE :: string where
  "CONTROLLED_ELSEWHERE = ''Browser routing is controlled by another extension or a browser policy.''"

definition flush :: "ChromeProxyManager \<Rightarrow> ChromeProxyManager" where
  "flush m =
     (if cp_desiredKey m = NoKey \<or> cp_flight m \<noteq> Idle \<or> cp_errorKey m = cp_desiredKey m then m
      else if cp_appliedKey m = cp_desiredKey m then report (cp_desiredHealth m) m
      else (let warming = (rh_status (cp_desiredHealth m) = RActive \<and> \<not> isReadyFor (cp_auth m) (cp_activePort m));
                ctx = \<lparr>fl_key = cp_desiredKey m, fl_sessionEpoch = cp_sessionEpoch m,
                       fl_port = cp_activePort m, fl_warming = warming,
                       fl_value = (if warming then cp_authPending m else cp_desired m)\<rparr>
            in m\<lparr>cp_flight := Checking ctx, cp_authRoutingPending := (warming \<or> cp_authRoutingPending m)\<rparr>))"

definition flight_fail :: "FlightContext \<Rightarrow> string \<Rightarrow> bool \<Rightarrow> ChromeProxyManager \<Rightarrow> ChromeProxyManager" where
  "flight_fail ctx message conflicted m =
     (let m1 = report \<lparr>rh_status = (if conflicted then RConflicted else RUnavailable), rh_message = message\<rparr>
                 (m\<lparr>cp_appliedKey := NoKey\<rparr>);
          m2 = m1\<lparr>cp_flight := Idle\<rparr>
      in if fl_key ctx \<noteq> cp_desiredKey m2 then flush m2 else m2)"

text \<open>The callback of the first \<open>settings.get\<close>.\<close>

definition on_current :: "bool \<Rightarrow> LevelOfControl \<Rightarrow> ChromeProxyManager \<Rightarrow> ChromeProxyManager" where
  "on_current lastError level m =
     (case cp_flight m of
        Checking ctx \<Rightarrow>
          if fl_key ctx \<noteq> cp_desiredKey m then flush (m\<lparr>cp_flight := Idle\<rparr>)
          else if lastError then flight_fail ctx ''Could not check browser routing.'' False m
          else if fl_value ctx \<noteq> None \<and> (level = NotControllable \<or> level = OtherExtensions)
          then flight_fail ctx CONTROLLED_ELSEWHERE True m
          else m\<lparr>cp_flight := Writing ctx,
                 cp_calls := cp_calls m @ [case fl_value ctx of Some v \<Rightarrow> SettingsSet v | None \<Rightarrow> SettingsClear]\<rparr>
      | _ \<Rightarrow> m)"

text \<open>The callback of \<open>settings.set\<close> or \<open>settings.clear\<close>.\<close>

definition on_written :: "bool \<Rightarrow> ChromeProxyManager \<Rightarrow> ChromeProxyManager" where
  "on_written lastError m =
     (case cp_flight m of
        Writing ctx \<Rightarrow>
          if lastError then flight_fail ctx ''The browser rejected the routing settings.'' False m
          else m\<lparr>cp_flight := Verifying ctx (cp_changeEpoch m)\<rparr>
      | _ \<Rightarrow> m)"

text \<open>The callback of the \<open>settings.get\<close> that verifies the write.\<close>

definition on_effective :: "string \<Rightarrow> bool \<Rightarrow> LevelOfControl \<Rightarrow> ProxyConfig \<Rightarrow> ChromeProxyManager \<Rightarrow> ChromeProxyManager" where
  "on_effective tools lastError level actual m =
     (case cp_flight m of
        Verifying ctx epoch \<Rightarrow>
          if epoch \<noteq> cp_changeEpoch m then m\<lparr>cp_flight := Verifying ctx (cp_changeEpoch m)\<rparr>
          else if lastError then flight_fail ctx ''Could not verify browser routing.'' False m
          else if (case fl_value ctx of
                     Some v \<Rightarrow> level \<noteq> ThisExtension \<or> \<not> sameProxyConfig tools actual v
                   | None \<Rightarrow> False)
          then flight_fail ctx CONTROLLED_ELSEWHERE True m
          else if fl_warming ctx
          then (let m1 = (if fl_key ctx = cp_desiredKey m
                          then report \<lparr>rh_status = RBlocked,
                                 rh_message = ''Preparing helper authentication '' @ em_dash @ '' protected browsing is blocked.''\<rparr> m
                          else m);
                    (p, auth) = prepare (fl_port ctx) (cp_auth m1)
                in m1\<lparr>cp_auth := auth, cp_flight := Probing ctx p\<rparr>)
          else (let m1 = m\<lparr>cp_authRoutingPending := False, cp_appliedKey := fl_key ctx\<rparr>;
                    m2 = (if fl_key ctx = cp_desiredKey m1 then report (cp_desiredHealth m1) m1 else m1);
                    m3 = m2\<lparr>cp_flight := Idle\<rparr>
                in if fl_key ctx \<noteq> cp_desiredKey m3 then flush m3 else m3)
      | _ \<Rightarrow> m)"

text \<open>The probe settles; \<open>response\<close> and \<open>aborted\<close> matter only when a request was made.\<close>

definition on_probe :: "nat option \<Rightarrow> bool \<Rightarrow> ChromeProxyManager \<Rightarrow> ChromeProxyManager" where
  "on_probe response aborted m =
     (case cp_flight m of
        Probing ctx p \<Rightarrow>
          (let (ok, auth) = (case p of
                 Rejected \<Rightarrow> (False, cp_auth m)
               | Resolved \<Rightarrow> (True, cp_auth m)
               | Fetching controller \<Rightarrow> prepare_done (fl_port ctx) controller response aborted (cp_auth m));
               m1 = m\<lparr>cp_auth := auth\<rparr>
           in if ok \<or> fl_key ctx \<noteq> cp_desiredKey m1 \<or> fl_sessionEpoch ctx \<noteq> cp_sessionEpoch m1
              then flush (m1\<lparr>cp_flight := Idle\<rparr>)
              else flight_fail ctx (''Helper authentication failed '' @ em_dash @ '' protected browsing is blocked.'')
                     False (m1\<lparr>cp_errorKey := fl_key ctx\<rparr>))
      | _ \<Rightarrow> m)"

text \<open>The listeners registered by the constructor.\<close>

definition on_change :: "string \<Rightarrow> LevelOfControl \<Rightarrow> ProxyConfig \<Rightarrow> ChromeProxyManager \<Rightarrow> ChromeProxyManager" where
  "on_change tools level actual m0 =
     (let m = m0\<lparr>cp_changeEpoch := Suc (cp_changeEpoch m0)\<rparr> in
      if cp_flight m \<noteq> Idle then m
      else (case cp_desired m of
              None \<Rightarrow> m
            | Some d \<Rightarrow>
                if level = OtherExtensions \<or> level = NotControllable
                then report \<lparr>rh_status = RConflicted, rh_message = CONTROLLED_ELSEWHERE\<rparr> (m\<lparr>cp_appliedKey := NoKey\<rparr>)
                else if \<not> sameProxyConfig tools actual d then flush (m\<lparr>cp_appliedKey := NoKey\<rparr>)
                else flush m))"

definition on_proxy_error :: "bool \<Rightarrow> string \<Rightarrow> ChromeProxyManager \<Rightarrow> ChromeProxyManager" where
  "on_proxy_error fatal err m =
     (if cp_desired m = None then m
      else if cp_authRoutingPending m \<and> fatal \<and> err = ''net::ERR_PROXY_CONNECTION_FAILED'' then m
      else if fatal \<and> err = ''net::ERR_TUNNEL_CONNECTION_FAILED'' then m
      else report \<lparr>rh_status = (if fatal then RBlocked else RUnavailable),
                  rh_message = (if fatal then ''The proxy is unavailable '' @ em_dash @ '' protected browsing is blocked.''
                                else ''Browser routing failed. Traffic may use your normal connection.'')\<rparr>
             (m\<lparr>cp_errorKey := cp_desiredKey m, cp_appliedKey := NoKey\<rparr>))"

section \<open>Applying a state\<close>

text \<open>The closure \<open>config\<close> of \<open>apply\<close>.\<close>

definition pac_config :: "RoutingPolicy \<Rightarrow> int \<Rightarrow> int option \<Rightarrow> PacScript" where
  "pac_config policy proxyPort probePort =
     generatePACScript proxyPort (rp_magicDNSSuffix policy)
       (rp_blockAll policy \<or> rp_selectedExitNodeID policy \<noteq> None)
       (if proxyPort = BLOCKED_PROXY_PORT then rp_subnetCIDRs policy
        else filter isSupportedSubnetCIDR (rp_subnetCIDRs policy))
       (split_mode (rp_domainSplit policy)) (sanitizeSplitDomains (rp_domainSplit policy))
       (rp_shortNames policy) (rp_dnsRoutes policy) probePort"

definition cp_clear :: "ChromeProxyManager \<Rightarrow> ChromeProxyManager" where
  "cp_clear m =
     (let m1 = m\<lparr>cp_desired := None, cp_authPending := None\<rparr>;
          m2 = (if cp_desiredKey m1 \<noteq> ClearKey then m1\<lparr>cp_errorKey := NoKey\<rparr> else m1)
      in flush (m2\<lparr>cp_desiredKey := ClearKey, cp_desiredHealth := inactive_health\<rparr>))"

definition cp_auth_missing :: "ChromeProxyManager \<Rightarrow> RoutingPolicy \<Rightarrow> bool" where
  "cp_auth_missing m policy = (\<not> hasSession (cp_auth m) (js_default (rp_proxyPort policy) 0))"

definition cp_blocked :: "ChromeProxyManager \<Rightarrow> RoutingPolicy \<Rightarrow> bool" where
  "cp_blocked m policy \<longleftrightarrow> rp_mode policy = PBlocked \<or> cp_auth_missing m policy"

text \<open>
  \<open>policy.proxyPort!\<close> is only read when a session for \<open>policy.proxyPort ?? 0\<close> exists, and the port of a
  session is at least 1.
\<close>

definition cp_port :: "ChromeProxyManager \<Rightarrow> RoutingPolicy \<Rightarrow> int" where
  "cp_port m policy = (if cp_blocked m policy then BLOCKED_PROXY_PORT else js_default (rp_proxyPort policy) 0)"

definition cp_health :: "ChromeProxyManager \<Rightarrow> RoutingPolicy \<Rightarrow> RoutingHealth" where
  "cp_health m policy =
     (if cp_blocked m policy
      then \<lparr>rh_status = RBlocked,
            rh_message = (if cp_auth_missing m policy \<and> rp_mode policy = PActive then auth_unavailable_text
                          else if truthy (rp_selectedExitNodeID policy) \<noteq> None then exit_unavailable_text
                          else connection_unavailable_text)\<rparr>
      else \<lparr>rh_status = RActive, rh_message = []\<rparr>)"

definition cp_apply_policy :: "string \<Rightarrow> RoutingPolicy \<Rightarrow> ChromeProxyManager \<Rightarrow> ChromeProxyManager" where
  "cp_apply_policy tools policy m =
     (let blocked = cp_blocked m policy;
          port = cp_port m policy;
          desired = pac_config policy port None;
          nextKey = ScriptKey (pac_text tools desired);
          m1 = m\<lparr>cp_activePort := (if blocked then 0 else port),
                 cp_desiredHealth := cp_health m policy,
                 cp_desired := Some desired,
                 cp_authPending := (if blocked then None else Some (pac_config policy BLOCKED_PROXY_PORT (Some port)))\<rparr>;
          m2 = (if nextKey \<noteq> cp_desiredKey m1 then m1\<lparr>cp_errorKey := NoKey\<rparr> else m1)
      in flush (m2\<lparr>cp_desiredKey := nextKey\<rparr>))"

definition cp_apply :: "string \<Rightarrow> TailscaleState \<Rightarrow> ChromeProxyManager \<Rightarrow> ChromeProxyManager" where
  "cp_apply tools s m =
     (let policy = policyFromState s in
      if rp_mode policy = PDirect then cp_clear m else cp_apply_policy tools policy m)"

end
