(* ===== verification/Proxy_Routing.thy ===== *)
theory Proxy_Routing
  imports Chrome_Proxy_Manager
begin

unbundle bit_operations_syntax

text \<open>
  What the two browsers do with a request. Chrome evaluates the generated PAC script, Firefox asks the
  manager per request; both are shown to give every host the same route, and neither ever names a
  helper port without the session's credential for that port.
\<close>

section \<open>Samples\<close>

definition sample_policy :: RoutingPolicy where
  "sample_policy = emptyPolicy\<lparr>rp_mode := PActive, rp_proxyPort := Some 1055\<rparr>"

definition routed_sample :: TailscaleState where
  "routed_sample = DEFAULT_STATE\<lparr>ts_routingPolicy := Some sample_policy\<rparr>"

lemma routed_sample_policy [simp]: "policyFromState routed_sample = sample_policy"
  by (simp add: policyFromState_def routed_sample_def)

lemma sample_policy_fields [simp]:
  "rp_mode sample_policy = PActive" "rp_proxyPort sample_policy = Some 1055" "rp_blockAll sample_policy = False"
  "rp_selectedExitNodeID sample_policy = None"
  by (simp_all add: sample_policy_def emptyPolicy_def)

section \<open>The address tests of the two browsers\<close>

lemma parseCIDR_string_range:
  assumes "parseCIDR_string cidr = Some (n, m)"
  shows "\<exists>r. parseCIDR cidr = Some r \<and>
    (\<forall>host h. ipToNum host = Some h \<longrightarrow> isInNet host n m = in_range h r)"
  using assms
  by (auto simp: parseCIDR_string_def parseCIDR_def parse_cidr_parts_def isInNet_def in_range_def
      ipToNum_numToIP split: list.splits option.splits if_splits)

lemma parseCIDR_string_None: "parseCIDR_string cidr = None \<longleftrightarrow> parseCIDR cidr = None"
  by (simp add: parseCIDR_string_def parseCIDR_def)

lemma pac_subnets_ranges:
  "list_ex (\<lambda>(n, m). dotted_quad host \<and> isInNet host n m) (List.map_filter parseCIDR_string cidrs) \<longleftrightarrow>
   dotted_quad host \<and> (\<exists>h. ipToNum host = Some h \<and> list_ex (in_range h) (List.map_filter parseCIDR cidrs))"
proof (induction cidrs)
  case (Cons c cs)
  show ?case
  proof (cases "parseCIDR_string c")
    case None
    then show ?thesis using Cons parseCIDR_string_None [of c] by (simp add: List.map_filter_simps)
  next
    case (Some nm)
    obtain n m where nm: "nm = (n, m)" by (cases nm)
    with Some parseCIDR_string_range obtain r where r: "parseCIDR c = Some r"
      and eq: "\<And>host h. ipToNum host = Some h \<Longrightarrow> isInNet host n m = in_range h r" by blast
    have "isInNet host n m \<Longrightarrow> \<exists>h. ipToNum host = Some h"
      by (auto simp: isInNet_def split: option.splits)
    with Some nm r eq Cons show ?thesis by (auto simp: List.map_filter_simps)
  qed
qed (simp add: List.map_filter_simps)

lemma cgnat_isInNet:
  "isInNet host ''100.64.0.0'' ''255.192.0.0'' \<longleftrightarrow>
   (case ipToNum host of Some n \<Rightarrow> n AND CGNAT_MASK = CGNAT_NETWORK | None \<Rightarrow> False)"
proof -
  have "ipToNum ''100.64.0.0'' = Some CGNAT_NETWORK" "ipToNum ''255.192.0.0'' = Some CGNAT_MASK"
    by code_simp+
  moreover have "CGNAT_NETWORK AND CGNAT_MASK = CGNAT_NETWORK" by code_simp
  ultimately show ?thesis by (simp add: isInNet_def split: option.split)
qed

lemma unbracket_subset: "set (unbracket s) \<subseteq> set s"
  by (auto simp: unbracket_def dest!: in_set_butlastD list.set_sel(2) [rotated])

lemma parseIPv6CIDR_supported: "parseIPv6CIDR s \<noteq> None \<Longrightarrow> isSupportedSubnetCIDR s"
proof -
  assume some: "parseIPv6CIDR s \<noteq> None"
  then obtain addr len where split: "js_split (CHR ''/'') s = [addr, len]" and "parseIPv6Address addr \<noteq> None"
    by (auto simp: parseIPv6CIDR_def split: list.splits option.splits if_splits)
  then have "CHR '':'' \<in> set addr"
    using unbracket_subset [of addr] by (auto simp: parseIPv6Address_def Let_def split: if_splits)
  then have "CHR '':'' \<in> set s"
    using js_split_chars [of addr "CHR ''/''" s] split by auto
  with some show ?thesis by (simp add: isSupportedSubnetCIDR_def)
qed

lemma map_filter_parseIPv6_supported:
  "List.map_filter parseIPv6CIDR (filter isSupportedSubnetCIDR xs) = List.map_filter parseIPv6CIDR xs"
proof (induction xs)
  case (Cons x xs)
  show ?case
  proof (cases "parseIPv6CIDR x")
    case None
    with Cons show ?thesis by (simp add: List.map_filter_simps)
  next
    case (Some y)
    then have "isSupportedSubnetCIDR x" by (intro parseIPv6CIDR_supported) simp
    with Cons Some show ?thesis by (simp add: List.map_filter_simps)
  qed
qed (simp add: List.map_filter_simps)

lemma pac_domain_in_domain: "pac_domain = in_domain"
  by (auto simp: pac_domain_def in_domain_def dnsDomainIs_def fun_eq_iff)

section \<open>The two decisions\<close>

text \<open>A host is plain when it reads as an IPv4 address only if it is a dotted quad.\<close>

definition plain_host :: "string \<Rightarrow> bool" where
  "plain_host host \<longleftrightarrow> ipToNum host \<noteq> None \<longrightarrow> dotted_quad host"

lemma tailnet_host_agree:
  assumes "plain_host host"
    and "cidrs = (if ff_credentials m \<noteq> None then filter isSupportedSubnetCIDR (rp_subnetCIDRs policy) else rp_subnetCIDRs policy)"
    and "m = ff_tables policy m0"
    and "p = generatePACScript port (rp_magicDNSSuffix policy) ex cidrs mo ds (rp_shortNames policy) (rp_dnsRoutes policy) pr"
  shows "pac_tailnet_host p host = ff_tailnet_host m host"
proof -
  let ?ranges = "if ff_credentials m \<noteq> None then ff_subnetRanges m else ff_blockedSubnetRanges m"
  have scripts: "pac_subnets p = List.map_filter parseCIDR_string cidrs"
    by (simp add: assms(4) generatePACScript_def)
  have "ff_subnetRanges m = List.map_filter parseCIDR (filter isSupportedSubnetCIDR (rp_subnetCIDRs policy))"
    "ff_blockedSubnetRanges m = List.map_filter parseCIDR (rp_subnetCIDRs policy)"
    by (simp_all add: assms(3) ff_tables_def)
  then have ranges: "?ranges = List.map_filter parseCIDR cidrs" by (simp add: assms(2))
  have v4: "list_ex (\<lambda>(n, m). dotted_quad host \<and> isInNet host n m) (pac_subnets p) \<longleftrightarrow>
      (case ipToNum host of Some n \<Rightarrow> list_ex (in_range n) ?ranges | None \<Rightarrow> False)"
    using assms(1) unfolding scripts ranges pac_subnets_ranges
    by (auto simp: plain_host_def split: option.split)
  have cg: "dotted_quad host \<and> isInNet host ''100.64.0.0'' ''255.192.0.0'' \<longleftrightarrow>
      (case ipToNum host of Some n \<Rightarrow> n AND CGNAT_MASK = CGNAT_NETWORK | None \<Rightarrow> False)"
    using assms(1) by (auto simp: cgnat_isInNet plain_host_def split: option.splits)
  have v6: "pac_ipv6 p = ff_ipv6Subnets m"
    by (simp add: assms(2,4) generatePACScript_def map_filter_parseIPv6_supported) (simp add: assms(3) ff_tables_def)
  have names: "pac_suffix p = ff_magicDNSSuffix m" "pac_names p = ff_shortNames m" "pac_domains p = ff_dnsRoutes m"
    by (simp_all add: assms(3,4) generatePACScript_def ff_tables_def)
  have empty6: "matchesIPv6Subnet h [] = False" for h
    by (simp add: matchesIPv6Subnet_def split: option.split)
  show ?thesis
    unfolding pac_tailnet_host_def ff_tailnet_host_def Let_def v4 cg v6 names pac_domain_in_domain
    by (auto simp: in_domain_def dnsDomainIs_def empty6)
qed

definition route_of :: "FirefoxProxyInfo \<Rightarrow> PacResult" where
  "route_of r = (case r of FDirect \<Rightarrow> PacDirect | FSocks port c \<Rightarrow> PacProxy port)"

lemma ff_route_of:
  "route_of (ff_route_host m host) =
     (if ff_tailnet_host m host \<or>
         ff_exitNodeActive m \<and> (if ff_splitMode m = Only then matchSplitDomain (ff_splitDomains m) host
            else \<not> matchSplitDomain (ff_splitDomains m) host)
      then PacProxy (if ff_credentials m \<noteq> None then ff_proxyPort m else BLOCKED_PROXY_PORT)
      else PacDirect)"
  by (auto simp: route_of_def ff_route_host_def ff_proxy_def Let_def matchSplitDomain_def)

lemma pac_catch_generate:
  "pac_catch (pac_catchAll (generatePACScript port suf ex cidrs mo ds names routes pr)) host \<longleftrightarrow>
     ex \<and> (if mo = Only then matchSplitDomain ds host else \<not> matchSplitDomain ds host)"
  by (cases ds) (auto simp: generatePACScript_def pac_catch_def matchSplitDomain_def pac_domain_in_domain)

section \<open>Agreement of the two browsers\<close>

text \<open>An active policy names the helper's port, and that port is not the blocked one.\<close>

definition policy_port_ok :: "RoutingPolicy \<Rightarrow> bool" where
  "policy_port_ok policy \<longleftrightarrow>
     (rp_mode policy = PActive \<longrightarrow> rp_proxyPort policy \<noteq> None \<and> rp_proxyPort policy \<noteq> Some BLOCKED_PROXY_PORT)"

lemma flush_fields [simp]:
  "cp_desired (flush m) = cp_desired m" "cp_authPending (flush m) = cp_authPending m"
  "cp_auth (flush m) = cp_auth m" "cp_desiredKey (flush m) = cp_desiredKey m"
  "cp_desiredHealth (flush m) = cp_desiredHealth m" "cp_activePort (flush m) = cp_activePort m"
  "cp_appliedKey (flush m) = cp_appliedKey m" "cp_errorKey (flush m) = cp_errorKey m"
  "cp_calls (flush m) = cp_calls m"
  by (simp_all add: flush_def report_def Let_def)

lemma cp_apply_desired:
  "rp_mode (policyFromState s) \<noteq> PDirect \<Longrightarrow>
   cp_desired (cp_apply tools s c) = Some (pac_config (policyFromState s) (cp_port c (policyFromState s)) None)"
  by (simp add: cp_apply_def cp_apply_policy_def Let_def)

text \<open>The decision reads the tables, the mode and the session, nothing else.\<close>

lemma ff_route_cong:
  assumes "ff_session m = ff_session m'" "ff_mode m = ff_mode m'" "ff_proxyPort m = ff_proxyPort m'"
    "ff_magicDNSSuffix m = ff_magicDNSSuffix m'" "ff_exitNodeActive m = ff_exitNodeActive m'"
    "ff_subnetRanges m = ff_subnetRanges m'" "ff_blockedSubnetRanges m = ff_blockedSubnetRanges m'"
    "ff_ipv6Subnets m = ff_ipv6Subnets m'" "ff_splitMode m = ff_splitMode m'"
    "ff_splitDomains m = ff_splitDomains m'" "ff_shortNames m = ff_shortNames m'" "ff_dnsRoutes m = ff_dnsRoutes m'"
  shows "ff_route_host m = ff_route_host m'"
  unfolding fun_eq_iff ff_route_host_def ff_tailnet_host_def ff_proxy_def ff_credentials_def Let_def assms
  by (rule allI, rule refl)

lemma ff_report_fields [simp]:
  "ff_session (ff_report h m) = ff_session m" "ff_mode (ff_report h m) = ff_mode m"
  "ff_proxyPort (ff_report h m) = ff_proxyPort m" "ff_policyKey (ff_report h m) = ff_policyKey m"
  "ff_failedKey (ff_report h m) = ff_failedKey m"
  by (auto simp: ff_report_def)

lemma ff_route_host_report [simp]: "ff_route_host (ff_report h m) = ff_route_host m"
  by (rule ff_route_cong) (simp_all add: ff_report_def)

lemma ff_route_host_listening [simp]: "ff_route_host (m\<lparr>ff_listening := b\<rparr>) = ff_route_host m"
  by (rule ff_route_cong) simp_all

lemma ff_tables_keys:
  "ff_route_host (ff_tables p (m\<lparr>ff_failedKey := x\<rparr>)) = ff_route_host (ff_tables p m)"
  "ff_route_host (ff_tables p (m\<lparr>ff_policyKey := y\<rparr>)) = ff_route_host (ff_tables p m)"
  by (rule ff_route_cong; simp add: ff_tables_def)+

lemma ff_tables_mode [simp]: "ff_mode (ff_tables p m) = rp_mode p"
  by (simp add: ff_tables_def)

text \<open>The failure latch holds an apply back only when the very same policy failed before.\<close>

definition ff_latched :: "TailscaleState \<Rightarrow> FirefoxProxyManager \<Rightarrow> bool" where
  "ff_latched s m \<longleftrightarrow>
     ff_failedKey m = Some (ff_policy (ff_session m) (policyFromState s)) \<and> ff_policyKey m = ff_failedKey m"

lemma ff_apply_route:
  assumes "\<not> ff_latched s m"
  shows "ff_route_host (ff_apply b s m) = ff_route_host (ff_tables (ff_policy (ff_session m) (policyFromState s)) m)"
    and "ff_mode (ff_apply b s m) = rp_mode (ff_policy (ff_session m) (policyFromState s))"
proof -
  let ?p = "ff_policy (ff_session m) (policyFromState s)"
  let ?m1 = "if Some ?p \<noteq> ff_policyKey m then m\<lparr>ff_failedKey := None\<rparr> else m"
  have go: "ff_failedKey (?m1\<lparr>ff_policyKey := Some ?p\<rparr>) \<noteq> Some ?p"
    using assms by (auto simp: ff_latched_def)
  have tab: "ff_route_host (ff_tables ?p (?m1\<lparr>ff_policyKey := Some ?p\<rparr>)) = ff_route_host (ff_tables ?p m)"
    by (simp add: ff_tables_keys)
  show "ff_route_host (ff_apply b s m) = ff_route_host (ff_tables ?p m)" "ff_mode (ff_apply b s m) = rp_mode ?p"
    using go tab by (simp_all add: ff_apply_def Let_def)
qed

lemma pac_port_generate [simp]:
  "pac_port (generatePACScript port suf ex cidrs mo ds names routes pr) = port"
  "pac_probePort (generatePACScript port suf ex cidrs mo ds names routes None) = None"
  by (simp_all add: generatePACScript_def)

lemma ff_policy_fields [simp]:
  "rp_magicDNSSuffix (ff_policy se p) = rp_magicDNSSuffix p" "rp_subnetCIDRs (ff_policy se p) = rp_subnetCIDRs p"
  "rp_shortNames (ff_policy se p) = rp_shortNames p" "rp_dnsRoutes (ff_policy se p) = rp_dnsRoutes p"
  "rp_domainSplit (ff_policy se p) = rp_domainSplit p" "rp_blockAll (ff_policy se p) = rp_blockAll p"
  "rp_selectedExitNodeID (ff_policy se p) = rp_selectedExitNodeID p"
  by (simp_all add: ff_policy_def)

lemma blocked_credentials:
  assumes "policy_port_ok policy" and "rp_mode policy \<noteq> PDirect" and "ca_session (cp_auth c) = ff_session m"
  shows "ff_credentials (ff_tables (ff_policy (ff_session m) policy) m) \<noteq> None \<longleftrightarrow> \<not> cp_blocked c policy"
    and "\<not> cp_blocked c policy \<Longrightarrow> ff_proxyPort (ff_tables (ff_policy (ff_session m) policy) m) = cp_port c policy
      \<and> cp_port c policy \<noteq> BLOCKED_PROXY_PORT"
    and "cp_blocked c policy \<Longrightarrow> cp_port c policy = BLOCKED_PROXY_PORT"
  using assms
  by (auto simp: cp_blocked_def cp_port_def cp_auth_missing_def hasSession_def policy_port_ok_def
      ff_credentials_def ff_tables_def ff_policy_def ff_auth_missing_def js_default_def
      split: option.splits) (cases "rp_mode policy"; auto)+

lemma browsers_agree_policy:
  assumes "plain_host host" and "policy_port_ok policy" and "rp_mode policy \<noteq> PDirect"
    and "ca_session (cp_auth c) = ff_session m"
  defines "p \<equiv> pac_config policy (cp_port c policy) None"
    and "m' \<equiv> ff_tables (ff_policy (ff_session m) policy) m"
  shows "(if pac_tailnet_host p host \<or> pac_catch (pac_catchAll p) host then PacProxy (pac_port p) else PacDirect)
    = route_of (ff_route_host m' host)"
proof -
  note creds = blocked_credentials [OF assms(2-4)]
  have "pac_tailnet_host p host = ff_tailnet_host m' host"
    unfolding p_def m'_def pac_config_def
    by (rule tailnet_host_agree [OF assms(1) _ refl]) (use creds in auto)
  moreover have "pac_catch (pac_catchAll p) host \<longleftrightarrow>
      ff_exitNodeActive m' \<and> (if ff_splitMode m' = Only then matchSplitDomain (ff_splitDomains m') host
        else \<not> matchSplitDomain (ff_splitDomains m') host)"
    by (simp add: p_def pac_config_def pac_catch_generate m'_def) (simp add: ff_tables_def)
  moreover have "pac_port p = (if ff_credentials m' \<noteq> None then ff_proxyPort m' else BLOCKED_PROXY_PORT)"
    using creds by (auto simp: p_def pac_config_def m'_def)
  ultimately show ?thesis by (simp add: ff_route_of)
qed



section \<open>Failing closed\<close>

lemma ff_route_port:
  assumes "ff_route_host m host = FSocks port c"
  shows "port = BLOCKED_PROXY_PORT \<and> c = None \<or>
    (\<exists>u w. c = Some (u, w) \<and> ff_mode m = PActive \<and>
       ff_session m = Some \<lparr>cred_port = port, cred_username = u, cred_password = w\<rparr>)"
proof -
  have "ff_proxy m = FSocks port c"
    using assms by (auto simp: ff_route_host_def split: if_splits)
  then show ?thesis
    by (auto simp: ff_proxy_def ff_credentials_def credentialsFor_Some_iff Let_def split: if_splits)
qed

lemma ff_block_all:
  assumes "policyFromState s = blockAllPolicy" and "\<not> ff_latched s m"
  shows "ff_route_host (ff_apply b s m) host = FSocks BLOCKED_PROXY_PORT None"
    "ff_mode (ff_apply b s m) = PBlocked"
proof -
  let ?m = "ff_tables (ff_policy (ff_session m) blockAllPolicy) m"
  have pol: "ff_policy (ff_session m) blockAllPolicy = blockAllPolicy" by (simp add: ff_policy_def)
  have "ff_credentials ?m = None" "ff_exitNodeActive ?m" "ff_splitMode ?m = Bypass" "ff_splitDomains ?m = []"
    unfolding pol by (simp_all add: ff_credentials_def ff_tables_def)
      (simp_all add: blockAllPolicy_def emptyPolicy_def sanitizeSplitDomains_def)
  then have "ff_route_host ?m host = FSocks BLOCKED_PROXY_PORT None"
    by (auto simp: ff_route_host_def ff_proxy_def)
  then show "ff_route_host (ff_apply b s m) host = FSocks BLOCKED_PROXY_PORT None"
    "ff_mode (ff_apply b s m) = PBlocked"
    using ff_apply_route [OF assms(2), of b] by (simp_all add: assms(1) pol)
qed

lemma pac_block_all:
  assumes "policyFromState s = blockAllPolicy"
  shows "\<exists>p. cp_desired (cp_apply tools s c) = Some p \<and> pac_eval p host = PacProxy BLOCKED_PROXY_PORT"
proof -
  have "cp_port c blockAllPolicy = BLOCKED_PROXY_PORT" by (simp add: cp_port_def cp_blocked_def)
  then have "pac_eval (pac_config blockAllPolicy (cp_port c blockAllPolicy) None) host = PacProxy BLOCKED_PROXY_PORT"
    by (simp add: pac_eval_def pac_config_def pac_catch_generate Let_def matchSplitDomain_def)
      (simp add: blockAllPolicy_def emptyPolicy_def sanitizeSplitDomains_def)
  then show ?thesis using cp_apply_desired [of s tools c] by (simp add: assms)
qed

text \<open>The warm-up script protects at least the hosts of the final one, all but the probe at the blocked port.\<close>

lemma map_filter_subset: "set xs \<subseteq> set ys \<Longrightarrow> set (List.map_filter f xs) \<subseteq> set (List.map_filter f ys)"
  by (auto simp: set_map_filter)

lemma pac_tailnet_mono:
  assumes "pac_tailnet_host p host" and "pac_suffix q = pac_suffix p" and "pac_names q = pac_names p"
    and "pac_domains q = pac_domains p" and "set (pac_subnets p) \<subseteq> set (pac_subnets q)"
    and "set (pac_ipv6 p) \<subseteq> set (pac_ipv6 q)"
  shows "pac_tailnet_host q host"
proof -
  have "list_ex P (pac_subnets p) \<Longrightarrow> list_ex P (pac_subnets q)" for P
    using assms(5) by (auto simp: list_ex_iff)
  moreover have "pac_ipv6 p \<noteq> [] \<and> matchesIPv6Subnet host (pac_ipv6 p) \<Longrightarrow> pac_ipv6 q \<noteq> [] \<and> matchesIPv6Subnet host (pac_ipv6 q)"
    using assms(6) by (auto simp: matchesIPv6Subnet_def list_ex_iff split: option.splits)
  ultimately show ?thesis
    using assms(1) unfolding pac_tailnet_host_def Let_def assms(2-4) by (metis (no_types, lifting))
qed

lemma exit_policy_catches: "pac_eval (pac_config (sample_policy\<lparr>rp_selectedExitNodeID := Some ''exit''\<rparr>) 1055 None) ''example.com'' = PacProxy 1055"
proof -
  have "pac_catch (pac_catchAll (pac_config (sample_policy\<lparr>rp_selectedExitNodeID := Some ''exit''\<rparr>) 1055 None)) h" for h
    by (simp add: pac_config_def pac_catch_generate matchSplitDomain_def)
      (simp add: sample_policy_def emptyPolicy_def sanitizeSplitDomains_def)
  then show ?thesis by (simp add: pac_eval_def Let_def) (simp add: pac_config_def)
qed

text \<open>C17: while Chrome warms up authentication, every host the final script would proxy is refused.\<close>

theorem warmup_fails_closed:
  assumes "host \<noteq> PROXY_AUTH_PROBE_HOST" and "pac_eval (pac_config policy port None) host \<noteq> PacDirect"
  shows "pac_eval (pac_config policy BLOCKED_PROXY_PORT probe) host = PacProxy BLOCKED_PROXY_PORT"
proof -
  let ?p = "pac_config policy port None" and ?q = "pac_config policy BLOCKED_PROXY_PORT probe"
  let ?h = "request_host host"
  have probe_none: "(pac_probePort ?p \<noteq> None \<and> host = PROXY_AUTH_PROBE_HOST) = False"
    by (simp add: pac_config_def)
  have hit: "pac_tailnet_host ?p ?h \<or> pac_catch (pac_catchAll ?p) ?h"
    using assms(2) unfolding pac_eval_def Let_def probe_none by (simp only: if_False) (auto split: if_splits)
  have "pac_tailnet_host ?q ?h" if t: "pac_tailnet_host ?p ?h"
    by (rule pac_tailnet_mono [OF t]) (simp_all add: pac_config_def generatePACScript_def map_filter_subset)
  moreover have "pac_catch (pac_catchAll ?q) ?h = pac_catch (pac_catchAll ?p) ?h"
    by (simp add: pac_config_def pac_catch_generate)
  moreover have "pac_port ?q = BLOCKED_PROXY_PORT" by (simp add: pac_config_def)
  moreover have "(pac_probePort ?q \<noteq> None \<and> host = PROXY_AUTH_PROBE_HOST) = False"
    using assms(1) by simp
  ultimately show ?thesis using hit unfolding pac_eval_def Let_def by (simp only: if_False) auto
qed

theorem warmup_fails_closed_witness:
  "pac_eval (pac_config (sample_policy\<lparr>rp_selectedExitNodeID := Some ''exit''\<rparr>) BLOCKED_PROXY_PORT (Some 1055)) ''example.com'' =
   PacProxy BLOCKED_PROXY_PORT"
  by (rule warmup_fails_closed [of _ _ 1055]) (simp_all add: exit_policy_catches PROXY_AUTH_PROBE_HOST_def)

lemma warmup_only_probe:
  assumes "pac_eval (pac_config policy BLOCKED_PROXY_PORT probe) host = PacProxy port" and "port \<noteq> BLOCKED_PROXY_PORT"
  shows "host = PROXY_AUTH_PROBE_HOST"
  using assms by (auto simp: pac_eval_def pac_config_def Let_def split: if_splits)

section \<open>Nothing in the script can break out of its string literals\<close>

definition literal_safe :: "string \<Rightarrow> bool" where
  "literal_safe s \<longleftrightarrow> list_all (\<lambda>c. is_lower c \<or> is_digit c \<or> c = CHR ''-'' \<or> c = CHR ''.'') s"

definition catch_domains :: "PacCatchAll \<Rightarrow> string list" where
  "catch_domains c = (case c of CatchOnly ds \<Rightarrow> ds | CatchBypass ds \<Rightarrow> ds | _ \<Rightarrow> [])"

text \<open>Every text that the template places between quotes and that comes from the policy.\<close>

definition pac_literals :: "PacScript \<Rightarrow> string list" where
  "pac_literals p =
     pac_suffix p # pac_names p @ pac_domains p @ concat (map (\<lambda>(n, m). [n, m]) (pac_subnets p))
       @ catch_domains (pac_catchAll p)"

lemma literal_safe_dns: "list_all dns_char s \<Longrightarrow> literal_safe s"
  by (auto simp: literal_safe_def list_all_iff dns_char_def)

lemma sanitizeSplitDomains_loop_dns:
  "d \<in> set (sanitizeSplitDomains_loop seen xs) \<Longrightarrow> list_all dns_char d"
  by (induction seen xs rule: sanitizeSplitDomains_loop.induct)
    (auto dest: sanitizeDomain_Some split: option.splits if_splits)

lemma dotted_quad_safe: "dotted_quad s \<Longrightarrow> literal_safe s"
proof -
  assume "dotted_quad s"
  then have "\<forall>p\<in>set (js_split (CHR ''.'') s). list_all is_digit p"
    by (auto simp: dotted_quad_def Let_def list_all_iff)
  then show ?thesis
    using chars_of_split [of s "CHR ''.''"] by (fastforce simp: literal_safe_def list_all_iff)
qed

lemma numToIP_safe: "literal_safe (numToIP n)"
proof -
  have "\<forall>c\<in>set (numToIP n). is_digit c \<or> c = CHR ''.''"
    using set_js_join [of "''.''"] nat_to_string_digits
    unfolding numToIP_def by (fastforce simp: list_all_iff)
  then show ?thesis by (auto simp: literal_safe_def list_all_iff)
qed

lemma parseCIDR_string_safe: "parseCIDR_string cidr = Some (n, m) \<Longrightarrow> literal_safe n \<and> literal_safe m"
  by (auto simp: parseCIDR_string_def parse_cidr_parts_def dotted_quad_safe numToIP_safe
      split: list.splits option.splits if_splits)

lemma pac_literals_safe:
  assumes "l \<in> set (pac_literals (pac_config policy port probe))"
  shows "literal_safe l"
proof -
  have names: "literal_safe n" if "n \<in> set (sanitizeDNSRoutes v)" for n v
    using that sanitizeDNSRoutes_names dns_name_chars literal_safe_dns by blast
  have suf: "literal_safe (js_lower (sanitizeMagicDNSSuffix v))" for v
    using dns_chars_lower [OF sanitizeMagicDNSSuffix_chars, of v] literal_safe_dns [OF sanitizeMagicDNSSuffix_chars, of v] by simp
  have cidr: "literal_safe n \<and> literal_safe m" if "(n, m) \<in> set (List.map_filter parseCIDR_string xs)" for n m xs
    using that parseCIDR_string_safe by (auto simp: set_map_filter)
  have dom: "literal_safe d" if "d \<in> set (sanitizeSplitDomains c)" for d c
    using that sanitizeSplitDomains_loop_dns literal_safe_dns by (auto simp: sanitizeSplitDomains_def)
  show ?thesis
    using assms names suf cidr dom
    by (auto simp: pac_literals_def pac_config_def generatePACScript_def catch_domains_def split: if_splits)
qed

text \<open>Under the policy that blocks everything, Firefox and Chrome both refuse every host.\<close>

lemma block_all_refuses:
  assumes "policyFromState s = blockAllPolicy" and "\<not> ff_latched s m"
  shows "ff_route_host (ff_apply b s m) host = FSocks BLOCKED_PROXY_PORT None \<and>
    (\<exists>p. cp_desired (cp_apply tools s c) = Some p \<and> pac_eval p host = PacProxy BLOCKED_PROXY_PORT)"
  using ff_block_all(1) [OF assms] pac_block_all [OF assms(1)] by simp

text \<open>C18: every text that the PAC script quotes consists of lower-case letters, digits, hyphens and dots: nothing from a policy can break out of its string literal.\<close>

theorem pac_script_literals:
  "list_all literal_safe (pac_literals (pac_config policy port probe))"
  using pac_literals_safe by (auto simp: list_all_iff)

end
