(* ===== verification/Proxy_Contract.thy ===== *)
theory Proxy_Contract
  imports Proxy_Routing Background_Safety
begin

text \<open>
  The \<open>ProxyManager\<close> interface of \<open>packages/shared/src/types.ts\<close>, as the background script relies on it:
  the locale \<open>proxy_manager\<close> states what \<open>apply\<close> and \<open>setProxySession\<close> promise about the routes of hosts, the
  managers of Firefox and Chrome are its instances, and the lemmas follow a manager through the
  calls the background script logs. The route is the one the manager decides on or asks the browser
  for; when Chrome has put it in place is the subject of \<open>Chrome_Machine\<close>.
\<close>

text \<open>What a logged effect of the background script does to the proxy manager.\<close>

definition manager_effect :: "(TailscaleState \<Rightarrow> 'm \<Rightarrow> 'm) \<Rightarrow> (ProxySessionCredentials option \<Rightarrow> 'm \<Rightarrow> 'm) \<Rightarrow> bg_effect \<Rightarrow> 'm \<Rightarrow> 'm" where
  "manager_effect app ses e m =
     (case e of ApplyProxy s \<Rightarrow> app s m | SetSession c \<Rightarrow> ses c m | _ \<Rightarrow> m)"

lemma manager_effect_simps [simp]:
  "manager_effect app ses (ApplyProxy s) m = app s m" "manager_effect app ses (SetSession c) m = ses c m"
  "manager_effect app ses (PostPopup p x) m = m" "manager_effect app ses (OpenTab u) m = m"
  "manager_effect app ses CreateContextMenu m = m"
  by (simp_all add: manager_effect_def)

definition is_apply :: "bg_effect \<Rightarrow> bool" where
  "is_apply e = (case e of ApplyProxy s \<Rightarrow> True | _ \<Rightarrow> False)"

lemma is_apply_simps [simp]:
  "is_apply (ApplyProxy s)" "\<not> is_apply (SetSession c)" "\<not> is_apply (PostPopup p x)"
  "\<not> is_apply (OpenTab u)" "\<not> is_apply CreateContextMenu"
  by (simp_all add: is_apply_def)

section \<open>The contract\<close>

locale proxy_manager =
  fixes invar :: "'m \<Rightarrow> bool"
    and apply_state :: "TailscaleState \<Rightarrow> 'm \<Rightarrow> 'm"
    and set_proxy_session :: "ProxySessionCredentials option \<Rightarrow> 'm \<Rightarrow> 'm"
    and route :: "'m \<Rightarrow> string \<Rightarrow> PacResult"
    and shut :: "'m \<Rightarrow> bool"
    and helper_port :: "'m \<Rightarrow> int option"
  assumes invar_apply: "invar m \<Longrightarrow> invar (apply_state s m)"
    and invar_session: "invar m \<Longrightarrow> invar (set_proxy_session c m)"
    and shut_route: "shut m \<Longrightarrow> route m host = PacProxy BLOCKED_PROXY_PORT"
    and shut_session: "shut (set_proxy_session c m) = shut m"
    and shut_apply: "invar m \<Longrightarrow> policyFromState s = blockAllPolicy \<Longrightarrow> shut (apply_state s m)"
    and direct_apply: "invar m \<Longrightarrow> rp_mode (policyFromState s) = PDirect \<Longrightarrow> route (apply_state s m) host = PacDirect"
    and route_port: "invar m \<Longrightarrow> route m host = PacProxy p \<Longrightarrow> p \<noteq> BLOCKED_PROXY_PORT \<Longrightarrow> helper_port m = Some p"
    and port_session: "helper_port (set_proxy_session c m) = helper_port m"
    and port_apply: "invar m \<Longrightarrow> helper_port (apply_state s m) = Some p \<Longrightarrow> p \<noteq> BLOCKED_PROXY_PORT \<Longrightarrow>
      rp_mode (policyFromState s) = PActive \<and> js_default (rp_proxyPort (policyFromState s)) 0 = p"
begin

lemma invar_effect: "invar m \<Longrightarrow> invar (manager_effect apply_state set_proxy_session e m)"
  by (cases e) (simp_all add: invar_apply invar_session)

lemma invar_effects: "invar m \<Longrightarrow> invar (fold (manager_effect apply_state set_proxy_session) es m)"
  by (induction es arbitrary: m) (simp_all add: invar_effect)

lemma shut_effect:
  assumes "invar m" and "effect_blocked e" and "shut m \<or> is_apply e"
  shows "shut (manager_effect apply_state set_proxy_session e m)"
  using assms by (cases e) (auto simp: effect_blocked_def shut_session shut_apply policyFromState_def)

lemma shut_effects:
  assumes "invar m" and "list_all effect_blocked es" and "shut m \<or> list_ex is_apply es"
  shows "shut (fold (manager_effect apply_state set_proxy_session) es m)"
  using assms
proof (induction es arbitrary: m)
  case (Cons e es)
  then have "shut m \<or> is_apply e \<Longrightarrow> shut (manager_effect apply_state set_proxy_session e m)"
    by (simp add: shut_effect)
  with Cons show ?case by (auto intro!: Cons.IH invar_effect)
qed simp

text \<open>A helper port in use comes from the last state that was applied.\<close>

lemma port_quiet: "\<not> list_ex is_apply es \<Longrightarrow> helper_port (fold (manager_effect apply_state set_proxy_session) es m) = helper_port m"
proof (induction es arbitrary: m)
  case (Cons e es)
  then show ?case by (cases e) (simp_all add: port_session)
qed simp

lemma port_last:
  assumes "invar m" and "list_ex is_apply es"
    and "helper_port (fold (manager_effect apply_state set_proxy_session) es m) = Some p" and "p \<noteq> BLOCKED_PROXY_PORT"
  shows "\<exists>es1 s es2. es = es1 @ ApplyProxy s # es2 \<and> \<not> list_ex is_apply es2 \<and>
    rp_mode (policyFromState s) = PActive \<and> js_default (rp_proxyPort (policyFromState s)) 0 = p"
proof -
  from assms(2) obtain es1 e es2 where es: "es = es1 @ e # es2" and e: "is_apply e" and quiet: "\<not> list_ex is_apply es2"
    using split_list_last_prop [of es is_apply] by (auto simp: list_ex_iff)
  from e obtain s where s: "e = ApplyProxy s" by (cases e) auto
  let ?m = "fold (manager_effect apply_state set_proxy_session) es1 m"
  have "helper_port (apply_state s ?m) = Some p" using assms(3) by (simp add: es s port_quiet [OF quiet])
  from port_apply [OF invar_effects [OF assms(1)] this assms(4)] show ?thesis using es s quiet by blast
qed

end

section \<open>Firefox\<close>

definition ff_route :: "FirefoxProxyManager \<Rightarrow> string \<Rightarrow> PacResult" where
  "ff_route m hostname =
     (if ff_mode m = PDirect then PacDirect else route_of (ff_route_host m (request_host hostname)))"

definition ff_shut :: "FirefoxProxyManager \<Rightarrow> bool" where
  "ff_shut m \<longleftrightarrow> ff_mode m = PBlocked \<and> ff_exitNodeActive m \<and> ff_splitMode m = Bypass \<and> ff_splitDomains m = []"

definition ff_helper_port :: "FirefoxProxyManager \<Rightarrow> int option" where
  "ff_helper_port m = (if ff_mode m = PActive then Some (ff_proxyPort m) else None)"

text \<open>
  The tables are those of the policy whose key is remembered, so that skipping a policy that failed
  before leaves the tables of that policy in force.
\<close>

definition ff_in_force :: "RoutingPolicy \<Rightarrow> FirefoxProxyManager \<Rightarrow> bool" where
  "ff_in_force p m \<longleftrightarrow>
     ff_mode m = rp_mode p \<and> ff_proxyPort m = js_default (rp_proxyPort p) BLOCKED_PROXY_PORT \<and>
     ff_exitNodeActive m = (rp_blockAll p \<or> rp_selectedExitNodeID p \<noteq> None) \<and>
     ff_splitMode m = split_mode (rp_domainSplit p) \<and> ff_splitDomains m = sanitizeSplitDomains (rp_domainSplit p)"

definition ff_synced :: "FirefoxProxyManager \<Rightarrow> bool" where
  "ff_synced m \<longleftrightarrow> (\<forall>p. ff_policyKey m = Some p \<longrightarrow> ff_in_force p m)"

lemma ff_in_force_tables [simp]: "ff_in_force p (ff_tables p m)"
  by (simp add: ff_in_force_def ff_tables_def)

lemma ff_in_force_updates [simp]:
  "ff_in_force p (m\<lparr>ff_policyKey := k\<rparr>) = ff_in_force p m" "ff_in_force p (m\<lparr>ff_failedKey := k\<rparr>) = ff_in_force p m"
  "ff_in_force p (m\<lparr>ff_listening := l\<rparr>) = ff_in_force p m" "ff_in_force p (ff_report h m) = ff_in_force p m"
  by (simp_all add: ff_in_force_def ff_report_def)

lemma ff_apply_key: "ff_policyKey (ff_apply b s m) = Some (ff_policy (ff_session m) (policyFromState s))"
  by (simp add: ff_apply_def ff_report_def ff_tables_def Let_def)

lemma ff_apply_in_force: "ff_synced m \<Longrightarrow> ff_in_force (ff_policy (ff_session m) (policyFromState s)) (ff_apply b s m)"
  by (auto simp: ff_synced_def ff_apply_def Let_def)

lemma ff_apply_synced: "ff_synced m \<Longrightarrow> ff_synced (ff_apply b s m)"
  using ff_apply_in_force [of m s b] by (simp add: ff_synced_def ff_apply_key)

lemma ff_apply_fields:
  fixes s :: TailscaleState
  assumes "ff_synced m"
  defines "p \<equiv> ff_policy (ff_session m) (policyFromState s)"
  shows "ff_mode (ff_apply b s m) = rp_mode p"
    and "ff_proxyPort (ff_apply b s m) = js_default (rp_proxyPort p) BLOCKED_PROXY_PORT"
    and "ff_exitNodeActive (ff_apply b s m) = (rp_blockAll p \<or> rp_selectedExitNodeID p \<noteq> None)"
    and "ff_splitMode (ff_apply b s m) = split_mode (rp_domainSplit p)"
    and "ff_splitDomains (ff_apply b s m) = sanitizeSplitDomains (rp_domainSplit p)"
  using ff_apply_in_force [OF assms(1), of s b] by (simp_all add: ff_in_force_def p_def)

interpretation firefox: proxy_manager ff_synced "ff_apply b" ff_setProxySession ff_route ff_shut ff_helper_port for b
proof
  fix m s c host p
  have sess: "ff_setProxySession c m = m\<lparr>ff_session := c\<rparr>"
    by (simp add: ff_setProxySession_def set_session_def)
  show "ff_synced m \<Longrightarrow> ff_synced (ff_apply b s m)" by (rule ff_apply_synced)
  show "ff_synced m \<Longrightarrow> ff_synced (ff_setProxySession c m)" by (simp add: sess ff_synced_def ff_in_force_def)
  show "ff_shut (ff_setProxySession c m) = ff_shut m" by (simp add: sess ff_shut_def)
  show "ff_helper_port (ff_setProxySession c m) = ff_helper_port m" by (simp add: sess ff_helper_port_def)
  show "ff_shut m \<Longrightarrow> ff_route m host = PacProxy BLOCKED_PROXY_PORT"
    by (simp add: ff_shut_def ff_route_def ff_route_of ff_credentials_def matchSplitDomain_def)
  show "ff_route m host = PacProxy p \<Longrightarrow> p \<noteq> BLOCKED_PROXY_PORT \<Longrightarrow> ff_helper_port m = Some p"
    by (auto simp: ff_route_def ff_route_of ff_helper_port_def ff_credentials_def split: if_splits)
  assume inv: "ff_synced m"
  note ap = ff_apply_fields [OF this, of b s]
  show "ff_shut (ff_apply b s m)" if "policyFromState s = blockAllPolicy"
    unfolding ff_shut_def ap that by (simp add: ff_policy_def)
      (simp add: blockAllPolicy_def emptyPolicy_def sanitizeSplitDomains_def)
  show "ff_route (ff_apply b s m) host = PacDirect" if "rp_mode (policyFromState s) = PDirect"
    unfolding ff_route_def ap using that by (simp add: ff_policy_def)
  show "rp_mode (policyFromState s) = PActive \<and> js_default (rp_proxyPort (policyFromState s)) 0 = p"
    if "ff_helper_port (ff_apply b s m) = Some p" and "p \<noteq> BLOCKED_PROXY_PORT"
    using that unfolding ff_helper_port_def ap
    by (auto simp: ff_policy_def js_default_def split: if_splits option.splits)
qed

section \<open>Chrome\<close>

definition cp_route :: "ChromeProxyManager \<Rightarrow> string \<Rightarrow> PacResult" where
  "cp_route m host = (case cp_desired m of None \<Rightarrow> PacDirect | Some p \<Rightarrow> pac_eval p host)"

definition cp_shut :: "ChromeProxyManager \<Rightarrow> bool" where
  "cp_shut m \<longleftrightarrow> cp_desired m = Some (pac_config blockAllPolicy BLOCKED_PROXY_PORT None)"

definition cp_helper_port :: "ChromeProxyManager \<Rightarrow> int option" where
  "cp_helper_port m = map_option pac_port (cp_desired m)"

text \<open>The desired script has no probe route.\<close>

definition cp_final :: "ChromeProxyManager \<Rightarrow> bool" where
  "cp_final m \<longleftrightarrow> (\<forall>p. cp_desired m = Some p \<longrightarrow> pac_probePort p = None)"

lemma pac_eval_block_all: "pac_eval (pac_config blockAllPolicy BLOCKED_PROXY_PORT None) host = PacProxy BLOCKED_PROXY_PORT"
  by (simp add: pac_eval_def pac_config_def pac_catch_generate Let_def matchSplitDomain_def)
    (simp add: blockAllPolicy_def emptyPolicy_def sanitizeSplitDomains_def)

lemma cp_session_desired [simp]: "cp_desired (cp_setProxySession c m) = cp_desired m"
  by (simp add: cp_setProxySession_def case_prod_beta Let_def)

lemma cp_apply_direct: "rp_mode (policyFromState s) = PDirect \<Longrightarrow> cp_desired (cp_apply tools s m) = None"
  by (simp add: cp_apply_def cp_clear_def Let_def)

interpretation chrome: proxy_manager cp_final "cp_apply tools" cp_setProxySession cp_route cp_shut cp_helper_port for tools
proof
  fix m s c host p
  note ap = cp_apply_desired [of s tools m] cp_apply_direct [of s tools m]
  show "cp_final (cp_apply tools s m)"
    using ap by (cases "rp_mode (policyFromState s) = PDirect") (auto simp: cp_final_def pac_config_def)
  show "cp_final m \<Longrightarrow> cp_final (cp_setProxySession c m)" by (simp add: cp_final_def)
  show "cp_shut (cp_setProxySession c m) = cp_shut m" by (simp add: cp_shut_def)
  show "cp_helper_port (cp_setProxySession c m) = cp_helper_port m" by (simp add: cp_helper_port_def)
  show "cp_shut m \<Longrightarrow> cp_route m host = PacProxy BLOCKED_PROXY_PORT"
    by (simp add: cp_shut_def cp_route_def pac_eval_block_all)
  show "cp_final m \<Longrightarrow> cp_route m host = PacProxy p \<Longrightarrow> p \<noteq> BLOCKED_PROXY_PORT \<Longrightarrow> cp_helper_port m = Some p"
    by (auto simp: cp_final_def cp_route_def cp_helper_port_def pac_eval_def Let_def split: option.splits if_splits)
  show "cp_shut (cp_apply tools s m)" if "policyFromState s = blockAllPolicy"
    using ap that by (simp add: cp_shut_def cp_port_def cp_blocked_def)
  show "cp_route (cp_apply tools s m) host = PacDirect" if "rp_mode (policyFromState s) = PDirect"
    using ap that by (simp add: cp_route_def)
  show "rp_mode (policyFromState s) = PActive \<and> js_default (rp_proxyPort (policyFromState s)) 0 = p"
    if "cp_helper_port (cp_apply tools s m) = Some p" and "p \<noteq> BLOCKED_PROXY_PORT"
    using that ap by (cases "rp_mode (policyFromState s)")
      (auto simp: cp_helper_port_def pac_config_def cp_port_def cp_blocked_def split: if_splits)
qed

section \<open>Both from the start\<close>

lemma firefox_starts [simp]: "ff_synced firefox_init" "ff_helper_port firefox_init = None"
  by (simp_all add: ff_synced_def ff_helper_port_def firefox_init_def)

lemma chrome_starts [simp]: "cp_final chrome_init" "cp_helper_port chrome_init = None"
  by (simp_all add: cp_final_def cp_helper_port_def chrome_init_def)

end
