(* ===== verification/Chrome_Machine.thy ===== *)
theory Chrome_Machine
  imports Proxy_Routing
begin

text \<open>
  The Chrome proxy manager as a state machine: calls from the background script, callbacks of the
  settings API, browser events and the outcome of the authentication probe, in any order. The
  reachable states are those after a trace of events. The invariant ties what is applied and what
  is reported to what the browser confirmed, and what is written to the browser to the state of
  authentication.
\<close>

datatype chrome_event =
    EListen
  | EApply TailscaleState
  | EClear
  | ESession "ProxySessionCredentials option"
  | ECurrent bool LevelOfControl
  | EWritten bool
  | EEffective bool LevelOfControl ProxyConfig
  | EProbe "nat option" bool
  | EChange LevelOfControl ProxyConfig
  | EProxyError bool string
  | EAuth AuthDetails

fun chrome_run :: "string \<Rightarrow> chrome_event \<Rightarrow> ChromeProxyManager \<Rightarrow> ChromeProxyManager" where
  "chrome_run tools EListen m = cp_setRoutingHealthListener m"
| "chrome_run tools (EApply s) m = cp_apply tools s m"
| "chrome_run tools EClear m = cp_clear m"
| "chrome_run tools (ESession c) m = cp_setProxySession c m"
| "chrome_run tools (ECurrent e l) m = on_current e l m"
| "chrome_run tools (EWritten e) m = on_written e m"
| "chrome_run tools (EEffective e l c) m = on_effective tools e l c m"
| "chrome_run tools (EProbe r b) m = on_probe r b m"
| "chrome_run tools (EChange l c) m = on_change tools l c m"
| "chrome_run tools (EProxyError f e) m = on_proxy_error f e m"
| "chrome_run tools (EAuth d) m = m\<lparr>cp_auth := snd (auth_listener d (cp_auth m))\<rparr>"

inductive chrome_reach :: "string \<Rightarrow> chrome_event list \<Rightarrow> ChromeProxyManager \<Rightarrow> bool" for tools where
  start: "chrome_reach tools [] chrome_init"
| step: "chrome_reach tools tr m \<Longrightarrow> chrome_reach tools (tr @ [e]) (chrome_run tools e m)"

inductive_cases chrome_reach_snocE: "chrome_reach tools (tr @ [e]) m"

section \<open>The invariant\<close>

text \<open>The browser confirmed this text as the extension's own mandatory script.\<close>

definition confirmed :: "chrome_event list \<Rightarrow> string \<Rightarrow> bool" where
  "confirmed tr t \<longleftrightarrow> (\<exists>c. EEffective False ThisExtension c \<in> set tr \<and> pc_mode c = ''pac_script'' \<and>
     pc_data c = Some t \<and> pc_mandatory c = Some True)"

definition key_of :: "string \<Rightarrow> PacScript option \<Rightarrow> ConfigKey" where
  "key_of tools v = (case v of Some p \<Rightarrow> ScriptKey (pac_text tools p) | None \<Rightarrow> ClearKey)"

text \<open>A warm-up sends nothing but the probe to the helper; otherwise the flight carries its key's script.\<close>

definition flight_ok :: "string \<Rightarrow> FlightContext \<Rightarrow> bool" where
  "flight_ok tools ctx \<longleftrightarrow>
     (if fl_warming ctx
      then (\<exists>q. fl_value ctx = Some q \<and> pac_port q = BLOCKED_PROXY_PORT)
      else fl_key ctx = key_of tools (fl_value ctx))"

definition flight_ctx :: "Flight \<Rightarrow> FlightContext option" where
  "flight_ctx f = (case f of Idle \<Rightarrow> None | Checking c \<Rightarrow> Some c | Writing c \<Rightarrow> Some c
     | Verifying c n \<Rightarrow> Some c | Probing c p \<Rightarrow> Some c)"

definition desired_ok :: "string \<Rightarrow> ChromeProxyManager \<Rightarrow> bool" where
  "desired_ok tools m \<longleftrightarrow>
     (cp_desiredKey m = NoKey \<and> cp_desired m = None \<or> cp_desiredKey m = key_of tools (cp_desired m)) \<and>
     (rh_status (cp_desiredHealth m) = RActive \<longrightarrow>
        cp_desired m \<noteq> None \<and>
        (\<exists>q. cp_authPending m = Some q \<and> pac_port q = BLOCKED_PROXY_PORT))"

definition chrome_inv :: "string \<Rightarrow> chrome_event list \<Rightarrow> ChromeProxyManager \<Rightarrow> bool" where
  "chrome_inv tools tr m \<longleftrightarrow>
     desired_ok tools m \<and>
     (\<forall>ctx. flight_ctx (cp_flight m) = Some ctx \<longrightarrow> flight_ok tools ctx) \<and>
     (\<forall>t. cp_appliedKey m = ScriptKey t \<longrightarrow> confirmed tr t) \<and>
     auth_inv (cp_auth m)"

lemma confirmed_mono: "confirmed tr t \<Longrightarrow> confirmed (tr @ [e]) t"
  by (auto simp: confirmed_def)

lemma chrome_inv_mono: "chrome_inv tools tr m \<Longrightarrow> chrome_inv tools (tr @ [e]) m"
  by (auto simp: chrome_inv_def confirmed_mono)

lemma chrome_init_inv: "chrome_inv tools [] chrome_init"
  by (simp add: chrome_inv_def chrome_init_def desired_ok_def flight_ctx_def auth_init_inv)

lemma report_inv [simp]: "chrome_inv tools tr (report h m) = chrome_inv tools tr m"
  by (simp add: report_def chrome_inv_def desired_ok_def)

lemma flush_inv:
  assumes "chrome_inv tools tr m"
  shows "chrome_inv tools tr (flush m)"
proof (cases "cp_desiredKey m = NoKey \<or> cp_flight m \<noteq> Idle \<or> cp_errorKey m = cp_desiredKey m \<or> cp_appliedKey m = cp_desiredKey m")
  case True
  then show ?thesis using assms by (auto simp: flush_def)
next
  case False
  with assms show ?thesis
    by (auto simp: flush_def chrome_inv_def desired_ok_def flight_ctx_def flight_ok_def Let_def)
qed

lemma idle_inv: "chrome_inv tools tr m \<Longrightarrow> chrome_inv tools tr (m\<lparr>cp_flight := Idle\<rparr>)"
  by (simp add: chrome_inv_def desired_ok_def flight_ctx_def)

lemma unapplied_inv: "chrome_inv tools tr m \<Longrightarrow> chrome_inv tools tr (m\<lparr>cp_appliedKey := NoKey\<rparr>)"
  by (simp add: chrome_inv_def desired_ok_def)

lemma error_key_inv: "chrome_inv tools tr m \<Longrightarrow> chrome_inv tools tr (m\<lparr>cp_errorKey := k\<rparr>)"
  by (simp add: chrome_inv_def desired_ok_def)

lemma auth_part_inv: "chrome_inv tools tr m \<Longrightarrow> auth_inv a \<Longrightarrow> chrome_inv tools tr (m\<lparr>cp_auth := a\<rparr>)"
  by (simp add: chrome_inv_def desired_ok_def)

lemma flight_fail_inv: "chrome_inv tools tr m \<Longrightarrow> chrome_inv tools tr (flight_fail ctx msg b m)"
  by (simp add: flight_fail_def Let_def flush_inv idle_inv unapplied_inv)

lemma flight_phase_inv:
  assumes "chrome_inv tools tr m" and "flight_ctx f = flight_ctx (cp_flight m)"
  shows "chrome_inv tools tr (m\<lparr>cp_flight := f\<rparr>)" "chrome_inv tools tr (m\<lparr>cp_flight := f, cp_calls := cs\<rparr>)"
  using assms by (simp_all add: chrome_inv_def desired_ok_def)

lemma on_current_inv: "chrome_inv tools tr m \<Longrightarrow> chrome_inv tools tr (on_current e l m)"
proof (cases "cp_flight m")
  case (Checking ctx)
  assume inv: "chrome_inv tools tr m"
  have "chrome_inv tools tr (m\<lparr>cp_flight := Writing ctx, cp_calls := cs\<rparr>)" for cs
    using Checking by (intro flight_phase_inv [OF inv]) (simp add: flight_ctx_def)
  with inv Checking show ?thesis
    by (simp add: on_current_def flight_fail_inv flush_inv idle_inv)
qed (simp_all add: on_current_def)

lemma on_written_inv: "chrome_inv tools tr m \<Longrightarrow> chrome_inv tools tr (on_written e m)"
proof (cases "cp_flight m")
  case (Writing ctx)
  assume inv: "chrome_inv tools tr m"
  have "chrome_inv tools tr (m\<lparr>cp_flight := Verifying ctx n\<rparr>)" for n
    using Writing by (intro flight_phase_inv [OF inv]) (simp add: flight_ctx_def)
  with inv Writing show ?thesis by (simp add: on_written_def flight_fail_inv)
qed (simp_all add: on_written_def)

lemma on_probe_inv: "chrome_inv tools tr m \<Longrightarrow> chrome_inv tools tr (on_probe r b m)"
proof (cases "cp_flight m")
  case (Probing ctx p)
  assume inv: "chrome_inv tools tr m"
  then have "auth_inv (cp_auth m)" by (simp add: chrome_inv_def)
  then have "auth_inv (snd (case p of Rejected \<Rightarrow> (False, cp_auth m) | Resolved \<Rightarrow> (True, cp_auth m)
      | Fetching n \<Rightarrow> prepare_done (fl_port ctx) n r b (cp_auth m)))"
    using auth_ops_inv(3) by (cases p) auto
  from auth_part_inv [OF inv this] Probing show ?thesis
    by (simp add: on_probe_def case_prod_beta Let_def flush_inv idle_inv flight_fail_inv error_key_inv)
qed (simp_all add: on_probe_def)

lemma applied_inv:
  assumes "chrome_inv tools tr m" and "\<And>t. k = ScriptKey t \<Longrightarrow> confirmed tr t"
  shows "chrome_inv tools tr (m\<lparr>cp_authRoutingPending := b, cp_appliedKey := k\<rparr>)"
  using assms by (simp add: chrome_inv_def desired_ok_def)

text \<open>The verified, non-warming branch: the browser holds the script of the key.\<close>

lemma effective_confirms:
  assumes "flight_ok tools ctx" and "\<not> fl_warming ctx" and "fl_key ctx = ScriptKey t"
    and "\<not> (case fl_value ctx of Some v \<Rightarrow> l \<noteq> ThisExtension \<or> \<not> sameProxyConfig tools c v | None \<Rightarrow> False)"
  shows "confirmed (tr @ [EEffective False l c]) t"
  using assms
  by (auto simp: flight_ok_def key_of_def confirmed_def sameProxyConfig_def split: option.splits)

lemma prepare_part_inv:
  assumes "chrome_inv tools tr m" and "flight_ctx (cp_flight m) = Some ctx"
  shows "chrome_inv tools tr (m\<lparr>cp_auth := snd (prepare port (cp_auth m)), cp_flight := Probing ctx p\<rparr>)"
proof -
  have "auth_inv (snd (prepare port (cp_auth m)))"
    using assms(1) auth_ops_inv(2) by (simp add: chrome_inv_def)
  from auth_part_inv [OF assms(1) this]
  show ?thesis using assms(2) by (intro flight_phase_inv) (simp_all add: flight_ctx_def)
qed

lemma report_flight [simp]: "cp_flight (report h m) = cp_flight m" "cp_auth (report h m) = cp_auth m"
  "cp_desiredKey (report h m) = cp_desiredKey m"
  by (simp_all add: report_def)

lemma on_effective_inv:
  assumes "chrome_inv tools tr m"
  shows "chrome_inv tools (tr @ [EEffective e l c]) (on_effective tools e l c m)"
proof (cases "cp_flight m")
  case (Verifying ctx n)
  define tr' where "tr' = tr @ [EEffective e l c]"
  have inv: "chrome_inv tools tr' m" unfolding tr'_def using assms by (rule chrome_inv_mono)
  have ctx: "flight_ctx (cp_flight m) = Some ctx" using Verifying by (simp add: flight_ctx_def)
  then have fok: "flight_ok tools ctx" using assms by (simp add: chrome_inv_def)
  have again: "chrome_inv tools tr' (m\<lparr>cp_flight := Verifying ctx k\<rparr>)" for k
    using Verifying by (intro flight_phase_inv [OF inv]) (simp add: flight_ctx_def)
  have warm: "chrome_inv tools tr' (m\<lparr>cp_auth := snd (prepare q (cp_auth m)), cp_flight := Probing ctx p\<rparr>)"
    "chrome_inv tools tr' ((report h m)\<lparr>cp_auth := snd (prepare q (cp_auth m)), cp_flight := Probing ctx p\<rparr>)" for p q h
    using prepare_part_inv [OF inv ctx] prepare_part_inv [of tools tr' "report h m" ctx] inv ctx
    by simp_all
  have applied: "chrome_inv tools tr' (m\<lparr>cp_authRoutingPending := False, cp_appliedKey := fl_key ctx\<rparr>)"
    if "\<not> e" "\<not> fl_warming ctx"
      "\<not> (case fl_value ctx of Some v \<Rightarrow> l \<noteq> ThisExtension \<or> \<not> sameProxyConfig tools c v | None \<Rightarrow> False)"
    using effective_confirms [OF fok that(2) _ that(3), of _ tr] that(1) by (intro applied_inv [OF inv]) (simp add: tr'_def)
  have applied_idle: "chrome_inv tools tr' (m\<lparr>cp_authRoutingPending := False, cp_appliedKey := fl_key ctx, cp_flight := Idle\<rparr>)"
    if "\<not> e" "\<not> fl_warming ctx"
      "\<not> (case fl_value ctx of Some v \<Rightarrow> l \<noteq> ThisExtension \<or> \<not> sameProxyConfig tools c v | None \<Rightarrow> False)"
    using idle_inv [OF applied [OF that]] by simp
  have "chrome_inv tools tr' (on_effective tools e l c m)"
    using Verifying inv again warm applied applied_idle
    by (cases "fl_key ctx = cp_desiredKey m")
      (simp_all add: on_effective_def case_prod_beta Let_def flight_fail_inv flush_inv idle_inv)
  then show ?thesis by (simp add: tr'_def)
qed (use assms in \<open>simp_all add: on_effective_def chrome_inv_mono\<close>)

lemma on_change_inv: "chrome_inv tools tr m \<Longrightarrow> chrome_inv tools tr (on_change tools l c m)"
proof -
  assume "chrome_inv tools tr m"
  then have inv: "chrome_inv tools tr (m\<lparr>cp_changeEpoch := Suc (cp_changeEpoch m)\<rparr>)"
    by (simp add: chrome_inv_def desired_ok_def)
  with unapplied_inv [OF inv] show ?thesis
    by (simp add: on_change_def Let_def flush_inv split: option.split)
qed

lemma on_proxy_error_inv: "chrome_inv tools tr m \<Longrightarrow> chrome_inv tools tr (on_proxy_error f e m)"
  using unapplied_inv [OF error_key_inv, of tools tr m "cp_desiredKey m"]
  by (simp add: on_proxy_error_def)

lemma cp_clear_inv: "chrome_inv tools tr m \<Longrightarrow> chrome_inv tools tr (cp_clear m)"
  unfolding cp_clear_def Let_def
  by (rule flush_inv) (auto simp: chrome_inv_def desired_ok_def key_of_def)

lemma cp_apply_policy_inv: "chrome_inv tools tr m \<Longrightarrow> chrome_inv tools tr (cp_apply_policy tools policy m)"
  unfolding cp_apply_policy_def Let_def
  by (rule flush_inv) (auto simp: chrome_inv_def desired_ok_def key_of_def cp_health_def pac_config_def)

lemma cp_setProxySession_inv: "chrome_inv tools tr m \<Longrightarrow> chrome_inv tools tr (cp_setProxySession c m)"
  using auth_ops_inv(1) [of "cp_auth m" c]
  by (auto simp: cp_setProxySession_def chrome_inv_def desired_ok_def Let_def case_prod_beta)

lemma chrome_run_inv:
  assumes "chrome_inv tools tr m"
  shows "chrome_inv tools (tr @ [e]) (chrome_run tools e m)"
proof -
  have "auth_inv (cp_auth m)" using assms by (simp add: chrome_inv_def)
  then have auth: "auth_inv (snd (auth_listener d (cp_auth m)))" for d by (rule auth_ops_inv)
  have listen: "chrome_inv tools tr (cp_setRoutingHealthListener m)"
    using assms by (simp add: cp_setRoutingHealthListener_def chrome_inv_def desired_ok_def)
  show ?thesis
    by (cases e) (use assms listen auth in \<open>simp_all add: chrome_inv_mono cp_apply_def Let_def cp_clear_inv
      cp_apply_policy_inv cp_setProxySession_inv on_current_inv on_written_inv on_effective_inv on_probe_inv
      on_change_inv on_proxy_error_inv auth_part_inv\<close>)
qed

lemma chrome_reach_inv: "chrome_reach tools tr m \<Longrightarrow> chrome_inv tools tr m"
  by (induction rule: chrome_reach.induct) (auto intro: chrome_init_inv chrome_run_inv)

section \<open>Active means confirmed\<close>

text \<open>The reports that an operation adds, and that an active one is only made of an applied script.\<close>

definition new_reports :: "ChromeProxyManager \<Rightarrow> ChromeProxyManager \<Rightarrow> RoutingHealth list" where
  "new_reports m m' = drop (length (cp_reports m)) (cp_reports m')"

definition honest :: "ChromeProxyManager \<Rightarrow> ChromeProxyManager \<Rightarrow> bool" where
  "honest m m' \<longleftrightarrow> (\<exists>hs. cp_reports m' = cp_reports m @ hs \<and>
     (\<forall>h\<in>set hs. rh_status h = RActive \<longrightarrow>
        cp_appliedKey m' = cp_desiredKey m' \<and> rh_status (cp_desiredHealth m') = RActive))"

lemma honest_quiet: "cp_reports m' = cp_reports m \<Longrightarrow> honest m m'"
  by (simp add: honest_def)

lemma honest_inactive: "cp_reports m1 = cp_reports m @ hs \<Longrightarrow> \<forall>h\<in>set hs. rh_status h \<noteq> RActive \<Longrightarrow> honest m1 m' \<Longrightarrow> honest m m'"
  unfolding honest_def by (elim exE conjE) (rule_tac x = "hs @ hsa" in exI, auto)

lemma honest_flush: "honest m (flush m)"
  by (auto simp: honest_def flush_def report_def Let_def)

lemma honest_report: "rh_status h \<noteq> RActive \<Longrightarrow> honest m (report h m)"
  by (auto simp: honest_def report_def)

lemma honest_same: "cp_reports m1 = cp_reports m \<Longrightarrow> honest m1 m' \<Longrightarrow> honest m m'"
  by (rule honest_inactive [of m1 m "[]"]) simp_all

lemma report_extends: "\<exists>hs. cp_reports (report h m) = cp_reports m @ hs \<and> set hs \<subseteq> {h}"
  by (auto simp: report_def)

lemma honest_after_report:
  assumes "rh_status h \<noteq> RActive" and "cp_reports m1 = cp_reports (report h m)" and "honest m1 m'"
  shows "honest m m'"
proof -
  obtain hs where "cp_reports (report h m) = cp_reports m @ hs" "set hs \<subseteq> {h}"
    using report_extends by blast
  with assms show ?thesis by (intro honest_inactive [of m1 m hs]) auto
qed

lemma honest_refl [simp]: "honest m m"
  by (rule honest_quiet) simp

lemma honest_fail: "honest m (flight_fail ctx msg b m)"
proof -
  let ?h = "\<lparr>rh_status = if b then RConflicted else RUnavailable, rh_message = msg\<rparr>"
  let ?m = "(report ?h (m\<lparr>cp_appliedKey := NoKey\<rparr>))\<lparr>cp_flight := Idle\<rparr>"
  have "honest (m\<lparr>cp_appliedKey := NoKey\<rparr>) (if fl_key ctx \<noteq> cp_desiredKey ?m then flush ?m else ?m)"
    by (rule honest_after_report [of ?h ?m]) (auto intro: honest_flush)
  then have "honest m (if fl_key ctx \<noteq> cp_desiredKey ?m then flush ?m else ?m)"
    by (rule honest_same [rotated]) simp
  then show ?thesis by (simp only: flight_fail_def Let_def)
qed

lemma honest_on_effective: "honest m (on_effective tools e l c m)"
proof (cases "cp_flight m")
  case (Verifying ctx n)
  have warm: "honest m ((if b then report \<lparr>rh_status = RBlocked, rh_message = msg\<rparr> m else m)\<lparr>cp_auth := a, cp_flight := f\<rparr>)"
    for b msg a f
    by (auto intro: honest_quiet simp: honest_def report_def)
  let ?m1 = "m\<lparr>cp_authRoutingPending := False, cp_appliedKey := fl_key ctx\<rparr>"
  have done_same: "honest m ((report (cp_desiredHealth m) ?m1)\<lparr>cp_flight := Idle\<rparr>)" if "fl_key ctx = cp_desiredKey m"
    using that by (auto simp: honest_def report_def)
  have done_other: "honest m (flush (?m1\<lparr>cp_flight := Idle\<rparr>))"
    by (rule honest_same [OF _ honest_flush]) simp
  have again: "honest m (m\<lparr>cp_flight := f\<rparr>)" for f by (rule honest_quiet) simp
  show ?thesis
    using Verifying warm [where b = True] warm [where b = False] done_same done_other again honest_fail
    by (cases "fl_key ctx = cp_desiredKey m") (simp_all add: on_effective_def Let_def case_prod_beta)
qed (simp_all add: on_effective_def)

lemma honest_run: "honest m (chrome_run tools e m)"
proof (cases e)
  case (EApply s)
  have "honest m (cp_clear m)" "honest m (cp_apply_policy tools p m)" for p
    unfolding cp_clear_def cp_apply_policy_def Let_def
    by (rule honest_same [OF _ honest_flush], simp)+
  with EApply show ?thesis by (simp add: cp_apply_def Let_def)
next
  case EClear
  then show ?thesis unfolding cp_clear_def Let_def chrome_run.simps EClear
    by (intro honest_same [OF _ honest_flush]) simp
next
  case (ESession c)
  then show ?thesis by (auto simp: cp_setProxySession_def Let_def case_prod_beta intro: honest_quiet)
next
  case (ECurrent b l)
  have "honest m (flush (m\<lparr>cp_flight := Idle\<rparr>))" by (rule honest_same [OF _ honest_flush]) simp
  with ECurrent show ?thesis
    by (auto simp: on_current_def intro: honest_fail honest_quiet split: Flight.split)
next
  case (EWritten b)
  then show ?thesis by (auto simp: on_written_def intro: honest_fail honest_quiet split: Flight.split)
next
  case (EEffective b l c)
  then show ?thesis by (simp add: honest_on_effective)
next
  case (EProbe r b)
  have *: "honest m (flush (m\<lparr>cp_auth := a, cp_flight := Idle\<rparr>))"
    "honest m (flight_fail ctx msg x (m\<lparr>cp_auth := a, cp_errorKey := k\<rparr>))" for a ctx msg x k
    by (rule honest_same [OF _ honest_flush], simp) (rule honest_same [OF _ honest_fail], simp)
  with EProbe show ?thesis
    by (auto simp: on_probe_def Let_def case_prod_beta split: Flight.split)
next
  case (EChange l c)
  have *: "honest m (flush (m\<lparr>cp_changeEpoch := n, cp_appliedKey := k\<rparr>))" "honest m (flush (m\<lparr>cp_changeEpoch := n\<rparr>))" for n k
    by (rule honest_same [OF _ honest_flush], simp)+
  have "honest m (report \<lparr>rh_status = RConflicted, rh_message = t\<rparr> (m\<lparr>cp_changeEpoch := n, cp_appliedKey := k\<rparr>))" for n k t
    by (rule honest_same [OF _ honest_report]) simp_all
  with * EChange show ?thesis
    by (auto simp: on_change_def Let_def intro: honest_quiet split: option.split)
next
  case (EProxyError f t)
  have "honest m (report \<lparr>rh_status = if f then RBlocked else RUnavailable, rh_message = x\<rparr>
      (m\<lparr>cp_errorKey := k, cp_appliedKey := NoKey\<rparr>))" for k x
    by (rule honest_same [OF _ honest_report]) simp_all
  with EProxyError show ?thesis by (simp add: on_proxy_error_def)
qed (auto simp: cp_setRoutingHealthListener_def intro: honest_quiet)

lemma new_report_confirmed:
  assumes "chrome_reach tools tr m" and "h \<in> set (new_reports m (chrome_run tools e m))" and "rh_status h = RActive"
  obtains p where "cp_desired (chrome_run tools e m) = Some p" "cp_desiredKey (chrome_run tools e m) = ScriptKey (pac_text tools p)"
    "confirmed (tr @ [e]) (pac_text tools p)"
proof -
  let ?m = "chrome_run tools e m"
  have inv: "chrome_inv tools (tr @ [e]) ?m"
    using assms(1) by (intro chrome_run_inv chrome_reach_inv)
  have "cp_appliedKey ?m = cp_desiredKey ?m" "rh_status (cp_desiredHealth ?m) = RActive"
    using honest_run [of m tools e] assms(2,3) by (auto simp: honest_def new_reports_def)
  moreover from this(2) inv obtain p where "cp_desired ?m = Some p" by (auto simp: chrome_inv_def desired_ok_def)
  ultimately show ?thesis
    using inv that by (auto simp: chrome_inv_def desired_ok_def key_of_def)
qed

lemma reports_split: "h \<in> set (cp_reports (chrome_run tools e m)) \<Longrightarrow> h \<in> set (cp_reports m) \<or> h \<in> set (new_reports m (chrome_run tools e m))"
  using honest_run [of m tools e] by (auto simp: honest_def new_reports_def)

text \<open>C10: routing is only ever reported as active after the browser confirmed the very script that is desired as its effective, mandatory setting.\<close>

theorem active_report_confirmed:
  assumes "chrome_reach tools tr m" and "h \<in> set (new_reports m (chrome_run tools e m))" and "rh_status h = RActive"
  shows "\<exists>p. cp_desired (chrome_run tools e m) = Some p \<and> confirmed (tr @ [e]) (pac_text tools p)"
  using new_report_confirmed [OF assms] by blast

section \<open>A sample run\<close>

text \<open>Chrome starts: from the session credential over the warm-up to the confirmed script.\<close>

definition sample_trace :: "chrome_event list" where
  "sample_trace =
     (let q = pac_config sample_policy BLOCKED_PROXY_PORT (Some 1055)
      in [EListen, ESession (Some sample_credentials), EApply routed_sample, ECurrent False Controllable, EWritten False,
          EEffective False ThisExtension \<lparr>pc_mode = ''pac_script'', pc_data = Some (pac_text [] q), pc_mandatory = Some True\<rparr>,
          EProbe (Some 204) False, ECurrent False ThisExtension, EWritten False])"

definition sample_confirm :: chrome_event where
  "sample_confirm = EEffective False ThisExtension
     \<lparr>pc_mode = ''pac_script'', pc_data = Some (pac_text [] (pac_config sample_policy 1055 None)), pc_mandatory = Some True\<rparr>"

definition sample_chrome :: ChromeProxyManager where
  "sample_chrome = fold (chrome_run []) sample_trace chrome_init"

lemma chrome_reach_fold: "chrome_reach tools tr m \<Longrightarrow> chrome_reach tools (tr @ es) (fold (chrome_run tools) es m)"
proof (induction es arbitrary: tr m)
  case (Cons e es)
  from Cons.IH [OF chrome_reach.step [OF Cons.prems, of e]] show ?case by simp
qed simp

lemmas chrome_eval = cp_setRoutingHealthListener_def cp_setProxySession_def auth_set_def set_session_def chrome_init_def
  auth_init_def cp_apply_def cp_apply_policy_def cp_blocked_def cp_auth_missing_def hasSession_def credentialsFor_def
  cp_port_def cp_health_def flush_def isReadyFor_def on_current_def on_written_def on_effective_def sameProxyConfig_def
  on_probe_def prepare_def prepare_done_def report_def

lemma sample_chrome_reports:
  "\<lparr>rh_status = RActive, rh_message = []\<rparr> \<in> set (new_reports sample_chrome (chrome_run [] sample_confirm sample_chrome))"
  by (simp add: sample_chrome_def sample_trace_def sample_confirm_def new_reports_def chrome_eval sample_credentials_def
      js_default_def BLOCKED_PROXY_PORT_def Let_def)

theorem active_report_confirmed_witness:
  "\<exists>p. cp_desired (chrome_run [] sample_confirm sample_chrome) = Some p \<and>
     confirmed (sample_trace @ [sample_confirm]) (pac_text [] p)"
proof -
  have "chrome_reach [] sample_trace sample_chrome"
    using chrome_reach_fold [OF chrome_reach.start, of "[]" sample_trace] by (simp add: sample_chrome_def)
  from active_report_confirmed [OF this sample_chrome_reports] show ?thesis by simp
qed

end
