(* ===== verification/Build_Config.thy ===== *)
theory Build_Config
  imports Types Js_Regex
begin

text \<open>
  The build configuration: \<open>config/extension-ids.json\<close> as read by \<open>packages/extension/wxt.config.ts\<close> and
  \<open>src/constants.ts\<close>, the privacy disclosure of \<open>packages/extension/config/firefox-disclosure.ts\<close>, and the
  manifest that \<open>wxt.config.ts\<close> hands to the build tool for each browser. What the tool adds to the manifest
  is a parameter of the properties that use it.
\<close>

section \<open>Identifiers\<close>

record ExtensionIds =
  chromeExtensionId :: string
  firefoxAddonId :: string
  chromeNativeHostId :: string
  firefoxNativeHostId :: string

definition CHROME_NATIVE_HOST_ID :: "ExtensionIds \<Rightarrow> string" where
  "CHROME_NATIVE_HOST_ID ids = chromeNativeHostId ids"

definition FIREFOX_NATIVE_HOST_ID :: "ExtensionIds \<Rightarrow> string" where
  "FIREFOX_NATIVE_HOST_ID ids = firefoxNativeHostId ids"

section \<open>The disclosure\<close>

datatype DataCategory = BrowsingActivity | WebsiteContent

definition category_text :: "DataCategory \<Rightarrow> string" where
  "category_text c = (case c of BrowsingActivity \<Rightarrow> ''browsingActivity'' | WebsiteContent \<Rightarrow> ''websiteContent'')"

record FirefoxDataCollectionPermissions =
  required :: "DataCategory list"
  optional :: "DataCategory list option"

datatype FirefoxDisclosure =
    DisclosureTodo string
  | DisclosureReady FirefoxDataCollectionPermissions

definition firefoxDisclosure :: FirefoxDisclosure where
  "firefoxDisclosure = DisclosureReady \<lparr>required = [BrowsingActivity, WebsiteContent], optional = Some []\<rparr>"

definition isFirefoxDisclosureReady :: "FirefoxDisclosure \<Rightarrow> FirefoxDataCollectionPermissions option" where
  "isFirefoxDisclosureReady d = (case d of DisclosureReady p \<Rightarrow> Some p | DisclosureTodo note \<Rightarrow> None)"

definition permissions_json :: "FirefoxDataCollectionPermissions \<Rightarrow> jsval" where
  "permissions_json p =
     JObj ((''required'', JArr (map (JStr \<circ> category_text) (required p))) #
       (case optional p of Some cs \<Rightarrow> [(''optional'', JArr (map (JStr \<circ> category_text) cs))] | None \<Rightarrow> []))"

section \<open>The manifest\<close>

definition icon_set :: "string \<Rightarrow> string list \<Rightarrow> jsval" where
  "icon_set kind sizes = JObj (map (\<lambda>size. (size, JStr (''icons/icon-'' @ size @ kind @ ''.png''))) sizes)"

definition chromeActionIcons :: jsval where
  "chromeActionIcons = icon_set ''-offline'' [''16'', ''32'', ''48'', ''128'']"

definition extensionIcons :: jsval where
  "extensionIcons = icon_set [] [''16'', ''32'', ''48'', ''128'']"

definition extensionDescription :: string where
  "extensionDescription =
     ''Access your tailnet from your browser. Run a full Tailscale node per browser profile without affecting system networking.''"

definition manifest_key :: string where
  "manifest_key =
     ''MIIBIjANBgkqhkiG9w0BAQEFAAOCAQ8AMIIBCgKCAQEA5/m925fPufiafHbegmZwPoowhf4XOlaEKseW/9Q3u47OQ6ALk/hSYqVOjvv2'' @
     ''SZSVIVbVJs5CrfmjWqf65Y6Nf3EkkDYHiimLXifO1XekQMQWsp1KZNHR8ymKDyOE/BFFpl2QgQgfwvNLUYZv6z9+lS95UBZk4rkpm3qS'' @
     ''3yFuMaShdURljE/DyrmelRQDCy8YJsoj2yyf4qkap3DCw5k2z5nRGxmw71E4JwavlKySIH5C+wCMo/EoHkjrS/uupbpTxvfTIuXYmmPh'' @
     ''x3yyCwBazNrkNjNe5NQk1cLvUkrGvnzo8PO2Zx3Qh9qRZUtdMZ7p1xDzUZi37uePw6QT1xjKwQIDAQAB''"

definition common_manifest :: "string \<Rightarrow> (string \<times> jsval) list" where
  "common_manifest browser =
     [(''name'', JStr ''Tailchrome''),
      (''description'', JStr extensionDescription),
      (''host_permissions'', JArr [JStr ''<all_urls>'']),
      (''permissions'', JArr (map JStr
         ([''proxy'', ''storage'', ''nativeMessaging'', ''contextMenus'', ''alarms''] @
          (if browser = ''chrome'' then [''sidePanel'', ''webRequest'', ''webRequestAuthProvider''] else [])))),
      (''action'', JObj [(''default_icon'', chromeActionIcons)]),
      (''icons'', extensionIcons)]"

definition sidebar_action :: jsval where
  "sidebar_action =
     JObj [(''default_panel'', JStr ''popup.html''), (''default_title'', JStr ''Tailchrome''),
       (''default_icon'', icon_set [] [''16'', ''32'']), (''open_at_install'', JBool False)]"

definition gecko_settings :: "ExtensionIds \<Rightarrow> FirefoxDisclosure \<Rightarrow> jsval" where
  "gecko_settings ids disclosure =
     JObj [(''gecko'', JObj ([(''id'', JStr (firefoxAddonId ids)), (''strict_min_version'', JStr ''142.0'')] @
       (case isFirefoxDisclosureReady disclosure of
          Some p \<Rightarrow> [(''data_collection_permissions'', permissions_json p)]
        | None \<Rightarrow> [])))]"

text \<open>The function \<open>manifest\<close> of the configuration; the disclosure is the constant of its module.\<close>

definition tailchrome_manifest :: "ExtensionIds \<Rightarrow> FirefoxDisclosure \<Rightarrow> string \<Rightarrow> jsval" where
  "tailchrome_manifest ids disclosure browser =
     JObj (common_manifest browser @
       (if browser = ''chrome''
        then [(''side_panel'', JObj [(''default_path'', JStr ''popup.html'')]), (''key'', JStr manifest_key)]
        else [(''sidebar_action'', sidebar_action), (''browser_specific_settings'', gecko_settings ids disclosure)]))"

record WxtConfig =
  wxt_srcDir :: string
  wxt_entrypointsDir :: string
  wxt_publicDir :: string
  wxt_outDir :: string
  wxt_manifestVersion :: nat
  wxt_targetBrowsers :: "string list"
  wxt_artifactTemplate :: string
  wxt_sourcesTemplate :: string
  wxt_sourcesRoot :: string
  wxt_excludeSources :: "string list"
  wxt_includeSources :: "string list"
  wxt_alias :: "(string \<times> string) list"
  wxt_fsAllow :: "string list"
  wxt_manifest :: "string \<Rightarrow> jsval"

text \<open>\<open>resolve\<close> is the path function of the standard library, \<open>dir\<close> the directory of the configuration.\<close>

definition wxt_config :: "(string \<Rightarrow> string \<Rightarrow> string) \<Rightarrow> string \<Rightarrow> ExtensionIds \<Rightarrow> WxtConfig" where
  "wxt_config resolve dir ids = (let repoRoot = resolve dir ''../..''; sharedDir = resolve dir ''../shared'' in
     \<lparr>wxt_srcDir = ''.'', wxt_entrypointsDir = ''entrypoints'', wxt_publicDir = ''public'', wxt_outDir = ''.output'',
      wxt_manifestVersion = 3, wxt_targetBrowsers = [''chrome'', ''firefox''],
      wxt_artifactTemplate = ''{{browser}}.zip'', wxt_sourcesTemplate = ''firefox-sources.zip'',
      wxt_sourcesRoot = repoRoot, wxt_excludeSources = [''**/*''],
      wxt_includeSources =
        [''package.json'', ''pnpm-lock.yaml'', ''pnpm-workspace.yaml'', ''tsconfig.base.json'', ''docs/SOURCE_CODE_REVIEW.md'',
         ''config/extension-ids.json'', ''patches/**'', ''packages/extension/**'', ''packages/shared/**''],
      wxt_alias = [(''@tailchrome/shared'', resolve sharedDir ''src'')], wxt_fsAllow = [repoRoot, sharedDir],
      wxt_manifest = tailchrome_manifest ids firefoxDisclosure\<rparr>)"

lemma map_of_common [simp]:
  "map_of (common_manifest browser) ''browser_specific_settings'' = None"
  by (simp add: common_manifest_def)

lemma firefox_gecko [simp]:
  "js_get (tailchrome_manifest ids d ''firefox'') ''browser_specific_settings'' = gecko_settings ids d"
  by (simp add: tailchrome_manifest_def js_get_def map_add_def)

lemma gecko_id: "js_get (js_get (js_get (wxt_manifest (wxt_config resolve dir ids) ''firefox'') ''browser_specific_settings'') ''gecko'') ''id'' =
    JStr (firefoxAddonId ids)"
  by (simp add: wxt_config_def Let_def gecko_settings_def js_get_def [of "JObj _"] split: option.split)

end
