(* ===== verification/Extension.thy ===== *)
theory Extension
  imports Proxy_Contract Chrome_Machine Timer_Service Build_Config
begin

text \<open>
  The whole extension: the entry points \<open>packages/extension/entrypoints/background.ts\<close>,
  \<open>src/background/firefox.ts\<close> and \<open>src/background/chrome.ts\<close> with \<open>startup-wake.ts\<close>, and the machine they start.
  Its state is the background script beside the proxy manager of the browser; the calls the script makes
  reach the manager in order, what the manager reports comes back to the script, and browser events go to
  either. The machine is written once over the \<open>ProxyManager\<close> interface (\<open>ManagerOps\<close>); the locale
  \<open>driven_manager\<close> has what holds of it for every manager that obeys the contract of \<open>Proxy_Contract\<close>, and
  the managers of both browsers are its instances.
\<close>

section \<open>Entry points\<close>

text \<open>What an entry point does with the browser, in order; \<open>CallInit\<close> is the call of \<open>initBackground\<close>.\<close>

datatype EntryCall =
    OnProxyError
  | OnActionClicked
  | OnStartup
  | OnProxyRequest "string list"
  | OnAlarm
  | OnAuthRequired "string list"
  | OnSettingsChange
  | WarnNoStartup
  | CallInit string
  | CreateAlarm string rat

text \<open>\<open>registerStartupWakeListener\<close>; \<open>available\<close> says whether the browser has \<open>runtime.onStartup\<close>.\<close>

definition registerStartupWakeListener :: "bool \<Rightarrow> EntryCall list" where
  "registerStartupWakeListener available = (if available then [OnStartup] else [WarnNoStartup])"

definition KEEPALIVE_PERIOD_MINUTES :: rat where
  "KEEPALIVE_PERIOD_MINUTES = of_nat KEEPALIVE_INTERVAL_MS / 60000"

text \<open>
  The listener of Firefox's alarms and, with its prefix, the one of Chrome's timer service, which only has
  alarms for time-outs.
\<close>

definition firefox_alarm :: "string \<Rightarrow> rat \<Rightarrow> bg_event option" where
  "firefox_alarm name now = (if name = ''keepalive'' then Some EvKeepalive else None)"

definition chrome_alarm :: "string \<Rightarrow> rat \<Rightarrow> bg_event option" where
  "chrome_alarm name now =
     (if prefix ALARM_PREFIX name then Some (EvTimer (drop (length ALARM_PREFIX) name) now) else None)"

section \<open>The machine\<close>

text \<open>The \<open>ProxyManager\<close> interface, with the browser events that go to the manager itself.\<close>

record ('m, 'e) ManagerOps =
  mo_apply :: "TailscaleState \<Rightarrow> 'm \<Rightarrow> 'm"
  mo_setProxySession :: "ProxySessionCredentials option \<Rightarrow> 'm \<Rightarrow> 'm"
  mo_setRoutingHealthListener :: "'m \<Rightarrow> 'm"
  mo_reports :: "'m \<Rightarrow> RoutingHealth list"
  mo_own :: "'e \<Rightarrow> bool"
  mo_event :: "'e \<Rightarrow> 'm \<Rightarrow> 'm"
  mo_alarm :: "string \<Rightarrow> rat \<Rightarrow> bg_event option"

text \<open>
  \<open>ext_told\<close> counts the calls of the script that have reached the manager, \<open>ext_heard\<close> the reports of the
  manager that have reached the script, \<open>ext_entry\<close> is what the entry point did.
\<close>

record 'm Extension =
  ext_bg :: Background
  ext_manager :: 'm
  ext_told :: nat
  ext_heard :: nat
  ext_entry :: "EntryCall list"

datatype 'e ext_event =
    XBackground bg_event
  | XManager 'e
  | XReport
  | XAlarm string rat

definition tell_manager :: "('m, 'e) ManagerOps \<Rightarrow> 'm Extension \<Rightarrow> 'm Extension" where
  "tell_manager ops x =
     x\<lparr>ext_manager := fold (manager_effect (mo_apply ops) (mo_setProxySession ops))
                       (drop (ext_told x) (bg_effects (ext_bg x))) (ext_manager x),
       ext_told := length (bg_effects (ext_bg x))\<rparr>"

definition run_script :: "('m, 'e) ManagerOps \<Rightarrow> Env \<Rightarrow> bg_event \<Rightarrow> 'm Extension \<Rightarrow> 'm Extension" where
  "run_script ops E ev x = tell_manager ops (x\<lparr>ext_bg := bg_run E ev (ext_bg x)\<rparr>)"

fun ext_run :: "('m, 'e) ManagerOps \<Rightarrow> Env \<Rightarrow> 'e ext_event \<Rightarrow> 'm Extension \<Rightarrow> 'm Extension" where
  "ext_run ops E (XBackground ev) x = run_script ops E ev x"
| "ext_run ops E (XManager e) x = x\<lparr>ext_manager := mo_event ops e (ext_manager x)\<rparr>"
| "ext_run ops E XReport x =
     (if ext_heard x < length (mo_reports ops (ext_manager x))
      then run_script ops E (EvHealth (mo_reports ops (ext_manager x) ! ext_heard x)) (x\<lparr>ext_heard := Suc (ext_heard x)\<rparr>)
      else x)"
| "ext_run ops E (XAlarm name now) x =
     (case mo_alarm ops name now of Some ev \<Rightarrow> run_script ops E ev x | None \<Rightarrow> x)"

text \<open>\<open>initBackground\<close> registers the health listener before it applies the first state.\<close>

definition ext_start :: "('m, 'e) ManagerOps \<Rightarrow> Env \<Rightarrow> InitOptions \<Rightarrow> storage \<Rightarrow> storage option \<Rightarrow> 'm \<Rightarrow> EntryCall list \<Rightarrow> 'm Extension" where
  "ext_start ops E opts local_area session_area m calls =
     tell_manager ops
       \<lparr>ext_bg = initBackground E opts local_area session_area,
        ext_manager = mo_setRoutingHealthListener ops m, ext_told = 0, ext_heard = 0, ext_entry = calls\<rparr>"

text \<open>Health reports come from the manager and, like the events of its own, from nowhere else.\<close>

definition ext_input :: "('m, 'e) ManagerOps \<Rightarrow> 'e ext_event \<Rightarrow> 'm Extension \<Rightarrow> bool" where
  "ext_input ops ev x =
     (case ev of
        XBackground e \<Rightarrow> (case e of EvHealth h \<Rightarrow> False | _ \<Rightarrow> event_input e (ext_bg x))
      | XManager e \<Rightarrow> mo_own ops e
      | XReport \<Rightarrow> True
      | XAlarm name now \<Rightarrow> (case mo_alarm ops name now of Some e \<Rightarrow> event_input e (ext_bg x) | None \<Rightarrow> True))"

inductive ext_reach :: "('m, 'e) ManagerOps \<Rightarrow> Env \<Rightarrow> 'm Extension \<Rightarrow> 'e ext_event list \<Rightarrow> 'm Extension \<Rightarrow> bool"
  for ops E x0 where
  start: "ext_reach ops E x0 [] x0"
| step: "ext_reach ops E x0 evs x \<Longrightarrow> ext_input ops ev x \<Longrightarrow> ext_reach ops E x0 (evs @ [ev]) (ext_run ops E ev x)"

section \<open>The two browsers\<close>

datatype firefox_event = ProxyErrorEvent

definition firefox_ops :: "bool \<Rightarrow> (FirefoxProxyManager, firefox_event) ManagerOps" where
  "firefox_ops can_listen =
     \<lparr>mo_apply = ff_apply can_listen, mo_setProxySession = ff_setProxySession,
      mo_setRoutingHealthListener = ff_setRoutingHealthListener, mo_reports = ff_reports,
      mo_own = (\<lambda>e. True), mo_event = (\<lambda>e. ff_onError), mo_alarm = firefox_alarm\<rparr>"

definition chrome_own :: "chrome_event \<Rightarrow> bool" where
  "chrome_own e =
     (case e of EListen \<Rightarrow> False | EApply s \<Rightarrow> False | EClear \<Rightarrow> False | ESession c \<Rightarrow> False | _ \<Rightarrow> True)"

definition chrome_ops :: "string \<Rightarrow> (ChromeProxyManager, chrome_event) ManagerOps" where
  "chrome_ops tools =
     \<lparr>mo_apply = cp_apply tools, mo_setProxySession = cp_setProxySession,
      mo_setRoutingHealthListener = cp_setRoutingHealthListener, mo_reports = cp_reports,
      mo_own = chrome_own, mo_event = chrome_run tools, mo_alarm = chrome_alarm\<rparr>"

text \<open>
  The request listener is registered before \<open>initBackground\<close> runs. The reads that
  \<open>rehydrateHelperRetries\<close> awaits end in the event \<^const>\<open>EvRehydrate\<close>.
\<close>

definition startFirefoxBackground ::
  "bool \<Rightarrow> ExtensionIds \<Rightarrow> bool \<Rightarrow> Env \<Rightarrow> storage \<Rightarrow> storage option \<Rightarrow> FirefoxProxyManager Extension" where
  "startFirefoxBackground can_listen ids onStartup E local_area session_area =
     ext_start (firefox_ops can_listen) E
       \<lparr>opt_browserStartup = False, opt_installedReason = None, opt_skipKeepalive = True\<rparr> local_area session_area
       (firefox_init\<lparr>ff_listening := True\<rparr>)
       ([OnProxyError, OnActionClicked] @ registerStartupWakeListener onStartup @
        [OnProxyRequest [''<all_urls>''], OnAlarm, CallInit (FIREFOX_NATIVE_HOST_ID ids),
         CreateAlarm ''keepalive'' KEEPALIVE_PERIOD_MINUTES])"

definition startChromeBackground ::
  "string \<Rightarrow> ExtensionIds \<Rightarrow> bool \<Rightarrow> Env \<Rightarrow> storage \<Rightarrow> storage option \<Rightarrow> ChromeProxyManager Extension" where
  "startChromeBackground tools ids onStartup E local_area session_area =
     ext_start (chrome_ops tools) E
       \<lparr>opt_browserStartup = False, opt_installedReason = None, opt_skipKeepalive = False\<rparr> local_area session_area
       chrome_init
       (registerStartupWakeListener onStartup @
        [OnAuthRequired [''<all_urls>''], OnSettingsChange, OnProxyError, OnAlarm, CallInit (CHROME_NATIVE_HOST_ID ids)])"

text \<open>The background entry point, for the browser the extension was built for.\<close>

definition background_main ::
  "string \<Rightarrow> bool \<Rightarrow> string \<Rightarrow> ExtensionIds \<Rightarrow> bool \<Rightarrow> Env \<Rightarrow> storage \<Rightarrow> storage option \<Rightarrow>
   FirefoxProxyManager Extension + ChromeProxyManager Extension" where
  "background_main browser can_listen tools ids onStartup E local_area session_area =
     (if browser = ''firefox'' then Inl (startFirefoxBackground can_listen ids onStartup E local_area session_area)
      else Inr (startChromeBackground tools ids onStartup E local_area session_area))"

abbreviation firefox_runs ::
  "bool \<Rightarrow> ExtensionIds \<Rightarrow> bool \<Rightarrow> Env \<Rightarrow> storage \<Rightarrow> storage option \<Rightarrow> firefox_event ext_event list \<Rightarrow> FirefoxProxyManager Extension \<Rightarrow> bool" where
  "firefox_runs listen ids wake E l s evs x \<equiv>
     ext_reach (firefox_ops listen) E (startFirefoxBackground listen ids wake E l s) evs x"

abbreviation chrome_runs ::
  "string \<Rightarrow> ExtensionIds \<Rightarrow> bool \<Rightarrow> Env \<Rightarrow> storage \<Rightarrow> storage option \<Rightarrow> chrome_event ext_event list \<Rightarrow> ChromeProxyManager Extension \<Rightarrow> bool" where
  "chrome_runs tools ids wake E l s evs x \<equiv>
     ext_reach (chrome_ops tools) E (startChromeBackground tools ids wake E l s) evs x"

section \<open>What the script tells the manager\<close>

lemma bg_run_grows:
  assumes "bg_reach E b" and "event_input ev b"
  obtains es where "bg_effects (bg_run E ev b) = bg_effects b @ es"
proof -
  have "bg_ok any_health (bg_effects b) E (bg_run E ev b)"
    using bg_ok_past [OF bg_reach_ok [OF assms(1)]] assms(2) by (intro bg_ok_run) simp_all
  then show ?thesis using that by (auto simp: bg_ok_def prefix_def)
qed

lemma init_applies: "list_ex is_apply (bg_effects (initBackground E opts l s))"
proof -
  have "list_ex is_apply (bg_effects (host_connect (apply_proxy b)))" for b
    by (simp add: host_connect_def apply_proxy_def effect_def case_prod_beta Let_def)
  then show ?thesis by (simp add: initBackground_def set_timer_def Let_def)
qed

definition applied_active :: "bg_effect list \<Rightarrow> int \<Rightarrow> bool" where
  "applied_active es p \<longleftrightarrow> (\<exists>es1 s es2. es = es1 @ ApplyProxy s # es2 \<and> \<not> list_ex is_apply es2 \<and>
     rp_mode (policyFromState s) = PActive \<and> js_default (rp_proxyPort (policyFromState s)) 0 = p)"

lemma applied_active_quiet: "applied_active es p \<Longrightarrow> \<not> list_ex is_apply es' \<Longrightarrow> applied_active (es @ es') p"
  unfolding applied_active_def by (elim exE conjE) (rule_tac x = es1 in exI, rule_tac x = s in exI, simp)

lemma applied_active_later: "applied_active es' p \<Longrightarrow> applied_active (es @ es') p"
  unfolding applied_active_def by (elim exE conjE) (rule_tac x = "es @ es1" in exI, rule_tac x = s in exI, simp)

section \<open>Managers that obey the contract\<close>

locale driven_manager =
  proxy_manager invar "mo_apply ops" "mo_setProxySession ops" route shut helper_port
  for invar and ops :: "('m, 'e) ManagerOps" and route and shut and helper_port +
  assumes own_invar: "invar m \<Longrightarrow> mo_own ops e \<Longrightarrow> invar (mo_event ops e m)"
    and own_shut: "mo_own ops e \<Longrightarrow> shut m \<Longrightarrow> shut (mo_event ops e m)"
    and own_port: "mo_own ops e \<Longrightarrow> helper_port (mo_event ops e m) = helper_port m"
    and listen_invar: "invar m \<Longrightarrow> invar (mo_setRoutingHealthListener ops m)"
    and listen_port: "helper_port (mo_setRoutingHealthListener ops m) = helper_port m"
begin

text \<open>The manager has been told everything, is shut while all that was said is blocked, and uses the port it was given last.\<close>

definition driven :: "Env \<Rightarrow> 'm Extension \<Rightarrow> bool" where
  "driven E x \<longleftrightarrow>
     bg_reach E (ext_bg x) \<and> ext_told x = length (bg_effects (ext_bg x)) \<and> invar (ext_manager x) \<and>
     list_ex is_apply (bg_effects (ext_bg x)) \<and>
     (list_all effect_blocked (bg_effects (ext_bg x)) \<longrightarrow> shut (ext_manager x)) \<and>
     (\<forall>p. helper_port (ext_manager x) = Some p \<longrightarrow> p \<noteq> BLOCKED_PROXY_PORT \<longrightarrow> applied_active (bg_effects (ext_bg x)) p)"

lemma port_active:
  assumes "invar m" and "helper_port (fold (manager_effect (mo_apply ops) (mo_setProxySession ops)) es m) = Some p"
    and "p \<noteq> BLOCKED_PROXY_PORT" and "helper_port m = Some p \<Longrightarrow> applied_active past p"
  shows "applied_active (past @ es) p"
proof (cases "list_ex is_apply es")
  case False
  then have "helper_port m = Some p" using port_quiet [of es m] assms(2) by simp
  with False show ?thesis using assms(4) by (simp add: applied_active_quiet)
next
  case True
  from port_last [OF assms(1) True assms(2,3)] show ?thesis
    by (intro applied_active_later) (simp add: applied_active_def)
qed

lemma driven_script:
  assumes "driven E x" and "event_input ev (ext_bg x)" and "ext_bg x' = ext_bg x" "ext_manager x' = ext_manager x" "ext_told x' = ext_told x"
  shows "driven E (run_script ops E ev x')"
proof -
  from assms(1) have reach: "bg_reach E (ext_bg x)" by (simp add: driven_def)
  obtain es where es: "bg_effects (bg_run E ev (ext_bg x)) = bg_effects (ext_bg x) @ es"
    by (rule bg_run_grows [OF reach assms(2)])
  let ?m = "fold (manager_effect (mo_apply ops) (mo_setProxySession ops)) es (ext_manager x)"
  have "shut ?m" if "list_all effect_blocked (bg_effects (ext_bg x) @ es)"
    using that assms(1) by (intro shut_effects) (simp_all add: driven_def)
  moreover have "applied_active (bg_effects (ext_bg x) @ es) p" if "helper_port ?m = Some p" "p \<noteq> BLOCKED_PROXY_PORT" for p
    using that assms(1) by (intro port_active [OF _ that]) (simp_all add: driven_def)
  ultimately show ?thesis
    using assms(1) bg_reach.step [OF reach assms(2)]
    by (simp add: driven_def run_script_def tell_manager_def assms(3-5) es invar_effects)
qed

lemma driven_run:
  assumes "driven E x" and "ext_input ops ev x"
  shows "driven E (ext_run ops E ev x)"
proof (cases ev)
  case (XBackground e)
  with assms show ?thesis by (auto simp: ext_input_def intro: driven_script split: bg_event.splits)
next
  case (XManager e)
  with assms show ?thesis by (simp add: driven_def ext_input_def own_invar own_shut own_port)
next
  case XReport
  with assms show ?thesis by (auto simp: event_input_def intro: driven_script)
next
  case (XAlarm name now)
  with assms show ?thesis by (auto simp: ext_input_def intro: driven_script split: option.splits)
qed

lemma driven_start:
  assumes "invar m" and "helper_port m = None"
  shows "driven E (ext_start ops E opts l s m calls)"
proof -
  let ?m = "fold (manager_effect (mo_apply ops) (mo_setProxySession ops)) (bg_effects (initBackground E opts l s)) (mo_setRoutingHealthListener ops m)"
  have "applied_active ([] @ bg_effects (initBackground E opts l s)) p" if "helper_port ?m = Some p" "p \<noteq> BLOCKED_PROXY_PORT" for p
    using assms by (intro port_active [OF _ that]) (simp_all add: listen_invar listen_port)
  then show ?thesis
    using assms by (simp add: driven_def ext_start_def tell_manager_def bg_reach.init init_applies invar_effects listen_invar shut_effects)
qed

lemma driven_reach: "ext_reach ops E x0 evs x \<Longrightarrow> driven E x0 \<Longrightarrow> driven E x"
  by (induction rule: ext_reach.induct) (simp_all add: driven_run)

text \<open>The two guarantees: nothing gets through before the protection is restored, and a helper port was announced.\<close>

lemma fails_closed:
  assumes "driven E x" and "\<not> rt_ready (bg_routing (ext_bg x))"
  shows "shut (ext_manager x)"
  using assms bg_reach_ok [of E "ext_bg x"] by (simp add: driven_def bg_ok_def)

lemma route_announced:
  assumes "driven E x" and "route (ext_manager x) host = PacProxy p" and "p \<noteq> BLOCKED_PROXY_PORT"
  shows "applied_active (bg_effects (ext_bg x)) p"
  using assms route_port [OF _ assms(2,3)] by (simp add: driven_def)

end

section \<open>Firefox\<close>

lemma firefox_ops_simps [simp]:
  "mo_apply (firefox_ops l) = ff_apply l" "mo_setProxySession (firefox_ops l) = ff_setProxySession"
  "mo_setRoutingHealthListener (firefox_ops l) = ff_setRoutingHealthListener" "mo_reports (firefox_ops l) = ff_reports"
  "mo_own (firefox_ops l) fe" "mo_event (firefox_ops l) fe = ff_onError" "mo_alarm (firefox_ops l) = firefox_alarm"
  by (simp_all add: firefox_ops_def)

interpretation fx: driven_manager ff_synced "firefox_ops listen" ff_route ff_shut ff_helper_port for listen
proof (intro driven_manager.intro driven_manager_axioms.intro)
  show "proxy_manager ff_synced (mo_apply (firefox_ops listen)) (mo_setProxySession (firefox_ops listen)) ff_route ff_shut ff_helper_port"
    by (simp add: firefox.proxy_manager_axioms)
next
  fix m :: FirefoxProxyManager and e :: firefox_event
  have quiet: "ff_in_force p (ff_onError m) = ff_in_force p m" "ff_in_force p (ff_setRoutingHealthListener m) = ff_in_force p m"
    "ff_policyKey (ff_onError m) = ff_policyKey m" "ff_policyKey (ff_setRoutingHealthListener m) = ff_policyKey m"
    "ff_shut (ff_onError m) = ff_shut m" "ff_helper_port (ff_onError m) = ff_helper_port m"
    "ff_helper_port (ff_setRoutingHealthListener m) = ff_helper_port m" for p
    by (simp_all add: ff_onError_def ff_setRoutingHealthListener_def ff_in_force_def ff_shut_def ff_helper_port_def ff_report_def)
  show "ff_synced m \<Longrightarrow> ff_synced (mo_event (firefox_ops listen) e m)" "ff_shut m \<Longrightarrow> ff_shut (mo_event (firefox_ops listen) e m)"
    "ff_helper_port (mo_event (firefox_ops listen) e m) = ff_helper_port m"
    "ff_synced m \<Longrightarrow> ff_synced (mo_setRoutingHealthListener (firefox_ops listen) m)"
    "ff_helper_port (mo_setRoutingHealthListener (firefox_ops listen) m) = ff_helper_port m"
    by (simp_all add: ff_synced_def quiet)
qed

lemma firefox_driven:
  assumes "ext_reach (firefox_ops listen) E (startFirefoxBackground listen ids wake E l s) evs x"
  shows "fx.driven E x"
proof -
  have "ff_synced (firefox_init\<lparr>ff_listening := True\<rparr>)" "ff_helper_port (firefox_init\<lparr>ff_listening := True\<rparr>) = None"
    by (simp_all add: ff_synced_def firefox_init_def ff_helper_port_def)
  then have "fx.driven E (startFirefoxBackground listen ids wake E l s)"
    unfolding startFirefoxBackground_def by (rule fx.driven_start)
  with assms show ?thesis by (rule fx.driven_reach)
qed

section \<open>Chrome\<close>

lemma chrome_ops_simps [simp]:
  "mo_apply (chrome_ops tools) = cp_apply tools" "mo_setProxySession (chrome_ops tools) = cp_setProxySession"
  "mo_setRoutingHealthListener (chrome_ops tools) = cp_setRoutingHealthListener" "mo_reports (chrome_ops tools) = cp_reports"
  "mo_own (chrome_ops tools) = chrome_own" "mo_event (chrome_ops tools) = chrome_run tools" "mo_alarm (chrome_ops tools) = chrome_alarm"
  by (simp_all add: chrome_ops_def)

text \<open>
  What the manager holds, has under way or has written: each wanted setting, a script or \<^const>\<open>None\<close> for a
  release, satisfies \<open>P\<close>.
\<close>

definition call_value :: "SettingsCall \<Rightarrow> PacScript option" where
  "call_value c = (case c of SettingsSet q \<Rightarrow> Some q | SettingsClear \<Rightarrow> None)"

definition carries :: "(PacScript option \<Rightarrow> bool) \<Rightarrow> ChromeProxyManager \<Rightarrow> bool" where
  "carries P m \<longleftrightarrow>
     (cp_desiredKey m \<noteq> NoKey \<longrightarrow> P (cp_desired m)) \<and>
     (rh_status (cp_desiredHealth m) = RActive \<longrightarrow> P (cp_authPending m)) \<and>
     (\<forall>ctx. flight_ctx (cp_flight m) = Some ctx \<longrightarrow> P (fl_value ctx)) \<and>
     (\<forall>c\<in>set (cp_calls m). P (call_value c))"

lemma carries_report [simp]: "carries P (report h m) = carries P m"
  by (simp add: carries_def report_def)

lemma carries_fields [simp]:
  "carries P (m\<lparr>cp_appliedKey := k\<rparr>) = carries P m" "carries P (m\<lparr>cp_errorKey := k\<rparr>) = carries P m"
  "carries P (m\<lparr>cp_authRoutingPending := b\<rparr>) = carries P m" "carries P (m\<lparr>cp_changeEpoch := n\<rparr>) = carries P m"
  "carries P (m\<lparr>cp_auth := a\<rparr>) = carries P m" "carries P (m\<lparr>cp_sessionEpoch := n\<rparr>) = carries P m"
  "carries P (m\<lparr>cp_hasHealthListener := b\<rparr>) = carries P m" "carries P (m\<lparr>cp_activePort := i\<rparr>) = carries P m"
  by (simp_all add: carries_def)

lemma carries_idle [intro]: "carries P m \<Longrightarrow> carries P (m\<lparr>cp_flight := Idle\<rparr>)"
  by (simp add: carries_def flight_ctx_def)

lemma carries_flush [intro]: "carries P m \<Longrightarrow> carries P (flush m)"
  by (auto simp: flush_def Let_def carries_def flight_ctx_def report_def)

lemma carries_fail [intro]: "carries P m \<Longrightarrow> carries P (flight_fail ctx msg b m)"
  by (auto simp: flight_fail_def Let_def intro!: carries_flush carries_idle)

lemma carries_flight: "carries P m \<Longrightarrow> P (fl_value ctx) \<Longrightarrow> flight_ctx f = Some ctx \<Longrightarrow> carries P (m\<lparr>cp_flight := f\<rparr>)"
  by (simp add: carries_def)

lemma carries_value: "carries P m \<Longrightarrow> flight_ctx (cp_flight m) = Some ctx \<Longrightarrow> P (fl_value ctx)"
  by (simp add: carries_def)

lemma carries_mono: "carries P m \<Longrightarrow> (\<And>v. P v \<Longrightarrow> Q v) \<Longrightarrow> carries Q m"
  by (auto simp: carries_def)

lemma carries_on_current: "carries P m \<Longrightarrow> carries P (on_current e l m)"
  by (auto simp: on_current_def split: Flight.split intro!: carries_flush carries_idle carries_fail)
    (auto simp: carries_def flight_ctx_def call_value_def split: option.split)

lemma carries_on_written: "carries P m \<Longrightarrow> carries P (on_written e m)"
  using carries_value [of P m]
  by (auto simp: on_written_def flight_ctx_def split: Flight.split intro!: carries_fail carries_flight)

lemma carries_on_effective: "carries P m \<Longrightarrow> carries P (on_effective tools e l c m)"
proof (cases "cp_flight m")
  case (Verifying ctx n)
  assume m: "carries P m"
  have v: "P (fl_value ctx)" using carries_value [OF m] Verifying by (simp add: flight_ctx_def)
  have to: "carries P (m'\<lparr>cp_flight := Probing ctx p\<rparr>)" "carries P (m'\<lparr>cp_flight := Verifying ctx k\<rparr>)" if "carries P m'" for m' p k
    using that v by (simp_all add: carries_flight flight_ctx_def)
  show ?thesis
    unfolding on_effective_def Verifying Flight.case Let_def case_prod_beta
    using m by (auto intro!: to carries_flush carries_idle carries_fail)
qed (simp_all add: on_effective_def)

lemma carries_on_probe: "carries P m \<Longrightarrow> carries P (on_probe r b m)"
  by (auto simp: on_probe_def Let_def case_prod_beta split: Flight.split intro!: carries_flush carries_idle carries_fail)

lemma carries_on_change: "carries P m \<Longrightarrow> carries P (on_change tools l c m)"
  by (auto simp: on_change_def Let_def split: option.split intro!: carries_flush)

lemma carries_own: "carries P m \<Longrightarrow> chrome_own e \<Longrightarrow> carries P (chrome_run tools e m)"
  by (cases e) (simp_all add: chrome_own_def carries_on_current carries_on_written carries_on_effective carries_on_probe
    carries_on_change on_proxy_error_def)

lemma carries_session: "carries P m \<Longrightarrow> carries P (cp_setProxySession c m)"
  by (simp add: cp_setProxySession_def case_prod_beta Let_def)

lemma carries_clear: "carries P m \<Longrightarrow> P None \<Longrightarrow> carries P (cp_clear m)"
  unfolding cp_clear_def Let_def by (intro carries_flush) (simp add: carries_def)

lemma carries_apply_policy:
  assumes "carries P m" and "P (Some (pac_config policy (cp_port m policy) None))"
    and "\<not> cp_blocked m policy \<Longrightarrow> P (Some (pac_config policy BLOCKED_PROXY_PORT (Some (cp_port m policy))))"
  shows "carries P (cp_apply_policy tools policy m)"
  unfolding cp_apply_policy_def Let_def
  by (intro carries_flush) (use assms in \<open>auto simp: carries_def cp_health_def\<close>)

text \<open>Callbacks leave what is desired alone.\<close>

lemma desired_flush [simp]: "cp_desired (flush m) = cp_desired m"
  by (simp add: flush_def report_def Let_def)

lemma desired_report [simp]: "cp_desired (report h m) = cp_desired m"
  by (simp add: report_def)

lemma desired_fail [simp]: "cp_desired (flight_fail ctx msg b m) = cp_desired m"
  by (simp add: flight_fail_def Let_def)

lemma desired_own: "chrome_own e \<Longrightarrow> cp_desired (chrome_run tools e m) = cp_desired m"
  by (cases e) (simp_all add: chrome_own_def on_current_def on_written_def on_effective_def on_probe_def on_change_def
    on_proxy_error_def Let_def case_prod_beta split: Flight.split option.split)

interpretation cx: driven_manager cp_final "chrome_ops tools" cp_route cp_shut cp_helper_port for tools
proof (intro driven_manager.intro driven_manager_axioms.intro)
  show "proxy_manager cp_final (mo_apply (chrome_ops tools)) (mo_setProxySession (chrome_ops tools)) cp_route cp_shut cp_helper_port"
    by (simp add: chrome.proxy_manager_axioms)
qed (simp_all add: cp_final_def cp_shut_def cp_helper_port_def desired_own cp_setRoutingHealthListener_def)

lemma chrome_driven:
  assumes "ext_reach (chrome_ops tools) E (startChromeBackground tools ids wake E l s) evs x"
  shows "cx.driven E x"
proof -
  have "cx.driven E (startChromeBackground tools ids wake E l s)"
    unfolding startChromeBackground_def by (rule cx.driven_start) simp_all
  with assms show ?thesis by (rule cx.driven_reach)
qed

section \<open>What Chrome is asked to install\<close>

text \<open>Every setting comes from a state that was applied: a release from a direct policy, a helper port from an active one.\<close>

definition value_justified :: "bg_effect list \<Rightarrow> PacScript option \<Rightarrow> bool" where
  "value_justified es v \<longleftrightarrow>
     (\<exists>s. ApplyProxy s \<in> set es \<and>
        (let policy = policyFromState s; p = js_default (rp_proxyPort policy) 0 in
         case v of
           None \<Rightarrow> rp_mode policy = PDirect
         | Some q \<Rightarrow> rp_mode policy \<noteq> PDirect \<and>
             (q = pac_config policy BLOCKED_PROXY_PORT None \<or>
              rp_mode policy = PActive \<and> (q = pac_config policy p None \<or> q = pac_config policy BLOCKED_PROXY_PORT (Some p)))))"

lemma value_justified_mono: "value_justified es v \<Longrightarrow> set es \<subseteq> set es' \<Longrightarrow> value_justified es' v"
  by (auto simp: value_justified_def)

lemma carries_apply:
  assumes "carries (value_justified es) m" and "ApplyProxy s \<in> set es"
  shows "carries (value_justified es) (cp_apply tools s m)"
proof (cases "rp_mode (policyFromState s) = PDirect")
  case True
  then have "value_justified es None" using assms(2) by (auto simp: value_justified_def)
  with True assms(1) show ?thesis by (simp add: cp_apply_def carries_clear)
next
  case False
  let ?policy = "policyFromState s"
  have active: "rp_mode ?policy = PActive" if "\<not> cp_blocked m ?policy"
    using that False by (cases "rp_mode ?policy") (simp_all add: cp_blocked_def)
  have "value_justified es (Some (pac_config ?policy (cp_port m ?policy) None))"
    unfolding value_justified_def by (rule exI [of _ s]) (use False active assms(2) in \<open>auto simp: cp_port_def Let_def\<close>)
  moreover have "value_justified es (Some (pac_config ?policy BLOCKED_PROXY_PORT (Some (cp_port m ?policy))))" if "\<not> cp_blocked m ?policy"
    unfolding value_justified_def by (rule exI [of _ s]) (use that False active assms(2) in \<open>auto simp: cp_port_def Let_def\<close>)
  ultimately show ?thesis using False assms(1) by (simp add: cp_apply_def carries_apply_policy)
qed

text \<open>The browser reported this text as the effective, mandatory setting of the extension.\<close>

definition browser_confirmed :: "chrome_event ext_event list \<Rightarrow> string \<Rightarrow> bool" where
  "browser_confirmed evs t \<longleftrightarrow> (\<exists>c. XManager (EEffective False ThisExtension c) \<in> set evs \<and> pc_mode c = ''pac_script'' \<and>
     pc_data c = Some t \<and> pc_mandatory c = Some True)"

definition script_in_force :: "string \<Rightarrow> chrome_event ext_event list \<Rightarrow> bg_effect list \<Rightarrow> bool" where
  "script_in_force tools evs es \<longleftrightarrow> (\<exists>q. value_justified es (Some q) \<and> browser_confirmed evs (pac_text tools q))"

text \<open>The manager as Chrome's machine left it, with honest reports.\<close>

definition chrome_part :: "string \<Rightarrow> chrome_event ext_event list \<Rightarrow> bg_effect list \<Rightarrow> ChromeProxyManager \<Rightarrow> bool" where
  "chrome_part tools evs es m \<longleftrightarrow>
     carries (value_justified es) m \<and>
     (\<exists>tr. chrome_reach tools tr m \<and> (\<forall>e\<in>set tr. chrome_own e \<longrightarrow> XManager e \<in> set evs)) \<and>
     (\<forall>h\<in>set (cp_reports m). rh_status h = RActive \<longrightarrow> script_in_force tools evs es)"

lemma script_in_force_mono:
  "script_in_force tools evs es \<Longrightarrow> set evs \<subseteq> set evs' \<Longrightarrow> set es \<subseteq> set es' \<Longrightarrow> script_in_force tools evs' es'"
  unfolding script_in_force_def browser_confirmed_def by (blast intro: value_justified_mono)

lemma chrome_part_mono:
  "chrome_part tools evs es m \<Longrightarrow> set evs \<subseteq> set evs' \<Longrightarrow> set es \<subseteq> set es' \<Longrightarrow> chrome_part tools evs' es' m"
  unfolding chrome_part_def by (blast intro: carries_mono value_justified_mono script_in_force_mono)

lemma chrome_part_run:
  assumes "chrome_part tools evs es m" and "carries (value_justified es) (chrome_run tools e m)"
    and "chrome_own e \<Longrightarrow> XManager e \<in> set evs"
  shows "chrome_part tools evs es (chrome_run tools e m)"
proof -
  obtain tr where tr: "chrome_reach tools tr m" "\<forall>e\<in>set tr. chrome_own e \<longrightarrow> XManager e \<in> set evs"
    using assms(1) by (auto simp: chrome_part_def)
  have own: "\<forall>e\<in>set (tr @ [e]). chrome_own e \<longrightarrow> XManager e \<in> set evs" using tr(2) assms(3) by auto
  have "script_in_force tools evs es" if h: "h \<in> set (cp_reports (chrome_run tools e m))" "rh_status h = RActive" for h
    using reports_split [OF h(1)]
  proof
    assume "h \<in> set (new_reports m (chrome_run tools e m))"
    from new_report_confirmed [OF tr(1) this h(2)] obtain p where p: "cp_desired (chrome_run tools e m) = Some p"
      "cp_desiredKey (chrome_run tools e m) = ScriptKey (pac_text tools p)" "confirmed (tr @ [e]) (pac_text tools p)" by blast
    with assms(2) have "value_justified es (Some p)" by (simp add: carries_def)
    moreover have "browser_confirmed evs (pac_text tools p)"
      using p(3) own by (fastforce simp: confirmed_def browser_confirmed_def chrome_own_def)
    ultimately show ?thesis by (auto simp: script_in_force_def)
  qed (use assms(1) h(2) in \<open>auto simp: chrome_part_def\<close>)
  then show ?thesis using assms(2) chrome_reach.step [OF tr(1)] own unfolding chrome_part_def by blast
qed

lemma chrome_part_effect:
  assumes "chrome_part tools evs es m" and "e \<in> set es"
  shows "chrome_part tools evs es (manager_effect (cp_apply tools) cp_setProxySession e m)"
proof (cases e)
  case (ApplyProxy s)
  then have "carries (value_justified es) (chrome_run tools (EApply s) m)"
    using assms by (simp add: carries_apply chrome_part_def)
  from chrome_part_run [OF assms(1) this] ApplyProxy show ?thesis by (simp add: chrome_own_def)
next
  case (SetSession c)
  have "carries (value_justified es) (chrome_run tools (ESession c) m)"
    using assms(1) by (simp add: carries_session chrome_part_def)
  from chrome_part_run [OF assms(1) this] SetSession show ?thesis by (simp add: chrome_own_def)
qed (use assms(1) in simp_all)

lemma chrome_part_effects:
  "chrome_part tools evs es m \<Longrightarrow> set es' \<subseteq> set es \<Longrightarrow>
   chrome_part tools evs es (fold (manager_effect (cp_apply tools) cp_setProxySession) es' m)"
  by (induction es' arbitrary: m) (simp_all add: chrome_part_effect)

definition chrome_whole :: "string \<Rightarrow> Env \<Rightarrow> chrome_event ext_event list \<Rightarrow> ChromeProxyManager Extension \<Rightarrow> bool" where
  "chrome_whole tools E evs x \<longleftrightarrow>
     cx.driven E x \<and> chrome_part tools evs (bg_effects (ext_bg x)) (ext_manager x) \<and>
     bg_ok (\<lambda>h. script_in_force tools evs (bg_effects (ext_bg x))) [] E (ext_bg x)"

lemma chrome_whole_script:
  assumes "chrome_whole tools E evs x" and "event_input ev (ext_bg x)" and "set evs \<subseteq> set evs'"
    and "ext_bg x' = ext_bg x" "ext_manager x' = ext_manager x" "ext_told x' = ext_told x"
    and "\<And>h. ev = EvHealth h \<Longrightarrow> h \<in> set (cp_reports (ext_manager x))"
  shows "chrome_whole tools E evs' (run_script (chrome_ops tools) E ev x')"
proof -
  let ?es = "bg_effects (ext_bg x)"
  from assms(1) have reach: "bg_reach E (ext_bg x)" by (simp add: chrome_whole_def cx.driven_def)
  obtain es where es: "bg_effects (bg_run E ev (ext_bg x)) = ?es @ es"
    by (rule bg_run_grows [OF reach assms(2)])
  have part: "chrome_part tools evs ?es (ext_manager x)" using assms(1) by (simp add: chrome_whole_def)
  have "health_ok (\<lambda>h. script_in_force tools evs ?es) h" if "ev = EvHealth h" for h
    using part assms(7) [OF that] by (auto simp: chrome_part_def health_ok_def)
  then have "bg_ok (\<lambda>h. script_in_force tools evs ?es) [] E (bg_run E ev (ext_bg x))"
    using assms(1,2) by (intro bg_ok_run) (simp_all add: chrome_whole_def)
  then have ok: "bg_ok (\<lambda>h. script_in_force tools evs' (?es @ es)) [] E (bg_run E ev (ext_bg x))"
    by (rule bg_ok_mono) (use assms(3) in \<open>auto intro: script_in_force_mono\<close>)
  have "chrome_part tools evs' (?es @ es) (ext_manager x)"
    using part assms(3) by (rule chrome_part_mono) simp
  then have "chrome_part tools evs' (?es @ es) (fold (manager_effect (cp_apply tools) cp_setProxySession) es (ext_manager x))"
    by (rule chrome_part_effects) simp
  moreover have "cx.driven E (run_script (chrome_ops tools) E ev x')"
    by (rule cx.driven_script [OF _ assms(2,4,5,6)]) (use assms(1) in \<open>simp add: chrome_whole_def\<close>)
  ultimately show ?thesis
    using ok assms(1) by (simp add: chrome_whole_def run_script_def tell_manager_def assms(4-6) es cx.driven_def)
qed

lemma chrome_whole_same:
  assumes "chrome_whole tools E evs x" and "set evs \<subseteq> set evs'"
  shows "chrome_whole tools E evs' x"
  using assms unfolding chrome_whole_def by (blast intro: chrome_part_mono bg_ok_mono script_in_force_mono)

lemma chrome_whole_run:
  assumes "chrome_whole tools E evs x" and "ext_input (chrome_ops tools) ev x"
  shows "chrome_whole tools E (evs @ [ev]) (ext_run (chrome_ops tools) E ev x)"
proof (cases ev)
  case (XBackground e)
  with assms show ?thesis
    by (auto simp: ext_input_def intro!: chrome_whole_script split: bg_event.splits)
next
  case (XManager e)
  let ?x = "ext_run (chrome_ops tools) E ev x"
  have own: "chrome_own e" using assms(2) XManager by (simp add: ext_input_def)
  have same: "chrome_whole tools E (evs @ [ev]) x" by (rule chrome_whole_same [OF assms(1)]) auto
  then have "chrome_part tools (evs @ [ev]) (bg_effects (ext_bg x)) (chrome_run tools e (ext_manager x))"
    using own XManager by (intro chrome_part_run) (auto simp: chrome_whole_def chrome_part_def carries_own)
  with same cx.driven_run [where E = E, OF _ assms(2)] XManager show ?thesis by (simp add: chrome_whole_def)
next
  case XReport
  with assms show ?thesis
    by (auto simp: event_input_def intro: chrome_whole_script chrome_whole_same)
next
  case (XAlarm name now)
  with assms show ?thesis
    by (auto simp: ext_input_def chrome_alarm_def intro: chrome_whole_script chrome_whole_same split: option.splits)
qed

lemma chrome_whole_start: "chrome_whole tools E [] (startChromeBackground tools ids wake E l s)"
proof -
  let ?opts = "\<lparr>opt_browserStartup = False, opt_installedReason = None, opt_skipKeepalive = False\<rparr>"
  let ?es = "bg_effects (initBackground E ?opts l s)"
  have "carries (value_justified ?es) (chrome_run tools EListen chrome_init)"
    by (simp add: carries_def chrome_init_def cp_setRoutingHealthListener_def flight_ctx_def)
  moreover have "chrome_reach tools [EListen] (chrome_run tools EListen chrome_init)"
    using chrome_reach.step [OF chrome_reach.start, of tools EListen] by simp
  ultimately have "chrome_part tools [] ?es (chrome_run tools EListen chrome_init)"
    unfolding chrome_part_def
    by (intro conjI exI [of _ "[EListen]"]) (simp_all add: chrome_own_def chrome_init_def cp_setRoutingHealthListener_def)
  then have "chrome_part tools [] ?es (fold (manager_effect (cp_apply tools) cp_setProxySession) ?es (chrome_run tools EListen chrome_init))"
    by (rule chrome_part_effects) simp
  with chrome_driven [OF ext_reach.start] show ?thesis
    by (simp add: chrome_whole_def startChromeBackground_def ext_start_def tell_manager_def bg_ok_init)
qed

lemma chrome_whole_reach:
  "ext_reach (chrome_ops tools) E (startChromeBackground tools ids wake E l s) evs x \<Longrightarrow> chrome_whole tools E evs x"
proof (induction rule: ext_reach.induct)
  case start
  show ?case by (rule chrome_whole_start)
qed (rule chrome_whole_run)

section \<open>Justified routes\<close>

text \<open>A state that was handed over had the helper running at this port and the selected exit node, if any, online.\<close>

definition helper_announced :: "int \<Rightarrow> TailscaleState \<Rightarrow> bool" where
  "helper_announced p s \<longleftrightarrow> shouldProxyState s \<and> ts_proxyPort s = Some p \<and>
     (\<forall>x. ts_selectedExitNodeID s = Some x \<longrightarrow> x \<noteq> [] \<longrightarrow> exit_live s x)"

text \<open>A request goes direct, is refused, or goes to the port of the last state handed over.\<close>

definition route_justified :: "bg_effect list \<Rightarrow> PacResult \<Rightarrow> bool" where
  "route_justified es r \<longleftrightarrow>
     r = PacDirect \<or> r = PacProxy BLOCKED_PROXY_PORT \<or>
     (\<exists>p es1 s es2. r = PacProxy p \<and> es = es1 @ ApplyProxy s # es2 \<and> \<not> list_ex is_apply es2 \<and> helper_announced p s)"

text \<open>A release follows a direct policy, and an installed script only names ports that were announced.\<close>

definition call_justified :: "bg_effect list \<Rightarrow> SettingsCall \<Rightarrow> bool" where
  "call_justified es c =
     (case c of
        SettingsClear \<Rightarrow> \<exists>s. ApplyProxy s \<in> set es \<and> rp_mode (policyFromState s) = PDirect
      | SettingsSet q \<Rightarrow> \<forall>host p. pac_eval q host = PacProxy p \<longrightarrow>
          p = BLOCKED_PROXY_PORT \<or> (\<exists>s. ApplyProxy s \<in> set es \<and> helper_announced p s))"

lemma routed_active:
  assumes "routed H s" and "rp_mode (policyFromState s) = PActive" and "js_default (rp_proxyPort (policyFromState s)) 0 = p"
  shows "helper_announced p s"
proof -
  obtain base r where base: "ts_routingPolicy base = None"
    and s: "s = base\<lparr>ts_routingPolicy := Some (snd (decorate_policy base r)),
      ts_selectedExitNodeID := rp_selectedExitNodeID (snd (decorate_policy base r))\<rparr>"
    using assms(1) by (auto simp: routed_def store_ok_def decorate_def case_prod_beta Let_def)
  have "policyFromState s = snd (decorate_policy base r)" by (simp add: s policyFromState_def)
  with assms(2,3) have act: "rp_mode (snd (decorate_policy base r)) = PActive"
    and port: "js_default (rp_proxyPort (snd (decorate_policy base r))) 0 = p" by simp_all
  from decorate_active_exit [OF base act] port show ?thesis
    by (auto simp: helper_announced_def s shouldProxyState_def exit_live_def js_default_def split: option.splits)
qed

lemma reach_effect: "bg_reach E b \<Longrightarrow> e \<in> set (bg_effects b) \<Longrightarrow> effect_safe any_health E e"
  using bg_reach_ok [of E b] by (simp add: bg_ok_def list_all_iff)

lemma applied_routed: "bg_reach E b \<Longrightarrow> ApplyProxy s \<in> set (bg_effects b) \<Longrightarrow> routed any_health s"
  using reach_effect by fastforce

lemma applied_active_justified:
  assumes "bg_reach E b" and "\<And>p. r = PacProxy p \<Longrightarrow> p \<noteq> BLOCKED_PROXY_PORT \<Longrightarrow> applied_active (bg_effects b) p"
  shows "route_justified (bg_effects b) r"
proof (cases r)
  case (PacProxy p)
  show ?thesis
  proof (cases "p = BLOCKED_PROXY_PORT")
    case False
    with assms(2) PacProxy obtain es1 s es2 where es: "bg_effects b = es1 @ ApplyProxy s # es2" "\<not> list_ex is_apply es2"
      "rp_mode (policyFromState s) = PActive" "js_default (rp_proxyPort (policyFromState s)) 0 = p"
      by (auto simp: applied_active_def)
    from routed_active [OF applied_routed [OF assms(1), of s] es(3,4)] es(1) have "helper_announced p s" by simp
    with es(1,2) PacProxy show ?thesis unfolding route_justified_def by blast
  qed (use PacProxy in \<open>simp add: route_justified_def\<close>)
qed (simp add: route_justified_def)

lemma pac_config_port: "pac_eval (pac_config policy q probe) host = PacProxy p \<Longrightarrow> p = q \<or> probe = Some p"
  by (auto simp: pac_eval_def pac_config_def generatePACScript_def Let_def split: option.splits if_splits)

lemma value_call_justified:
  assumes "bg_reach E b" and "value_justified (bg_effects b) (call_value c)"
  shows "call_justified (bg_effects b) c"
proof -
  from assms(2) obtain s where s: "ApplyProxy s \<in> set (bg_effects b)"
    and v: "let policy = policyFromState s; p = js_default (rp_proxyPort policy) 0 in
         case call_value c of
           None \<Rightarrow> rp_mode policy = PDirect
         | Some q \<Rightarrow> rp_mode policy \<noteq> PDirect \<and>
             (q = pac_config policy BLOCKED_PROXY_PORT None \<or>
              rp_mode policy = PActive \<and> (q = pac_config policy p None \<or> q = pac_config policy BLOCKED_PROXY_PORT (Some p)))"
    by (auto simp: value_justified_def)
  show ?thesis
  proof (cases c)
    case SettingsClear
    with s v show ?thesis by (auto simp: call_justified_def call_value_def)
  next
    case (SettingsSet q)
    let ?policy = "policyFromState s"
    have "p = BLOCKED_PROXY_PORT \<or> rp_mode ?policy = PActive \<and> js_default (rp_proxyPort ?policy) 0 = p"
      if "pac_eval q host = PacProxy p" for host p
      using that v SettingsSet by (auto simp: call_value_def Let_def dest!: pac_config_port)
    with routed_active [OF applied_routed [OF assms(1) s]] s SettingsSet show ?thesis
      by (fastforce simp: call_justified_def)
  qed
qed

lemma value_refuses:
  assumes "list_all effect_blocked es" and "value_justified es v"
  shows "v = Some (pac_config blockAllPolicy BLOCKED_PROXY_PORT None)"
proof -
  from assms(2) obtain s where s: "ApplyProxy s \<in> set es"
    and v: "case v of None \<Rightarrow> rp_mode (policyFromState s) = PDirect
       | Some q \<Rightarrow> q = pac_config (policyFromState s) BLOCKED_PROXY_PORT None \<or> rp_mode (policyFromState s) = PActive"
    unfolding value_justified_def Let_def by (auto split: option.splits)
  from assms(1) s have "policyFromState s = blockAllPolicy"
    by (fastforce simp: list_all_iff policyFromState_def)
  with v show ?thesis by (simp add: blockAllPolicy_def split: option.splits)
qed

lemma ff_route_resolve: "parse_url url = Some u \<Longrightarrow> route_of (resolveProxy parse_url m url) = ff_route m (url_hostname u)"
  by (simp add: resolveProxy_def ff_route_def route_of_def)

lemma ff_shut_resolve: "ff_shut m \<Longrightarrow> parse_url url = Some u \<Longrightarrow> resolveProxy parse_url m url = FSocks BLOCKED_PROXY_PORT None"
  by (simp add: resolveProxy_def ff_shut_def ff_route_host_def ff_proxy_def ff_credentials_def)

section \<open>The first moment\<close>

lemma init_effects:
  assumes "opt_browserStartup opts = False" and "opt_installedReason opts = None"
  obtains t where "bg_effects (initBackground E opts l s) = [ApplyProxy t]" "policyFromState t = blockAllPolicy"
    "\<not> rt_ready (bg_routing (initBackground E opts l s))"
proof -
  let ?b = "set_timer RUNTIME_LIFECYCLE_SETTLE_TIMER_NAME OnLifecycleSettled (bg_blank l s)"
  let ?t = "snd (decorate DEFAULT_STATE routing_init)"
  have b: "bg_store ?b = DEFAULT_STATE" "bg_routing ?b = routing_init" "bg_effects ?b = []"
    by (simp_all add: set_timer_def bg_blank_def)
  have unready: "\<not> rt_ready routing_init" by (simp add: routing_init_def)
  have "bg_effects (initBackground E opts l s) = [ApplyProxy ?t]"
    "bg_routing (initBackground E opts l s) = fst (decorate_policy DEFAULT_STATE routing_init)"
    using assms by (simp_all add: initBackground_def lifecycle_captured_def host_connect_def apply_proxy_def effect_def
      decorated_def decorate_def case_prod_beta Let_def b set_timer_def [of KEEPALIVE_TIMER_NAME])
  moreover have "policyFromState ?t = blockAllPolicy"
    using decorate_unready [OF unready] by (simp add: decorate_def case_prod_beta Let_def policyFromState_def)
  ultimately show ?thesis using that unready by (simp add: decorate_ready)
qed

lemma chrome_start_checks:
  obtains ctx where "cp_flight (ext_manager (startChromeBackground tools ids wake E l s)) = Checking ctx"
    "fl_key ctx = cp_desiredKey (ext_manager (startChromeBackground tools ids wake E l s))"
proof -
  let ?opts = "\<lparr>opt_browserStartup = False, opt_installedReason = None, opt_skipKeepalive = False\<rparr>"
  obtain t where t: "bg_effects (initBackground E ?opts l s) = [ApplyProxy t]" "policyFromState t = blockAllPolicy"
    by (rule init_effects [of ?opts]) simp_all
  have "rp_mode blockAllPolicy = PBlocked" by (simp add: blockAllPolicy_def)
  then show ?thesis using that t
    by (simp add: startChromeBackground_def ext_start_def tell_manager_def cp_apply_def cp_apply_policy_def flush_def chrome_init_def
       cp_setRoutingHealthListener_def Let_def cp_health_def cp_blocked_def)
qed

lemma started_unready:
  "\<not> rt_ready (bg_routing (ext_bg (startFirefoxBackground listen ids wake E l s)))"
  "\<not> rt_ready (bg_routing (ext_bg (startChromeBackground tools ids wake E l s)))"
  by (simp_all add: startFirefoxBackground_def startChromeBackground_def ext_start_def tell_manager_def)
    (rule init_effects, simp_all)+

lemma entry_host:
  "CallInit h \<in> set (ext_entry (startChromeBackground tools ids wake E l s)) \<longleftrightarrow> h = chromeNativeHostId ids"
  "CallInit h \<in> set (ext_entry (startFirefoxBackground listen ids wake E l s)) \<longleftrightarrow> h = firefoxNativeHostId ids"
  by (auto simp: startChromeBackground_def startFirefoxBackground_def ext_start_def tell_manager_def registerStartupWakeListener_def
      CHROME_NATIVE_HOST_ID_def FIREFOX_NATIVE_HOST_ID_def)

end
