(* ===== verification/Release_Checks.thy ===== *)
theory Release_Checks
  imports Build_Config Helper_Diagnostics "HOL-Library.Multiset"
begin

text \<open>
  The checks that stand between the repository and a release: \<open>scripts/validate-release-tag.mjs\<close>,
  \<open>scripts/validate-extension-ids.mjs\<close>, \<open>scripts/validate-firefox-publish.mjs\<close>, and the update of the Homebrew
  definitions by \<open>scripts/update-homebrew.mjs\<close>. Files are arguments, a failed check is a value. The lemmas
  show what a passed check guarantees.
\<close>

section \<open>Release tags\<close>

text \<open>\<open>[0-9]+\.[0-9]+\.[0-9]+\<close>.\<close>

definition dotted :: "string \<Rightarrow> bool" where
  "dotted s \<longleftrightarrow> (let parts = js_split (CHR ''.'') s in length parts = 3 \<and> list_all (\<lambda>p. p \<noteq> [] \<and> list_all is_digit p) parts)"

datatype TagCheck =
    TagUsage
  | TagMalformed string
  | TagMismatch "(string \<times> string option) list"
  | TagAccepted

definition version_mismatch :: "string \<Rightarrow> string \<Rightarrow> string option \<Rightarrow> (string \<times> string option) list" where
  "version_mismatch expected source actual = (if actual = Some expected then [] else [(source, actual)])"

definition validate_release_tag :: "string option \<Rightarrow> string option \<Rightarrow> string option \<Rightarrow> TagCheck" where
  "validate_release_tag arg extension_version shared_version =
     (case truthy arg of
        None \<Rightarrow> TagUsage
      | Some tag \<Rightarrow>
          if \<not> (hd tag = CHR ''v'' \<and> dotted (tl tag)) then TagMalformed tag
          else (let mismatches = version_mismatch (tl tag) ''packages/extension/package.json'' extension_version @
                                 version_mismatch (tl tag) ''packages/shared/package.json'' shared_version
                in if mismatches \<noteq> [] then TagMismatch mismatches else TagAccepted))"

section \<open>Identifiers\<close>

text \<open>\<open>text.match(/r/)?.[1]\<close>: the text captured by the first match.\<close>

fun rx_first :: "rx \<Rightarrow> string \<Rightarrow> string \<Rightarrow> string option" where
  "rx_first r pre [] = (case rx_match r (pre, [], []) of [] \<Rightarrow> None | (_, _, cap) # _ \<Rightarrow> Some cap)"
| "rx_first r pre (c # cs) =
     (case rx_match r (pre, c # cs, []) of [] \<Rightarrow> rx_first r (c # pre) cs | (_, _, cap) # _ \<Rightarrow> Some cap)"

definition go_constant :: "string \<Rightarrow> rx" where
  "go_constant name =
     rx_seq [rx_lit (''const '' @ name @ '' = '' @ [dquote]), Group (rx_plus (rx_not_in [dquote])), rx_chr dquote]"

definition id_checks :: "ExtensionIds \<Rightarrow> (string \<times> string \<times> string) list" where
  "id_checks ids =
     [(''chromeExtensionId'', ''chromeWebStoreExtensionID'', chromeExtensionId ids),
      (''firefoxAddonId'', ''firefoxExtensionID'', firefoxAddonId ids),
      (''chromeNativeHostId'', ''manifestNameChrome'', chromeNativeHostId ids),
      (''firefoxNativeHostId'', ''manifestNameFirefox'', firefoxNativeHostId ids)]"

datatype IdMismatch =
    MissingConstant string
  | ConstantMismatch string string string
  | MissingHostDestination
  | ManifestPath string string jsval
  | ManifestName string string jsval
  | AllowedMismatch string string

definition check_constant :: "string \<Rightarrow> string \<times> string \<times> string \<Rightarrow> IdMismatch list" where
  "check_constant installGo check =
     (case check of (label, name, expected) \<Rightarrow>
        (case truthy (rx_first (go_constant name) [] installGo) of
           None \<Rightarrow> [MissingConstant label]
         | Some actual \<Rightarrow> if actual \<noteq> expected then [ConstantMismatch label expected actual] else []))"

definition host_destination :: rx where
  "host_destination =
     rx_seq [rx_lit ''src:'', Star rx_space, rx_lit ''dist/tailscale-browser-ext-linux-amd64'', Star rx_space, rx_chr newline,
       Star rx_space, rx_lit ''dst:'', Star rx_space, Group (rx_plus (Cls (\<lambda>c. \<not> js_space c)))]"

definition chrome_origin :: "ExtensionIds \<Rightarrow> string" where
  "chrome_origin ids = ''chrome-extension://'' @ chromeExtensionId ids @ ''/''"

text \<open>
  Two JSON texts are equal when the values they print are; a parsed value prints as the array of one text
  only when it is that array.
\<close>

definition validate_extension_ids :: "ExtensionIds \<Rightarrow> string \<Rightarrow> string \<Rightarrow> jsval \<Rightarrow> jsval \<Rightarrow> IdMismatch list" where
  "validate_extension_ids ids installGo linuxPackage chromeManifest firefoxManifest =
     concat (map (check_constant installGo) (id_checks ids)) @
     (case truthy (rx_first host_destination [] linuxPackage) of
        None \<Rightarrow> [MissingHostDestination]
      | Some p \<Rightarrow>
          (if js_get chromeManifest ''path'' \<noteq> JStr p then [ManifestPath ''Chrome'' p (js_get chromeManifest ''path'')] else []) @
          (if js_get firefoxManifest ''path'' \<noteq> JStr p then [ManifestPath ''Firefox'' p (js_get firefoxManifest ''path'')] else [])) @
     (if js_get chromeManifest ''name'' \<noteq> JStr (chromeNativeHostId ids)
      then [ManifestName ''Chrome'' (chromeNativeHostId ids) (js_get chromeManifest ''name'')] else []) @
     (if js_get chromeManifest ''allowed_origins'' \<noteq> JArr [JStr (chrome_origin ids)]
      then [AllowedMismatch ''allowed_origins'' (chrome_origin ids)] else []) @
     (if js_get firefoxManifest ''name'' \<noteq> JStr (firefoxNativeHostId ids)
      then [ManifestName ''Firefox'' (firefoxNativeHostId ids) (js_get firefoxManifest ''name'')] else []) @
     (if js_get firefoxManifest ''allowed_extensions'' \<noteq> JArr [JStr (firefoxAddonId ids)]
      then [AllowedMismatch ''allowed_extensions'' (firefoxAddonId ids)] else [])"

section \<open>Publishing to Firefox\<close>

definition getArg :: "string list \<Rightarrow> string \<Rightarrow> string \<Rightarrow> string" where
  "getArg argv name fallback =
     (case dropWhile (\<lambda>a. a \<noteq> name) argv of _ # value # _ \<Rightarrow> value | _ \<Rightarrow> fallback)"

datatype PublishError =
    NotFound string string
  | AddonIdMismatch string jsval
  | MinVersionMismatch string jsval
  | PermissionsMissing
  | PermissionsEmpty
  | PlaceholderValue jsval
  | RequiredMismatch "string list"
  | OptionalPresent "string list"

definition assertExists :: "(string \<Rightarrow> bool) \<Rightarrow> string \<Rightarrow> string \<Rightarrow> PublishError option" where
  "assertExists fs path label = (if fs path then None else Some (NotFound label path))"

definition expectedMinVersion :: string where
  "expectedMinVersion = ''142.0''"

definition approvedRequiredCategories :: "string list" where
  "approvedRequiredCategories = [''browsingActivity'', ''websiteContent'']"

definition js_elements :: "jsval \<Rightarrow> jsval list" where
  "js_elements v = (case v of JArr vs \<Rightarrow> vs | _ \<Rightarrow> [])"

definition placeholder_pattern :: rx where
  "placeholder_pattern = rx_alts [rx_lit_i ''todo'', rx_lit_i ''placeholder'', rx_lit_i ''tbd'']"

definition placeholder_category :: "jsval \<Rightarrow> bool" where
  "placeholder_category v = (case v of JStr c \<Rightarrow> rx_test placeholder_pattern c | _ \<Rightarrow> True)"

text \<open>\<open>[...array].sort()\<close> of an array whose elements are known to be texts.\<close>

definition sorted_categories :: "jsval \<Rightarrow> string list" where
  "sorted_categories v = sort (List.map_filter js_str_option (js_elements v))"

definition js_object :: "jsval \<Rightarrow> bool" where
  "js_object v = (case v of JArr _ \<Rightarrow> True | JObj _ \<Rightarrow> True | _ \<Rightarrow> False)"

definition check_firefox_manifest :: "ExtensionIds \<Rightarrow> jsval \<Rightarrow> PublishError option" where
  "check_firefox_manifest ids manifest =
     (let gecko = js_get (js_get manifest ''browser_specific_settings'') ''gecko'';
          permissions = js_get gecko ''data_collection_permissions'';
          categories = js_elements (js_get permissions ''required'') @ js_elements (js_get permissions ''optional'');
          requiredCategories = sorted_categories (js_get permissions ''required'');
          optionalCategories = sorted_categories (js_get permissions ''optional'')
      in if js_get gecko ''id'' \<noteq> JStr (firefoxAddonId ids) then Some (AddonIdMismatch (firefoxAddonId ids) (js_get gecko ''id''))
         else if js_get gecko ''strict_min_version'' \<noteq> JStr expectedMinVersion
         then Some (MinVersionMismatch expectedMinVersion (js_get gecko ''strict_min_version''))
         else if \<not> js_object permissions then Some PermissionsMissing
         else if categories = [] then Some PermissionsEmpty
         else (case filter placeholder_category categories of
                 c # _ \<Rightarrow> Some (PlaceholderValue c)
               | [] \<Rightarrow>
                   if requiredCategories \<noteq> sort approvedRequiredCategories then Some (RequiredMismatch requiredCategories)
                   else if optionalCategories \<noteq> [] then Some (OptionalPresent optionalCategories)
                   else None))"

definition validate_firefox_publish ::
  "string list \<Rightarrow> (string \<Rightarrow> bool) \<Rightarrow> (string \<Rightarrow> jsval) \<Rightarrow> ExtensionIds \<Rightarrow> PublishError option" where
  "validate_firefox_publish argv fs json ids =
     (let buildDir = getArg argv ''--build-dir'' ''packages/extension/.output/firefox-mv3'';
          firefoxZip = getArg argv ''--firefox-zip'' ''packages/extension/.output/firefox.zip'';
          firefoxSourcesZip = getArg argv ''--firefox-sources-zip'' ''packages/extension/.output/firefox-sources.zip'';
          path = buildDir @ ''/manifest.json''
      in case assertExists fs firefoxZip ''Firefox ZIP'' of Some e \<Rightarrow> Some e | None \<Rightarrow>
         (case assertExists fs firefoxSourcesZip ''Firefox sources ZIP'' of Some e \<Rightarrow> Some e | None \<Rightarrow>
         (case assertExists fs path ''Firefox manifest'' of Some e \<Rightarrow> Some e | None \<Rightarrow>
          check_firefox_manifest ids (json path))))"

section \<open>What passed checks guarantee\<close>

text \<open>The disclosure that the publication check asks for.\<close>

definition disclosure_approved :: "FirefoxDisclosure \<Rightarrow> bool" where
  "disclosure_approved d =
     (case d of
        DisclosureTodo note \<Rightarrow> False
      | DisclosureReady p \<Rightarrow> mset (required p) = {#BrowsingActivity, WebsiteContent#} \<and> js_default (optional p) [] = [])"

lemma category_text_inj: "category_text a = category_text b \<longleftrightarrow> a = b"
  by (cases a; cases b) (simp_all add: category_text_def)

lemma category_text_plain: "\<not> placeholder_category (JStr (category_text c))"
proof -
  have "\<not> placeholder_category (JStr ''browsingActivity'')" "\<not> placeholder_category (JStr ''websiteContent'')"
    by code_simp+
  then show ?thesis by (cases c) (simp_all add: category_text_def)
qed

lemma categories_elements [simp]: "js_elements (JArr vs) = vs"
  by (simp add: js_elements_def)

lemma sorted_texts: "sorted_categories (JArr (map (JStr \<circ> category_text) cs)) = sort (map category_text cs)"
  by (simp add: sorted_categories_def List.map_filter_def js_str_option_def comp_def)

lemma sort_mset_iff: "sort xs = sort ys \<longleftrightarrow> mset xs = mset ys"
  by (metis mset_sort sorted_list_of_multiset_mset)

lemma sort_nil: "sort xs = [] \<longleftrightarrow> xs = []"
  by (metis length_0_conv length_sort)

lemma required_iff:
  "sort (map category_text cs) = sort approvedRequiredCategories \<longleftrightarrow> mset cs = {#BrowsingActivity, WebsiteContent#}"
proof -
  have "mset approvedRequiredCategories = image_mset category_text {#BrowsingActivity, WebsiteContent#}"
    by (simp add: approvedRequiredCategories_def category_text_def)
  moreover have "inj (image_mset category_text)"
    by (rule multiset.inj_map) (simp add: inj_def category_text_inj)
  ultimately show ?thesis by (metis sort_mset_iff mset_map injD)
qed

lemma permissions_fields:
  "js_get (permissions_json p) ''required'' = JArr (map (JStr \<circ> category_text) (required p))"
  "js_elements (js_get (permissions_json p) ''optional'') = map (JStr \<circ> category_text) (js_default (optional p) [])"
  "sorted_categories (js_get (permissions_json p) ''optional'') = sort (map category_text (js_default (optional p) []))"
  "js_object (permissions_json p)"
  using sorted_texts by (simp_all add: permissions_json_def js_object_def js_default_def js_elements_def sorted_categories_def
      List.map_filter_def split: option.split)

lemma no_placeholder: "filter placeholder_category (map (JStr \<circ> category_text) cs) = []"
  using category_text_plain by (auto simp: filter_empty_conv)

lemma gecko_accepted:
  assumes "js_get manifest ''browser_specific_settings'' = gecko_settings ids d"
  shows "check_firefox_manifest ids manifest = None \<longleftrightarrow> disclosure_approved d"
proof (cases d)
  case (DisclosureReady p)
  have gecko: "js_get (js_get manifest ''browser_specific_settings'') ''gecko'' =
      JObj [(''id'', JStr (firefoxAddonId ids)), (''strict_min_version'', JStr ''142.0''), (''data_collection_permissions'', permissions_json p)]"
    by (simp add: assms gecko_settings_def DisclosureReady isFirefoxDisclosureReady_def)
  show ?thesis
    using no_placeholder [of "required p"] no_placeholder [of "js_default (optional p) []"] required_iff [of "required p"]
    unfolding check_firefox_manifest_def gecko Let_def
    by (auto simp: expectedMinVersion_def permissions_fields sorted_texts sort_nil disclosure_approved_def DisclosureReady)
next
  case (DisclosureTodo why)
  then show ?thesis
    by (simp add: check_firefox_manifest_def assms gecko_settings_def isFirefoxDisclosureReady_def expectedMinVersion_def
        js_object_def disclosure_approved_def)
qed

text \<open>
  C37: the build configuration and the publication check agree. Whatever else the build tool puts into the
  manifest, as long as it keeps the browser-specific settings, the Firefox manifest made from a disclosure
  is accepted exactly when the disclosure is complete and names the two approved categories and no
  optional one; the disclosure in the repository is.
\<close>

theorem built_manifest_publishable:
  assumes "\<And>m. js_get (wxt m) ''browser_specific_settings'' = js_get m ''browser_specific_settings''"
    and "\<And>path. fs path" and "\<And>path. json path = wxt (tailchrome_manifest ids d ''firefox'')"
  shows "(validate_firefox_publish argv fs json ids = None \<longleftrightarrow> disclosure_approved d) \<and> disclosure_approved firefoxDisclosure"
proof (rule conjI)
  have "check_firefox_manifest ids (wxt (tailchrome_manifest ids d ''firefox'')) = None \<longleftrightarrow> disclosure_approved d"
    by (rule gecko_accepted) (simp add: assms(1))
  then show "validate_firefox_publish argv fs json ids = None \<longleftrightarrow> disclosure_approved d"
    by (simp add: validate_firefox_publish_def assertExists_def assms(2,3) Let_def)
  show "disclosure_approved firefoxDisclosure"
    by (simp add: disclosure_approved_def firefoxDisclosure_def js_default_def)
qed

text \<open>The identifiers of \<open>config/extension-ids.json\<close>.\<close>

definition sample_ids :: ExtensionIds where
  "sample_ids =
     \<lparr>chromeExtensionId = ''bhfeceecialgilpedkoflminjgcjljll'', firefoxAddonId = ''tailchrome@tesseras.org'',
      chromeNativeHostId = ''com.tailscale.browserext.chrome'', firefoxNativeHostId = ''com.tailscale.browserext.firefox''\<rparr>"

definition sample_tool :: "jsval \<Rightarrow> jsval" where
  "sample_tool m = (case m of JObj ps \<Rightarrow> JObj (ps @ [(''manifest_version'', JNum (Fin 3))]) | _ \<Rightarrow> m)"

theorem built_manifest_publishable_witness:
  "validate_firefox_publish [] (\<lambda>_. True) (\<lambda>_. sample_tool (tailchrome_manifest sample_ids firefoxDisclosure ''firefox'')) sample_ids = None \<and>
   validate_firefox_publish [] (\<lambda>_. True) (\<lambda>_. sample_tool (tailchrome_manifest sample_ids (DisclosureTodo []) ''firefox'')) sample_ids \<noteq> None"
proof -
  have kept: "js_get (sample_tool m) ''browser_specific_settings'' = js_get m ''browser_specific_settings''" for m
    by (simp add: sample_tool_def js_get_def map_add_def split: jsval.split option.split)
  have "disclosure_approved firefoxDisclosure" "\<not> disclosure_approved (DisclosureTodo [])"
    by (simp_all add: disclosure_approved_def firefoxDisclosure_def js_default_def)
  with built_manifest_publishable [OF kept TrueI refl] show ?thesis by blast
qed

text \<open>Every passed check of the identifiers, one by one.\<close>

lemma constant_checked: "check_constant go (label, name, expected) = [] \<Longrightarrow> rx_first (go_constant name) [] go = Some expected"
  by (auto simp: check_constant_def truthy_def split: option.splits if_splits)

lemma ids_checked:
  assumes "validate_extension_ids ids go pkg chrome firefox = []"
  shows "rx_first (go_constant ''chromeWebStoreExtensionID'') [] go = Some (chromeExtensionId ids)"
    "rx_first (go_constant ''firefoxExtensionID'') [] go = Some (firefoxAddonId ids)"
    "rx_first (go_constant ''manifestNameChrome'') [] go = Some (chromeNativeHostId ids)"
    "rx_first (go_constant ''manifestNameFirefox'') [] go = Some (firefoxNativeHostId ids)"
    "js_get chrome ''name'' = JStr (chromeNativeHostId ids)" "js_get firefox ''name'' = JStr (firefoxNativeHostId ids)"
    "js_get chrome ''allowed_origins'' = JArr [JStr (chrome_origin ids)]"
    "js_get firefox ''allowed_extensions'' = JArr [JStr (firefoxAddonId ids)]"
    "\<exists>p. rx_first host_destination [] pkg = Some p \<and> js_get chrome ''path'' = JStr p \<and> js_get firefox ''path'' = JStr p"
proof -
  from assms have const_checks: "\<forall>c\<in>set (id_checks ids). check_constant go c = []"
    and rest: "js_get chrome ''name'' = JStr (chromeNativeHostId ids)" "js_get firefox ''name'' = JStr (firefoxNativeHostId ids)"
      "js_get chrome ''allowed_origins'' = JArr [JStr (chrome_origin ids)]"
      "js_get firefox ''allowed_extensions'' = JArr [JStr (firefoxAddonId ids)]"
    and path: "(case truthy (rx_first host_destination [] pkg) of
        None \<Rightarrow> [MissingHostDestination]
      | Some p \<Rightarrow>
          (if js_get chrome ''path'' \<noteq> JStr p then [ManifestPath ''Chrome'' p (js_get chrome ''path'')] else []) @
          (if js_get firefox ''path'' \<noteq> JStr p then [ManifestPath ''Firefox'' p (js_get firefox ''path'')] else [])) = []"
    by (simp_all add: validate_extension_ids_def split: if_splits)
  show "rx_first (go_constant ''chromeWebStoreExtensionID'') [] go = Some (chromeExtensionId ids)"
    "rx_first (go_constant ''firefoxExtensionID'') [] go = Some (firefoxAddonId ids)"
    "rx_first (go_constant ''manifestNameChrome'') [] go = Some (chromeNativeHostId ids)"
    "rx_first (go_constant ''manifestNameFirefox'') [] go = Some (firefoxNativeHostId ids)"
    using const_checks by (auto simp: id_checks_def dest!: constant_checked)
  show "\<exists>p. rx_first host_destination [] pkg = Some p \<and> js_get chrome ''path'' = JStr p \<and> js_get firefox ''path'' = JStr p"
    using path by (auto simp: truthy_def split: option.splits if_splits)
  show "js_get chrome ''name'' = JStr (chromeNativeHostId ids)" "js_get firefox ''name'' = JStr (firefoxNativeHostId ids)"
    "js_get chrome ''allowed_origins'' = JArr [JStr (chrome_origin ids)]"
    "js_get firefox ''allowed_extensions'' = JArr [JStr (firefoxAddonId ids)]"
    by (fact rest)+
qed

end
