(* ===== verification/Homebrew_Update.thy ===== *)
theory Homebrew_Update
  imports Release_Checks
begin

text \<open>
  \<open>scripts/update-homebrew.mjs\<close>: the checksum list of a release and the update of the Homebrew cask and
  formula. The regular expressions match whole lines, so a text is taken as its lines with their
  terminators. The lemmas show that a list of checksums is read back as it was printed, and that an
  update changes only the lines it should and never lowers a version.
\<close>

section \<open>Lines\<close>

abbreviation carriage_return :: char where
  "carriage_return \<equiv> CHR 0x0d"

definition line_end :: "char \<Rightarrow> bool" where
  "line_end c \<longleftrightarrow> c = newline \<or> c = carriage_return"

text \<open>The lines of a text as \<open>^\<close> and \<open>$\<close> see them under the flag \<open>m\<close>, each with its terminator.\<close>

fun text_lines :: "string \<Rightarrow> (string \<times> string) list" where
  "text_lines [] = [([], [])]"
| "text_lines (c # cs) =
     (if line_end c then ([], [c]) # text_lines cs
      else (case text_lines cs of (l, t) # rest \<Rightarrow> (c # l, t) # rest | [] \<Rightarrow> [([c], [])]))"

definition lines_text :: "(string \<times> string) list \<Rightarrow> string" where
  "lines_text ls = concat (map (\<lambda>(l, t). l @ t) ls)"

text \<open>A line that is \<open>pre\<close>, then a text that satisfies \<open>ok\<close>, then \<open>suf\<close>.\<close>

definition framed :: "string \<Rightarrow> (string \<Rightarrow> bool) \<Rightarrow> string \<Rightarrow> string \<Rightarrow> string option" where
  "framed pre ok suf l =
     (let rest = drop (length pre) l; inner = take (length rest - length suf) rest
      in if prefix pre l \<and> suffix suf rest \<and> ok inner then Some inner else None)"

section \<open>Checksums\<close>

datatype HomebrewError =
    InvalidEntry string
  | DuplicateChecksum string
  | MissingChecksum
  | MatchCount string nat
  | Downgrade string string
  | BadTag
  | BadSourceSha
  | HomebrewUsage

definition caskAsset :: string where
  "caskAsset = ''tailchrome-helper-macos.pkg''"

definition lower_hex :: "char \<Rightarrow> bool" where
  "lower_hex c \<longleftrightarrow> is_digit c \<or> (is_lower c \<and> is_hex c)"

definition sha256_text :: "string \<Rightarrow> bool" where
  "sha256_text s \<longleftrightarrow> length s = 64 \<and> list_all lower_hex s"

definition alnum :: "char \<Rightarrow> bool" where
  "alnum c \<longleftrightarrow> is_digit c \<or> is_lower c \<or> is_upper c"

definition asset_name :: "string \<Rightarrow> bool" where
  "asset_name s \<longleftrightarrow>
     (case s of [] \<Rightarrow> False | c # cs \<Rightarrow> alnum c \<and> list_all (\<lambda>c. alnum c \<or> c \<in> set ''._-'') cs)"

definition checksum_entry :: "string \<Rightarrow> (string \<times> string) option" where
  "checksum_entry line =
     (let checksum = take 64 line; asset = drop 66 line
      in if sha256_text checksum \<and> take 2 (drop 64 line) = ''  '' \<and> asset_name asset then Some (asset, checksum) else None)"

text \<open>\<open>contents.trimEnd().split(/\r?\n/)\<close>.\<close>

definition trimEnd :: "string \<Rightarrow> string" where
  "trimEnd s = rev (dropWhile js_space (rev s))"

definition strip_cr :: "string \<Rightarrow> string" where
  "strip_cr s = (if s \<noteq> [] \<and> last s = carriage_return then butlast s else s)"

definition split_newlines :: "string \<Rightarrow> string list" where
  "split_newlines s = (let pieces = js_split newline s in map strip_cr (butlast pieces) @ [last pieces])"

fun parse_entries :: "(string \<times> string) list \<Rightarrow> string list \<Rightarrow> HomebrewError + (string \<times> string) list" where
  "parse_entries checksums [] = Inr checksums"
| "parse_entries checksums (line # lines) =
     (case checksum_entry line of
        None \<Rightarrow> Inl (InvalidEntry line)
      | Some (asset, checksum) \<Rightarrow>
          if map_of checksums asset \<noteq> None then Inl (DuplicateChecksum asset)
          else parse_entries (checksums @ [(asset, checksum)]) lines)"

definition parseChecksums :: "string \<Rightarrow> HomebrewError + (string \<times> string) list" where
  "parseChecksums contents =
     (case parse_entries [] (split_newlines (trimEnd contents)) of
        Inl e \<Rightarrow> Inl e
      | Inr checksums \<Rightarrow> if map_of checksums caskAsset = None then Inl MissingChecksum else Inr checksums)"

section \<open>Replacing one line\<close>

fun replace_lines :: "(string \<Rightarrow> string option) \<Rightarrow> (string \<Rightarrow> HomebrewError + string) \<Rightarrow> (string \<times> string) list \<Rightarrow>
    HomebrewError + nat \<times> (string \<times> string) list" where
  "replace_lines match replacement [] = Inr (0, [])"
| "replace_lines match replacement ((l, t) # ls) =
     (case match l of
        None \<Rightarrow> (case replace_lines match replacement ls of Inl e \<Rightarrow> Inl e | Inr (n, ls') \<Rightarrow> Inr (n, (l, t) # ls'))
      | Some x \<Rightarrow>
          (case replacement x of
             Inl e \<Rightarrow> Inl e
           | Inr l' \<Rightarrow> (case replace_lines match replacement ls of Inl e \<Rightarrow> Inl e | Inr (n, ls') \<Rightarrow> Inr (Suc n, (l', t) # ls'))))"

definition replaceOnce :: "string \<Rightarrow> (string \<Rightarrow> string option) \<Rightarrow> (string \<Rightarrow> HomebrewError + string) \<Rightarrow> string \<Rightarrow> HomebrewError + string" where
  "replaceOnce pattern match replacement contents =
     (case replace_lines match replacement (text_lines contents) of
        Inl e \<Rightarrow> Inl e
      | Inr (n, ls) \<Rightarrow> if n \<noteq> 1 then Inl (MatchCount pattern n) else Inr (lines_text ls))"

section \<open>Versions\<close>

text \<open>The first component that differs is lower.\<close>

fun lower_version :: "nat list \<Rightarrow> nat list \<Rightarrow> bool" where
  "lower_version (p # ps) (n # ns) = (if n \<noteq> p then n < p else lower_version ps ns)"
| "lower_version _ _ = False"

definition version_parts :: "string \<Rightarrow> nat list" where
  "version_parts s = map digits_val (js_split (CHR ''.'') s)"

definition checkUpgrade :: "string \<Rightarrow> string \<Rightarrow> HomebrewError option" where
  "checkUpgrade current tag =
     (if lower_version (version_parts current) (version_parts (tl tag)) then Some (Downgrade current tag) else None)"

definition version_line :: "string \<Rightarrow> string option" where
  "version_line = framed (''  version '' @ [dquote]) dotted [dquote]"

definition sha_line :: "string \<Rightarrow> string option" where
  "sha_line = framed (''  sha256 '' @ [dquote]) sha256_text [dquote]"

definition archive_url :: string where
  "archive_url = ''https://github.com/dantraynor/tailchrome/archive/refs/tags/v''"

definition url_line :: "string \<Rightarrow> string option" where
  "url_line = framed (''  url '' @ [dquote] @ archive_url) dotted (''.tar.gz'' @ [dquote])"

definition write_version :: "string \<Rightarrow> string" where
  "write_version version = ''  version '' @ [dquote] @ version @ [dquote]"

definition write_sha :: "string \<Rightarrow> string" where
  "write_sha sha = ''  sha256 '' @ [dquote] @ sha @ [dquote]"

definition write_url :: "string \<Rightarrow> string" where
  "write_url version = ''  url '' @ [dquote] @ archive_url @ version @ ''.tar.gz'' @ [dquote]"

definition upgrade_to :: "string \<Rightarrow> string \<Rightarrow> string \<Rightarrow> HomebrewError + string" where
  "upgrade_to tag l current = (case checkUpgrade current tag of Some e \<Rightarrow> Inl e | None \<Rightarrow> Inr l)"

definition updateVersion :: "string \<Rightarrow> string \<Rightarrow> HomebrewError + string" where
  "updateVersion contents tag = replaceOnce ''version'' version_line (upgrade_to tag (write_version (tl tag))) contents"

text \<open>\<open>releasePattern\<close>: no component has a leading zero.\<close>

definition release_tag :: "string \<Rightarrow> bool" where
  "release_tag tag \<longleftrightarrow>
     (case tag of
        [] \<Rightarrow> False
      | c # version \<Rightarrow>
          c = CHR ''v'' \<and> (let parts = js_split (CHR ''.'') version in length parts = 3 \<and> list_all (\<lambda>p. canonical_nat p \<noteq> None) parts))"

text \<open>Both definitions are computed before either is written.\<close>

definition updateHomebrew :: "string \<Rightarrow> string \<Rightarrow> string \<Rightarrow> string \<Rightarrow> string \<Rightarrow> HomebrewError + string \<times> string" where
  "updateHomebrew tag manifest sourceSha256 originalCask originalFormula =
     (if \<not> release_tag tag \<or> js_trim tag \<noteq> tag then Inl BadTag
      else if \<not> sha256_text sourceSha256 \<or> js_trim sourceSha256 \<noteq> sourceSha256 then Inl BadSourceSha
      else (case parseChecksums manifest of Inl e \<Rightarrow> Inl e | Inr checksums \<Rightarrow>
        (case updateVersion originalCask tag of Inl e \<Rightarrow> Inl e | Inr cask1 \<Rightarrow>
        (case replaceOnce ''sha256'' sha_line (\<lambda>_. Inr (write_sha (the (map_of checksums caskAsset)))) cask1 of
           Inl e \<Rightarrow> Inl e | Inr cask \<Rightarrow>
        (case replaceOnce ''url'' url_line (upgrade_to tag (write_url (tl tag))) originalFormula of
           Inl e \<Rightarrow> Inl e | Inr formula1 \<Rightarrow>
        (case replaceOnce ''sha256'' sha_line (\<lambda>_. Inr (write_sha sourceSha256)) formula1 of
           Inl e \<Rightarrow> Inl e | Inr formula \<Rightarrow> Inr (cask, formula)))))))"

text \<open>The command line; \<open>sha256\<close> is the digest of \<open>node:crypto\<close>, in hexadecimal.\<close>

definition homebrew_main ::
  "(string \<Rightarrow> string) \<Rightarrow> (string \<Rightarrow> string) \<Rightarrow> string list \<Rightarrow> string \<Rightarrow> string \<Rightarrow> HomebrewError + string \<times> string" where
  "homebrew_main sha256 readFile args originalCask originalFormula =
     (case args of
        [tag, manifestPath, sourcePath] \<Rightarrow>
          if tag = [] \<or> manifestPath = [] \<or> sourcePath = [] then Inl HomebrewUsage
          else updateHomebrew tag (readFile manifestPath) (sha256 (readFile sourcePath)) originalCask originalFormula
      | _ \<Rightarrow> Inl HomebrewUsage)"

section \<open>Texts and their lines\<close>

definition plain :: "string \<Rightarrow> bool" where
  "plain l \<longleftrightarrow> list_all (\<lambda>c. \<not> line_end c) l"

fun good_lines :: "(string \<times> string) list \<Rightarrow> bool" where
  "good_lines [] = False"
| "good_lines [(l, t)] = (plain l \<and> t = [])"
| "good_lines ((l, t) # x # ls) = (plain l \<and> (\<exists>c. t = [c] \<and> line_end c) \<and> good_lines (x # ls))"

lemma text_lines_not_Nil [simp]: "text_lines s \<noteq> []"
  by (induction s) (auto split: list.split)

lemma good_text_lines: "good_lines (text_lines s)"
proof (induction s)
  case (Cons c cs)
  obtain l t rest where tl: "text_lines cs = (l, t) # rest" by (cases "text_lines cs") auto
  with Cons.IH show ?case by (cases rest) (auto simp: plain_def)
qed (simp add: plain_def)

lemma lines_text_lines [simp]: "lines_text (text_lines s) = s"
proof (induction s)
  case (Cons c cs)
  obtain l t rest where "text_lines cs = (l, t) # rest" by (cases "text_lines cs") auto
  with Cons.IH show ?case by (simp add: lines_text_def)
qed (simp add: lines_text_def)

lemma text_lines_plain: "plain l \<Longrightarrow> text_lines l = [(l, [])]"
  by (induction l) (simp_all add: plain_def)

lemma text_lines_append: "plain l \<Longrightarrow> line_end c \<Longrightarrow> text_lines (l @ c # s) = (l, [c]) # text_lines s"
  by (induction l) (simp_all add: plain_def)

lemma text_lines_lines: "good_lines ls \<Longrightarrow> text_lines (lines_text ls) = ls"
  by (induction ls rule: good_lines.induct)
    (auto simp: lines_text_def text_lines_plain text_lines_append)

lemma good_lines_replace: "good_lines (as @ (l, t) # bs) \<Longrightarrow> plain l' \<Longrightarrow> good_lines (as @ (l', t) # bs)"
proof (induction as)
  case Nil
  then show ?case by (cases bs) auto
next
  case (Cons a as)
  then show ?case by (cases a, cases as) auto
qed

text \<open>What the lines of a text that match a pattern hold.\<close>

definition found_in :: "(string \<Rightarrow> string option) \<Rightarrow> (string \<times> string) list \<Rightarrow> string list" where
  "found_in f ls = List.map_filter (\<lambda>(l, t). f l) ls"

definition found :: "(string \<Rightarrow> string option) \<Rightarrow> string \<Rightarrow> string list" where
  "found f s = found_in f (text_lines s)"

lemma found_in_simps [simp]:
  "found_in f [] = []" "found_in f ((l, t) # ls) = (case f l of None \<Rightarrow> found_in f ls | Some x \<Rightarrow> x # found_in f ls)"
  "found_in f (ls @ ls') = found_in f ls @ found_in f ls'"
  by (simp_all add: found_in_def List.map_filter_def split: option.split)

lemma replace_lines_count: "replace_lines match rep ls = Inr (n, ls') \<Longrightarrow> n = length (found_in match ls)"
  by (induction ls arbitrary: n ls') (auto split: option.splits sum.splits prod.splits)

lemma replace_lines_none: "replace_lines match rep ls = Inr (0, ls') \<Longrightarrow> ls' = ls"
  by (induction ls arbitrary: ls') (auto split: option.splits sum.splits prod.splits)

lemma replace_lines_one:
  assumes "replace_lines match rep ls = Inr (Suc 0, ls')"
  obtains as l t bs x l' where "ls = as @ (l, t) # bs" "ls' = as @ (l', t) # bs" "match l = Some x" "rep x = Inr l'"
    "found_in match as = []" "found_in match bs = []"
  using assms
proof (induction ls arbitrary: ls' thesis)
  case (Cons a ls)
  obtain l t where a: "a = (l, t)" by (cases a)
  show ?case
  proof (cases "match l")
    case None
    with Cons.prems(2) a obtain ls1 where ls1: "replace_lines match rep ls = Inr (Suc 0, ls1)" "ls' = (l, t) # ls1"
      by (auto split: sum.splits prod.splits)
    show ?thesis
    proof (rule Cons.IH [OF _ ls1(1)])
      fix as l1 t1 bs x l1'
      assume "ls = as @ (l1, t1) # bs" "ls1 = as @ (l1', t1) # bs" "match l1 = Some x" "rep x = Inr l1'"
        "found_in match as = []" "found_in match bs = []"
      then show thesis using Cons.prems(1) [of "(l, t) # as" l1 t1 bs l1' x] a None ls1(2) by simp
    qed
  next
    case (Some x)
    with Cons.prems(2) a obtain l' ls1 where r: "rep x = Inr l'" "replace_lines match rep ls = Inr (0, ls1)" "ls' = (l', t) # ls1"
      by (auto split: sum.splits prod.splits)
    with replace_lines_none [OF r(2)] replace_lines_count [OF r(2)] Some a show ?thesis
      using Cons.prems(1) [of "[]" l t ls l' x] by simp
  qed
qed simp

text \<open>A replacement that succeeds found one line, and what it wrote stands in its place.\<close>

lemma replaceOnce_found:
  assumes "replaceOnce pattern match rep s = Inr s'" and "\<And>x l'. rep x = Inr l' \<Longrightarrow> plain l'"
  obtains as bs l x l' where "found match s = [x]" "match l = Some x" "rep x = Inr l'"
    "\<And>f. found f s = found_in f as @ (case f l of None \<Rightarrow> [] | Some y \<Rightarrow> [y]) @ found_in f bs"
    "\<And>f. found f s' = found_in f as @ (case f l' of None \<Rightarrow> [] | Some y \<Rightarrow> [y]) @ found_in f bs"
proof -
  from assms(1) obtain ls where ls: "replace_lines match rep (text_lines s) = Inr (Suc 0, ls)" "s' = lines_text ls"
    by (auto simp: replaceOnce_def split: sum.splits prod.splits if_splits)
  from ls(1) obtain as l t bs x l' where split: "text_lines s = as @ (l, t) # bs" "ls = as @ (l', t) # bs" "match l = Some x" "rep x = Inr l'"
    "found_in match as = []" "found_in match bs = []" by (rule replace_lines_one)
  have "good_lines ls" using good_text_lines [of s] assms(2) [OF split(4)] unfolding split(1,2) by (rule good_lines_replace)
  then have after: "text_lines s' = as @ (l', t) # bs" using ls(2) split(2) by (simp add: text_lines_lines)
  show ?thesis
  proof (rule that [of x l l' as bs])
    show "found match s = [x]" using split by (simp add: found_def)
    show "found f s = found_in f as @ (case f l of None \<Rightarrow> [] | Some y \<Rightarrow> [y]) @ found_in f bs" for f
      by (simp add: found_def split(1) split: option.split)
    show "found f s' = found_in f as @ (case f l' of None \<Rightarrow> [] | Some y \<Rightarrow> [y]) @ found_in f bs" for f
      by (simp add: found_def after split: option.split)
  qed (use split in simp_all)
qed

section \<open>The lines of the two definitions\<close>

lemma framed_write: "ok x \<Longrightarrow> framed pre ok suf (pre @ x @ suf) = Some x"
  by (simp add: framed_def Let_def suffix_def)

lemma framed_someD: "framed pre ok suf l = Some x \<Longrightarrow> l = pre @ x @ suf \<and> ok x"
  by (auto simp: framed_def Let_def prefix_def suffix_def split: if_splits)

lemma framed_other: "\<not> prefix pre l \<Longrightarrow> framed pre ok suf l = None"
  by (simp add: framed_def Let_def)

lemma written_lines [simp]:
  "dotted v \<Longrightarrow> version_line (write_version v) = Some v" "sha_line (write_version v) = None" "url_line (write_version v) = None"
  "sha256_text h \<Longrightarrow> sha_line (write_sha h) = Some h" "version_line (write_sha h) = None" "url_line (write_sha h) = None"
  "dotted v \<Longrightarrow> url_line (write_url v) = Some v" "version_line (write_url v) = None" "sha_line (write_url v) = None"
  using framed_write [of dotted v "''  version '' @ [dquote]" "[dquote]"] framed_write [of sha256_text h "''  sha256 '' @ [dquote]" "[dquote]"]
    framed_write [of dotted v "''  url '' @ [dquote] @ archive_url" "''.tar.gz'' @ [dquote]"]
  by (simp_all add: version_line_def sha_line_def url_line_def write_version_def write_sha_def write_url_def framed_other)

lemma line_kinds:
  "version_line l = Some x \<Longrightarrow> sha_line l = None \<and> url_line l = None"
  "sha_line l = Some x \<Longrightarrow> version_line l = None \<and> url_line l = None"
  "url_line l = Some x \<Longrightarrow> version_line l = None \<and> sha_line l = None"
  by (auto simp: version_line_def sha_line_def url_line_def framed_other dest!: framed_someD)

text \<open>Every other line of a definition.\<close>

definition other_line :: "string \<Rightarrow> string option" where
  "other_line l = (if version_line l = None \<and> sha_line l = None \<and> url_line l = None then Some l else None)"

lemma dotted_chars: "dotted v \<Longrightarrow> list_all (\<lambda>c. is_digit c \<or> c = CHR ''.'') v"
proof -
  assume "dotted v"
  then have "\<forall>p\<in>set (js_split (CHR ''.'') v). \<forall>c\<in>set p. is_digit c"
    by (auto simp: dotted_def Let_def list_all_iff)
  moreover have "set v \<subseteq> \<Union> (set ` set (js_split (CHR ''.'') v)) \<union> {CHR ''.''}"
    by (induction v) (fastforce split: list.splits if_splits)+
  ultimately show ?thesis by (fastforce simp: list_all_iff)
qed

lemma line_end_class: "line_end c \<Longrightarrow> \<not> is_digit c \<and> \<not> lower_hex c \<and> c \<noteq> CHR ''.''"
  by (auto simp: line_end_def lower_hex_def is_digit_def is_lower_def)

lemma plain_written:
  "dotted v \<Longrightarrow> plain (write_version v)" "dotted v \<Longrightarrow> plain (write_url v)" "sha256_text h \<Longrightarrow> plain (write_sha h)"
proof -
  have v: "plain v" if "dotted v"
    using dotted_chars [OF that] line_end_class by (fastforce simp: plain_def list_all_iff)
  have h: "plain h" if "sha256_text h"
    using that line_end_class by (fastforce simp: plain_def sha256_text_def list_all_iff)
  show "dotted v \<Longrightarrow> plain (write_version v)" "dotted v \<Longrightarrow> plain (write_url v)" "sha256_text h \<Longrightarrow> plain (write_sha h)"
    using v h by (simp_all add: plain_def write_version_def write_url_def write_sha_def archive_url_def line_end_def)
qed

section \<open>Versions\<close>

lemma lower_version_le: "length p = length n \<Longrightarrow> \<not> lower_version p n \<longleftrightarrow> p \<le> n"
  by (induction p n rule: lower_version.induct) (auto simp: list_le_def list_less_def)

lemma dotted_parts: "dotted v \<Longrightarrow> length (version_parts v) = 3"
  by (simp add: dotted_def version_parts_def Let_def)

lemma release_tag_dotted: "release_tag tag \<Longrightarrow> dotted (tl tag)"
  by (auto simp: release_tag_def dotted_def canonical_nat_def Let_def list_all_iff split: list.splits if_splits)

lemma upgrade_to_ok:
  assumes "upgrade_to tag l current = Inr l'" and "dotted current" and "dotted (tl tag)"
  shows "l' = l" "version_parts current \<le> version_parts (tl tag)"
  using assms lower_version_le [of "version_parts current" "version_parts (tl tag)"]
  by (auto simp: upgrade_to_def checkUpgrade_def dotted_parts split: if_splits)

section \<open>The update\<close>

lemma updateHomebrew_cases:
  assumes "updateHomebrew tag manifest sha cask formula = Inr (cask', formula')"
  obtains cs cask1 formula1 where "release_tag tag" "sha256_text sha" "parseChecksums manifest = Inr cs"
    "replaceOnce ''version'' version_line (upgrade_to tag (write_version (tl tag))) cask = Inr cask1"
    "replaceOnce ''sha256'' sha_line (\<lambda>_. Inr (write_sha (the (map_of cs caskAsset)))) cask1 = Inr cask'"
    "replaceOnce ''url'' url_line (upgrade_to tag (write_url (tl tag))) formula = Inr formula1"
    "replaceOnce ''sha256'' sha_line (\<lambda>_. Inr (write_sha sha)) formula1 = Inr formula'"
  using assms by (auto simp: updateHomebrew_def updateVersion_def split: if_splits sum.splits)

lemma parse_entries_ok:
  assumes "parse_entries cs lines = Inr cs'" and "distinct (map fst cs)" and "\<forall>(a, c)\<in>set cs. asset_name a \<and> sha256_text c"
  shows "distinct (map fst cs') \<and> (\<forall>(a, c)\<in>set cs'. asset_name a \<and> sha256_text c)"
  using assms
proof (induction cs lines rule: parse_entries.induct)
  case (2 cs line lines)
  show ?case
  proof (cases "checksum_entry line")
    case (Some e)
    obtain a c where e: "e = (a, c)" by (cases e)
    have new: "map_of cs a = None" and rest: "parse_entries (cs @ [(a, c)]) lines = Inr cs'"
      using "2.prems"(1) Some e by (cases "map_of cs a"; simp)+
    have "asset_name a \<and> sha256_text c" using Some e by (auto simp: checksum_entry_def Let_def split: if_splits)
    moreover have "a \<notin> fst ` set cs" using new by (simp add: map_of_eq_None_iff)
    ultimately show ?thesis using "2.IH" [OF Some e [symmetric] _ rest] "2.prems"(2,3) new by simp
  qed (use "2.prems"(1) in simp)
qed simp

lemma parseChecksums_ok:
  assumes "parseChecksums contents = Inr cs"
  shows "distinct (map fst cs) \<and> (\<forall>(a, c)\<in>set cs. asset_name a \<and> sha256_text c) \<and> caskAsset \<in> fst ` set cs"
proof -
  from assms have "parse_entries [] (split_newlines (trimEnd contents)) = Inr cs" "map_of cs caskAsset \<noteq> None"
    by (auto simp: parseChecksums_def split: sum.splits if_splits)
  with parse_entries_ok [OF this(1)] show ?thesis by (auto simp: map_of_eq_None_iff)
qed

text \<open>One of the two definitions: the version line, found by \<open>first\<close> and rewritten by \<open>wr\<close>, then the checksum line.\<close>

lemma definition_updated:
  assumes "replaceOnce p1 first (upgrade_to tag (wr (tl tag))) s = Inr s1" and "replaceOnce p2 sha_line (\<lambda>_. Inr (write_sha h)) s1 = Inr s'"
    and "release_tag tag" and "sha256_text h"
    and "\<And>v. dotted v \<Longrightarrow> plain (wr v) \<and> first (wr v) = Some v \<and> sha_line (wr v) = None \<and> other_line (wr v) = None"
    and "\<And>l x. first l = Some x \<Longrightarrow> dotted x \<and> sha_line l = None \<and> other_line l = None"
    and "\<And>l x. sha_line l = Some x \<Longrightarrow> first l = None" and "first (write_sha h) = None"
  obtains current where "found first s = [current]" "version_parts current \<le> version_parts (tl tag)"
    "found first s' = [tl tag]" "found sha_line s' = [h]" "found other_line s' = found other_line s"
proof -
  have tag: "dotted (tl tag)" using assms(3) by (rule release_tag_dotted)
  have wr: "plain (wr (tl tag))" "first (wr (tl tag)) = Some (tl tag)" "sha_line (wr (tl tag)) = None" "other_line (wr (tl tag)) = None"
    using assms(5) [OF tag] by simp_all
  have pl: "upgrade_to tag (wr (tl tag)) x = Inr l' \<Longrightarrow> plain l'" for x l'
    using wr(1) by (simp add: upgrade_to_def split: option.splits)
  obtain as bs l x l' where v: "found first s = [x]" "first l = Some x" "upgrade_to tag (wr (tl tag)) x = Inr l'"
    "\<And>f. found f s = found_in f as @ (case f l of None \<Rightarrow> [] | Some y \<Rightarrow> [y]) @ found_in f bs"
    "\<And>f. found f s1 = found_in f as @ (case f l' of None \<Rightarrow> [] | Some y \<Rightarrow> [y]) @ found_in f bs"
    by (rule replaceOnce_found [OF assms(1)], erule pl) (rule that; assumption)
  note up = upgrade_to_ok [OF v(3) _ tag]
  obtain as2 bs2 k y where h: "found sha_line s1 = [y]" "sha_line k = Some y"
    "\<And>f. found f s1 = found_in f as2 @ (case f k of None \<Rightarrow> [] | Some y \<Rightarrow> [y]) @ found_in f bs2"
    "\<And>f. found f s' = found_in f as2 @ (case f (write_sha h) of None \<Rightarrow> [] | Some y \<Rightarrow> [y]) @ found_in f bs2"
    by (rule replaceOnce_found [OF assms(2)], use plain_written(3) [OF assms(4)] in simp) (auto intro: that)
  have l': "l' = wr (tl tag)" using up(1) assms(6) [OF v(2)] by blast
  have alone: "xs = [] \<and> ys = []" if "xs @ z # ys = [z']" for xs ys :: "string list" and z z'
    using that by (cases xs) auto
  have "found_in first as = [] \<and> found_in first bs = []" using v(1,2) v(4) [of first] alone by simp
  then have first1: "found first s1 = [tl tag]" using v(5) [of first] wr(2) l' by simp
  have "found first s' = found first s1" using h(3) [of first] h(4) [of first] assms(7) [OF h(2)] assms(8) by simp
  moreover have "found_in sha_line as2 = [] \<and> found_in sha_line bs2 = []" using h(1,2) h(3) [of sha_line] alone by simp
  then have "found sha_line s' = [h]" using h(4) [of sha_line] assms(4) by simp
  moreover have "other_line k = None" "other_line (write_sha h) = None" using h(2) assms(4) by (simp_all add: other_line_def)
  then have "found other_line s' = found other_line s"
    using h(3) [of other_line] h(4) [of other_line] v(4) [of other_line] v(5) [of other_line] wr(4) l' assms(6) [OF v(2)] by simp
  ultimately show ?thesis using that v(1) up(2) assms(6) [OF v(2)] first1 by simp
qed

lemma kinds_whole:
  "version_line l = Some x \<Longrightarrow> dotted x \<and> sha_line l = None \<and> other_line l = None"
  "sha_line l = Some y \<Longrightarrow> version_line l = None"
  "url_line l = Some x \<Longrightarrow> dotted x \<and> sha_line l = None \<and> other_line l = None"
  "sha_line l = Some y \<Longrightarrow> url_line l = None"
proof -
  have v: "version_line l = Some x \<Longrightarrow> dotted x" and u: "url_line l = Some x \<Longrightarrow> dotted x"
    unfolding version_line_def url_line_def by (blast dest: framed_someD)+
  show "dotted x \<and> sha_line l = None \<and> other_line l = None" if "version_line l = Some x"
    using v [OF that] line_kinds(1) [OF that] that by (simp add: other_line_def)
  show "dotted x \<and> sha_line l = None \<and> other_line l = None" if "url_line l = Some x"
    using u [OF that] line_kinds(3) [OF that] that by (simp add: other_line_def)
  show "sha_line l = Some y \<Longrightarrow> version_line l = None" "sha_line l = Some y \<Longrightarrow> url_line l = None"
    using line_kinds(2) by blast+
qed

lemma written_whole:
  "dotted v \<Longrightarrow> plain (write_version v) \<and> version_line (write_version v) = Some v \<and> sha_line (write_version v) = None \<and> other_line (write_version v) = None"
  "dotted v \<Longrightarrow> plain (write_url v) \<and> url_line (write_url v) = Some v \<and> sha_line (write_url v) = None \<and> other_line (write_url v) = None"
  by (simp_all add: plain_written other_line_def)

lemma pinned_checksum:
  assumes "parseChecksums contents = Inr cs"
  shows "\<exists>pinned. (caskAsset, pinned) \<in> set cs \<and> map_of cs caskAsset = Some pinned \<and> sha256_text pinned"
proof -
  from parseChecksums_ok [OF assms] obtain pinned where p: "(caskAsset, pinned) \<in> set cs" by auto
  moreover from p parseChecksums_ok [OF assms] have "map_of cs caskAsset = Some pinned" by (simp add: map_of_is_SomeI)
  moreover from p parseChecksums_ok [OF assms] have "sha256_text pinned" by blast
  ultimately show ?thesis by blast
qed

text \<open>
  C36: an update of the Homebrew definitions that succeeds installs the release and nothing else: the cask and
  the formula name the version of the tag, which is not below the version they named, the cask carries
  the checksum that the release lists for its package and the formula that of the source archive, and every
  other line of both is what it was.
\<close>

theorem homebrew_update_safe:
  assumes "updateHomebrew tag manifest sha cask formula = Inr (cask', formula')"
  shows "\<exists>checksums pinned current previous.
    parseChecksums manifest = Inr checksums \<and> (caskAsset, pinned) \<in> set checksums \<and>
    found version_line cask = [current] \<and> version_parts current \<le> version_parts (tl tag) \<and>
    found version_line cask' = [tl tag] \<and> found sha_line cask' = [pinned] \<and> found other_line cask' = found other_line cask \<and>
    found url_line formula = [previous] \<and> version_parts previous \<le> version_parts (tl tag) \<and>
    found url_line formula' = [tl tag] \<and> found sha_line formula' = [sha] \<and> found other_line formula' = found other_line formula"
proof -
  from assms obtain cs cask1 formula1 where ok: "release_tag tag" "sha256_text sha" "parseChecksums manifest = Inr cs"
    and c: "replaceOnce ''version'' version_line (upgrade_to tag (write_version (tl tag))) cask = Inr cask1"
      "replaceOnce ''sha256'' sha_line (\<lambda>_. Inr (write_sha (the (map_of cs caskAsset)))) cask1 = Inr cask'"
    and f: "replaceOnce ''url'' url_line (upgrade_to tag (write_url (tl tag))) formula = Inr formula1"
      "replaceOnce ''sha256'' sha_line (\<lambda>_. Inr (write_sha sha)) formula1 = Inr formula'"
    by (rule updateHomebrew_cases)
  obtain pinned where pinned: "(caskAsset, pinned) \<in> set cs" "map_of cs caskAsset = Some pinned" "sha256_text pinned"
    using pinned_checksum [OF ok(3)] by blast
  obtain current where cask: "found version_line cask = [current]" "version_parts current \<le> version_parts (tl tag)"
    "found version_line cask' = [tl tag]" "found sha_line cask' = [pinned]" "found other_line cask' = found other_line cask"
    by (rule definition_updated [where wr = write_version, OF c(1) c(2) [unfolded pinned(2) option.sel] ok(1) pinned(3)], erule written_whole(1),
      erule kinds_whole(1), erule kinds_whole(2), rule written_lines) (rule that; assumption)
  obtain previous where formula: "found url_line formula = [previous]" "version_parts previous \<le> version_parts (tl tag)"
    "found url_line formula' = [tl tag]" "found sha_line formula' = [sha]" "found other_line formula' = found other_line formula"
    by (rule definition_updated [where wr = write_url, OF f ok(1,2)], erule written_whole(2), erule kinds_whole(3), erule kinds_whole(4), rule written_lines)
      (rule that; assumption)
  show ?thesis by (intro exI conjI; fact)
qed

definition sample_sha :: "char \<Rightarrow> string" where
  "sample_sha c = replicate 64 c"

definition sample_manifest :: string where
  "sample_manifest = sample_sha (CHR ''a'') @ ''  '' @ caskAsset @ [newline]"

definition sample_cask :: string where
  "sample_cask = ''cask'' @ [newline] @ write_version ''0.1.15'' @ [newline] @ write_sha (sample_sha (CHR ''b'')) @ [newline] @ ''end''"

definition sample_formula :: string where
  "sample_formula = ''class'' @ [newline] @ write_url ''0.1.9'' @ [newline] @ write_sha (sample_sha (CHR ''c'')) @ [newline] @ ''end''"

lemma sample_update:
  "updateHomebrew ''v0.1.16'' sample_manifest (sample_sha (CHR ''d'')) sample_cask sample_formula =
   Inr (''cask'' @ [newline] @ write_version ''0.1.16'' @ [newline] @ write_sha (sample_sha (CHR ''a'')) @ [newline] @ ''end'',
     ''class'' @ [newline] @ write_url ''0.1.16'' @ [newline] @ write_sha (sample_sha (CHR ''d'')) @ [newline] @ ''end'')"
  by code_simp

theorem homebrew_update_safe_witness:
  "\<exists>checksums pinned current. parseChecksums sample_manifest = Inr checksums \<and> (caskAsset, pinned) \<in> set checksums \<and>
     found version_line sample_cask = [current] \<and> version_parts current \<le> version_parts ''0.1.16''"
  using homebrew_update_safe [OF sample_update] by auto

section \<open>Reading a list of checksums back\<close>

definition entry_text :: "string \<times> string \<Rightarrow> string" where
  "entry_text e = (case e of (asset, checksum) \<Rightarrow> checksum @ ''  '' @ asset)"

definition print_checksums :: "(string \<times> string) list \<Rightarrow> string" where
  "print_checksums entries = concat (map (\<lambda>e. entry_text e @ [newline]) entries)"

definition entry_ok :: "string \<times> string \<Rightarrow> bool" where
  "entry_ok e = (case e of (asset, checksum) \<Rightarrow> asset_name asset \<and> sha256_text checksum)"

lemma entry_text_parsed: "entry_ok e \<Longrightarrow> checksum_entry (entry_text e) = Some e"
  by (auto simp: entry_ok_def entry_text_def checksum_entry_def sha256_text_def Let_def split: prod.splits)

lemma asset_chars: "asset_name a \<Longrightarrow> \<forall>c\<in>set a. alnum c \<or> c \<in> set ''._-''"
  by (auto simp: asset_name_def list_all_iff split: list.splits)

lemma asset_char_class: "alnum c \<or> c \<in> set ''._-'' \<Longrightarrow> \<not> js_space c \<and> \<not> line_end c"
proof -
  have "48 \<le> n \<and> n \<le> 57 \<or> 97 \<le> n \<and> n \<le> 122 \<or> 65 \<le> n \<and> n \<le> 90 \<Longrightarrow>
      \<not> (9 \<le> n \<and> n \<le> 13 \<or> n = 32 \<or> n = 160)" for n :: nat by presburger
  then have "\<not> js_space c" if "alnum c"
    using that unfolding alnum_def js_space_def is_digit_def is_lower_def is_upper_def Let_def by blast
  moreover have "\<not> js_space c" if "c \<in> set ''._-''" using that by (auto simp: js_space_def)
  moreover have "line_end c \<Longrightarrow> js_space c" by (auto simp: line_end_def js_space_def)
  ultimately show "alnum c \<or> c \<in> set ''._-'' \<Longrightarrow> \<not> js_space c \<and> \<not> line_end c" by blast
qed

lemma entry_text_chars:
  assumes "entry_ok e"
  shows "newline \<notin> set (entry_text e)" "entry_text e \<noteq> []" "\<not> js_space (last (entry_text e))" "last (entry_text e) \<noteq> carriage_return"
proof -
  obtain a h where e: "e = (a, h)" "asset_name a" "sha256_text h" using assms by (cases e) (simp add: entry_ok_def)
  have a: "a \<noteq> []" "\<forall>c\<in>set a. \<not> js_space c \<and> \<not> line_end c"
  proof -
    show "a \<noteq> []" using e(2) by (cases a) (simp_all add: asset_name_def)
    show "\<forall>c\<in>set a. \<not> js_space c \<and> \<not> line_end c" using asset_chars [OF e(2)] asset_char_class by blast
  qed
  have "\<forall>c\<in>set h. lower_hex c" using e(3) by (simp add: sha256_text_def list_all_iff)
  then have h: "\<forall>c\<in>set h. \<not> line_end c" using line_end_class by blast
  have ends: "line_end newline" "line_end carriage_return" by (simp_all add: line_end_def)
  have whole: "entry_text e = h @ ''  '' @ a" by (simp add: entry_text_def e(1))
  have "newline \<notin> set ''  ''" by simp
  then show "newline \<notin> set (entry_text e)" using a(2) h ends(1) unfolding whole set_append by blast
  show "entry_text e \<noteq> []" by (simp add: whole)
  have "last (entry_text e) \<in> set a" using a(1) by (simp add: whole)
  with a(2) have "\<not> js_space (last (entry_text e)) \<and> \<not> line_end (last (entry_text e))" by blast
  then show "\<not> js_space (last (entry_text e))" "last (entry_text e) \<noteq> carriage_return" using ends(2) by (blast, metis)
qed

lemma print_join: "es \<noteq> [] \<Longrightarrow> print_checksums es = js_join [newline] (map entry_text es) @ [newline]"
proof (induction es)
  case (Cons e es)
  then show ?case by (cases es) (simp_all add: print_checksums_def)
qed simp

lemma last_join: "ls \<noteq> [] \<Longrightarrow> last ls \<noteq> [] \<Longrightarrow> js_join sep ls \<noteq> [] \<and> last (js_join sep ls) = last (last ls)"
  by (induction sep ls rule: js_join.induct) auto

lemma trimEnd_newline: "x \<noteq> [] \<Longrightarrow> \<not> js_space (last x) \<Longrightarrow> trimEnd (x @ [newline]) = x"
proof -
  have "js_space newline" by code_simp
  then show "x \<noteq> [] \<Longrightarrow> \<not> js_space (last x) \<Longrightarrow> trimEnd (x @ [newline]) = x"
    by (cases x rule: rev_cases) (simp_all add: trimEnd_def)
qed

lemma split_printed:
  assumes "es \<noteq> []" and "list_all entry_ok es"
  shows "split_newlines (trimEnd (print_checksums es)) = map entry_text es"
proof -
  let ?ls = "map entry_text es"
  have ok: "entry_ok e" if "e \<in> set es" for e using that assms(2) by (simp add: list_all_iff)
  have lst: "last ?ls = entry_text (last es)" "last es \<in> set es" using assms(1) by (simp_all add: last_map)
  have "js_join [newline] ?ls \<noteq> []" "\<not> js_space (last (js_join [newline] ?ls))"
    using last_join [of ?ls "[newline]"] assms(1) lst entry_text_chars [OF ok [OF lst(2)]] by simp_all
  then have "trimEnd (print_checksums es) = js_join [newline] ?ls"
    using assms(1) by (simp add: print_join trimEnd_newline)
  moreover have "js_split newline (js_join [newline] ?ls) = ?ls"
    using assms(1) entry_text_chars(1) [OF ok] by (intro js_split_join) auto
  moreover have "map strip_cr (butlast ?ls) = butlast ?ls"
    using entry_text_chars [OF ok] by (intro map_idI) (auto simp: strip_cr_def dest!: in_set_butlastD)
  ultimately show ?thesis using assms(1) by (simp add: split_newlines_def Let_def)
qed

lemma parse_printed:
  "list_all entry_ok es \<Longrightarrow> distinct (map fst (cs @ es)) \<Longrightarrow> parse_entries cs (map entry_text es) = Inr (cs @ es)"
proof (induction es arbitrary: cs)
  case (Cons e es)
  obtain a h where e: "e = (a, h)" by (cases e)
  have "map_of cs a = None" using Cons.prems(2) e by (simp add: map_of_eq_None_iff)
  moreover have "parse_entries (cs @ [e]) (map entry_text es) = Inr (cs @ e # es)"
    using Cons.IH [of "cs @ [e]"] Cons.prems by simp
  ultimately show ?case using Cons.prems(1) entry_text_parsed [of e] e by simp
qed simp

text \<open>
  The list of checksums of a release is read back exactly as it was printed, and whatever text is
  accepted lists well-formed checksums of distinct assets, the package of the cask among them.
\<close>

lemma checksums_roundtrip:
  assumes "list_all entry_ok es" and "distinct (map fst es)" and "caskAsset \<in> fst ` set es" and "parseChecksums contents = Inr cs"
  shows "parseChecksums (print_checksums es) = Inr es \<and> distinct (map fst cs) \<and> list_all entry_ok cs \<and> caskAsset \<in> fst ` set cs"
proof -
  have "es \<noteq> []" using assms(3) by auto
  moreover have "map_of es caskAsset \<noteq> None" using assms(3) by (simp add: map_of_eq_None_iff)
  ultimately have "parseChecksums (print_checksums es) = Inr es"
    using assms(1,2) parse_printed [of es "[]"] by (simp add: parseChecksums_def split_printed)
  then show ?thesis using parseChecksums_ok [OF assms(4)] by (auto simp: list_all_iff entry_ok_def)
qed

end
