(* ===== verification/Popup_Utils.thy ===== *)
theory Popup_Utils
  imports Constants
begin

text \<open>
  The helpers the popup's views share: display texts and the toast
  (\<open>packages/shared/src/popup/utils.ts\<close>), the custom address of a device
  (\<open>packages/shared/src/popup/custom-urls.ts\<close>) and the device filter
  (\<open>packages/shared/src/popup/peer-filters.ts\<close>). The document is not modelled as a tree: an element
  is the value of what it shows, and what a handler does beyond its view is a list of
  \<open>popup_effect\<close>s. The lemmas show that a toast is only removed by its own timer, its own close
  button or its successor, and that an opened address is always a web address.
\<close>

section \<open>Effects of the popup\<close>

record ToastOptions =
  to_level :: "ToastLevel option"
  to_persistent :: "bool option"
  to_dismissMs :: "nat option"
  to_multiline :: "bool option"

definition toast_level :: "ToastLevel \<Rightarrow> ToastOptions" where
  "toast_level l = \<lparr>to_level = Some l, to_persistent = None, to_dismissMs = None, to_multiline = None\<rparr>"

datatype popup_effect =
    Send BackgroundMessage
  | ShowToast string ToastOptions
  | CopyText string
  | PopupTab string
  | StoreCustomUrls "(string \<times> string) list"

abbreviation toast_info :: "string \<Rightarrow> popup_effect" where
  "toast_info t \<equiv> ShowToast t (toast_level Info)"

abbreviation toast_error :: "string \<Rightarrow> popup_effect" where
  "toast_error t \<equiv> ShowToast t (toast_level Error)"

section \<open>The toast\<close>

record ToastElement =
  toast_id :: nat
  toast_text :: string
  toast_error_class :: bool
  toast_persistent :: bool
  toast_multiline :: bool
  toast_exitDelay :: "nat option"

text \<open>
  The page: the element with class \<open>toast\<close>, if any, the timers that are to remove one and the number
  of the next element.
\<close>

record ToastArea =
  ta_current :: "ToastElement option"
  ta_timers :: "(nat \<times> nat) list"
  ta_next :: nat

definition toast_area_init :: ToastArea where
  "toast_area_init = \<lparr>ta_current = None, ta_timers = [], ta_next = 0\<rparr>"

definition showToast :: "string \<Rightarrow> ToastOptions \<Rightarrow> ToastArea \<Rightarrow> ToastArea" where
  "showToast message opts a =
     (let level = js_default (to_level opts) Info;
          persistent = js_default (to_persistent opts) False;
          dismissMs = js_default (to_dismissMs opts) 2500;
          multiline = js_default (to_multiline opts) False;
          toast = \<lparr>toast_id = ta_next a, toast_text = message, toast_error_class = (level = Error),
            toast_persistent = persistent, toast_multiline = multiline,
            toast_exitDelay = (if persistent then None else Some (dismissMs - 200))\<rparr>
      in a\<lparr>ta_current := Some toast, ta_next := ta_next a + 1,
           ta_timers := (if persistent then ta_timers a else ta_timers a @ [(ta_next a, dismissMs)])\<rparr>)"

text \<open>\<open>toast.remove()\<close> on the element a timer or a close button refers to.\<close>

definition remove_toast :: "nat \<Rightarrow> ToastArea \<Rightarrow> ToastArea" where
  "remove_toast n a =
     (case ta_current a of
        Some t \<Rightarrow> if toast_id t = n then a\<lparr>ta_current := None\<rparr> else a
      | None \<Rightarrow> a)"

definition toast_timeout :: "nat \<Rightarrow> ToastArea \<Rightarrow> ToastArea" where
  "toast_timeout n a =
     (if n \<in> fst ` set (ta_timers a) then remove_toast n (a\<lparr>ta_timers := filter (\<lambda>t. fst t \<noteq> n) (ta_timers a)\<rparr>) else a)"

definition toast_close :: "ToastArea \<Rightarrow> ToastArea" where
  "toast_close a =
     (case ta_current a of
        Some t \<Rightarrow> if toast_persistent t then remove_toast (toast_id t) a else a
      | None \<Rightarrow> a)"

datatype toast_op = TShow string ToastOptions | TTimeout nat | TClose

fun toast_step :: "toast_op \<Rightarrow> ToastArea \<Rightarrow> ToastArea" where
  "toast_step (TShow m opts) a = showToast m opts a"
| "toast_step (TTimeout n) a = toast_timeout n a"
| "toast_step TClose a = toast_close a"

definition toast_run :: "toast_op list \<Rightarrow> ToastArea" where
  "toast_run ops = fold toast_step ops toast_area_init"

section \<open>Display texts\<close>

text \<open>The index that the arrow keys move to in a list of \<open>n > 0\<close> rows, from \<open>idx\<close> or from outside (\<open>-1\<close>).\<close>

definition nav_next :: "bool \<Rightarrow> nat \<Rightarrow> int \<Rightarrow> int" where
  "nav_next down n idx =
     (if down then (if idx < int n - 1 then idx + 1 else 0)
      else (if idx > 0 then idx - 1 else int n - 1))"

text \<open>A key press: the focused row, if the focus is on one, and whether the focus is inside the list at all.\<close>

definition list_nav_key :: "string \<Rightarrow> nat \<Rightarrow> nat option \<Rightarrow> bool \<Rightarrow> nat option" where
  "list_nav_key key n focused inside =
     (if key \<noteq> ''ArrowDown'' \<and> key \<noteq> ''ArrowUp'' then None
      else if n = 0 then None
      else (let idx = (case focused of Some i \<Rightarrow> int i | None \<Rightarrow> -1) in
            if idx = -1 \<and> inside then None else Some (nat (nav_next (key = ''ArrowDown'') n idx))))"

datatype Platform = MacOS | Linux | Windows | UnknownPlatform

definition detectPlatform :: "string option \<Rightarrow> string option \<Rightarrow> Platform" where
  "detectPlatform uaPlatform navPlatform =
     (let lower = js_lower (js_default uaPlatform (js_default navPlatform [])) in
      if js_includes ''mac'' lower then MacOS
      else if js_includes ''win'' lower then Windows
      else if js_includes ''linux'' lower then Linux
      else UnknownPlatform)"

text \<open>\<open>Math.round\<close>, and \<open>toFixed(1)\<close> of a number from 0 to below 10; both round a tie up.\<close>

definition js_round :: "rat \<Rightarrow> int" where
  "js_round x = \<lfloor>x + 1/2\<rfloor>"

definition to_fixed1 :: "rat \<Rightarrow> string" where
  "to_fixed1 x = (let n = js_round (10 * x) in int_to_string (n div 10) @ ''.'' @ int_to_string (n mod 10))"

text \<open>\<open>num_text\<close> is the conversion of a number to text, \<open>Number.prototype.toString\<close>.\<close>

definition scaled_bytes :: "rat \<Rightarrow> string" where
  "scaled_bytes x = (if x < 10 then to_fixed1 x else int_to_string (js_round x))"

definition formatBytes :: "(rat \<Rightarrow> string) \<Rightarrow> rat \<Rightarrow> string" where
  "formatBytes num_text n =
     (if n < 1024 then num_text n @ '' B''
      else (let kb = n / 1024 in
            if kb < 1024 then scaled_bytes kb @ '' KB''
            else (let mb = kb / 1024 in
                  if mb < 1024 then scaled_bytes mb @ '' MB''
                  else scaled_bytes (mb / 1024) @ '' GB'')))"

text \<open>\<open>locale_date\<close> is \<open>new Date(iso)\<close> followed by \<open>toLocaleString\<close>, \<^const>\<open>None\<close> for an invalid date.\<close>

definition formatKeyExpiryLocal :: "(string \<Rightarrow> string option) \<Rightarrow> string option \<Rightarrow> string" where
  "formatKeyExpiryLocal locale_date isoDate =
     (case truthy isoDate of
        None \<Rightarrow> []
      | Some d \<Rightarrow> (case locale_date d of None \<Rightarrow> d | Some t \<Rightarrow> t))"

definition nonEmpty :: "string option \<Rightarrow> string option" where
  "nonEmpty v = truthy (map_option js_trim v)"

definition machineName :: "string \<Rightarrow> string \<Rightarrow> string" where
  "machineName dnsName hostname =
     (let firstLabel = js_trim (hd (js_split (CHR ''.'') dnsName))
      in if firstLabel \<noteq> [] then firstLabel else hostname)"

definition shortDNSName :: "string \<Rightarrow> string" where
  "shortDNSName dnsName = (if dnsName \<noteq> [] then strip_trailing_dot dnsName else [])"

definition formatLocationLabel :: "PeerLocation option \<Rightarrow> string \<Rightarrow> bool \<Rightarrow> string" where
  "formatLocationLabel location fallback preferCode =
     (let field = (\<lambda>f. Option.bind location f);
          city = nonEmpty (field loc_city);
          preferred = field (if preferCode then loc_countryCode else loc_country);
          secondary = field (if preferCode then loc_country else loc_countryCode);
          country = (case nonEmpty preferred of Some c \<Rightarrow> Some c | None \<Rightarrow> nonEmpty secondary);
          parts = List.map_filter id [city, country]
      in if parts \<noteq> [] then js_join '', '' parts else fallback)"

section \<open>Custom addresses\<close>

text \<open>
  The cache is an object from device id to text, in insertion order: an assignment to a present key
  keeps its place. The names that every object inherits are no device ids.
\<close>

type_synonym CustomUrls = "(string \<times> string) list"

definition loadCustomUrls :: "CustomUrls option \<Rightarrow> CustomUrls" where
  "loadCustomUrls stored = js_default stored []"

definition getCustomUrl :: "CustomUrls \<Rightarrow> string \<Rightarrow> string option" where
  "getCustomUrl cache peerId = map_of cache peerId"

definition setCustomUrl :: "string \<Rightarrow> string \<Rightarrow> CustomUrls \<Rightarrow> CustomUrls \<times> popup_effect list" where
  "setCustomUrl peerId v cache = (let c = AList.update peerId v cache in (c, [StoreCustomUrls c]))"

definition clearCustomUrl :: "string \<Rightarrow> CustomUrls \<Rightarrow> CustomUrls \<times> popup_effect list" where
  "clearCustomUrl peerId cache = (let c = AList.delete peerId cache in (c, [StoreCustomUrls c]))"

text \<open>
  The replacement text of \<open>String.prototype.replace\<close> is a template: \<open>$$\<close> is a dollar sign, \<open>$&\<close> the
  match, and \<open>$`\<close> and \<open>$'\<close> what precedes and follows it. The pattern has no groups, so every other
  dollar sign is itself.
\<close>

fun expand_template :: "string \<Rightarrow> string \<Rightarrow> string \<Rightarrow> string \<Rightarrow> string" where
  "expand_template pre m post (c # d # t) =
     (if c \<noteq> CHR ''$'' then c # expand_template pre m post (d # t)
      else if d = CHR ''$'' then CHR ''$'' # expand_template pre m post t
      else if d = CHR ''&'' then m @ expand_template pre m post t
      else if of_char d = (96 :: nat) then pre @ expand_template pre m post t
      else if of_char d = (39 :: nat) then post @ expand_template pre m post t
      else c # expand_template pre m post (d # t))"
| "expand_template pre m post t = t"

function replace_all :: "string \<Rightarrow> string \<Rightarrow> string \<Rightarrow> string \<Rightarrow> string" where
  "replace_all pat template pre s =
     (if pat \<noteq> [] \<and> prefix pat s
      then expand_template pre pat (drop (length pat) s) template @ replace_all pat template (pre @ pat) (drop (length pat) s)
      else (case s of [] \<Rightarrow> [] | c # cs \<Rightarrow> c # replace_all pat template (pre @ [c]) cs))"
  by pat_completeness auto

termination
  by (relation "measure (\<lambda>(pat, template, pre, s). length s)") (auto simp: prefix_def)

definition all_digits :: "string \<Rightarrow> bool" where
  "all_digits s \<longleftrightarrow> s \<noteq> [] \<and> list_all is_digit s"

text \<open>The test \<open>/^https?:\/\//i\<close>.\<close>

definition web_url :: "string \<Rightarrow> bool" where
  "web_url url \<longleftrightarrow> prefix ''http://'' (js_lower url) \<or> prefix ''https://'' (js_lower url)"

definition resolveOpenUrl :: "string \<Rightarrow> string option \<Rightarrow> string" where
  "resolveOpenUrl host customValue =
     (let url = (case truthy customValue of
                   None \<Rightarrow> ''http://'' @ host @ ''/''
                 | Some v \<Rightarrow>
                     if all_digits v then ''http://'' @ host @ '':'' @ v @ ''/''
                     else replace_all ''{host}'' host [] v)
      in if \<not> web_url url then ''http://'' @ host @ ''/'' else url)"

section \<open>Devices\<close>

definition MULLVAD_EXIT_NODE_TAG :: string where
  "MULLVAD_EXIT_NODE_TAG = ''tag:mullvad-exit-node''"

definition isMullvadExitNodePeer :: "PeerInfo \<Rightarrow> bool" where
  "isMullvadExitNodePeer p \<longleftrightarrow> MULLVAD_EXIT_NODE_TAG \<in> set (js_default (peer_tags p) [])"

definition peersForDeviceList :: "PeerInfo list \<Rightarrow> PeerInfo list" where
  "peersForDeviceList peers = filter (\<lambda>p. \<not> isMullvadExitNodePeer p) peers"

section \<open>Lemmas\<close>

subsection \<open>Toasts\<close>

text \<open>The shown toast has a timer exactly when it is not persistent, and no timer refers to a later element.\<close>

definition toast_inv :: "ToastArea \<Rightarrow> bool" where
  "toast_inv a \<longleftrightarrow>
     (\<forall>t. ta_current a = Some t \<longrightarrow>
        toast_id t < ta_next a \<and> (toast_persistent t \<longleftrightarrow> toast_id t \<notin> fst ` set (ta_timers a))) \<and>
     (\<forall>n\<in>fst ` set (ta_timers a). n < ta_next a)"

lemma toast_step_inv: "toast_inv a \<Longrightarrow> toast_inv (toast_step op a)"
  by (cases op) (force simp: toast_inv_def showToast_def toast_timeout_def toast_close_def remove_toast_def Let_def
      split: option.splits)+

lemma toast_run_inv: "toast_inv (toast_run ops)"
proof -
  have "toast_inv (fold toast_step ops a)" if "toast_inv a" for a
    using that by (induction ops arbitrary: a) (simp_all add: toast_step_inv)
  then show ?thesis by (simp add: toast_run_def toast_inv_def toast_area_init_def)
qed

text \<open>A persistent toast outlives every timer; a passing one is gone once its own timer has fired.\<close>

lemma persistent_toast_stays:
  assumes "ta_current (toast_run ops) = Some t" and "toast_persistent t"
  shows "ta_current (toast_timeout n (toast_run ops)) = Some t"
  using assms toast_run_inv [of ops]
  by (auto simp: toast_inv_def toast_timeout_def remove_toast_def)

lemma passing_toast_ends:
  assumes "ta_current (toast_run ops) = Some t" and "\<not> toast_persistent t"
  shows "ta_current (toast_timeout (toast_id t) (toast_run ops)) = None"
  using assms toast_run_inv [of ops]
  by (auto simp: toast_inv_def toast_timeout_def remove_toast_def)

subsection \<open>Addresses and texts\<close>

lemma js_lower_append: "js_lower (s @ t) = js_lower s @ js_lower t"
  by (simp add: js_lower_def)

lemma http_web_url: "web_url (''http://'' @ t)"
proof -
  have "js_lower ''http://'' = ''http://''" by code_simp
  then show ?thesis unfolding web_url_def js_lower_append by simp
qed

lemma resolveOpenUrl_web: "web_url (resolveOpenUrl host v)"
  using http_web_url [of "host @ ''/''"] by (simp add: resolveOpenUrl_def Let_def)

lemma expand_template_plain: "CHR ''$'' \<notin> set t \<Longrightarrow> expand_template pre m post t = t"
  by (induction pre m post t rule: expand_template.induct) auto

lemma nav_next_range:
  assumes "n > 0" and "-1 \<le> idx" and "idx < int n"
  shows "0 \<le> nav_next down n idx \<and> nav_next down n idx < int n"
  using assms by (auto simp: nav_next_def)

lemma machineName_not_Nil: "hostname \<noteq> [] \<Longrightarrow> machineName dnsName hostname \<noteq> []"
  by (simp add: machineName_def Let_def)

lemma peersForDeviceList_set: "set (peersForDeviceList ps) = {p \<in> set ps. \<not> isMullvadExitNodePeer p}"
  by (simp add: peersForDeviceList_def)

end
