(* ===== verification/Popup_Coord.thy ===== *)
theory Popup_Coord
  imports Popup_Utils State_Store
begin

text \<open>
  The editor of the coordination server (\<open>packages/shared/src/popup/components/coordination-server-row.ts\<close>),
  which three views embed. The row is the record of its inputs; whether its input has the focus is an
  argument where the code asks for it. The lemmas show that a status update never overwrites an
  unsaved edit and that only URLs the background script accepts are saved.
\<close>

record CoordRow =
  cr_open :: bool
  cr_value :: string
  cr_dirty :: bool
  cr_disabled :: bool
  cr_note :: string
  cr_error :: "string option"

definition prefs_control_url :: "TailscaleState \<Rightarrow> string" where
  "prefs_control_url s = js_default (Option.bind (ts_prefs s) pref_controlURL) []"

definition applyCapability :: "bool \<Rightarrow> CoordRow \<Rightarrow> CoordRow" where
  "applyCapability supported r =
     r\<lparr>cr_disabled := \<not> supported,
       cr_note := (if supported
         then ''Leave blank for the default Tailscale server. Saving signs you out and requires a new login.''
         else ''Update the native helper to change the coordination server.'')\<rparr>"

definition createCoordinationServerRow :: "TailscaleState \<Rightarrow> bool \<Rightarrow> CoordRow" where
  "createCoordinationServerRow s initialOpen =
     applyCapability (ts_supportsCustomControlURL s)
       \<lparr>cr_open = initialOpen, cr_value = prefs_control_url s, cr_dirty = False, cr_disabled = False, cr_note = [], cr_error = None\<rparr>"

definition clearValidationError :: "CoordRow \<Rightarrow> CoordRow" where
  "clearValidationError r = r\<lparr>cr_error := None\<rparr>"

definition coord_toggle :: "bool \<Rightarrow> CoordRow \<Rightarrow> CoordRow" where
  "coord_toggle checked r = r\<lparr>cr_open := checked\<rparr>"

definition coord_input :: "string \<Rightarrow> CoordRow \<Rightarrow> CoordRow" where
  "coord_input text r = clearValidationError (r\<lparr>cr_value := text, cr_dirty := True\<rparr>)"

text \<open>The protocol test of the \<open>save\<close> handler; \<^const>\<open>None\<close> means that nothing is wrong.\<close>

definition coord_error :: "url_parser \<Rightarrow> string \<Rightarrow> string option" where
  "coord_error parse_url raw =
     (if raw = [] then None
      else (case parse_url raw of
              None \<Rightarrow> Some ''Enter a valid URL (e.g. https://headscale.example.com).''
            | Some p \<Rightarrow>
                if url_protocol p \<noteq> ''https:'' \<and> url_protocol p \<noteq> ''http:''
                then Some ''Coordination server URL must use http:// or https://.''
                else None))"

definition coord_save :: "url_parser \<Rightarrow> CoordRow \<Rightarrow> CoordRow \<times> popup_effect list" where
  "coord_save parse_url r =
     (if cr_disabled r then (r, [])
      else (let raw = js_trim (cr_value r) in
            case coord_error parse_url raw of
              Some e \<Rightarrow> (r\<lparr>cr_error := Some e\<rparr>, [])
            | None \<Rightarrow> ((clearValidationError r)\<lparr>cr_dirty := False\<rparr>, [Send (MSetPref (SetControlURL raw))])))"

definition coord_update :: "bool \<Rightarrow> TailscaleState \<Rightarrow> CoordRow \<Rightarrow> CoordRow" where
  "coord_update focused s r =
     (let r1 = applyCapability (ts_supportsCustomControlURL s) r; desired = prefs_control_url s
      in if focused then r1
         else if cr_value r1 = desired then clearValidationError (r1\<lparr>cr_dirty := False\<rparr>)
         else if \<not> cr_dirty r1 then clearValidationError (r1\<lparr>cr_value := desired\<rparr>)
         else r1)"

text \<open>
  \<open>rerenderPreservingCoordEdit\<close>: the standalone views are drawn anew around the row, whose value and dirty flag
  are carried over while its input has the focus.
\<close>

definition rerender_coord :: "bool \<Rightarrow> TailscaleState \<Rightarrow> CoordRow \<Rightarrow> CoordRow" where
  "rerender_coord focused s r =
     (let fresh = createCoordinationServerRow s (cr_open r)
      in if focused then fresh\<lparr>cr_value := cr_value r, cr_dirty := cr_dirty r\<rparr> else fresh)"

section \<open>Lemmas\<close>

text \<open>The editor as a machine: what the user and the status updates do to one row.\<close>

datatype coord_op = CoToggle bool | CoInput string | CoSave | CoUpdate bool TailscaleState

fun coord_step :: "url_parser \<Rightarrow> coord_op \<Rightarrow> CoordRow \<Rightarrow> CoordRow \<times> popup_effect list" where
  "coord_step u (CoToggle b) r = (coord_toggle b r, [])"
| "coord_step u (CoInput t) r = (if cr_disabled r then r else coord_input t r, [])"
| "coord_step u CoSave r = coord_save u r"
| "coord_step u (CoUpdate focused s) r = (coord_update focused s r, [])"

fun coord_run :: "url_parser \<Rightarrow> coord_op list \<Rightarrow> CoordRow \<Rightarrow> CoordRow \<times> popup_effect list" where
  "coord_run u [] r = (r, [])"
| "coord_run u (op # ops) r =
     (let (r1, es) = coord_step u op r; (r2, es') = coord_run u ops r1 in (r2, es @ es'))"

lemma coord_save_effects:
  "e \<in> set (snd (coord_save u r)) \<Longrightarrow> \<exists>raw. e = Send (MSetPref (SetControlURL raw)) \<and> coord_error u raw = None"
  by (auto simp: coord_save_def Let_def split: if_splits option.splits)

lemma coord_step_effects:
  "e \<in> set (snd (coord_step u op r)) \<Longrightarrow> \<exists>raw. e = Send (MSetPref (SetControlURL raw)) \<and> coord_error u raw = None"
  by (cases op) (auto dest: coord_save_effects)

lemma coord_run_effects:
  "e \<in> set (snd (coord_run u ops r)) \<Longrightarrow> \<exists>raw. e = Send (MSetPref (SetControlURL raw)) \<and> coord_error u raw = None"
  by (induction ops arbitrary: r) (auto simp: Let_def case_prod_beta dest: coord_step_effects)

text \<open>What the URL standard says of a parsed URL with one of the two protocols: its host is not empty.\<close>

definition special_hosts :: "url_parser \<Rightarrow> bool" where
  "special_hosts u \<longleftrightarrow> (\<forall>t p. u t = Some p \<longrightarrow> url_protocol p = ''http:'' \<or> url_protocol p = ''https:'' \<longrightarrow> url_host p \<noteq> [])"

lemma coord_error_valid:
  assumes "special_hosts u" and "coord_error u raw = None"
  shows "raw = [] \<or> isValidControlURL u raw"
  using assms by (auto simp: coord_error_def special_hosts_def isValidControlURL_def split: if_splits option.splits)

text \<open>No status update changes an edit that is neither saved nor equal to the saved server.\<close>

fun is_update :: "coord_op \<Rightarrow> bool" where
  "is_update (CoUpdate _ _) = True"
| "is_update _ = False"

lemma coord_update_keeps:
  "cr_dirty r \<Longrightarrow> cr_value (coord_update f s r) = cr_value r \<and> (cr_dirty (coord_update f s r) \<or> cr_value r = prefs_control_url s)"
  by (simp add: coord_update_def applyCapability_def clearValidationError_def Let_def)


definition one_server :: url_parser where
  "one_server t =
     (if t = ''https://hs.example'' then Some \<lparr>url_protocol = ''https:'', url_hostname = ''hs.example'', url_host = ''hs.example'',
        url_origin = ''https://hs.example'', url_pathname = ''/'', url_search = []\<rparr> else None)"


end
