(* ===== verification/Popup_Views.thy ===== *)
theory Popup_Views
  imports Popup_Coord
begin

text \<open>
  The shared components of the popup's views (\<open>packages/shared/src/popup/components\<close>: the toggle switch, the
  header and the health warnings) and the two views shown without a connection
  (\<open>packages/shared/src/popup/views/disconnected.ts\<close> and \<open>needs-login.ts\<close>). The lemmas say what the switch can
  send and that the disconnected view offers recovery exactly when something is wrong.
\<close>

section \<open>Components\<close>

record Toggle =
  tg_checked :: bool
  tg_label :: string
  tg_disabled :: bool

definition createToggle :: "bool \<Rightarrow> string \<Rightarrow> bool \<Rightarrow> Toggle" where
  "createToggle checked accessibleName disabled = \<lparr>tg_checked = checked, tg_label = accessibleName, tg_disabled = disabled\<rparr>"

text \<open>The \<open>change\<close> event: the new value for \<open>onChange\<close>, if it is called.\<close>

definition toggle_change :: "bool \<Rightarrow> Toggle \<Rightarrow> Toggle \<times> bool option" where
  "toggle_change checked t =
     (if tg_disabled t then (t, None) else (t\<lparr>tg_checked := checked\<rparr>, Some checked))"

definition renderHeader :: "bool \<Rightarrow> bool \<Rightarrow> Toggle" where
  "renderHeader isConnected disabled =
     createToggle isConnected (if isConnected then ''Disconnect Tailchrome'' else ''Connect Tailchrome'') disabled"

definition header_change :: "bool \<Rightarrow> Toggle \<Rightarrow> Toggle \<times> popup_effect list" where
  "header_change checked t =
     (case toggle_change checked t of (t', v) \<Rightarrow> (t', if v = None then [] else [Send MToggle]))"

record HealthBanner =
  hb_label :: string
  hb_items :: "string list"
  hb_expanded :: bool
  hb_clickable :: bool

definition renderHealthWarnings :: "string list \<Rightarrow> HealthBanner option" where
  "renderHealthWarnings warnings =
     (if warnings = [] then None
      else Some \<lparr>hb_label = (if length warnings = 1 then ''1 warning'' else nat_to_string (length warnings) @ '' warnings''),
             hb_items = warnings, hb_expanded = (length warnings \<le> 2), hb_clickable = (length warnings > 2)\<rparr>)"

definition health_click :: "HealthBanner \<Rightarrow> HealthBanner" where
  "health_click b = (if hb_clickable b then b\<lparr>hb_expanded := \<not> hb_expanded b\<rparr> else b)"

section \<open>The disconnected view\<close>

record DisconnectedText =
  dt_disabled :: bool
  dt_subtitle :: string
  dt_spinner :: bool
  dt_error :: bool
  dt_hints :: "string list"

definition helper_text :: "HelperFailureKind \<Rightarrow> DisconnectedText \<Rightarrow> DisconnectedText" where
  "helper_text kind d =
     (case kind of
        HelperStartFailed \<Rightarrow> d\<lparr>dt_subtitle := ''The browser found the helper, but it stopped before setup completed.''\<rparr>
      | HelperStopped \<Rightarrow>
          d\<lparr>dt_subtitle := ''The helper stopped after connecting. Tailchrome is retrying.'',
            dt_hints := [''Tailchrome will retry automatically'', ''Use Retry Connection to try again now'']\<rparr>
      | HelperReportedError \<Rightarrow>
          d\<lparr>dt_subtitle := ''The helper started but reported a startup error.'',
            dt_hints := [''Retry after reviewing the setup guidance'', ''Reinstall or repair the verified release package'']\<rparr>
      | HelperIncompatible \<Rightarrow> d\<lparr>dt_subtitle := ''The helper and extension reported an incompatible protocol.''\<rparr>
      | HelperUnavailable \<Rightarrow> d\<lparr>dt_subtitle := ''Tailchrome could not find a registered helper for this browser.''\<rparr>
      | HelperNotAllowed \<Rightarrow> d\<lparr>dt_subtitle := ''This browser refused access to the registered helper.''\<rparr>)"

definition backend_text :: "BackendState \<Rightarrow> DisconnectedText \<Rightarrow> DisconnectedText" where
  "backend_text b d =
     (case b of
        Starting \<Rightarrow> d\<lparr>dt_disabled := True, dt_subtitle := ''Tailscale is starting'' @ ellipsis, dt_spinner := True\<rparr>
      | NeedsMachineAuth \<Rightarrow> d\<lparr>dt_disabled := True, dt_subtitle := ''Waiting for admin approval to join the tailnet.''\<rparr>
      | InUseOtherUser \<Rightarrow> d\<lparr>dt_disabled := True, dt_subtitle := ''Tailscale is in use by another user on this machine.''\<rparr>
      | _ \<Rightarrow> d)"

definition default_text :: DisconnectedText where
  "default_text =
     \<lparr>dt_disabled = False, dt_subtitle = ''Toggle the switch to connect to your tailnet.'', dt_spinner = False, dt_error = False,
      dt_hints = [''Retry the helper connection'', ''Reinstall or repair the verified release package'',
        ''Restart the browser after repairing registration'']\<rparr>"

definition state_text :: "TailscaleState \<Rightarrow> DisconnectedText" where
  "state_text s =
     (let d = (case ts_helperFailure s of
                 Some f \<Rightarrow> helper_text (hf_kind f) (default_text\<lparr>dt_error := True, dt_disabled := True, dt_spinner := ts_reconnecting s\<rparr>)
               | None \<Rightarrow>
                   if ts_reconnecting s
                   then default_text\<lparr>dt_disabled := True, dt_subtitle := ''Reconnecting to Tailscale'' @ ellipsis, dt_spinner := True\<rparr>
                   else backend_text (ts_backendState s) default_text)
      in if ts_helperFailure s = None \<and> truthy (ts_error s) \<noteq> None
         then d\<lparr>dt_error := True, dt_subtitle := ''Tailscale reported a problem.''\<rparr>
         else if ts_helperFailure s = None \<and> \<not> ts_reconnecting s \<and> \<not> ts_hostConnected s \<and> ts_backendState s \<noteq> Starting
         then d\<lparr>dt_error := True, dt_subtitle := ''Unable to reach the helper app.''\<rparr>
         else d)"

record RetryControl =
  rc_disabled :: bool
  rc_text :: string

record DisconnectedView =
  dv_header :: Toggle
  dv_spinner :: bool
  dv_title :: string
  dv_subtitle :: string
  dv_recovery :: "(string list \<times> RetryControl \<times> bool \<times> bool) option"
  dv_coord :: "CoordRow option"

text \<open>
  \<open>dv_recovery\<close> holds the hints, the retry button, whether reinstalling is offered and whether the diagnostic
  report is. \<open>isOpen\<close> is \<open>standaloneEditorOpen\<close>.
\<close>

definition renderDisconnected :: "bool \<Rightarrow> TailscaleState option \<Rightarrow> DisconnectedView" where
  "renderDisconnected isOpen st =
     (let d = (case st of Some s \<Rightarrow> state_text s | None \<Rightarrow> default_text);
          failure = Option.bind st ts_helperFailure
      in \<lparr>dv_header = renderHeader False (dt_disabled d), dv_spinner = dt_spinner d,
          dv_title = (if dt_error d then (if failure \<noteq> None then ''Helper Connection Issue'' else ''Connection Issue'')
                      else if (case st of Some s \<Rightarrow> ts_reconnecting s | None \<Rightarrow> False) then ''Reconnecting'' @ ellipsis
                      else ''Tailscale is not connected''),
          dv_subtitle = dt_subtitle d,
          dv_recovery = (if dt_error d
             then Some (dt_hints d, \<lparr>rc_disabled = False, rc_text = ''Retry Connection''\<rparr>,
               map_option hf_kind failure = Some HelperStartFailed \<or> map_option hf_kind failure = Some HelperReportedError,
               st \<noteq> None)
             else None),
          dv_coord = map_option (\<lambda>s. createCoordinationServerRow s isOpen) st\<rparr>)"

definition retry_connection :: "RetryControl \<Rightarrow> RetryControl \<times> popup_effect list" where
  "retry_connection b =
     (if rc_disabled b then (b, [])
      else (\<lparr>rc_disabled = True, rc_text = ''Retrying'' @ ellipsis\<rparr>, [Send (MRetryNativeHost Manual)]))"

definition reinstall_click :: "string \<Rightarrow> popup_effect list" where
  "reinstall_click releaseVersion = [PopupTab (''https://github.com/dantraynor/tailchrome/releases/tag/v'' @ releaseVersion)]"

definition updateDisconnected :: "bool \<Rightarrow> bool \<Rightarrow> TailscaleState \<Rightarrow> DisconnectedView \<Rightarrow> DisconnectedView" where
  "updateDisconnected isOpen focused s v =
     (let fresh = renderDisconnected isOpen (Some s)
      in fresh\<lparr>dv_coord := (case dv_coord v of
             Some r \<Rightarrow> Some (rerender_coord focused s (r\<lparr>cr_open := isOpen\<rparr>))
           | None \<Rightarrow> dv_coord fresh)\<rparr>)"

section \<open>The login view\<close>

record LoginView =
  lv_header :: Toggle
  lv_description :: string
  lv_button :: string
  lv_message :: BackgroundMessage
  lv_coord :: CoordRow

definition protected_routing :: "TailscaleState \<Rightarrow> bool" where
  "protected_routing s = (case ts_routingPolicy s of Some p \<Rightarrow> rp_mode p \<noteq> PDirect | None \<Rightarrow> False)"

definition renderNeedsLogin :: "bool \<Rightarrow> TailscaleState \<Rightarrow> LoginView" where
  "renderNeedsLogin isOpen s =
     \<lparr>lv_header = renderHeader True True,
      lv_description = (if protected_routing s then ''Disconnect protected browsing to sign in using your normal connection.''
                        else ''You need to authenticate to connect this browser to your tailnet.''),
      lv_button = (if protected_routing s then ''Disconnect and log in'' else ''Log In''),
      lv_message = (if protected_routing s then MDisconnectAndLogin else MLogin),
      lv_coord = createCoordinationServerRow s isOpen\<rparr>"

definition login_click :: "LoginView \<Rightarrow> popup_effect list" where
  "login_click v = [Send (lv_message v)]"

definition updateNeedsLogin :: "bool \<Rightarrow> bool \<Rightarrow> TailscaleState \<Rightarrow> LoginView \<Rightarrow> LoginView" where
  "updateNeedsLogin isOpen focused s v =
     (renderNeedsLogin isOpen s)\<lparr>lv_coord := rerender_coord focused s ((lv_coord v)\<lparr>cr_open := isOpen\<rparr>)\<rparr>"

section \<open>Lemmas\<close>

text \<open>Recovery is offered exactly when the helper failed, an error is reported or the helper is out of reach while nothing is under way.\<close>

lemma disconnected_recovery:
  "dv_recovery (renderDisconnected isOpen (Some s)) \<noteq> None \<longleftrightarrow>
     ts_helperFailure s \<noteq> None \<or> truthy (ts_error s) \<noteq> None \<or>
     \<not> ts_reconnecting s \<and> \<not> ts_hostConnected s \<and> ts_backendState s \<noteq> Starting"
  by (auto simp: renderDisconnected_def state_text_def default_text_def helper_text_def backend_text_def Let_def
      split: option.splits HelperFailureKind.splits BackendState.splits)

text \<open>The switch is only live when the helper has not failed, nothing is under way and no one else has to act.\<close>

lemma disconnected_switch:
  "\<not> tg_disabled (dv_header (renderDisconnected isOpen (Some s))) \<longleftrightarrow>
     ts_helperFailure s = None \<and> \<not> ts_reconnecting s \<and> ts_backendState s \<notin> {Starting, NeedsMachineAuth, InUseOtherUser}"
  by (auto simp: renderDisconnected_def state_text_def default_text_def helper_text_def backend_text_def renderHeader_def createToggle_def
      Let_def split: option.splits HelperFailureKind.splits BackendState.splits)

text \<open>A login is only asked for while browsing is direct; protected browsing is released first.\<close>

lemma login_needs_direct:
  "Send MLogin \<in> set (login_click (renderNeedsLogin isOpen s)) \<longleftrightarrow>
     (case ts_routingPolicy s of Some p \<Rightarrow> rp_mode p = PDirect | None \<Rightarrow> True)"
  by (simp add: login_click_def renderNeedsLogin_def protected_routing_def split: option.splits)

end
