(* ===== verification/Popup_Files.thy ===== *)
theory Popup_Files
  imports Popup_Utils Js_Base64
begin

text \<open>
  Sending a file to a device (\<open>packages/shared/src/popup/components/peer-item.ts\<close>, lines 399--495):
  small files go in one message, larger ones in chunks, too large ones not at all. The bytes of a
  file are a \<^typ>\<open>string\<close>; a read may fail. The lemmas show that what the messages carry decodes and
  joins to the file, chunk by chunk and in order.
\<close>

definition FILE_CHUNK_BYTES :: nat where
  "FILE_CHUNK_BYTES = 700000"

definition MAX_SEND_FILE_SIZE :: nat where
  "MAX_SEND_FILE_SIZE = 50 * 1024 * 1024"

record File =
  file_name :: string
  file_type :: string
  file_bytes :: string

abbreviation file_size :: "File \<Rightarrow> nat" where
  "file_size f \<equiv> length (file_bytes f)"

text \<open>The loop of \<open>uint8ToBase64\<close> from index \<open>i\<close> on.\<close>

function binary_from :: "string \<Rightarrow> nat \<Rightarrow> string" where
  "binary_from u8 i = (if i < length u8 then take 0x8000 (drop i u8) @ binary_from u8 (i + 0x8000) else [])"
  by pat_completeness auto

termination
  by (relation "measure (\<lambda>(u8, i). length u8 - i)") auto

definition uint8ToBase64 :: "string \<Rightarrow> string" where
  "uint8ToBase64 u8 = btoa (binary_from u8 0)"

text \<open>What \<open>FileReader.readAsDataURL\<close> gives, and the part of it after the first comma.\<close>

definition data_url :: "File \<Rightarrow> string" where
  "data_url f = ''data:'' @ file_type f @ '';base64,'' @ btoa (file_bytes f)"

definition after_comma :: "string \<Rightarrow> string" where
  "after_comma s = (if CHR '','' \<in> set s then tl (dropWhile (\<lambda>c. c \<noteq> CHR '','') s) else s)"

definition ellipsis3 :: string where
  "ellipsis3 = ''...''"

definition small_file_loaded :: "string \<Rightarrow> string \<Rightarrow> File \<Rightarrow> popup_effect list" where
  "small_file_loaded peerId displayName f =
     [Send (MSendFile \<lparr>fc_nodeID = peerId, fc_fileName = file_name f, fc_fileData = after_comma (data_url f),
        fc_fileSize = int (file_size f), fc_transfer = None\<rparr>),
      toast_info (''Sending \"'' @ file_name f @ ''\" to '' @ displayName @ ellipsis3)]"

definition ceil_div :: "nat \<Rightarrow> nat \<Rightarrow> nat" where
  "ceil_div a b = (a + b - 1) div b"

definition file_slice :: "File \<Rightarrow> nat \<Rightarrow> string" where
  "file_slice f i = take FILE_CHUNK_BYTES (drop (i * FILE_CHUNK_BYTES) (file_bytes f))"

definition chunk_message :: "string \<Rightarrow> File \<Rightarrow> string \<Rightarrow> nat \<Rightarrow> nat \<Rightarrow> FileChunk" where
  "chunk_message peerId f transferID chunkCount i =
     \<lparr>fc_nodeID = peerId, fc_fileName = file_name f, fc_fileData = uint8ToBase64 (file_slice f i),
      fc_fileSize = int (file_size f), fc_transfer = Some (transferID, Some (int i), Some (int chunkCount))\<rparr>"

text \<open>The loop over the chunks, \<open>k\<close> of them left; \<open>readable i\<close> says whether reading slice \<open>i\<close> succeeds.\<close>

fun send_chunks :: "string \<Rightarrow> File \<Rightarrow> string \<Rightarrow> (nat \<Rightarrow> bool) \<Rightarrow> nat \<Rightarrow> nat \<Rightarrow> nat \<Rightarrow> popup_effect list" where
  "send_chunks peerId f transferID readable chunkCount i 0 = []"
| "send_chunks peerId f transferID readable chunkCount i (Suc k) =
     (if readable i
      then Send (MSendFile (chunk_message peerId f transferID chunkCount i))
             # send_chunks peerId f transferID readable chunkCount (i + 1) k
      else [toast_error ''Failed to read file''])"

definition sendFileChunked :: "string \<Rightarrow> File \<Rightarrow> string \<Rightarrow> (nat \<Rightarrow> bool) \<Rightarrow> popup_effect list" where
  "sendFileChunked peerId f transferID readable =
     (let chunkCount = ceil_div (file_size f) FILE_CHUNK_BYTES
      in toast_info (''Sending \"'' @ file_name f @ ''\" in '' @ nat_to_string chunkCount @ '' parts'' @ ellipsis3)
           # send_chunks peerId f transferID readable chunkCount 0 chunkCount)"

text \<open>
  The \<open>change\<close> handler of the file picker, with everything it starts: \<open>None\<close> is a closed dialog,
  \<open>readable 0\<close> whether a small file can be read.
\<close>

definition openFilePicker :: "string \<Rightarrow> string \<Rightarrow> File option \<Rightarrow> string \<Rightarrow> (nat \<Rightarrow> bool) \<Rightarrow> popup_effect list" where
  "openFilePicker peerId displayName file transferID readable =
     (case file of
        None \<Rightarrow> []
      | Some f \<Rightarrow>
          if file_size f > MAX_SEND_FILE_SIZE
          then [toast_error (''File too large ('' @ int_to_string (js_round (of_nat (file_size f) / 1024 / 1024))
                  @ '' MB). Maximum is '' @ nat_to_string (MAX_SEND_FILE_SIZE div 1024 div 1024) @ '' MB.'')]
          else if file_size f \<le> FILE_CHUNK_BYTES
          then (if readable 0 then small_file_loaded peerId displayName f else [toast_error ''Failed to read file''])
          else sendFileChunked peerId f transferID readable)"

section \<open>What arrives\<close>

definition chunks_sent :: "popup_effect list \<Rightarrow> FileChunk list" where
  "chunks_sent es = concat (map (\<lambda>e. case e of Send (MSendFile c) \<Rightarrow> [c] | _ \<Rightarrow> []) es)"

definition received_bytes :: "FileChunk list \<Rightarrow> string" where
  "received_bytes cs = concat (map (\<lambda>c. b64_decode (fc_fileData c)) cs)"

declare binary_from.simps [simp del]

lemma binary_from_drop: "binary_from u8 i = drop i u8"
proof (induction u8 i rule: binary_from.induct)
  case (1 u8 i)
  then have "i < length u8 \<Longrightarrow> take 0x8000 (drop i u8) @ binary_from u8 (i + 0x8000) = drop i u8"
    by (simp only: drop_drop [symmetric] append_take_drop_id add.commute [of i])
  then show ?case by (subst binary_from.simps) simp
qed

lemma uint8ToBase64_btoa: "uint8ToBase64 u8 = btoa u8"
  by (simp add: uint8ToBase64_def binary_from_drop)

lemma chunks_sent_simps [simp]:
  "chunks_sent [] = []"
  "chunks_sent (e # es) = (case e of Send (MSendFile c) \<Rightarrow> [c] | _ \<Rightarrow> []) @ chunks_sent es"
  by (simp_all add: chunks_sent_def)

lemma send_chunks_sent:
  "chunks_sent (send_chunks peerId f tid readable n i k) =
     map (chunk_message peerId f tid n) (takeWhile readable [i..<i + k])"
proof (induction k arbitrary: i)
  case (Suc k)
  then show ?case by (simp add: upt_conv_Cons del: upt_Suc)
qed simp

lemma concat_slices:
  "concat (map (\<lambda>i. take b (drop (i * b) s)) [0..<n]) = take (n * b) s"
  by (induction n) (simp_all add: take_add [symmetric] add.commute)

lemma ceil_div_covers:
  assumes "0 < b"
  shows "a \<le> ceil_div a b * b"
proof -
  have "a + b - 1 = ceil_div a b * b + (a + b - 1) mod b" by (simp add: ceil_div_def)
  moreover have "(a + b - 1) mod b < b" using assms by simp
  ultimately show ?thesis using assms by linarith
qed

lemma ceil_div_least:
  assumes "i < ceil_div a b"
  shows "i * b < a"
proof -
  have b: "0 < b" using assms by (cases b) (simp_all add: ceil_div_def)
  then have "Suc i * b \<le> a + b - 1" using assms by (simp add: ceil_div_def Suc_le_eq [symmetric] less_eq_div_iff_mult_less_eq)
  with b show ?thesis by simp
qed

lemma file_slices: "concat (map (file_slice f) [0..<ceil_div (file_size f) FILE_CHUNK_BYTES]) = file_bytes f"
  unfolding file_slice_def concat_slices using ceil_div_covers [of FILE_CHUNK_BYTES "file_size f"]
  by (simp add: FILE_CHUNK_BYTES_def)

lemma after_comma_append: "CHR '','' \<notin> set s \<Longrightarrow> after_comma (s @ CHR '','' # t) = t"
  by (induction s) (auto simp: after_comma_def)

lemma small_file_data:
  assumes "CHR '','' \<notin> set (file_type f)"
  shows "after_comma (data_url f) = btoa (file_bytes f)"
proof -
  have "data_url f = (''data:'' @ file_type f @ '';base64'') @ CHR '','' # btoa (file_bytes f)" by (simp add: data_url_def)
  with assms show ?thesis by (simp add: after_comma_append [of "''data:'' @ file_type f @ '';base64''", simplified])
qed

lemma btoa_length: "length (btoa s) = 4 * ceil_div (length s) 3"
proof (induction s rule: btoa.induct)
  case (4 a b c cs)
  have "(5 + length cs) div 3 = Suc ((2 + length cs) div 3)" by presburger
  with 4 show ?case by (simp add: ceil_div_def Let_def)
qed (simp_all add: ceil_div_def Let_def)

text \<open>What a message of a transfer says beside its data.\<close>

definition chunk_header :: "string \<Rightarrow> File \<Rightarrow> FileChunk \<Rightarrow> bool" where
  "chunk_header peerId f c \<longleftrightarrow>
     fc_nodeID c = peerId \<and> fc_fileName c = file_name f \<and> fc_fileSize c = int (file_size f) \<and>
     length (b64_decode (fc_fileData c)) \<le> FILE_CHUNK_BYTES \<and> length (fc_fileData c) \<le> 933336"

lemma chunk_message_header: "chunk_header peerId f (chunk_message peerId f tid n i)"
proof -
  have l: "length (file_slice f i) \<le> FILE_CHUNK_BYTES" by (simp add: file_slice_def)
  then have "ceil_div (length (file_slice f i)) 3 \<le> 233334" by (simp add: ceil_div_def FILE_CHUNK_BYTES_def)
  with l show ?thesis by (simp add: chunk_header_def chunk_message_def uint8ToBase64_btoa b64_roundtrip btoa_length)
qed

lemma chunk_message_transfer: "fc_transfer (chunk_message peerId f tid n i) = Some (tid, Some (int i), Some (int n))"
  by (simp add: chunk_message_def)

lemma small_file_header:
  assumes "CHR '','' \<notin> set (file_type f)" and "file_size f \<le> FILE_CHUNK_BYTES"
  shows "list_all (chunk_header peerId f) (chunks_sent (small_file_loaded peerId d f))"
proof -
  have "ceil_div (file_size f) 3 \<le> 233334" using assms(2) by (simp add: ceil_div_def FILE_CHUNK_BYTES_def)
  with assms show ?thesis
    by (simp add: small_file_loaded_def chunk_header_def small_file_data b64_roundtrip btoa_length)
qed

text \<open>
  C22: a file of acceptable size that can be read arrives whole: the messages sent for it name the
  device, the file and its size, none carries more than 700000 bytes, and the decoded data, in the order
  sent, is the file. The messages of a transfer in parts are numbered from 0 in order, with the
  number of parts.
\<close>

theorem file_arrives_whole:
  assumes "file_size f \<le> MAX_SEND_FILE_SIZE" and "\<forall>i. readable i" and "CHR '','' \<notin> set (file_type f)"
  shows "received_bytes (chunks_sent (openFilePicker peerId d (Some f) tid readable)) = file_bytes f \<and>
    list_all (chunk_header peerId f) (chunks_sent (openFilePicker peerId d (Some f) tid readable)) \<and>
    (let cs = chunks_sent (openFilePicker peerId d (Some f) tid readable) in
       map fc_transfer cs = (if file_size f \<le> FILE_CHUNK_BYTES then [None]
         else map (\<lambda>i. Some (tid, Some (int i), Some (int (length cs)))) [0..<length cs]))"
proof (cases "file_size f \<le> FILE_CHUNK_BYTES")
  case True
  with assms small_file_header [OF assms(3) True] show ?thesis
    by (simp add: openFilePicker_def small_file_loaded_def received_bytes_def small_file_data b64_roundtrip)
next
  case False
  define n where "n = ceil_div (file_size f) FILE_CHUNK_BYTES"
  have tw: "takeWhile readable [0..<n] = [0..<n]" using assms(2) by (simp add: takeWhile_eq_all_conv)
  have cs: "chunks_sent (openFilePicker peerId d (Some f) tid readable) = map (chunk_message peerId f tid n) [0..<n]"
    using False assms(1) send_chunks_sent [of peerId f tid readable n 0 n]
    by (simp add: openFilePicker_def sendFileChunked_def n_def [symmetric] Let_def tw)
  have "received_bytes (map (chunk_message peerId f tid n) [0..<n]) = file_bytes f"
    using file_slices [of f]
    by (simp add: received_bytes_def chunk_message_def uint8ToBase64_btoa b64_roundtrip n_def comp_def)
  with False show ?thesis
    by (simp add: cs list_all_iff chunk_message_header chunk_message_transfer comp_def)
qed

theorem file_arrives_whole_witness:
  "received_bytes (chunks_sent (openFilePicker ''n1'' ''box''
     (Some \<lparr>file_name = ''a.txt'', file_type = ''text/plain'', file_bytes = ''hello''\<rparr>) ''t'' (\<lambda>_. True))) = ''hello''"
  using file_arrives_whole [of "\<lparr>file_name = ''a.txt'', file_type = ''text/plain'', file_bytes = ''hello''\<rparr>"]
  by (simp add: MAX_SEND_FILE_SIZE_def)

text \<open>A read that fails ends the transfer after the parts before it, and the user is told.\<close>

lemma send_chunks_failure:
  assumes "\<forall>i<j. readable i" and "\<not> readable j" and "j < n"
  shows "send_chunks peerId f tid readable n 0 n =
    map (\<lambda>i. Send (MSendFile (chunk_message peerId f tid n i))) [0..<j] @ [toast_error ''Failed to read file'']"
proof -
  have "send_chunks peerId f tid readable n i k =
      map (\<lambda>i. Send (MSendFile (chunk_message peerId f tid n i))) [i..<j] @ [toast_error ''Failed to read file'']"
    if "i \<le> j" "j < i + k" for i k
    using that
  proof (induction k arbitrary: i)
    case (Suc k)
    show ?case
    proof (cases "i = j")
      case False
      with Suc assms(1) show ?thesis by (simp add: upt_conv_Cons)
    qed (use assms(2) in simp)
  qed simp
  from this [of 0 n] assms(3) show ?thesis by simp
qed

end
