(* ===== verification/Popup_Peers.thy ===== *)
theory Popup_Peers
  imports Popup_Files
begin

text \<open>
  The device list of the popup (\<open>packages/shared/src/popup/components/peer-item.ts\<close> and
  \<open>peer-list.ts\<close>). A row is a record of what its elements show and of the \<open>dataset\<close> its handlers
  read; handlers give effects. Rows are reused between redraws when two keys allow it, and the
  lemmas show that a reused row shows what a new one would, and which devices are shown.

  Times are milliseconds; \<open>pe_date\<close> is \<open>new Date(text).getTime()\<close> with \<^const>\<open>None\<close> for NaN and \<open>pe_num\<close>
  the conversion of a number to text. Keyboard focus is not modelled.
\<close>

record PopupEnv =
  pe_now :: int
  pe_date :: "string \<Rightarrow> int option"
  pe_num :: "rat \<Rightarrow> string"

section \<open>Texts and keys\<close>

definition formatRelativeTime :: "PopupEnv \<Rightarrow> string option \<Rightarrow> string" where
  "formatRelativeTime E isoDate =
     (case truthy isoDate of
        None \<Rightarrow> ''offline''
      | Some d \<Rightarrow>
          (case pe_date E d of
             None \<Rightarrow> ''offline''
           | Some then_ms \<Rightarrow>
               (let diffMs = pe_now E - then_ms; seconds = diffMs div 1000; minutes = seconds div 60;
                    hours = minutes div 60; days = hours div 24; months = days div 30
                in if diffMs < 0 then ''just now''
                   else if seconds < 60 then ''just now''
                   else if minutes < 60 then int_to_string minutes @ ''m ago''
                   else if hours < 24 then int_to_string hours @ ''h ago''
                   else if days < 30 then int_to_string days @ ''d ago''
                   else if months < 12 then int_to_string months @ ''mo ago''
                   else ''long ago'')))"

definition first_ip :: "PeerInfo \<Rightarrow> string" where
  "first_ip p = (case js_default (peer_tailscaleIPs p) [] of [] \<Rightarrow> [] | ip # _ \<Rightarrow> ip)"

definition bool_text :: "bool \<Rightarrow> string" where
  "bool_text b = (if b then ''true'' else ''false'')"

definition display_fields :: "PopupEnv \<Rightarrow> PeerInfo \<Rightarrow> string list" where
  "display_fields E p =
     [peer_hostname p, bool_text (peer_online p), first_ip p, js_default (peer_lastSeen p) [],
      bool_text (peer_exitNode p), peer_dnsName p, pe_num E (peer_rxBytes p), pe_num E (peer_txBytes p),
      js_default (peer_lastHandshake p) [], js_join '','' (js_default (peer_tags p) []),
      peer_userLoginName p, peer_userName p, bool_text (peer_sshHost p)]"

definition peerDisplayKey :: "PopupEnv \<Rightarrow> PeerInfo \<Rightarrow> string" where
  "peerDisplayKey E p = js_join ''|'' (display_fields E p)"

definition open_target :: "PeerInfo \<Rightarrow> string" where
  "open_target p =
     (if peer_online p then (if shortDNSName (peer_dnsName p) \<noteq> [] then shortDNSName (peer_dnsName p) else first_ip p) else [])"

text \<open>Which of the six conditional buttons a row has: Copy IP, Copy DNS, Open, Ping, SSH, Send File.\<close>

definition action_flags :: "PeerInfo \<Rightarrow> bool \<Rightarrow> bool \<Rightarrow> bool list" where
  "action_flags p supportsPingPeer showPeerSSH =
     [first_ip p \<noteq> [], peer_dnsName p \<noteq> [], open_target p \<noteq> [],
      supportsPingPeer \<and> peer_online p \<and> first_ip p \<noteq> [],
      showPeerSSH \<and> peer_sshHost p \<and> peer_online p, peer_taildropTarget p \<and> peer_online p]"

definition peerActionsKey :: "PeerInfo \<Rightarrow> bool \<Rightarrow> bool \<Rightarrow> string" where
  "peerActionsKey p supportsPingPeer showPeerSSH =
     map (\<lambda>b. if b then CHR ''1'' else CHR ''0'') (action_flags p supportsPingPeer showPeerSSH)"

text \<open>The arrows and the bullet stand as their UTF-8 bytes, the middle dot is a Latin-1 character.\<close>

definition middle_dot :: string where
  "middle_dot = '' '' @ [char_of (183 :: nat)] @ '' ''"

definition down_arrow :: string where
  "down_arrow = map char_of [0xe2, 0x86, 0x93 :: nat] @ '' ''"

definition up_arrow :: string where
  "up_arrow = map char_of [0xe2, 0x86, 0x91 :: nat] @ '' ''"

definition buildPeerDetailsText :: "PopupEnv \<Rightarrow> PeerInfo \<Rightarrow> string" where
  "buildPeerDetailsText E p =
     js_join middle_dot
       ([down_arrow @ formatBytes (pe_num E) (peer_rxBytes p) @ middle_dot @ up_arrow @ formatBytes (pe_num E) (peer_txBytes p)]
        @ (case truthy (peer_lastHandshake p) of Some h \<Rightarrow> [''Handshake '' @ formatRelativeTime E (Some h)] | None \<Rightarrow> [])
        @ (case js_default (peer_tags p) [] of [] \<Rightarrow> [] | tags \<Rightarrow> [js_join '' '' tags])
        @ (if peer_userLoginName p \<noteq> [] then [peer_userLoginName p]
           else if peer_userName p \<noteq> [] then [peer_userName p] else []))"

section \<open>Rows\<close>

datatype OsIcon = IconLaptop | IconDesktop | IconWindow | IconMobile

definition iconForOS :: "string \<Rightarrow> OsIcon" where
  "iconForOS os =
     (let lower = js_lower os in
      if js_includes ''macos'' lower \<or> js_includes ''darwin'' lower then IconLaptop
      else if js_includes ''linux'' lower then IconDesktop
      else if js_includes ''windows'' lower then IconWindow
      else if js_includes ''ios'' lower \<or> js_includes ''iphone'' lower \<or> js_includes ''ipad'' lower then IconMobile
      else if js_includes ''android'' lower then IconMobile
      else if js_includes ''freebsd'' lower \<or> js_includes ''openbsd'' lower then IconDesktop
      else IconLaptop)"

datatype PeerAction = CopyIP | CopyDNS | OpenPeer | PingAction | SSHAction | SendFileAction | SetURL

text \<open>The inline editor of the custom address.\<close>

record UrlEditor =
  ed_value :: string
  ed_shown :: bool
  ed_clearShown :: bool

record PeerRow =
  row_peerId :: string
  row_machineName :: string
  row_shortDns :: string
  row_openTarget :: string
  row_firstIp :: string
  row_hostPingCap :: bool
  row_showPeerSsh :: bool
  row_actionsKey :: string
  row_displayKey :: string
  row_displayName :: string
  row_name :: string
  row_ariaLabel :: string
  row_icon :: OsIcon
  row_dotOnline :: bool
  row_lastSeen :: string
  row_exitLabel :: bool
  row_ip :: string
  row_ipAria :: string
  row_ipHidden :: bool
  row_details :: string
  row_actions :: "PeerAction list"
  row_openLabel :: "string option"
  row_editor :: "UrlEditor option"
  row_expanded :: bool

definition openButtonLabel :: "string option \<Rightarrow> string" where
  "openButtonLabel customValue =
     (case truthy customValue of
        None \<Rightarrow> ''Open''
      | Some v \<Rightarrow> if all_digits v then ''Open :'' @ v else ''Open (custom)'')"

definition aria_label :: "PeerInfo \<Rightarrow> string" where
  "aria_label p = machineName (peer_dnsName p) (peer_hostname p) @ '', '' @ (if peer_online p then ''online'' else ''offline'')"

definition ip_label :: "string \<Rightarrow> string" where
  "ip_label ip = (if ip \<noteq> [] then ''Copy IP address '' @ ip else ''Copy IP address'')"

definition last_seen_text :: "PopupEnv \<Rightarrow> PeerInfo \<Rightarrow> string" where
  "last_seen_text E p = (if peer_online p then ''online'' else formatRelativeTime E (peer_lastSeen p))"

text \<open>The buttons of the actions panel, in order.\<close>

definition peer_actions :: "PeerInfo \<Rightarrow> bool \<Rightarrow> bool \<Rightarrow> PeerAction list" where
  "peer_actions p supportsPingPeer showPeerSSH =
     (if first_ip p \<noteq> [] then [CopyIP] else [])
     @ (if peer_dnsName p \<noteq> [] then [CopyDNS] else [])
     @ (if open_target p \<noteq> [] then [OpenPeer] else [])
     @ (if supportsPingPeer \<and> peer_online p \<and> first_ip p \<noteq> [] then [PingAction] else [])
     @ (if showPeerSSH \<and> peer_sshHost p \<and> peer_online p then [SSHAction] else [])
     @ (if peer_taildropTarget p \<and> peer_online p then [SendFileAction] else [])
     @ (if open_target p \<noteq> [] then [SetURL] else [])"

definition url_editor :: "string option \<Rightarrow> UrlEditor" where
  "url_editor custom =
     (let existingUrl = js_default (truthy custom) []
      in \<lparr>ed_value = existingUrl, ed_shown = False, ed_clearShown = (existingUrl \<noteq> [])\<rparr>)"

definition createPeerItem :: "PopupEnv \<Rightarrow> CustomUrls \<Rightarrow> bool \<Rightarrow> bool \<Rightarrow> PeerInfo \<Rightarrow> PeerRow" where
  "createPeerItem E cache supportsPingPeer showPeerSSH p =
     (let displayName = machineName (peer_dnsName p) (peer_hostname p);
          custom = getCustomUrl cache (peer_id p)
      in \<lparr>row_peerId = peer_id p, row_machineName = displayName, row_shortDns = shortDNSName (peer_dnsName p),
          row_openTarget = open_target p, row_firstIp = first_ip p, row_hostPingCap = supportsPingPeer,
          row_showPeerSsh = showPeerSSH, row_actionsKey = peerActionsKey p supportsPingPeer showPeerSSH,
          row_displayKey = peerDisplayKey E p, row_displayName = displayName, row_name = displayName,
          row_ariaLabel = aria_label p, row_icon = iconForOS (peer_os p), row_dotOnline = peer_online p,
          row_lastSeen = last_seen_text E p, row_exitLabel = peer_exitNode p, row_ip = first_ip p,
          row_ipAria = ip_label (first_ip p), row_ipHidden = (first_ip p = []),
          row_details = buildPeerDetailsText E p, row_actions = peer_actions p supportsPingPeer showPeerSSH,
          row_openLabel = (if open_target p \<noteq> [] then Some (openButtonLabel custom) else None),
          row_editor = (if open_target p \<noteq> [] then Some (url_editor custom) else None),
          row_expanded = False\<rparr>)"

definition updatePeerItemText :: "PopupEnv \<Rightarrow> PeerInfo \<Rightarrow> PeerRow \<Rightarrow> PeerRow" where
  "updatePeerItemText E p r =
     (let displayName = machineName (peer_dnsName p) (peer_hostname p)
      in r\<lparr>row_machineName := displayName, row_shortDns := shortDNSName (peer_dnsName p),
           row_openTarget := open_target p, row_firstIp := first_ip p, row_name := displayName,
           row_ariaLabel := aria_label p, row_dotOnline := peer_online p, row_lastSeen := last_seen_text E p,
           row_exitLabel := peer_exitNode p, row_ip := first_ip p, row_ipAria := ip_label (first_ip p),
           row_ipHidden := (first_ip p = []), row_details := buildPeerDetailsText E p,
           row_displayKey := peerDisplayKey E p,
           row_actionsKey := peerActionsKey p (row_hostPingCap r) (row_showPeerSsh r)\<rparr>)"

section \<open>Handlers of a row\<close>

definition current_name :: "PeerRow \<Rightarrow> string" where
  "current_name r = (if row_machineName r \<noteq> [] then row_machineName r else row_displayName r)"

text \<open>The address button: \<open>copied\<close> says whether the clipboard took the text.\<close>

definition click_ip :: "bool \<Rightarrow> PeerRow \<Rightarrow> popup_effect list" where
  "click_ip copied r =
     (if row_firstIp r = [] then []
      else if copied then [CopyText (row_firstIp r), toast_info (''Copied '' @ row_firstIp r)]
      else [toast_error ''Could not copy the IP address.''])"

text \<open>\<open>SendFile\<close> opens the file picker, whose handler is \<^const>\<open>openFilePicker\<close>.\<close>

definition click_action :: "CustomUrls \<Rightarrow> PeerAction \<Rightarrow> PeerRow \<Rightarrow> PeerRow \<times> popup_effect list" where
  "click_action cache a r =
     (case a of
        CopyIP \<Rightarrow> (r, if row_firstIp r = [] then [] else [CopyText (row_firstIp r), toast_info (''Copied '' @ row_firstIp r)])
      | CopyDNS \<Rightarrow> (r, if row_shortDns r = [] then [] else [CopyText (row_shortDns r), toast_info (''Copied '' @ row_shortDns r)])
      | OpenPeer \<Rightarrow>
          (r, if row_openTarget r = [] then []
              else [PopupTab (resolveOpenUrl (row_openTarget r) (getCustomUrl cache (row_peerId r)))])
      | PingAction \<Rightarrow> (r, [Send (MPingPeer (row_peerId r)), toast_info (''Pinging '' @ current_name r @ ellipsis)])
      | SSHAction \<Rightarrow> (r, [PopupTab (''http://100.100.100.100/ssh/'' @ current_name r)])
      | SendFileAction \<Rightarrow> (r, [])
      | SetURL \<Rightarrow> (r\<lparr>row_editor := map_option (\<lambda>e. e\<lparr>ed_shown := \<not> ed_shown e\<rparr>) (row_editor r)\<rparr>, []))"

definition toggle_row :: "PeerRow \<Rightarrow> PeerRow" where
  "toggle_row r =
     (let isOpen = (\<not> row_expanded r)
      in r\<lparr>row_expanded := isOpen,
           row_editor := (if isOpen then row_editor r else map_option (\<lambda>e. e\<lparr>ed_shown := False\<rparr>) (row_editor r))\<rparr>)"

definition type_url :: "string \<Rightarrow> PeerRow \<Rightarrow> PeerRow" where
  "type_url t r = r\<lparr>row_editor := map_option (\<lambda>e. e\<lparr>ed_value := t\<rparr>) (row_editor r)\<rparr>"

definition save_url :: "CustomUrls \<Rightarrow> PeerRow \<Rightarrow> CustomUrls \<times> PeerRow \<times> popup_effect list" where
  "save_url cache r =
     (case row_editor r of
        None \<Rightarrow> (cache, r, [])
      | Some e \<Rightarrow>
          (let v = js_trim (ed_value e) in
           if v = [] then (cache, r, [])
           else (case setCustomUrl (row_peerId r) v cache of
                   (cache', es) \<Rightarrow>
                     (cache', r\<lparr>row_editor := Some (e\<lparr>ed_clearShown := True\<rparr>),
                        row_openLabel := map_option (\<lambda>_. openButtonLabel (Some v)) (row_openLabel r)\<rparr>,
                      es @ [toast_info (''Custom URL saved for '' @ current_name r)]))))"

definition clear_url :: "CustomUrls \<Rightarrow> PeerRow \<Rightarrow> CustomUrls \<times> PeerRow \<times> popup_effect list" where
  "clear_url cache r =
     (case row_editor r of
        None \<Rightarrow> (cache, r, [])
      | Some e \<Rightarrow>
          (case clearCustomUrl (row_peerId r) cache of
             (cache', es) \<Rightarrow>
               (cache', r\<lparr>row_editor := Some (e\<lparr>ed_value := [], ed_clearShown := False\<rparr>),
                  row_openLabel := map_option (\<lambda>_. openButtonLabel None) (row_openLabel r)\<rparr>,
                es @ [toast_info (''Custom URL cleared for '' @ current_name r)])))"

section \<open>The list\<close>

definition PREVIEW_LIMIT :: nat where
  "PREVIEW_LIMIT = 5"

definition filterPeers :: "PeerInfo list \<Rightarrow> string \<Rightarrow> PeerInfo list" where
  "filterPeers peers query =
     (let lower = js_lower (js_trim query) in
      if lower = [] then peers
      else filter (\<lambda>p. js_includes lower (js_lower (peer_hostname p)) \<or>
             (peer_dnsName p \<noteq> [] \<and> js_includes lower (js_lower (peer_dnsName p))) \<or>
             list_ex (\<lambda>ip. js_includes lower (js_lower ip)) (js_default (peer_tailscaleIPs p) [])) peers)"

record PeerSection =
  sec_label :: string
  sec_count :: nat
  sec_rows :: "PeerRow list"

datatype PeerListBody =
    EmptyPeers bool
  | PeerSections "PeerSection list" "(nat \<times> nat \<times> bool) option"

fun body_rows :: "PeerListBody \<Rightarrow> PeerRow list" where
  "body_rows (EmptyPeers _) = []"
| "body_rows (PeerSections ss _) = concat (map sec_rows ss)"

text \<open>\<open>cachedElements\<close>: the last row with an id wins, as with \<open>Map.set\<close>.\<close>

definition cached_row :: "PeerRow list \<Rightarrow> string \<Rightarrow> PeerRow option" where
  "cached_row rows pid = map_of (map (\<lambda>r. (row_peerId r, r)) (rev rows)) pid"

definition render_row :: "PopupEnv \<Rightarrow> CustomUrls \<Rightarrow> PeerRow list \<Rightarrow> bool \<Rightarrow> bool \<Rightarrow> PeerInfo \<Rightarrow> PeerRow" where
  "render_row E cache rows ping ssh p =
     (case cached_row rows (peer_id p) of
        None \<Rightarrow> createPeerItem E cache ping ssh p
      | Some r \<Rightarrow>
          if row_hostPingCap r \<noteq> ping \<or> row_showPeerSsh r \<noteq> ssh then createPeerItem E cache ping ssh p
          else if row_actionsKey r \<noteq> peerActionsKey p ping ssh then createPeerItem E cache ping ssh p
          else if row_displayKey r = peerDisplayKey E p then r
          else updatePeerItemText E p r)"

definition renderPeerSection :: "PopupEnv \<Rightarrow> CustomUrls \<Rightarrow> PeerRow list \<Rightarrow> bool \<Rightarrow> bool \<Rightarrow> string \<Rightarrow> PeerInfo list \<Rightarrow> PeerSection" where
  "renderPeerSection E cache rows ping ssh label peers =
     \<lparr>sec_label = label, sec_count = length peers, sec_rows = map (render_row E cache rows ping ssh) peers\<rparr>"

definition visible_peers :: "PeerInfo list \<Rightarrow> string \<Rightarrow> bool \<Rightarrow> PeerInfo list" where
  "visible_peers peers query expanded =
     (let matches = filterPeers peers query;
          ordered = filter peer_online matches @ filter (\<lambda>p. \<not> peer_online p) matches
      in if js_trim query \<noteq> [] \<or> expanded then ordered else take PREVIEW_LIMIT ordered)"

definition updatePeerList :: "PopupEnv \<Rightarrow> CustomUrls \<Rightarrow> PeerInfo list \<Rightarrow> bool \<Rightarrow> bool \<Rightarrow> string \<Rightarrow> bool \<Rightarrow> PeerListBody \<Rightarrow> PeerListBody" where
  "updatePeerList E cache peers ping ssh query expanded body =
     (let rows = body_rows body; searching = (js_trim query \<noteq> []); matches = filterPeers peers query
      in if matches = [] then EmptyPeers searching
         else (let visible = visible_peers peers query expanded;
                   online = filter peer_online visible; offline = filter (\<lambda>p. \<not> peer_online p) visible
               in PeerSections
                    ((if online \<noteq> [] then [renderPeerSection E cache rows ping ssh ''Online'' online] else [])
                     @ (if offline \<noteq> [] then [renderPeerSection E cache rows ping ssh ''Offline'' offline] else []))
                    (if \<not> searching \<and> length matches > PREVIEW_LIMIT
                     then Some (length visible, length matches, expanded) else None)))"

text \<open>The text of an empty list, and the button below a preview.\<close>

definition renderEmptyState :: "bool \<Rightarrow> string \<times> string" where
  "renderEmptyState searching =
     (if searching then (''No matching devices'', ''Try another name or IP address.'')
      else (''No devices found'', ''Other devices on your tailnet will appear here once they come online.''))"

definition toggle_expansion ::
  "PopupEnv \<Rightarrow> CustomUrls \<Rightarrow> PeerInfo list \<Rightarrow> bool \<Rightarrow> bool \<Rightarrow> string \<Rightarrow> bool \<Rightarrow> PeerListBody \<Rightarrow> bool \<times> PeerListBody" where
  "toggle_expansion E cache peers ping ssh query expanded body =
     (\<not> expanded, updatePeerList E cache peers ping ssh query (\<not> expanded) body)"

text \<open>\<open>renderPeerList\<close> empties the container first, so that nothing is reused.\<close>

definition renderPeerList :: "PopupEnv \<Rightarrow> CustomUrls \<Rightarrow> PeerInfo list \<Rightarrow> bool \<Rightarrow> bool \<Rightarrow> string \<Rightarrow> bool \<Rightarrow> PeerListBody" where
  "renderPeerList E cache peers ping ssh query expanded =
     updatePeerList E cache peers ping ssh query expanded (PeerSections [] None)"

section \<open>The list as a machine\<close>

text \<open>What the user does to one row.\<close>

datatype row_op = RowToggle | RowAction PeerAction | RowType string | RowSave | RowClear

definition row_step :: "row_op \<Rightarrow> CustomUrls \<Rightarrow> PeerRow \<Rightarrow> CustomUrls \<times> PeerRow \<times> popup_effect list" where
  "row_step op cache r =
     (case op of
        RowToggle \<Rightarrow> (cache, toggle_row r, [])
      | RowAction a \<Rightarrow> (cache, if a \<in> set (row_actions r) then click_action cache a r else (r, []))
      | RowType t \<Rightarrow> (cache, type_url t r, [])
      | RowSave \<Rightarrow> save_url cache r
      | RowClear \<Rightarrow> clear_url cache r)"

fun on_rows :: "(PeerRow \<Rightarrow> PeerRow) \<Rightarrow> PeerListBody \<Rightarrow> PeerListBody" where
  "on_rows f (EmptyPeers q) = EmptyPeers q"
| "on_rows f (PeerSections ss rest) = PeerSections (map (\<lambda>s. s\<lparr>sec_rows := map f (sec_rows s)\<rparr>) ss) rest"

text \<open>
  The states of the list: it starts empty with any stored addresses, is redrawn with new devices and
  reacts to the user. Device ids are distinct, and none of the fields that make up a display key
  contains the separator.
\<close>

definition plain_peer :: "PopupEnv \<Rightarrow> PeerInfo \<Rightarrow> bool" where
  "plain_peer E p \<longleftrightarrow> list_all (\<lambda>f. CHR ''|'' \<notin> set f) (display_fields E p)"

inductive list_reach :: "(rat \<Rightarrow> string) \<Rightarrow> CustomUrls \<Rightarrow> PeerListBody \<Rightarrow> bool" for num where
  start: "list_reach num cache (PeerSections [] None)"
| redraw: "list_reach num cache body \<Longrightarrow> pe_num E = num \<Longrightarrow> list_all (plain_peer E) peers \<Longrightarrow> distinct (map peer_id peers) \<Longrightarrow>
    list_reach num cache (updatePeerList E cache peers ping ssh query expanded body)"
| user: "list_reach num cache body \<Longrightarrow> r \<in> set (body_rows body) \<Longrightarrow> row_step op cache r = (cache', r', es) \<Longrightarrow>
    list_reach num cache' (on_rows (\<lambda>q. if row_peerId q = row_peerId r then r' else q) body)"

section \<open>Lemmas\<close>

text \<open>What a row shows of a device, apart from relative times, the icon and the state of its editor.\<close>

definition row_shows :: "PopupEnv \<Rightarrow> CustomUrls \<Rightarrow> PeerInfo \<Rightarrow> PeerRow \<Rightarrow> bool" where
  "row_shows E cache p r \<longleftrightarrow>
     (let fresh = createPeerItem E cache (row_hostPingCap r) (row_showPeerSsh r) p in
      row_peerId r = row_peerId fresh \<and> row_machineName r = row_machineName fresh \<and> row_shortDns r = row_shortDns fresh \<and>
      row_openTarget r = row_openTarget fresh \<and> row_firstIp r = row_firstIp fresh \<and>
      row_actionsKey r = row_actionsKey fresh \<and> row_displayKey r = row_displayKey fresh \<and>
      row_name r = row_name fresh \<and> row_ariaLabel r = row_ariaLabel fresh \<and> row_dotOnline r = row_dotOnline fresh \<and>
      row_exitLabel r = row_exitLabel fresh \<and> row_ip r = row_ip fresh \<and> row_ipAria r = row_ipAria fresh \<and>
      row_ipHidden r = row_ipHidden fresh \<and> row_actions r = row_actions fresh \<and> row_openLabel r = row_openLabel fresh \<and>
      (row_editor r = None \<longleftrightarrow> row_editor fresh = None))"

lemma bool_text_inj [simp]: "bool_text a = bool_text b \<longleftrightarrow> a = b"
  by (simp add: bool_text_def)

lemma display_key_inj:
  assumes "plain_peer E p" and "plain_peer E q" and "peerDisplayKey E p = peerDisplayKey E q"
  shows "display_fields E p = display_fields E q"
proof -
  have "js_split (CHR ''|'') (peerDisplayKey E x) = display_fields E x" if "plain_peer E x" for x
    unfolding peerDisplayKey_def using that
    by (intro js_split_join) (simp_all add: plain_peer_def list_all_iff display_fields_def)
  with assms show ?thesis by metis
qed

lemma flag_char_inj: "map (\<lambda>b. if b then CHR ''1'' else CHR ''0'') xs = map (\<lambda>b. if b then CHR ''1'' else CHR ''0'') ys \<Longrightarrow> xs = ys"
  by (rule map_injective) (auto simp: inj_def split: if_splits)

lemma actions_key_inj: "peerActionsKey p a b = peerActionsKey q c d \<Longrightarrow> action_flags p a b = action_flags q c d"
  by (simp only: peerActionsKey_def flag_char_inj)

text \<open>The flags of the actions key determine the buttons and whether there is an editor.\<close>

lemma same_flags:
  assumes "action_flags p a b = action_flags q a b"
  shows "peer_actions p a b = peer_actions q a b" and "open_target p = [] \<longleftrightarrow> open_target q = []"
proof -
  have ip: "first_ip p = [] \<longleftrightarrow> first_ip q = []" and dns: "peer_dnsName p = [] \<longleftrightarrow> peer_dnsName q = []"
    and opn: "open_target p = [] \<longleftrightarrow> open_target q = []"
    and ping: "a \<and> peer_online p \<and> first_ip p \<noteq> [] \<longleftrightarrow> a \<and> peer_online q \<and> first_ip q \<noteq> []"
    and ssh: "b \<and> peer_sshHost p \<and> peer_online p \<longleftrightarrow> b \<and> peer_sshHost q \<and> peer_online q"
    and drop: "peer_taildropTarget p \<and> peer_online p \<longleftrightarrow> peer_taildropTarget q \<and> peer_online q"
    using assms unfolding action_flags_def by blast+
  show "peer_actions p a b = peer_actions q a b"
    unfolding peer_actions_def ping ssh drop opn using ip dns by simp
  show "open_target p = [] \<longleftrightarrow> open_target q = []" by (rule opn)
qed

lemma row_shows_create: "row_shows E cache p (createPeerItem E cache ping ssh p)"
  by (simp add: row_shows_def createPeerItem_def Let_def)

lemma row_shows_env: "pe_num E = pe_num E' \<Longrightarrow> row_shows E cache p r = row_shows E' cache p r"
  by (simp add: row_shows_def createPeerItem_def Let_def peerDisplayKey_def display_fields_def)

lemma plain_env: "pe_num E = pe_num E' \<Longrightarrow> plain_peer E p = plain_peer E' p"
  by (simp add: plain_peer_def display_fields_def)

lemma row_shows_update:
  assumes "row_shows E cache q r" and "peer_id q = peer_id p"
    and "peerActionsKey p (row_hostPingCap r) (row_showPeerSsh r) = row_actionsKey r"
  shows "row_shows E cache p (updatePeerItemText E p r)"
proof -
  have "action_flags p (row_hostPingCap r) (row_showPeerSsh r) = action_flags q (row_hostPingCap r) (row_showPeerSsh r)"
    using assms(1,3) by (intro actions_key_inj) (simp add: row_shows_def createPeerItem_def Let_def)
  from same_flags [OF this] assms show ?thesis
    by (simp add: row_shows_def createPeerItem_def updatePeerItemText_def Let_def)
qed

lemma row_shows_reuse:
  assumes "row_shows E cache q r" and "peer_id q = peer_id p" and "plain_peer E p" and "plain_peer E q"
    and "peerActionsKey p (row_hostPingCap r) (row_showPeerSsh r) = row_actionsKey r"
    and "peerDisplayKey E p = row_displayKey r"
  shows "row_shows E cache p r"
proof -
  have "display_fields E p = display_fields E q"
    using assms(1,6) by (intro display_key_inj assms(3,4)) (simp add: row_shows_def createPeerItem_def Let_def)
  moreover have "action_flags p (row_hostPingCap r) (row_showPeerSsh r) = action_flags q (row_hostPingCap r) (row_showPeerSsh r)"
    using assms(1,5) by (intro actions_key_inj) (simp add: row_shows_def createPeerItem_def Let_def)
  ultimately show ?thesis using assms(1,2,5,6) same_flags [of p "row_hostPingCap r" "row_showPeerSsh r" q]
    by (simp add: row_shows_def createPeerItem_def display_fields_def aria_label_def open_target_def Let_def)
qed

lemma cached_row_in: "cached_row rows pid = Some r \<Longrightarrow> r \<in> set rows \<and> row_peerId r = pid"
  by (auto simp: cached_row_def dest!: map_of_SomeD)

text \<open>The invariant: every row shows some device of the plain kind.\<close>

definition row_inv :: "PopupEnv \<Rightarrow> CustomUrls \<Rightarrow> PeerRow \<Rightarrow> bool" where
  "row_inv E cache r \<longleftrightarrow> (\<exists>q. plain_peer E q \<and> row_shows E cache q r)"

lemma render_row_shows:
  assumes "\<forall>r\<in>set rows. row_inv E cache r" and "plain_peer E p"
  shows "row_shows E cache p (render_row E cache rows ping ssh p) \<and> row_hostPingCap (render_row E cache rows ping ssh p) = ping \<and>
    row_showPeerSsh (render_row E cache rows ping ssh p) = ssh"
proof (cases "cached_row rows (peer_id p)")
  case None
  then show ?thesis using row_shows_create by (simp add: render_row_def) (simp add: createPeerItem_def Let_def)
next
  case (Some r)
  then obtain q where q: "plain_peer E q" "row_shows E cache q r" and r: "row_peerId r = peer_id p"
    using assms(1) cached_row_in unfolding row_inv_def by blast
  then have "peer_id q = peer_id p" by (simp add: row_shows_def createPeerItem_def Let_def)
  then show ?thesis
    using Some q assms(2) row_shows_create row_shows_update [OF q(2)] row_shows_reuse [OF q(2)]
    by (auto simp: render_row_def) (simp_all add: createPeerItem_def updatePeerItemText_def Let_def)
qed

lemma visible_split:
  "filter peer_online (visible_peers peers query expanded) @ filter (\<lambda>p. \<not> peer_online p) (visible_peers peers query expanded) =
   visible_peers peers query expanded"
proof -
  have sorted_split: "filter peer_online xs @ filter (\<lambda>p. \<not> peer_online p) xs = xs"
    if "sorted_wrt (\<lambda>p q. peer_online q \<longrightarrow> peer_online p) xs" for xs
    using that by (induction xs) (auto simp: filter_id_conv)
  have "sorted_wrt (\<lambda>p q. peer_online q \<longrightarrow> peer_online p) (filter peer_online xs @ filter (\<lambda>p. \<not> peer_online p) xs)" for xs
    by (auto simp: sorted_wrt_append intro: sorted_wrt_mono_rel [of _ "\<lambda>_ _. True"] simp: sorted_wrt_true)
  from this [of "filterPeers peers query"] show ?thesis
    by (intro sorted_split) (auto simp: visible_peers_def Let_def sorted_wrt_take simp del: take_append)
qed

lemma update_rows:
  "body_rows (updatePeerList E cache peers ping ssh query expanded body) =
   map (render_row E cache (body_rows body) ping ssh) (visible_peers peers query expanded)"
proof (cases "filterPeers peers query = []")
  case True
  then show ?thesis by (simp add: updatePeerList_def visible_peers_def Let_def)
next
  case False
  have "body_rows (updatePeerList E cache peers ping ssh query expanded body) =
      map (render_row E cache (body_rows body) ping ssh)
        (filter peer_online (visible_peers peers query expanded) @ filter (\<lambda>p. \<not> peer_online p) (visible_peers peers query expanded))"
    using False by (simp add: updatePeerList_def renderPeerSection_def Let_def)
  then show ?thesis unfolding visible_split .
qed

lemma visible_subset: "set (visible_peers peers query expanded) \<subseteq> set peers"
  by (auto simp: visible_peers_def filterPeers_def Let_def split: if_splits dest!: in_set_takeD)

text \<open>Setting the state of the editor and the matching label keeps what a row shows.\<close>

lemma row_shows_editor:
  assumes "row_shows E cache p r" and "row_editor r = None \<longleftrightarrow> e = None"
  shows "row_shows E cache p (r\<lparr>row_editor := e\<rparr>)"
  using assms by (simp add: row_shows_def Let_def)

lemma row_shows_label:
  assumes "row_shows E cache p r" and "row_editor r \<noteq> None"
  shows "row_shows E cache' p (r\<lparr>row_editor := Some e, row_openLabel := map_option (\<lambda>_. openButtonLabel (getCustomUrl cache' (row_peerId r))) (row_openLabel r)\<rparr>)"
  using assms by (simp add: row_shows_def createPeerItem_def Let_def split: if_splits)

lemma row_shows_expanded: "row_shows E cache p (r\<lparr>row_expanded := b\<rparr>) = row_shows E cache p r"
  by (simp add: row_shows_def Let_def)

lemma custom_url_simps:
  "getCustomUrl (fst (setCustomUrl k v cache)) k' = (if k' = k then Some v else getCustomUrl cache k')"
  "getCustomUrl (fst (clearCustomUrl k cache)) k' = (if k' = k then None else getCustomUrl cache k')"
  by (simp_all add: setCustomUrl_def clearCustomUrl_def getCustomUrl_def update_conv' delete_conv' Let_def)

lemma row_step_shows:
  assumes "row_shows E cache p r" and "row_step op cache r = (cache', r', es)"
  shows "row_shows E cache' p r' \<and> (\<forall>k. k \<noteq> row_peerId r \<longrightarrow> getCustomUrl cache' k = getCustomUrl cache k)"
proof (cases op)
  case RowToggle
  with assms show ?thesis
    by (auto simp: row_step_def toggle_row_def Let_def row_shows_expanded intro!: row_shows_editor split: if_splits)
next
  case (RowAction a)
  with assms show ?thesis
    by (cases a) (auto simp: row_step_def click_action_def intro!: row_shows_editor split: if_splits)
next
  case (RowType t)
  with assms show ?thesis by (auto simp: row_step_def type_url_def intro!: row_shows_editor)
next
  case RowSave
  show ?thesis
  proof (cases "row_editor r = None \<or> js_trim (ed_value (the (row_editor r))) = []")
    case True
    with RowSave assms show ?thesis by (auto simp: row_step_def save_url_def Let_def split: option.splits)
  next
    case False
    define v where "v = js_trim (ed_value (the (row_editor r)))"
    have c: "cache' = fst (setCustomUrl (row_peerId r) v cache)"
      and r: "r' = r\<lparr>row_editor := Some ((the (row_editor r))\<lparr>ed_clearShown := True\<rparr>),
        row_openLabel := map_option (\<lambda>_. openButtonLabel (Some v)) (row_openLabel r)\<rparr>"
      using RowSave assms(2) False by (auto simp: row_step_def save_url_def Let_def v_def case_prod_beta)
    show ?thesis
      using row_shows_label [OF assms(1), of cache'] False by (simp add: r custom_url_simps c)
  qed
next
  case RowClear
  show ?thesis
  proof (cases "row_editor r")
    case None
    with RowClear assms show ?thesis by (auto simp: row_step_def clear_url_def)
  next
    case (Some e)
    have c: "cache' = fst (clearCustomUrl (row_peerId r) cache)"
      and r: "r' = r\<lparr>row_editor := Some (e\<lparr>ed_value := [], ed_clearShown := False\<rparr>),
        row_openLabel := map_option (\<lambda>_. openButtonLabel None) (row_openLabel r)\<rparr>"
      using RowClear assms(2) Some by (auto simp: row_step_def clear_url_def case_prod_beta)
    show ?thesis
      using row_shows_label [OF assms(1), of cache'] Some by (simp add: r custom_url_simps c)
  qed
qed

lemma row_inv_cache:
  assumes "row_inv E cache r" and "getCustomUrl cache' (row_peerId r) = getCustomUrl cache (row_peerId r)"
  shows "row_inv E cache' r"
proof -
  obtain q where q: "plain_peer E q" "row_shows E cache q r" using assms(1) by (auto simp: row_inv_def)
  then have "row_shows E cache' q r" using assms(2) by (simp add: row_shows_def createPeerItem_def Let_def)
  with q show ?thesis by (auto simp: row_inv_def)
qed

lemma row_inv_env: "pe_num E = pe_num E' \<Longrightarrow> row_inv E cache r = row_inv E' cache r"
  by (simp add: row_inv_def row_shows_env [of E E'] plain_env [of E E'])

lemma on_rows_set: "set (body_rows (on_rows f body)) = f ` set (body_rows body)"
  by (cases body) auto

text \<open>A redraw with plain devices and what the user does to a row keep the invariant.\<close>

lemma redraw_rows_inv:
  assumes "\<forall>r\<in>set (body_rows body). row_inv E cache r" and "list_all (plain_peer E) peers"
  shows "\<forall>r\<in>set (body_rows (updatePeerList E cache peers ping ssh query expanded body)). row_inv E cache r"
proof -
  have "row_inv E cache (render_row E cache (body_rows body) ping ssh p)" if "p \<in> set (visible_peers peers query expanded)" for p
    using that visible_subset assms(2) render_row_shows [OF assms(1), of p ping ssh] unfolding row_inv_def list_all_iff by blast
  then show ?thesis by (simp add: update_rows)
qed

lemma user_rows_inv:
  assumes "\<forall>r\<in>set (body_rows body). row_inv E cache r" and "r \<in> set (body_rows body)" and "row_step op cache r = (cache', r', es)"
  shows "\<forall>q\<in>set (body_rows (on_rows (\<lambda>q. if row_peerId q = row_peerId r then r' else q) body)). row_inv E cache' q"
proof -
  obtain q where q: "plain_peer E q" "row_shows E cache q r" using assms(1,2) unfolding row_inv_def by blast
  have new: "row_shows E cache' q r'" and other: "\<forall>k. k \<noteq> row_peerId r \<longrightarrow> getCustomUrl cache' k = getCustomUrl cache k"
    using row_step_shows [OF q(2) assms(3)] by simp_all
  then have "row_inv E cache' r'" using q(1) by (auto simp: row_inv_def)
  then show ?thesis using assms(1) other by (auto simp: on_rows_set intro: row_inv_cache)
qed

lemma list_reach_rows:
  assumes "list_reach num cache body" and "pe_num E = num"
  shows "\<forall>r\<in>set (body_rows body). row_inv E cache r"
  using assms
proof (induction)
  case (redraw cache body E' peers ping ssh query expanded)
  have e: "pe_num E = pe_num E'" using redraw by simp
  have "\<forall>r\<in>set (body_rows body). row_inv E' cache r" using redraw row_inv_env [OF e] by simp
  from redraw_rows_inv [OF this redraw(3)] show ?case by (simp add: row_inv_env [OF e])
next
  case (user cache body r op cache' r' es)
  then show ?case using user_rows_inv by blast
qed simp

text \<open>The redraw shows what it should, from any rows that satisfy the invariant.\<close>

lemma redraw_shows:
  assumes "\<forall>r\<in>set (body_rows body). row_inv E cache r" and "list_all (plain_peer E) peers"
  shows "list_all2 (\<lambda>p r. row_shows E cache p r \<and> row_hostPingCap r = ping \<and> row_showPeerSsh r = ssh)
    (visible_peers peers query expanded) (body_rows (updatePeerList E cache peers ping ssh query expanded body))"
proof -
  have "\<forall>p\<in>set (visible_peers peers query expanded). plain_peer E p"
    using assms(2) visible_subset [of peers query expanded] by (auto simp: list_all_iff)
  with assms(1) show ?thesis by (simp add: update_rows list_all2_map2 list.rel_refl_strong render_row_shows)
qed


definition sample_peer :: "string \<Rightarrow> bool \<Rightarrow> PeerInfo" where
  "sample_peer name online =
     \<lparr>peer_id = name, peer_hostname = name, peer_dnsName = name @ ''.example.ts.net.'', peer_tailscaleIPs = Some [''100.64.0.1''],
      peer_os = ''linux'', peer_online = online, peer_active = False, peer_exitNode = False, peer_exitNodeOption = False,
      peer_isSubnetRouter = False, peer_subnets = Some [], peer_tags = Some [], peer_rxBytes = 0, peer_txBytes = 0,
      peer_lastSeen = None, peer_lastHandshake = None, peer_keyExpiry = None, peer_location = None, peer_taildropTarget = True,
      peer_sshHost = False, peer_userId = 1, peer_userName = ''u'', peer_userLoginName = ''u@example.com'',
      peer_userProfilePicURL = []\<rparr>"

definition sample_env :: PopupEnv where
  "sample_env = \<lparr>pe_now = 0, pe_date = (\<lambda>_. None), pe_num = (\<lambda>q. int_to_string \<lfloor>q\<rfloor>)\<rparr>"


text \<open>How many are shown: all matches of a search or of an opened list, at most five otherwise.\<close>

lemma visible_count:
  "length (visible_peers peers query expanded) =
     (if js_trim query \<noteq> [] \<or> expanded then length (filterPeers peers query) else min PREVIEW_LIMIT (length (filterPeers peers query)))"
  by (simp add: visible_peers_def Let_def sum_length_filter_compl min.commute del: take_append)

end
