(* ===== verification/Popup_Connected.thy ===== *)
theory Popup_Connected
  imports Popup_Views Popup_Peers Domain_Split
begin

text \<open>
  The view shown while the node runs (\<open>packages/shared/src/popup/views/connected.ts\<close>). \<open>ConnectedUi\<close> holds the
  module's variables, \<open>ConnectedView\<close> what the elements show, \<open>renderConnected\<close> builds a view and
  \<open>updateConnected\<close> patches one in place. The lemmas show that the split-tunnel editor gives back the rules it was
  opened with.
\<close>

section \<open>Routing status\<close>

datatype RoutingKind = KWarning | KBlocked | KInactive | KActive

definition bullet_dot :: string where
  "bullet_dot = '' '' @ [char_of (183 :: nat)] @ '' ''"

definition routing_status_of :: "TailscaleState \<Rightarrow> RoutingKind \<times> string" where
  "routing_status_of s =
     (let status = map_option rh_status (ts_routingHealth s); mode = map_option rp_mode (ts_routingPolicy s)
      in if status = Some RConflicted then (KWarning, ''Browser proxy controlled elsewhere'')
         else if status = Some RUnavailable then (KWarning, ''Browser routing unavailable'')
         else if status = Some RBlocked
         then (KBlocked, if truthy (ts_selectedExitNodeID s) \<noteq> None \<and> \<not> (case ts_exitNode s of Some e \<Rightarrow> exit_online e | None \<Rightarrow> False)
                then ''Exit node unavailable'' @ bullet_dot @ ''traffic blocked'' else ''Protected traffic blocked'')
         else if \<not> ts_hostConnected s \<or> \<not> ts_initialized s \<or> ts_helperFailure s \<noteq> None
         then (KWarning, ''Reconnecting to helper'' @ ellipsis)
         else if mode = Some PBlocked then (KWarning, ''Restoring browser routing'' @ ellipsis)
         else if status = Some RInactive \<or> mode = Some PDirect then (KInactive, ''Browser routing off'')
         else if status = Some RActive then (KActive, ''Browser routing active'')
         else (KWarning, ''Checking browser routing'' @ ellipsis))"

record RoutingLine =
  rl_kind :: RoutingKind
  rl_text :: string
  rl_title :: string

definition updateRoutingStatus :: "TailscaleState \<Rightarrow> RoutingLine" where
  "updateRoutingStatus s =
     (let (kind, text) = routing_status_of s
      in \<lparr>rl_kind = kind, rl_text = text,
          rl_title = js_default (truthy (map_option rh_message (ts_routingHealth s))) text\<rparr>)"

section \<open>Split tunneling\<close>

text \<open>\<open>value.split(/[\s,]+/)\<close>.\<close>

definition list_sep :: "char \<Rightarrow> bool" where
  "list_sep c \<longleftrightarrow> js_space c \<or> c = CHR '',''"

function split_runs :: "string \<Rightarrow> string list" where
  "split_runs [] = [[]]"
| "split_runs (c # cs) =
     (if list_sep c then [] # split_runs (dropWhile list_sep cs)
      else (case split_runs cs of [] \<Rightarrow> [[c]] | w # ws \<Rightarrow> (c # w) # ws))"
  by pat_completeness auto

termination
  by (relation "measure length") (auto simp: le_imp_less_Suc length_dropWhile_le)

definition formatDomainsValue :: "string list \<Rightarrow> string" where
  "formatDomainsValue domains = js_join [char_of (10 :: nat)] domains"

fun parse_domains :: "string list \<Rightarrow> string list \<Rightarrow> string list \<times> string list" where
  "parse_domains seen [] = ([], [])"
| "parse_domains seen (raw # rest) =
     (let trimmed = js_trim raw in
      if trimmed = [] then parse_domains seen rest
      else (case sanitizeDomain (Some trimmed) of
              None \<Rightarrow> (case parse_domains seen rest of (ds, bad) \<Rightarrow> (ds, trimmed # bad))
            | Some cleaned \<Rightarrow>
                if cleaned \<in> set seen then parse_domains seen rest
                else (case parse_domains (cleaned # seen) rest of (ds, bad) \<Rightarrow> (cleaned # ds, bad))))"

definition parseDomainsInput :: "string \<Rightarrow> string list \<times> string list" where
  "parseDomainsInput value = parse_domains [] (split_runs value)"

definition splitTunnelingSummary :: "DomainSplitConfig \<Rightarrow> string" where
  "splitTunnelingSummary config =
     (let count = length (split_domains config) in
      if count = 0 then (if split_mode config = Only then ''Only'' @ bullet_dot @ ''no domains'' else ''Off'')
      else (if split_mode config = Only then ''Only'' else ''Bypass'') @ bullet_dot @ nat_to_string count @ '' ''
             @ (if count = 1 then ''domain'' else ''domains''))"

text \<open>The two mode buttons with their pressed state; the editor's \<open>sp_mode\<close> is what they show.\<close>

definition setActiveMode :: "DomainSplitMode \<Rightarrow> (DomainSplitMode \<times> bool) list" where
  "setActiveMode mode = map (\<lambda>m. (m, m = mode)) [Bypass, Only]"

definition activeModeFromSection :: "(DomainSplitMode \<times> bool) list \<Rightarrow> DomainSplitMode" where
  "activeModeFromSection buttons = (case filter snd buttons of (m, _) # _ \<Rightarrow> m | [] \<Rightarrow> Bypass)"

record SplitEditor =
  sp_summary :: string
  sp_mode :: DomainSplitMode
  sp_text :: string
  sp_dirty :: bool
  sp_warning :: string

definition renderSplitTunnelingSection :: "TailscaleState \<Rightarrow> SplitEditor" where
  "renderSplitTunnelingSection s =
     \<lparr>sp_summary = splitTunnelingSummary (ts_domainSplit s), sp_mode = split_mode (ts_domainSplit s),
      sp_text = formatDomainsValue (split_domains (ts_domainSplit s)), sp_dirty = False, sp_warning = []\<rparr>"

definition split_type :: "string \<Rightarrow> SplitEditor \<Rightarrow> SplitEditor" where
  "split_type t e = e\<lparr>sp_text := t, sp_dirty := True\<rparr>"

text \<open>\<open>commit\<close>, the handler of \<open>Save rules\<close>; a mode button sets the mode first.\<close>

definition split_commit :: "SplitEditor \<Rightarrow> SplitEditor \<times> popup_effect list" where
  "split_commit e =
     (let (domains, invalid) = parseDomainsInput (sp_text e);
          config = \<lparr>split_mode = sp_mode e, split_domains = domains\<rparr>
      in (e\<lparr>sp_summary := splitTunnelingSummary config, sp_dirty := False,
            sp_warning := (if invalid \<noteq> [] then ''Ignored invalid: '' @ js_join '', '' invalid else [])\<rparr>,
          [Send (MSetDomainSplit (split_js config))]))"

definition split_mode_click :: "DomainSplitMode \<Rightarrow> SplitEditor \<Rightarrow> SplitEditor \<times> popup_effect list" where
  "split_mode_click m e = split_commit (e\<lparr>sp_mode := m\<rparr>)"

definition split_update :: "bool \<Rightarrow> TailscaleState \<Rightarrow> SplitEditor \<Rightarrow> SplitEditor" where
  "split_update focused s e =
     e\<lparr>sp_text := (if \<not> focused \<and> \<not> sp_dirty e then formatDomainsValue (split_domains (ts_domainSplit s)) else sp_text e),
       sp_mode := split_mode (ts_domainSplit s), sp_summary := splitTunnelingSummary (ts_domainSplit s)\<rparr>"

section \<open>The local app proxy\<close>

text \<open>\<open>encodeURIComponent\<close>: the UTF-8 bytes, all but the unreserved ones as percent escapes.\<close>

definition uri_unreserved :: "char \<Rightarrow> bool" where
  "uri_unreserved c \<longleftrightarrow>
     is_upper c \<or> is_lower c \<or> is_digit c \<or> c \<in> set [CHR ''-'', CHR ''_'', CHR ''.'', CHR ''!'', CHR ''~'', CHR ''*'', CHR 0x27, CHR ''('', CHR '')'']"

definition upper_hex :: "nat \<Rightarrow> char" where
  "upper_hex n = (if n < 10 then char_of (48 + n) else char_of (55 + n))"

definition encodeURIComponent :: "string \<Rightarrow> string" where
  "encodeURIComponent s =
     concat (map (\<lambda>c. if uri_unreserved c then [c]
       else (let n = of_char c :: nat in [CHR ''%'', upper_hex (n div 16), upper_hex (n mod 16)])) (utf8 s))"

record ProxyCard =
  card_details :: ExternalProxyStatus
  card_hosts :: "string list option"
  card_fields :: "(string \<times> string) list"
  card_urls :: "string list"
  card_pac :: "string option"

datatype ProxyDetails = ProxyMessage string | ProxyCardView ProxyCard

definition proxy_hosts :: "ExternalProxyStatus \<Rightarrow> string list" where
  "proxy_hosts d = ''127.0.0.1'' # (if js_default (ep_allowLAN d) False then js_default (ep_lanAddresses d) [] else [])"

text \<open>\<open>renderFields\<close> for the chosen host; \<open>num_text\<close> is the text of a number.\<close>

definition proxy_card :: "(rat \<Rightarrow> string) \<Rightarrow> ExternalProxyStatus \<Rightarrow> string \<Rightarrow> ProxyCard" where
  "proxy_card num_text d host =
     (let port = num_text (js_default (ep_port d) 0);
          user = js_default (ep_username d) []; pass = js_default (ep_password d) [];
          credentials = encodeURIComponent user @ '':'' @ encodeURIComponent pass
      in \<lparr>card_details = d, card_hosts = (if js_default (ep_allowLAN d) False then Some (proxy_hosts d) else None),
          card_fields = [(''Server'', host), (''Port'', port), (''Username'', user), (''Password'', pass)],
          card_urls = map (\<lambda>protocol. protocol @ ''://'' @ credentials @ ''@'' @ host @ '':'' @ port) [''http'', ''socks5''],
          card_pac = map_option (\<lambda>path. ''http://'' @ host @ '':'' @ port @ path) (truthy (ep_pacPath d))\<rparr>)"

text \<open>Gives the host that stays chosen, \<open>externalProxyHost\<close>, beside the card.\<close>

definition renderExternalProxyDetails :: "(rat \<Rightarrow> string) \<Rightarrow> string \<Rightarrow> ExternalProxyStatus \<Rightarrow> string \<times> ProxyDetails" where
  "renderExternalProxyDetails num_text host d =
     (if \<not> ep_running d \<or> js_default (ep_port d) 0 = 0 \<or> truthy (ep_username d) = None \<or> truthy (ep_password d) = None
      then (host, ProxyMessage (js_default (truthy (ep_error d)) ''The local app proxy is not running.''))
      else (let h = (if host \<in> set (proxy_hosts d) then host else ''127.0.0.1'')
            in (h, ProxyCardView (proxy_card num_text d h))))"

definition select_proxy_host :: "(rat \<Rightarrow> string) \<Rightarrow> ExternalProxyStatus \<Rightarrow> string \<Rightarrow> string \<times> ProxyDetails" where
  "select_proxy_host num_text d host = (host, ProxyCardView (proxy_card num_text d host))"

section \<open>The view\<close>

definition PEER_SEARCH_THRESHOLD :: nat where
  "PEER_SEARCH_THRESHOLD = 6"

record ConnectedUi =
  ui_peerSearchQuery :: string
  ui_routesOpen :: bool
  ui_splitOpen :: bool
  ui_coordOpen :: bool
  ui_advancedOpen :: bool
  ui_revealed :: "ExternalProxyStatus option"
  ui_proxyHost :: string
  ui_lastHealthKey :: string
  ui_listExpanded :: bool

text \<open>The rows of the own node: address, what its copy button copies, machine name.\<close>

record SelfRows =
  sr_ip :: string
  sr_copy :: "string option"
  sr_hostname :: string

record ProxyRow =
  px_supported :: bool
  px_enabled :: bool
  px_allowLan :: bool
  px_lanSupported :: bool

record ConnectedView =
  cn_header :: Toggle
  cn_tailnet :: string
  cn_routing :: RoutingLine
  cn_self :: "SelfRows option"
  cn_keyExpiry :: "string option"
  cn_health :: "HealthBanner option"
  cn_exitText :: string
  cn_split :: SplitEditor
  cn_shieldsUp :: bool
  cn_corpDNS :: bool
  cn_autoConnect :: bool
  cn_advertiseExit :: bool
  cn_proxyRow :: ProxyRow
  cn_proxyChecked :: bool
  cn_lanChecked :: bool
  cn_proxyDetails :: "ProxyDetails option"
  cn_coord :: CoordRow
  cn_routesText :: string
  cn_profile :: "string option"
  cn_searchBox :: bool
  cn_peers :: PeerListBody
  cn_hostVersion :: "string option"
  cn_adminLink :: bool

text \<open>The environment of the view: that of the device list, the URL parser and the local form of a date.\<close>

record ViewEnv =
  ve_peers :: PopupEnv
  ve_urls :: CustomUrls
  ve_parse_url :: url_parser
  ve_locale_date :: "string \<Rightarrow> string option"

definition exitNodeDisplayText :: "TailscaleState \<Rightarrow> string" where
  "exitNodeDisplayText s =
     (case ts_exitNode s of
        Some e \<Rightarrow> formatLocationLabel (exit_location e) (machineName (exit_dnsName e) (exit_hostname e)) True
      | None \<Rightarrow> if truthy (ts_selectedExitNodeID s) \<noteq> None then ''Unavailable'' else ''None'')"

definition self_first_ip :: "SelfNode \<Rightarrow> string option" where
  "self_first_ip n = (case js_default (self_tailscaleIPs n) [] of [] \<Rightarrow> None | ip # _ \<Rightarrow> Some ip)"

definition self_rows :: "SelfNode \<Rightarrow> SelfRows" where
  "self_rows n =
     \<lparr>sr_ip = js_default (self_first_ip n) [], sr_copy = truthy (self_first_ip n),
      sr_hostname = machineName (self_dnsName n) (self_hostname n)\<rparr>"

definition key_expiry_text :: "ViewEnv \<Rightarrow> TailscaleState \<Rightarrow> string option" where
  "key_expiry_text V s =
     (case truthy (Option.bind (ts_selfNode s) self_keyExpiry) of
        Some k \<Rightarrow> Some (''Node key expires: '' @ formatKeyExpiryLocal (ve_locale_date V) (Some k))
      | None \<Rightarrow> None)"

definition tailnet_text :: "TailscaleState \<Rightarrow> string" where
  "tailnet_text s = js_default (truthy (ts_tailnet s)) ''My Tailnet''"

definition pref_bool :: "(TailscalePrefs \<Rightarrow> bool) \<Rightarrow> bool \<Rightarrow> TailscaleState \<Rightarrow> bool" where
  "pref_bool f d s = (case ts_prefs s of Some p \<Rightarrow> f p | None \<Rightarrow> d)"

definition advertising_exit :: "TailscaleState \<Rightarrow> bool" where
  "advertising_exit s = pref_bool (\<lambda>p. js_default (pref_advertiseExitNode p) False) False s"

definition proxy_row :: "TailscaleState \<Rightarrow> ProxyRow" where
  "proxy_row s =
     \<lparr>px_supported = ts_supportsExternalProxy s, px_enabled = (case ts_externalProxy s of Some x \<Rightarrow> ep_enabled x | None \<Rightarrow> False),
      px_allowLan = (case ts_externalProxy s of Some x \<Rightarrow> js_default (ep_allowLAN x) False | None \<Rightarrow> False),
      px_lanSupported = ts_supportsExternalProxyLAN s\<rparr>"

definition routes_text :: "TailscaleState \<Rightarrow> string" where
  "routes_text s = js_join '', '' (js_default (Option.bind (ts_prefs s) pref_advertiseRoutes) [])"

definition profile_value :: "TailscaleState \<Rightarrow> string" where
  "profile_value s = js_default (truthy (map_option prof_name (ts_currentProfile s))) ''Default''"

definition search_shown :: "ConnectedUi \<Rightarrow> TailscaleState \<Rightarrow> bool" where
  "search_shown u s \<longleftrightarrow> length (peersForDeviceList (ts_peers s)) \<ge> PEER_SEARCH_THRESHOLD \<or> ui_peerSearchQuery u \<noteq> []"

definition admin_shown :: "ViewEnv \<Rightarrow> TailscaleState \<Rightarrow> bool" where
  "admin_shown V s \<longleftrightarrow> \<not> isCustomControlURL (ve_parse_url V) (Option.bind (ts_prefs s) pref_controlURL)"

definition health_key :: "TailscaleState \<Rightarrow> string" where
  "health_key s = js_join [char_of (0 :: nat)] (ts_health s)"

text \<open>The connection details, drawn with what was last revealed while the proxy is on.\<close>

definition proxy_details :: "ViewEnv \<Rightarrow> ConnectedUi \<Rightarrow> TailscaleState \<Rightarrow> string \<times> ProxyDetails option" where
  "proxy_details V u s =
     (if px_supported (proxy_row s) \<and> px_enabled (proxy_row s)
      then (case ui_revealed u of
              Some d \<Rightarrow> (case renderExternalProxyDetails (pe_num (ve_peers V)) (ui_proxyHost u) d of (h, v) \<Rightarrow> (h, Some v))
            | None \<Rightarrow> (ui_proxyHost u, None))
      else (ui_proxyHost u, None))"

definition peers_body :: "ViewEnv \<Rightarrow> ConnectedUi \<Rightarrow> TailscaleState \<Rightarrow> PeerListBody \<Rightarrow> PeerListBody" where
  "peers_body V u s body =
     updatePeerList (ve_peers V) (ve_urls V) (peersForDeviceList (ts_peers s)) (ts_supportsPingPeer s) (ui_advancedOpen u)
       (ui_peerSearchQuery u) (ui_listExpanded u) body"

definition renderConnected :: "ViewEnv \<Rightarrow> TailscaleState \<Rightarrow> ConnectedUi \<Rightarrow> ConnectedUi \<times> ConnectedView" where
  "renderConnected V s u =
     (let (host, details) = proxy_details V u s
      in (u\<lparr>ui_lastHealthKey := health_key s, ui_proxyHost := host\<rparr>,
          \<lparr>cn_header = renderHeader True False, cn_tailnet = tailnet_text s, cn_routing = updateRoutingStatus s, cn_self = map_option self_rows (ts_selfNode s),
           cn_keyExpiry = key_expiry_text V s, cn_health = renderHealthWarnings (ts_health s), cn_exitText = exitNodeDisplayText s,
           cn_split = renderSplitTunnelingSection s, cn_shieldsUp = pref_bool pref_shieldsUp False s,
           cn_corpDNS = pref_bool pref_corpDNS True s, cn_autoConnect = ts_autoConnectOnStart s,
           cn_advertiseExit = advertising_exit s, cn_proxyRow = proxy_row s, cn_proxyChecked = px_enabled (proxy_row s),
           cn_lanChecked = px_allowLan (proxy_row s), cn_proxyDetails = details,
           cn_coord = createCoordinationServerRow s (ui_coordOpen u), cn_routesText = routes_text s,
           cn_profile = (if ts_profiles s \<noteq> [] then Some (profile_value s) else None), cn_searchBox = search_shown u s,
           cn_peers = peers_body V u s (PeerSections [] None), cn_hostVersion = truthy (ts_hostVersion s),
           cn_adminLink = admin_shown V s\<rparr>))"

text \<open>The element that has the keyboard focus, as far as updates ask for it.\<close>

datatype InputFocus = NoFocus | RoutesFocus | SplitFocus | CoordFocus

definition patch_connected :: "ViewEnv \<Rightarrow> InputFocus \<Rightarrow> TailscaleState \<Rightarrow> ConnectedUi \<Rightarrow> ConnectedView \<Rightarrow> ConnectedUi \<times> ConnectedView" where
  "patch_connected V focus s u v =
     (u\<lparr>ui_lastHealthKey := health_key s\<rparr>,
      v\<lparr>cn_adminLink := admin_shown V s, cn_tailnet := tailnet_text s,
        cn_self := map_option (\<lambda>r. r\<lparr>sr_ip := (case ts_selfNode s of Some n \<Rightarrow> sr_ip (self_rows n) | None \<Rightarrow> []),
          sr_hostname := (case ts_selfNode s of Some n \<Rightarrow> sr_hostname (self_rows n) | None \<Rightarrow> [])\<rparr>) (cn_self v),
        cn_routing := updateRoutingStatus s, cn_keyExpiry := key_expiry_text V s,
        cn_hostVersion := (if cn_hostVersion v \<noteq> None \<and> truthy (ts_hostVersion s) \<noteq> None then ts_hostVersion s else cn_hostVersion v),
        cn_health := (if health_key s \<noteq> ui_lastHealthKey u then renderHealthWarnings (ts_health s) else cn_health v),
        cn_exitText := exitNodeDisplayText s,
        cn_profile := (if ts_profiles s \<noteq> [] then map_option (\<lambda>_. profile_value s) (cn_profile v) else cn_profile v),
        cn_shieldsUp := pref_bool pref_shieldsUp False s, cn_corpDNS := pref_bool pref_corpDNS True s,
        cn_autoConnect := ts_autoConnectOnStart s, cn_advertiseExit := advertising_exit s,
        cn_routesText := (if focus \<noteq> RoutesFocus then routes_text s else cn_routesText v),
        cn_coord := coord_update (focus = CoordFocus) s (cn_coord v),
        cn_split := split_update (focus = SplitFocus) s (cn_split v),
        cn_peers := peers_body V u s (cn_peers v)\<rparr>)"

definition updateConnected :: "ViewEnv \<Rightarrow> InputFocus \<Rightarrow> TailscaleState \<Rightarrow> ConnectedUi \<Rightarrow> ConnectedView \<Rightarrow> ConnectedUi \<times> ConnectedView" where
  "updateConnected V focus s u v =
     (if cn_searchBox v \<noteq> search_shown u s then renderConnected V s u
      else if (cn_profile v \<noteq> None) \<noteq> (ts_profiles s \<noteq> []) then renderConnected V s u
      else if cn_proxyRow v \<noteq> proxy_row s then renderConnected V s (u\<lparr>ui_revealed := None\<rparr>)
      else patch_connected V focus s u v)"

section \<open>Handlers\<close>

text \<open>What the user does to the view, and the arrival of revealed proxy details.\<close>

datatype ConnectedAction =
    HeaderChange bool
  | HealthClick
  | ShieldsChange bool
  | DnsChange bool
  | AutoConnectChange bool
  | AdvertiseExitChange bool
  | LocalNodePage
  | ProxyChange bool
  | ProxyLanChange bool
  | RevealProxy
  | RotateProxy
  | ProxyHostChange string
  | ProxyArrived ExternalProxyStatus
  | AdvancedToggle bool
  | RoutesToggle bool
  | RoutesType string
  | RoutesSave
  | SplitToggle
  | SplitType string
  | SplitModeChange DomainSplitMode
  | SplitSave
  | CoordAction coord_op
  | SearchInput string
  | ExpandList
  | AdminClick
  | LogoutClick
  | StarClick

definition TAILCHROME_PROJECT_URL :: string where
  "TAILCHROME_PROJECT_URL = ''https://github.com/dantraynor/tailchrome''"

definition parse_routes :: "string \<Rightarrow> string list" where
  "parse_routes value = filter (\<lambda>t. t \<noteq> []) (map js_trim (split_runs value))"

text \<open>Whether the buttons and the container of the connection details are there.\<close>

definition proxy_panel :: "ConnectedView \<Rightarrow> bool" where
  "proxy_panel v \<longleftrightarrow> px_supported (cn_proxyRow v) \<and> px_enabled (cn_proxyRow v)"

definition setExternalProxyDetails :: "ViewEnv \<Rightarrow> ExternalProxyStatus \<Rightarrow> ConnectedUi \<Rightarrow> ConnectedView \<Rightarrow> ConnectedUi \<times> ConnectedView" where
  "setExternalProxyDetails V d u v =
     (let u1 = u\<lparr>ui_revealed := Some d\<rparr>
      in if proxy_panel v
         then (case renderExternalProxyDetails (pe_num (ve_peers V)) (ui_proxyHost u1) d of
                 (h, pd) \<Rightarrow> (u1\<lparr>ui_proxyHost := h\<rparr>, v\<lparr>cn_proxyDetails := Some pd\<rparr>))
         else (u1, v))"

definition external_proxy_action :: "ViewEnv \<Rightarrow> ConnectedAction \<Rightarrow> ConnectedUi \<Rightarrow> ConnectedView \<Rightarrow> ConnectedUi \<times> ConnectedView \<times> popup_effect list" where
  "external_proxy_action V a u v =
     (case a of
        ProxyChange enabled \<Rightarrow>
          if px_supported (cn_proxyRow v)
          then (u\<lparr>ui_revealed := None\<rparr>, v\<lparr>cn_proxyChecked := enabled\<rparr>, [Send (MSetExternalProxy enabled)]) else (u, v, [])
      | ProxyLanChange allowLAN \<Rightarrow>
          if proxy_panel v \<and> px_lanSupported (cn_proxyRow v)
          then (u\<lparr>ui_revealed := None\<rparr>, v\<lparr>cn_proxyDetails := None, cn_lanChecked := allowLAN\<rparr>, [Send (MSetExternalProxyLAN allowLAN)])
          else (u, v, [])
      | RevealProxy \<Rightarrow> (u, v, if proxy_panel v then [Send MRevealExternalProxy] else [])
      | RotateProxy \<Rightarrow> (u, v, if proxy_panel v then [Send MRotateExternalProxyCredentials] else [])
      | ProxyHostChange host \<Rightarrow>
          (case cn_proxyDetails v of
             Some (ProxyCardView c) \<Rightarrow>
               if host \<in> set (js_default (card_hosts c) [])
               then (case select_proxy_host (pe_num (ve_peers V)) (card_details c) host of
                       (h, pd) \<Rightarrow> (u\<lparr>ui_proxyHost := h\<rparr>, v\<lparr>cn_proxyDetails := Some pd\<rparr>, []))
               else (u, v, [])
           | _ \<Rightarrow> (u, v, []))
      | ProxyArrived d \<Rightarrow> (case setExternalProxyDetails V d u v of (u', v') \<Rightarrow> (u', v', []))
      | _ \<Rightarrow> (u, v, []))"

text \<open>
  \<open>latest\<close> is \<open>getLatestState()\<close>. The expansion button of the list closes over the devices last drawn, which are
  those of the latest state.
\<close>

definition refresh_peers :: "ViewEnv \<Rightarrow> TailscaleState option \<Rightarrow> ConnectedUi \<Rightarrow> ConnectedView \<Rightarrow> ConnectedView" where
  "refresh_peers V latest u v =
     (case latest of Some s \<Rightarrow> v\<lparr>cn_peers := peers_body V u s (cn_peers v)\<rparr> | None \<Rightarrow> v)"

definition coord_action :: "ViewEnv \<Rightarrow> coord_op \<Rightarrow> ConnectedUi \<Rightarrow> ConnectedView \<Rightarrow> ConnectedUi \<times> ConnectedView \<times> popup_effect list" where
  "coord_action V op u v =
     (case coord_step (ve_parse_url V) op (cn_coord v) of
        (r, es) \<Rightarrow> (case op of CoToggle b \<Rightarrow> u\<lparr>ui_coordOpen := b\<rparr> | _ \<Rightarrow> u, v\<lparr>cn_coord := r\<rparr>, es))"

text \<open>The switches of the quick settings, the advanced switch, the subnet editor, the search field and the footer.\<close>

definition settings_switch :: "ConnectedAction \<Rightarrow> ConnectedUi \<Rightarrow> ConnectedView \<Rightarrow> ConnectedUi \<times> ConnectedView \<times> popup_effect list" where
  "settings_switch a u v =
     (case a of
        ShieldsChange b \<Rightarrow> (u, v\<lparr>cn_shieldsUp := b\<rparr>, [Send (MSetPref (SetShieldsUp b))])
      | DnsChange b \<Rightarrow> (u, v\<lparr>cn_corpDNS := b\<rparr>, [Send (MSetPref (SetCorpDNS b))])
      | AutoConnectChange b \<Rightarrow> (u, v\<lparr>cn_autoConnect := b\<rparr>, [Send (MSetAutoConnectOnStart b)])
      | AdvertiseExitChange b \<Rightarrow> (u, v\<lparr>cn_advertiseExit := b\<rparr>, [Send (MSetPref (SetAdvertiseExitNode b))])
      | _ \<Rightarrow> (u, v, []))"

definition advanced_toggle :: "ViewEnv \<Rightarrow> TailscaleState option \<Rightarrow> bool \<Rightarrow> ConnectedUi \<Rightarrow> ConnectedView \<Rightarrow> ConnectedUi \<times> ConnectedView \<times> popup_effect list" where
  "advanced_toggle V latest b u v = (let u1 = u\<lparr>ui_advancedOpen := b\<rparr> in (u1, refresh_peers V latest u1 v, []))"

definition routes_action :: "ConnectedAction \<Rightarrow> ConnectedUi \<Rightarrow> ConnectedView \<Rightarrow> ConnectedUi \<times> ConnectedView \<times> popup_effect list" where
  "routes_action a u v =
     (case a of
        RoutesToggle b \<Rightarrow> (u\<lparr>ui_routesOpen := b\<rparr>, v, [])
      | RoutesType t \<Rightarrow> (u, v\<lparr>cn_routesText := t\<rparr>, [])
      | RoutesSave \<Rightarrow> (u, v, [Send (MSetAdvertiseRoutes (parse_routes (cn_routesText v)))])
      | _ \<Rightarrow> (u, v, []))"

definition peer_search :: "ViewEnv \<Rightarrow> TailscaleState option \<Rightarrow> string \<Rightarrow> ConnectedUi \<Rightarrow> ConnectedView \<Rightarrow> ConnectedUi \<times> ConnectedView \<times> popup_effect list" where
  "peer_search V latest t u v =
     (if cn_searchBox v then (let u1 = u\<lparr>ui_peerSearchQuery := t\<rparr> in (u1, refresh_peers V latest u1 v, [])) else (u, v, []))"

definition footer_action :: "ConnectedAction \<Rightarrow> ConnectedUi \<Rightarrow> ConnectedView \<Rightarrow> ConnectedUi \<times> ConnectedView \<times> popup_effect list" where
  "footer_action a u v =
     (case a of
        AdminClick \<Rightarrow> (u, v, if cn_adminLink v then [PopupTab ADMIN_URL] else [])
      | LogoutClick \<Rightarrow> (u, v, [Send MLogout])
      | StarClick \<Rightarrow> (u, v, [PopupTab TAILCHROME_PROJECT_URL])
      | _ \<Rightarrow> (u, v, []))"

lemmas view_parts = settings_switch_def advanced_toggle_def routes_action_def peer_search_def footer_action_def

definition connected_action ::
  "ViewEnv \<Rightarrow> TailscaleState option \<Rightarrow> ConnectedAction \<Rightarrow> ConnectedUi \<Rightarrow> ConnectedView \<Rightarrow> ConnectedUi \<times> ConnectedView \<times> popup_effect list" where
  "connected_action V latest a u v =
     (case a of
        HeaderChange b \<Rightarrow> (case header_change b (cn_header v) of (t, es) \<Rightarrow> (u, v\<lparr>cn_header := t\<rparr>, es))
      | HealthClick \<Rightarrow> (u, v\<lparr>cn_health := map_option health_click (cn_health v)\<rparr>, [])
      | ShieldsChange _ \<Rightarrow> settings_switch a u v
      | DnsChange _ \<Rightarrow> settings_switch a u v
      | AutoConnectChange _ \<Rightarrow> settings_switch a u v
      | AdvertiseExitChange _ \<Rightarrow> settings_switch a u v
      | LocalNodePage \<Rightarrow> (u, v, [Send MOpenWebClient])
      | AdvancedToggle b \<Rightarrow> advanced_toggle V latest b u v
      | RoutesToggle _ \<Rightarrow> routes_action a u v
      | RoutesType _ \<Rightarrow> routes_action a u v
      | RoutesSave \<Rightarrow> routes_action a u v
      | SplitToggle \<Rightarrow> (u\<lparr>ui_splitOpen := \<not> ui_splitOpen u\<rparr>, v, [])
      | SplitType t \<Rightarrow> (u, v\<lparr>cn_split := split_type t (cn_split v)\<rparr>, [])
      | SplitModeChange m \<Rightarrow> (case split_mode_click m (cn_split v) of (e, es) \<Rightarrow> (u, v\<lparr>cn_split := e\<rparr>, es))
      | SplitSave \<Rightarrow> (case split_commit (cn_split v) of (e, es) \<Rightarrow> (u, v\<lparr>cn_split := e\<rparr>, es))
      | CoordAction op \<Rightarrow> if is_update op then (u, v, []) else coord_action V op u v
      | SearchInput t \<Rightarrow> peer_search V latest t u v
      | ExpandList \<Rightarrow>
          (case cn_peers v of
             PeerSections _ (Some _) \<Rightarrow>
               (let u1 = u\<lparr>ui_listExpanded := \<not> ui_listExpanded u\<rparr> in (u1, refresh_peers V latest u1 v, []))
           | _ \<Rightarrow> (u, v, []))
      | AdminClick \<Rightarrow> footer_action a u v
      | LogoutClick \<Rightarrow> footer_action a u v
      | StarClick \<Rightarrow> footer_action a u v
      | _ \<Rightarrow> external_proxy_action V a u v)"

section \<open>Lemmas\<close>

subsection \<open>The split-tunnel editor\<close>

lemma active_mode: "activeModeFromSection (setActiveMode m) = m"
  by (cases m) (simp_all add: activeModeFromSection_def setActiveMode_def)

lemma split_runs_not_Nil: "split_runs t \<noteq> []"
  by (cases t) (auto split: list.splits)

lemma split_runs_word:
  assumes "list_all (\<lambda>c. \<not> list_sep c) w"
  shows "split_runs (w @ rest) = (case split_runs rest of [] \<Rightarrow> [w] | x # xs \<Rightarrow> (w @ x) # xs)"
  using assms split_runs_not_Nil by (induction w) (auto split: list.splits)

text \<open>Words without separators, one per line, are read back.\<close>

lemma split_runs_join:
  assumes "ws \<noteq> []" and "\<forall>w\<in>set ws. w \<noteq> [] \<and> list_all (\<lambda>c. \<not> list_sep c) w"
  shows "split_runs (js_join [char_of (10 :: nat)] ws) = ws"
  using assms
proof (induction ws rule: list_nonempty_induct)
  case (single w)
  then show ?case using split_runs_word [of w "[]"] by simp
next
  case (cons w ws)
  have nl: "list_sep (char_of (10 :: nat))" by (simp add: list_sep_def js_space_def)
  obtain v vs where ws: "ws = v # vs" using cons.hyps by (cases ws) auto
  obtain c cs where v: "v = c # cs" "\<not> list_sep c" using cons.prems ws by (cases v) auto
  have "dropWhile list_sep (js_join [char_of (10 :: nat)] ws) = js_join [char_of (10 :: nat)] ws"
    using v by (cases vs) (simp_all add: ws)
  then have "split_runs (char_of (10 :: nat) # js_join [char_of (10 :: nat)] ws) = [] # ws"
    using cons nl by simp
  then show ?case
    using cons.prems split_runs_word [of w "char_of (10 :: nat) # js_join [char_of (10 :: nat)] ws"] by (simp add: ws)
qed

lemma clean_domain_word: "clean_domain d \<Longrightarrow> d \<noteq> [] \<and> list_all (\<lambda>c. \<not> list_sep c) d"
  by (auto simp: clean_domain_def list_all_iff dns_char_def list_sep_def js_space_def is_lower_def is_digit_def Let_def)

lemma trim_word: "list_all (\<lambda>c. \<not> list_sep c) d \<Longrightarrow> js_trim d = d"
proof -
  assume "list_all (\<lambda>c. \<not> list_sep c) d"
  then have "dropWhile js_space xs = xs" if "set xs \<subseteq> set d" for xs
    using that by (cases xs) (auto simp: list_all_iff list_sep_def)
  from this [of d] this [of "rev d"] show ?thesis by (simp add: js_trim_def)
qed

lemma parse_domains_clean:
  assumes "\<forall>d\<in>set ds. clean_domain d" and "distinct ds" and "set ds \<inter> set seen = {}"
  shows "parse_domains seen ds = (ds, [])"
  using assms
proof (induction ds arbitrary: seen)
  case (Cons d ds)
  then have "js_trim d = d" "d \<noteq> []" using clean_domain_word trim_word by auto
  with Cons show ?case by (simp add: clean_domain_fixed)
qed simp

lemma parse_format:
  assumes "clean_split c"
  shows "parseDomainsInput (formatDomainsValue (split_domains c)) = (split_domains c, [])"
proof (cases "split_domains c = []")
  case True
  then show ?thesis by (simp add: parseDomainsInput_def formatDomainsValue_def js_trim_def)
next
  case False
  then have "split_runs (formatDomainsValue (split_domains c)) = split_domains c"
    unfolding formatDomainsValue_def
    using assms clean_domain_word by (intro split_runs_join) (auto simp: clean_split_def list_all_iff)
  then show ?thesis
    using assms parse_domains_clean [of "split_domains c" "[]"] by (simp add: parseDomainsInput_def clean_split_def list_all_iff)
qed

text \<open>Every entry of the text is either kept or reported as invalid.\<close>

lemma parse_domains_complete:
  "raw \<in> set ws \<Longrightarrow> js_trim raw \<noteq> [] \<Longrightarrow>
   (case sanitizeDomain (Some (js_trim raw)) of
      Some d \<Rightarrow> d \<in> set (fst (parse_domains seen ws)) \<or> d \<in> set seen
    | None \<Rightarrow> js_trim raw \<in> set (snd (parse_domains seen ws)))"
proof (induction seen ws rule: parse_domains.induct)
  case (2 seen r rest)
  then show ?case by (fastforce simp: Let_def case_prod_beta split: option.splits if_splits)
qed simp

text \<open>
  C21: saving the split-tunnel editor unchanged sends exactly the rules it was opened with, and the background
  script reads that message as those rules; whatever else is typed, every entry is kept in normal form or
  reported as invalid.
\<close>

theorem split_editor_roundtrip:
  assumes "clean_split (ts_domainSplit s)"
  shows "snd (split_commit (renderSplitTunnelingSection s)) = [Send (MSetDomainSplit (split_js (ts_domainSplit s)))] \<and>
    normalizeDomainSplit (split_js (ts_domainSplit s)) = ts_domainSplit s \<and>
    list_all (\<lambda>raw. js_trim raw = [] \<or> (case sanitizeDomain (Some (js_trim raw)) of
        Some d \<Rightarrow> d \<in> set (fst (parseDomainsInput t)) | None \<Rightarrow> js_trim raw \<in> set (snd (parseDomainsInput t)))) (split_runs t)"
proof (intro conjI)
  show "snd (split_commit (renderSplitTunnelingSection s)) = [Send (MSetDomainSplit (split_js (ts_domainSplit s)))]"
    using parse_format [OF assms] by (simp add: split_commit_def renderSplitTunnelingSection_def split_js_def Let_def)
  show "normalizeDomainSplit (split_js (ts_domainSplit s)) = ts_domainSplit s"
    using clean_split_fixed [OF assms] by (simp add: normalize_split_def)
  show "list_all (\<lambda>raw. js_trim raw = [] \<or> (case sanitizeDomain (Some (js_trim raw)) of
        Some d \<Rightarrow> d \<in> set (fst (parseDomainsInput t)) | None \<Rightarrow> js_trim raw \<in> set (snd (parseDomainsInput t)))) (split_runs t)"
    using parse_domains_complete [of _ "split_runs t" "[]"]
    by (fastforce simp: list_all_iff parseDomainsInput_def split: option.splits)
qed

theorem split_editor_roundtrip_witness:
  "let s = DEFAULT_STATE\<lparr>ts_domainSplit := \<lparr>split_mode = Only, split_domains = [''example.com'', ''ts.net'']\<rparr>\<rparr>
   in snd (split_commit (renderSplitTunnelingSection s)) = [Send (MSetDomainSplit (split_js (ts_domainSplit s)))]"
proof -
  let ?s = "DEFAULT_STATE\<lparr>ts_domainSplit := \<lparr>split_mode = Only, split_domains = [''example.com'', ''ts.net'']\<rparr>\<rparr>"
  have "clean_split (ts_domainSplit ?s)" by code_simp
  from split_editor_roundtrip [OF this] show ?thesis by simp
qed

end
