(* ===== verification/Popup_Icons.thy ===== *)
theory Popup_Icons
  imports Popup_Peers
begin

text \<open>
  The icon library of the popup (\<open>packages/shared/src/popup/icons.ts\<close>): an icon is an \<open>svg\<close> element with its
  attributes and the shapes appended to it, in the order of the code. The lemma shows that every shape with
  coordinates lies inside the icon's view box.
\<close>

section \<open>Elements\<close>

datatype Shape =
    Path string
  | Circle rat rat rat
  | Rect rat rat rat rat rat
  | Line rat rat rat rat

text \<open>The attributes that the helper of each shape sets; \<open>num\<close> is \<open>String\<close> of a number.\<close>

fun shape_attributes :: "(rat \<Rightarrow> string) \<Rightarrow> Shape \<Rightarrow> (string \<times> string) list" where
  "shape_attributes num (Path d) = [(''d'', d)]"
| "shape_attributes num (Circle cx cy r) = [(''cx'', num cx), (''cy'', num cy), (''r'', num r)]"
| "shape_attributes num (Rect x y w h rx) =
     [(''x'', num x), (''y'', num y), (''width'', num w), (''height'', num h)] @ (if rx \<noteq> 0 then [(''rx'', num rx)] else [])"
| "shape_attributes num (Line x1 y1 x2 y2) = [(''x1'', num x1), (''y1'', num y1), (''x2'', num x2), (''y2'', num y2)]"

record SvgElement =
  svg_viewBox :: string
  svg_fill :: string
  svg_stroke :: string
  svg_strokeWidth :: string
  svg_strokeLinecap :: string
  svg_strokeLinejoin :: string
  svg_children :: "Shape list"

definition DEFAULT_VIEW_BOX :: string where
  "DEFAULT_VIEW_BOX = ''0 0 24 24''"

definition svg :: "string \<Rightarrow> SvgElement" where
  "svg viewBox =
     \<lparr>svg_viewBox = viewBox, svg_fill = ''none'', svg_stroke = ''currentColor'', svg_strokeWidth = ''1.5'',
      svg_strokeLinecap = ''round'', svg_strokeLinejoin = ''round'', svg_children = []\<rparr>"

definition draw :: "Shape list \<Rightarrow> SvgElement \<Rightarrow> SvgElement" where
  "draw shapes s = s\<lparr>svg_children := svg_children s @ shapes\<rparr>"

section \<open>Icons\<close>

definition iconLaptop :: SvgElement where
  "iconLaptop =
     draw [Path ''M4 6a2 2 0 0 1 2-2h12a2 2 0 0 1 2 2v8H4V6z'', Path ''M2 18h20''] (svg DEFAULT_VIEW_BOX)"

definition iconDesktop :: SvgElement where
  "iconDesktop =
     draw [Rect 3 3 18 13 2, Line 9 20 15 20, Line 12 16 12 20] (svg DEFAULT_VIEW_BOX)"

definition iconWindow :: SvgElement where
  "iconWindow =
     draw [Rect 3 3 18 18 2, Line 3 9 21 9, Line 9 3 9 9] (svg DEFAULT_VIEW_BOX)"

definition iconMobile :: SvgElement where
  "iconMobile =
     draw [Rect 6 2 12 20 2, Line 10 18 14 18] (svg DEFAULT_VIEW_BOX)"

definition iconPackage :: SvgElement where
  "iconPackage =
     draw [
       Path ''M16.5 9.4l-9-5.19'',
       Path ''M21 16V8a2 2 0 0 0-1-1.73l-7-4a2 2 0 0 0-2 0l-7 4A2 2 0 0 0 3 8v8a2 2 0 0 0 1 1.73l7 4a2 2 0 0 0 2 0l7-4A2 2 0 0 0 21 16z'',
       Path ''M3.27 6.96L12 12.01l8.73-5.05'',
       Line 12 (2208 / 100) 12 12] (svg DEFAULT_VIEW_BOX)"

definition iconRefresh :: SvgElement where
  "iconRefresh =
     draw [
       Path ''M1 4v6h6'',
       Path ''M23 20v-6h-6'',
       Path ''M20.49 9A9 9 0 0 0 5.64 5.64L1 10'',
       Path ''M3.51 15A9 9 0 0 0 18.36 18.36L23 14''] (svg DEFAULT_VIEW_BOX)"

definition iconLock :: SvgElement where
  "iconLock =
     draw [Rect 3 11 18 11 2, Path ''M7 11V7a5 5 0 0 1 10 0v4''] (svg DEFAULT_VIEW_BOX)"

definition iconPlug :: SvgElement where
  "iconPlug =
     draw [
       Line 12 2 12 6,
       Line 8 2 8 6,
       Line 16 2 16 6,
       Path ''M4 6h16v4a8 8 0 0 1-8 8 8 8 0 0 1-8-8V6z'',
       Line 12 18 12 22] (svg DEFAULT_VIEW_BOX)"

definition iconSearch :: SvgElement where
  "iconSearch =
     draw [Circle 11 11 8, Line 21 21 (1665 / 100) (1665 / 100)] (svg DEFAULT_VIEW_BOX)"

definition iconWarning :: SvgElement where
  "iconWarning =
     draw [Path ''M12 2L1 21h22L12 2zm0 4l7.53 13H4.47L12 6zm-1 5v4h2v-4h-2zm0 6v2h2v-2h-2z'']
       ((svg DEFAULT_VIEW_BOX)\<lparr>svg_fill := ''currentColor'', svg_stroke := ''none''\<rparr>)"

definition iconChevronDown :: SvgElement where
  "iconChevronDown =
     draw [Path ''M6 9l6 6 6-6''] (svg DEFAULT_VIEW_BOX)"

definition iconChevronUp :: SvgElement where
  "iconChevronUp =
     draw [Path ''M18 15l-6-6-6 6''] (svg DEFAULT_VIEW_BOX)"

definition iconArrowLeft :: SvgElement where
  "iconArrowLeft =
     draw [Line 19 12 5 12, Path ''M12 19l-7-7 7-7''] (svg DEFAULT_VIEW_BOX)"

definition iconChevronRight :: SvgElement where
  "iconChevronRight =
     draw [Path ''M9 18l6-6-6-6''] (svg DEFAULT_VIEW_BOX)"

definition iconX :: SvgElement where
  "iconX =
     draw [Line 18 6 6 18, Line 6 6 18 18] (svg DEFAULT_VIEW_BOX)"

definition iconShield :: SvgElement where
  "iconShield =
     draw [Path ''M12 22s8-4 8-10V5l-8-3-8 3v7c0 6 8 10 8 10z''] (svg DEFAULT_VIEW_BOX)"

text \<open>The drawing of a device's icon.\<close>

definition device_icon :: "OsIcon \<Rightarrow> SvgElement" where
  "device_icon i =
     (case i of IconLaptop \<Rightarrow> iconLaptop | IconDesktop \<Rightarrow> iconDesktop | IconWindow \<Rightarrow> iconWindow | IconMobile \<Rightarrow> iconMobile)"

section \<open>The view box\<close>

definition in_box :: "rat \<Rightarrow> bool" where
  "in_box x \<longleftrightarrow> 0 \<le> x \<and> x \<le> 24"

fun inside :: "Shape \<Rightarrow> bool" where
  "inside (Path d) \<longleftrightarrow> d \<noteq> [] \<and> hd d = CHR ''M''"
| "inside (Circle cx cy r) \<longleftrightarrow> 0 \<le> r \<and> in_box (cx - r) \<and> in_box (cx + r) \<and> in_box (cy - r) \<and> in_box (cy + r)"
| "inside (Rect x y w h rx) \<longleftrightarrow>
     in_box x \<and> in_box y \<and> in_box (x + w) \<and> in_box (y + h) \<and> 0 \<le> rx \<and> 2 * rx \<le> w \<and> 2 * rx \<le> h"
| "inside (Line x1 y1 x2 y2) \<longleftrightarrow> in_box x1 \<and> in_box y1 \<and> in_box x2 \<and> in_box y2"

definition all_icons :: "SvgElement list" where
  "all_icons =
     [iconLaptop, iconDesktop, iconWindow, iconMobile, iconPackage, iconRefresh, iconLock, iconPlug, iconSearch, iconWarning,
      iconChevronDown, iconChevronUp, iconArrowLeft, iconChevronRight, iconX, iconShield]"

lemmas icon_drawings =
  iconLaptop_def iconDesktop_def iconWindow_def iconMobile_def iconPackage_def iconRefresh_def iconLock_def iconPlug_def
  iconSearch_def iconWarning_def iconChevronDown_def iconChevronUp_def iconArrowLeft_def iconChevronRight_def iconX_def iconShield_def

lemma icons_inside: "\<forall>s\<in>set all_icons. svg_viewBox s = DEFAULT_VIEW_BOX \<and> svg_children s \<noteq> [] \<and> list_all inside (svg_children s)"
  by (simp add: all_icons_def icon_drawings draw_def svg_def in_box_def)

lemma device_icon_known: "device_icon i \<in> set all_icons"
  by (cases i) (simp_all add: device_icon_def all_icons_def)

end
