(* ===== verification/Popup_Copy.thy ===== *)
theory Popup_Copy
  imports Popup_Connected Popup_Icons
begin

text \<open>
  What leaves the popup by the clipboard: \<open>copyToClipboard\<close>, the copy button and \<open>escapeHTML\<close> of
  \<open>packages/shared/src/popup/utils.ts\<close>, and the fields and buttons of the local app proxy's connection card in
  \<open>views/connected.ts\<close>. The lemmas show that the card's address texts are read back as the host, the port and
  the credentials they were made of, and that nothing the card shows or announces depends on the password before
  the user reveals it.
\<close>

section \<open>The clipboard\<close>

text \<open>The clipboard's text and the temporary text fields in the document.\<close>

record ClipPage =
  clip_text :: string
  clip_fields :: "string list"

text \<open>
  \<open>writeText\<close> says whether the Clipboard API takes a text, \<open>execCopy\<close> what \<open>document.execCommand\<close> returns with that text
  selected. The promise always resolves.
\<close>

definition copyToClipboard :: "(string \<Rightarrow> bool) \<Rightarrow> (string \<Rightarrow> bool) \<Rightarrow> string \<Rightarrow> ClipPage \<Rightarrow> ClipPage" where
  "copyToClipboard writeText execCopy t p =
     (if writeText t then p\<lparr>clip_text := t\<rparr>
      else (let p1 = p\<lparr>clip_fields := clip_fields p @ [t]\<rparr>;
                p2 = (if execCopy t then p1\<lparr>clip_text := t\<rparr> else p1)
            in p2\<lparr>clip_fields := butlast (clip_fields p2)\<rparr>))"

text \<open>The address button of a device awaits the copy, which never fails, and then says it succeeded.\<close>

definition address_click :: "(string \<Rightarrow> bool) \<Rightarrow> (string \<Rightarrow> bool) \<Rightarrow> PeerRow \<Rightarrow> ClipPage \<Rightarrow> ClipPage \<times> popup_effect list" where
  "address_click writeText execCopy r p =
     (if row_firstIp r = [] then (p, []) else (copyToClipboard writeText execCopy (row_firstIp r) p, click_ip True r))"

section \<open>Escaping\<close>

text \<open>A text node as the browser writes it into \<open>innerHTML\<close>.\<close>

definition escape_char :: "char \<Rightarrow> string" where
  "escape_char c =
     (if c = CHR ''&'' then ''&amp;'' else if c = CHR ''<'' then ''&lt;'' else if c = CHR ''>'' then ''&gt;''
      else if c = CHR 0xA0 then ''&nbsp;'' else [c])"

definition escapeHTML :: "string \<Rightarrow> string" where
  "escapeHTML str = concat (map escape_char str)"

section \<open>The copy button\<close>

definition copy_icon :: SvgElement where
  "copy_icon = draw [Rect 3 2 8 9 (3 / 2), Rect 5 5 8 9 (3 / 2)] (svg ''0 0 16 16'')"

record CopyButton =
  cb_icon :: SvgElement
  cb_text :: string
  cb_label :: "string option"
  cb_title :: string
  cb_ariaLabel :: string
  cb_copied :: bool
  cb_timers :: nat

definition createCopyButton :: "string \<Rightarrow> string option \<Rightarrow> CopyButton" where
  "createCopyButton textToCopy label =
     (let title = (case truthy label of Some l \<Rightarrow> ''Copy '' @ l | None \<Rightarrow> ''Copy to clipboard'')
      in \<lparr>cb_icon = copy_icon, cb_text = textToCopy, cb_label = label, cb_title = title, cb_ariaLabel = title, cb_copied = False, cb_timers = 0\<rparr>)"

definition copy_click :: "CopyButton \<Rightarrow> CopyButton \<times> popup_effect list" where
  "copy_click b =
     (b\<lparr>cb_copied := True, cb_timers := Suc (cb_timers b)\<rparr>,
      [CopyText (cb_text b), toast_info (''Copied '' @ js_default (cb_label b) (cb_text b))])"

definition copy_timeout :: "CopyButton \<Rightarrow> CopyButton" where
  "copy_timeout b = (if cb_timers b = 0 then b else b\<lparr>cb_copied := False, cb_timers := cb_timers b - 1\<rparr>)"

section \<open>The connection card\<close>

text \<open>A read-only field of the card: its label, value, whether it is masked, and the toggle of the password.\<close>

record CardField =
  cf_label :: string
  cf_value :: string
  cf_masked :: bool
  cf_ariaLabel :: string
  cf_reveal :: "(string \<times> string \<times> bool) option"
  cf_copy :: CopyButton

definition card_field :: "string \<times> string \<Rightarrow> CardField" where
  "card_field f =
     (case f of (label, value) \<Rightarrow>
        \<lparr>cf_label = label, cf_value = value, cf_masked = (label = ''Password''), cf_ariaLabel = ''Proxy '' @ js_lower label,
         cf_reveal = (if label = ''Password'' then Some (''Show'', ''Show proxy password'', False) else None),
         cf_copy = createCopyButton value (Some (js_lower label))\<rparr>)"

definition reveal_click :: "CardField \<Rightarrow> CardField" where
  "reveal_click f =
     (case cf_reveal f of
        None \<Rightarrow> f
      | Some _ \<Rightarrow>
          (let hidden = cf_masked f
           in f\<lparr>cf_masked := \<not> hidden,
                cf_reveal := Some (if hidden then ''Hide'' else ''Show'', if hidden then ''Hide proxy password'' else ''Show proxy password'', hidden)\<rparr>))"

text \<open>What a field puts on the screen: a masked value only by its length.\<close>

definition field_screen :: "CardField \<Rightarrow> string \<times> string \<times> string" where
  "field_screen f = (cf_label f, cf_ariaLabel f, if cf_masked f then replicate (length (cf_value f)) (CHR ''*'') else cf_value f)"

definition card_url_buttons :: "ProxyCard \<Rightarrow> (string \<times> CopyButton) list" where
  "card_url_buttons c =
     map (\<lambda>(label, url). (''Copy '' @ label @ '' URL'', createCopyButton url (Some (label @ '' URL''))))
       (zip [''HTTP'', ''SOCKS5''] (card_urls c))"

definition card_pac_row :: "ProxyCard \<Rightarrow> (string \<times> CopyButton) option" where
  "card_pac_row c = map_option (\<lambda>url. (url, createCopyButton url (Some ''PAC URL''))) (card_pac c)"

definition card_buttons :: "ProxyCard \<Rightarrow> CopyButton list" where
  "card_buttons c =
     map (cf_copy \<circ> card_field) (card_fields c) @ map snd (card_url_buttons c) @
     (case card_pac_row c of Some (_, b) \<Rightarrow> [b] | None \<Rightarrow> [])"

text \<open>Everything the card shows or announces: the fields, the titles of its buttons and their toasts.\<close>

definition button_shows :: "CopyButton \<Rightarrow> string \<times> popup_effect list" where
  "button_shows b = (cb_title b, filter (\<lambda>e. case e of CopyText _ \<Rightarrow> False | _ \<Rightarrow> True) (snd (copy_click b)))"

definition card_shows :: "ProxyCard \<Rightarrow> (string \<times> string \<times> string) list \<times> (string \<times> popup_effect list) list \<times> string option" where
  "card_shows c = (map (field_screen \<circ> card_field) (card_fields c), map button_shows (card_buttons c), card_pac c)"

section \<open>Lemmas\<close>

lemma copy_leaves_no_field: "clip_fields (copyToClipboard w x t p) = clip_fields p"
  by (simp add: copyToClipboard_def Let_def)

text \<open>The fallback's failure goes unnoticed: the old text stays on the clipboard and the toast says it was copied.\<close>

lemma failed_copy_announced:
  assumes "row_firstIp r \<noteq> []" and "\<not> w (row_firstIp r)" and "\<not> x (row_firstIp r)"
  shows "clip_text (fst (address_click w x r p)) = clip_text p \<and>
    toast_info (''Copied '' @ row_firstIp r) \<in> set (snd (address_click w x r p))"
  using assms by (simp add: address_click_def copyToClipboard_def click_ip_def Let_def)

text \<open>An escaped text holds no tag, and its characters come back from the entities.\<close>

lemma escapeHTML_inert: "CHR ''<'' \<notin> set (escapeHTML s)" "CHR ''>'' \<notin> set (escapeHTML s)"
  by (auto simp: escapeHTML_def escape_char_def)

subsection \<open>Percent escapes\<close>

definition hex_value :: "char \<Rightarrow> nat" where
  "hex_value c = (if is_digit c then of_char c - 48 else of_char c - 55)"

fun percent_decode :: "string \<Rightarrow> string" where
  "percent_decode (c # cs) =
     (if c = CHR ''%'' then (case cs of a # b # rest \<Rightarrow> char_of (16 * hex_value a + hex_value b) # percent_decode rest | _ \<Rightarrow> [c])
      else c # percent_decode cs)"
| "percent_decode [] = []"

definition escape_byte :: "char \<Rightarrow> string" where
  "escape_byte c =
     (if uri_unreserved c then [c] else (let n = of_char c :: nat in [CHR ''%'', upper_hex (n div 16), upper_hex (n mod 16)]))"

lemma encode_bytes: "encodeURIComponent s = concat (map escape_byte (utf8 s))"
  unfolding encodeURIComponent_def by (rule arg_cong [where f = concat], rule map_cong) (simp_all add: escape_byte_def)

lemma upper_hex_value: "n < 16 \<Longrightarrow> hex_value (upper_hex n) = n"
  by (simp add: hex_value_def upper_hex_def is_digit_def Let_def)

lemma upper_hex_unreserved: "n < 16 \<Longrightarrow> uri_unreserved (upper_hex n)"
  by (simp add: uri_unreserved_def upper_hex_def is_digit_def is_upper_def Let_def)

lemma byte_bound: "(of_char c :: nat) div 16 < 16" "(of_char c :: nat) mod 16 < 16"
proof -
  have "(of_char c :: nat) < 256" using of_char_mod_256 [of c] by (metis mod_less_divisor zero_less_numeral)
  then show "(of_char c :: nat) div 16 < 16" by (simp add: less_mult_imp_div_less)
qed simp

lemma percent_decode_byte: "percent_decode (escape_byte c @ cs) = c # percent_decode cs"
proof (cases "uri_unreserved c")
  case True
  moreover have "\<not> uri_unreserved (CHR ''%'')" by code_simp
  ultimately show ?thesis by (auto simp: escape_byte_def)
next
  case False
  then show ?thesis by (simp add: escape_byte_def Let_def upper_hex_value byte_bound)
qed

lemma percent_decode_bytes: "percent_decode (concat (map escape_byte cs)) = cs"
  by (induction cs) (simp_all add: percent_decode_byte)

lemma percent_decode_encode: "percent_decode (encodeURIComponent s) = utf8 s"
  by (simp add: encode_bytes percent_decode_bytes)

lemma escape_byte_chars: "x \<in> set (escape_byte c) \<Longrightarrow> uri_unreserved x \<or> x = CHR ''%''"
  by (auto simp: escape_byte_def Let_def upper_hex_unreserved byte_bound split: if_splits)

lemma encode_chars: "x \<in> set (encodeURIComponent s) \<Longrightarrow> uri_unreserved x \<or> x = CHR ''%''"
  unfolding encode_bytes using escape_byte_chars by auto

subsection \<open>What the card gives away\<close>

text \<open>Reading an address: the scheme, the decoded user and password, and what follows the first \<open>@\<close>.\<close>

definition read_proxy_url :: "string \<Rightarrow> string \<times> string \<times> string \<times> string" where
  "read_proxy_url u =
     (let scheme = takeWhile (\<lambda>c. c \<noteq> CHR '':'') u; rest = drop (length scheme + 3) u;
          info = takeWhile (\<lambda>c. c \<noteq> CHR ''@'') rest; user = takeWhile (\<lambda>c. c \<noteq> CHR '':'') info
      in (scheme, percent_decode user, percent_decode (drop (length user + 1) info), drop (length info + 1) rest))"

lemma drop_whole: "length xs = n \<Longrightarrow> drop n (xs @ ys) = ys"
  by simp

lemma takeWhile_sep: "x \<notin> set u \<Longrightarrow> takeWhile (\<lambda>c. c \<noteq> x) (u @ x # v) = u"
  by (induction u) auto

lemma encode_plain: "CHR '':'' \<notin> set (encodeURIComponent s)" "CHR ''@'' \<notin> set (encodeURIComponent s)"
proof -
  have "\<not> uri_unreserved (CHR '':'')" "\<not> uri_unreserved (CHR ''@'')" by code_simp+
  then show "CHR '':'' \<notin> set (encodeURIComponent s)" "CHR ''@'' \<notin> set (encodeURIComponent s)"
    using encode_chars by blast+
qed

lemma read_printed_url:
  assumes "CHR '':'' \<notin> set scheme"
  shows "read_proxy_url (scheme @ ''://'' @ (encodeURIComponent user @ '':'' @ encodeURIComponent pass) @ ''@'' @ rest) =
    (scheme, utf8 user, utf8 pass, rest)"
proof -
  let ?info = "encodeURIComponent user @ CHR '':'' # encodeURIComponent pass"
  have "CHR ''@'' \<notin> set ?info" using encode_plain(2) by simp
  then have info: "takeWhile (\<lambda>c. c \<noteq> CHR ''@'') (?info @ CHR ''@'' # rest) = ?info" by (rule takeWhile_sep)
  have user: "takeWhile (\<lambda>c. c \<noteq> CHR '':'') ?info = encodeURIComponent user"
    by (rule takeWhile_sep) (rule encode_plain(1))
  have scheme: "takeWhile (\<lambda>c. c \<noteq> CHR '':'') (scheme @ CHR '':'' # t) = scheme" for t
    by (rule takeWhile_sep) (rule assms)
  have "drop (5 + (length (encodeURIComponent user) + length (encodeURIComponent pass))) ((''://'' @ ?info @ ''@'') @ rest) = rest"
    by (rule drop_whole) simp
  with info user show ?thesis by (simp add: read_proxy_url_def Let_def scheme percent_decode_encode)
qed

text \<open>
  C35: the connection card of the local app proxy gives away what it should and no more. Whatever characters the
  user name and the password hold, each address it copies is read as the host, the port and exactly these
  credentials; and what it shows and announces, toasts included, is the same for every password of the same
  length until the user reveals it.
\<close>

theorem card_credentials:
  assumes "ep_username d = Some user" and "ep_password d = Some pass" and "length pass' = length pass"
  shows "map read_proxy_url (card_urls (proxy_card num d host)) =
      map (\<lambda>protocol. (protocol, utf8 user, utf8 pass, host @ '':'' @ num (js_default (ep_port d) 0))) [''http'', ''socks5''] \<and>
    card_shows (proxy_card num (d\<lparr>ep_password := Some pass'\<rparr>) host) = card_shows (proxy_card num d host)"
proof (rule conjI)
  show "map read_proxy_url (card_urls (proxy_card num d host)) =
      map (\<lambda>protocol. (protocol, utf8 user, utf8 pass, host @ '':'' @ num (js_default (ep_port d) 0))) [''http'', ''socks5'']"
    using read_printed_url [of "''http''" user pass] read_printed_url [of "''socks5''" user pass] assms(1,2)
    by (simp add: proxy_card_def Let_def js_default_def)
  show "card_shows (proxy_card num (d\<lparr>ep_password := Some pass'\<rparr>) host) = card_shows (proxy_card num d host)"
    using assms(3) by (simp add: card_shows_def card_buttons_def card_url_buttons_def card_pac_row_def proxy_card_def Let_def assms(2)
      card_field_def field_screen_def button_shows_def copy_click_def createCopyButton_def js_default_def split: option.split)
qed

definition sample_proxy :: ExternalProxyStatus where
  "sample_proxy =
     \<lparr>ep_pacPath = None, ep_enabled = True, ep_running = True, ep_host = ''127.0.0.1'', ep_allowLAN = None, ep_lanAddresses = None,
      ep_port = Some 1080, ep_protocols = [], ep_authRequired = True, ep_username = Some ''a:b'', ep_password = Some ''p@ss/1'',
      ep_error = None\<rparr>"

theorem card_credentials_witness:
  "map read_proxy_url (card_urls (proxy_card (\<lambda>_. ''1080'') sample_proxy ''127.0.0.1'')) =
     [(''http'', ''a:b'', ''p@ss/1'', ''127.0.0.1:1080''), (''socks5'', ''a:b'', ''p@ss/1'', ''127.0.0.1:1080'')]"
proof -
  have ascii: "utf8 ''a:b'' = ''a:b''" "utf8 ''p@ss/1'' = ''p@ss/1''" by code_simp+
  show ?thesis
    using card_credentials [of sample_proxy "''a:b''" "''p@ss/1''" "''secret''" "\<lambda>_. ''1080''" "''127.0.0.1''"]
    by (simp add: sample_proxy_def ascii)
qed

end
