(* ===== verification/Popup_Surface.thy ===== *)
theory Popup_Surface
  imports Popup_Views
begin

text \<open>
  Where the interface opens, and the diagnostic report. The choice between popup and side panel lives in
  \<open>packages/shared/src/background/ui-surface.ts\<close>, is switched by
  \<open>packages/shared/src/popup/components/ui-surface-row.ts\<close> and applied by the background script at start-up and
  when the stored value changes. The buttons of the report are those of
  \<open>packages/shared/src/popup/helper-diagnostics.ts\<close>. The lemmas show that a click on the toolbar button
  opens what was last chosen, and what the buttons of the report do.
\<close>

section \<open>The stored choice\<close>

datatype UiSurface = PopupSurface | SidePanelSurface

datatype BrowserKind = ChromeBrowser | FirefoxBrowser

definition surface_text :: "UiSurface \<Rightarrow> string" where
  "surface_text x = (case x of PopupSurface \<Rightarrow> ''popup'' | SidePanelSurface \<Rightarrow> ''sidePanel'')"

definition valid_surface :: "jsval \<Rightarrow> UiSurface option" where
  "valid_surface v =
     (case v of
        JStr t \<Rightarrow> if t = ''popup'' then Some PopupSurface else if t = ''sidePanel'' then Some SidePanelSurface else None
      | _ \<Rightarrow> None)"

definition readUiSurface :: "jsval \<Rightarrow> UiSurface" where
  "readUiSurface stored = js_default (valid_surface stored) PopupSurface"

definition writeUiSurface :: "UiSurface \<Rightarrow> jsval" where
  "writeUiSurface v = JStr (surface_text v)"

section \<open>The browser's toolbar button\<close>

definition POPUP_PATH :: string where
  "POPUP_PATH = ''popup.html''"

text \<open>
  What the calls set: Chrome's \<open>openPanelOnActionClick\<close> and the popup of the toolbar button. The flags say whether the
  browser has \<open>sidePanel.setPanelBehavior\<close> and \<open>sidebarAction.open\<close>.
\<close>

record Toolbar =
  tb_openPanelOnActionClick :: bool
  tb_popup :: string

record SurfaceApis =
  sa_panelBehavior :: bool
  sa_sidebarAction :: bool

definition applyUiSurface :: "SurfaceApis \<Rightarrow> UiSurface \<Rightarrow> BrowserKind \<Rightarrow> Toolbar \<Rightarrow> Toolbar" where
  "applyUiSurface apis surface kind t =
     (case kind of
        ChromeBrowser \<Rightarrow>
          if \<not> sa_panelBehavior apis then t else t\<lparr>tb_openPanelOnActionClick := (surface = SidePanelSurface)\<rparr>
      | FirefoxBrowser \<Rightarrow> t\<lparr>tb_popup := (if surface = SidePanelSurface then [] else POPUP_PATH)\<rparr>)"

datatype Opened = OpenedPopup string | OpenedPanel | OpenedNothing

text \<open>The listener of \<open>action.onClicked\<close>, which the browser calls when the button has no popup.\<close>

definition registerSidebarOpener :: "SurfaceApis \<Rightarrow> Opened" where
  "registerSidebarOpener apis = (if sa_sidebarAction apis then OpenedPanel else OpenedNothing)"

definition toolbar_click :: "SurfaceApis \<Rightarrow> BrowserKind \<Rightarrow> Toolbar \<Rightarrow> Opened" where
  "toolbar_click apis kind t =
     (case kind of
        ChromeBrowser \<Rightarrow> if tb_openPanelOnActionClick t then OpenedPanel else OpenedPopup (tb_popup t)
      | FirefoxBrowser \<Rightarrow> if tb_popup t \<noteq> [] then OpenedPopup (tb_popup t) else registerSidebarOpener apis)"

section \<open>Start-up, the switch and changes of the stored value\<close>

definition surface_start :: "SurfaceApis \<Rightarrow> BrowserKind \<Rightarrow> jsval \<Rightarrow> Toolbar \<Rightarrow> Toolbar" where
  "surface_start apis kind stored t = applyUiSurface apis (readUiSurface stored) kind t"

definition surface_changed :: "SurfaceApis \<Rightarrow> BrowserKind \<Rightarrow> jsval \<Rightarrow> Toolbar \<Rightarrow> Toolbar" where
  "surface_changed apis kind newValue t =
     (case valid_surface newValue of Some surface \<Rightarrow> applyUiSurface apis surface kind t | None \<Rightarrow> t)"

definition renderUiSurfaceRow :: "jsval \<Rightarrow> Toggle" where
  "renderUiSurfaceRow stored = createToggle (readUiSurface stored = SidePanelSurface) ''Open as side panel'' False"

text \<open>The value that the switch writes.\<close>

definition surface_toggle :: "bool \<Rightarrow> Toggle \<Rightarrow> Toggle \<times> jsval option" where
  "surface_toggle checked tg =
     (case toggle_change checked tg of
        (tg', v) \<Rightarrow> (tg', map_option (\<lambda>c. writeUiSurface (if c then SidePanelSurface else PopupSurface)) v))"

text \<open>\<open>extensionReleaseVersion\<close>: the manifest's version, if the call does not throw.\<close>

definition extensionReleaseVersion :: "string option \<Rightarrow> string" where
  "extensionReleaseVersion manifestVersion = js_default manifestVersion ''unknown''"

section \<open>The diagnostic report\<close>

definition HELPER_DIAGNOSTIC_FILENAME :: string where
  "HELPER_DIAGNOSTIC_FILENAME = ''tailchrome-helper-diagnostics.txt''"

text \<open>The platform is \<^const>\<open>None\<close> when the browser does not tell it; the manifest gives a version and whether it has Firefox settings.\<close>

definition buildCurrentHelperDiagnosticReport :: "(string \<times> string) option \<Rightarrow> string \<Rightarrow> bool \<Rightarrow> TailscaleState \<Rightarrow> string option" where
  "buildCurrentHelperDiagnosticReport platform version gecko s =
     (case platform of
        None \<Rightarrow> None
      | Some (os, arch) \<Rightarrow>
          Some (formatHelperDiagnosticReport
            \<lparr>ri_state = s, ri_extensionVersion = version, ri_releaseVersion = version, ri_os = os, ri_arch = arch,
             ri_browserFamily = (if gecko then Firefox else Chromium)\<rparr>))"

datatype ReportAction = CopyReport | ExportReport

datatype report_effect = ReportCopied string | ReportSaved string string | ReportToast string ToastLevel

record ReportButtons =
  rp_copyDisabled :: bool
  rp_exportDisabled :: bool

definition report_disabled :: "ReportAction \<Rightarrow> ReportButtons \<Rightarrow> bool" where
  "report_disabled a b = (case a of CopyReport \<Rightarrow> rp_copyDisabled b | ExportReport \<Rightarrow> rp_exportDisabled b)"

definition set_report_disabled :: "bool \<Rightarrow> ReportAction \<Rightarrow> ReportButtons \<Rightarrow> ReportButtons" where
  "set_report_disabled d a b =
     (case a of CopyReport \<Rightarrow> b\<lparr>rp_copyDisabled := d\<rparr> | ExportReport \<Rightarrow> b\<lparr>rp_exportDisabled := d\<rparr>)"

text \<open>A click disables its button until the promise settles; \<open>ok\<close> says whether the clipboard or the download worked.\<close>

definition report_click :: "ReportAction \<Rightarrow> ReportButtons \<Rightarrow> ReportButtons" where
  "report_click a b = set_report_disabled True a b"

definition report_settled :: "ReportAction \<Rightarrow> string option \<Rightarrow> bool \<Rightarrow> ReportButtons \<Rightarrow> ReportButtons \<times> report_effect list" where
  "report_settled a report ok b =
     (set_report_disabled False a b,
      case report of
        Some text \<Rightarrow>
          if ok
          then (case a of
                  CopyReport \<Rightarrow> [ReportCopied text, ReportToast ''Diagnostic report copied.'' Info]
                | ExportReport \<Rightarrow> [ReportSaved HELPER_DIAGNOSTIC_FILENAME text, ReportToast ''Diagnostic report exported.'' Info])
          else [ReportToast (case a of CopyReport \<Rightarrow> ''Could not copy the diagnostic report.''
                  | ExportReport \<Rightarrow> ''Could not export the diagnostic report.'') Error]
      | None \<Rightarrow>
          [ReportToast (case a of CopyReport \<Rightarrow> ''Could not copy the diagnostic report.''
             | ExportReport \<Rightarrow> ''Could not export the diagnostic report.'') Error])"

section \<open>Lemmas\<close>

lemma surface_roundtrip: "readUiSurface (writeUiSurface v) = v" "valid_surface (writeUiSurface v) = Some v"
  by (cases v; simp add: readUiSurface_def writeUiSurface_def valid_surface_def surface_text_def js_default_def)+

text \<open>
  After the switch is used and its write has been noticed, the toolbar button opens what was chosen, in a browser that
  has the interface for it; a restart with the stored value comes to the same.
\<close>

lemma surface_choice_opens:
  assumes "kind = ChromeBrowser \<Longrightarrow> sa_panelBehavior apis \<and> tb_popup t = POPUP_PATH" and "kind = FirefoxBrowser \<Longrightarrow> sa_sidebarAction apis"
    and "snd (surface_toggle checked (renderUiSurfaceRow stored)) = Some v"
  shows "toolbar_click apis kind (surface_changed apis kind v t) = (if checked then OpenedPanel else OpenedPopup POPUP_PATH)"
    and "surface_start apis kind v t = surface_changed apis kind v t"
    and "tg_checked (renderUiSurfaceRow v) = checked"
proof -
  have v: "v = writeUiSurface (if checked then SidePanelSurface else PopupSurface)"
    using assms(3) by (simp add: surface_toggle_def renderUiSurfaceRow_def createToggle_def toggle_change_def)
  show "toolbar_click apis kind (surface_changed apis kind v t) = (if checked then OpenedPanel else OpenedPopup POPUP_PATH)"
    using assms(1,2)
    by (cases kind) (simp_all add: v surface_changed_def surface_roundtrip applyUiSurface_def toolbar_click_def registerSidebarOpener_def POPUP_PATH_def)
  show "surface_start apis kind v t = surface_changed apis kind v t"
    by (simp add: v surface_start_def surface_changed_def surface_roundtrip)
  show "tg_checked (renderUiSurfaceRow v) = checked"
    by (simp add: v renderUiSurfaceRow_def surface_roundtrip createToggle_def)
qed

text \<open>Every click ends with its button enabled again and with exactly one toast.\<close>

lemma report_settles:
  "\<not> report_disabled a (fst (report_settled a report ok (report_click a b))) \<and>
   (\<exists>t l. filter (\<lambda>e. case e of ReportToast _ _ \<Rightarrow> True | _ \<Rightarrow> False) (snd (report_settled a report ok (report_click a b))) = [ReportToast t l])"
  by (cases a) (simp_all add: report_settled_def report_disabled_def set_report_disabled_def split: option.splits)

end
