(* ===== verification/Popup_Exit_Nodes.thy ===== *)
theory Popup_Exit_Nodes
  imports Popup_Utils "HOL-Library.Multiset"
begin

text \<open>
  The exit-node picker (\<open>packages/shared/src/popup/views/exit-nodes.ts\<close>): filtering, grouping by kind,
  country and city, the recommendation and the rows with what a click on them sends. The client's place, by default
  \<open>currentApproxLocation\<close>, is the argument \<open>clientLocation\<close>; \<open>localeCompare\<close> and the distance of two
  points, whose trigonometric functions the language leaves to the implementation, are the
  parameters \<open>lc\<close> and \<open>great_circle\<close>. The lemmas show that grouping loses and doubles no node, that the
  recommendation is a best candidate and that rows only select nodes that offer themselves.
\<close>

section \<open>Sorting with a comparison function\<close>

text \<open>\<open>Array.prototype.sort\<close> is stable; for a consistent comparison its result is determined.\<close>

fun js_insert :: "('a \<Rightarrow> 'a \<Rightarrow> rat) \<Rightarrow> 'a \<Rightarrow> 'a list \<Rightarrow> 'a list" where
  "js_insert cmp x [] = [x]"
| "js_insert cmp x (y # ys) = (if cmp x y \<le> 0 then x # y # ys else y # js_insert cmp x ys)"

definition js_sort :: "('a \<Rightarrow> 'a \<Rightarrow> rat) \<Rightarrow> 'a list \<Rightarrow> 'a list" where
  "js_sort cmp xs = foldr (js_insert cmp) xs []"

section \<open>Locations\<close>

text \<open>
  \<open>toUpperCase\<close> on Latin-1 code units; the capitals of the two letters 181 and 255 lie outside that
  range and are left as they are.
\<close>

definition js_upper_char :: "char \<Rightarrow> string" where
  "js_upper_char c = (let n = of_char c :: nat in
     if n = 223 then ''SS''
     else if 97 \<le> n \<and> n \<le> 122 \<or> 224 \<le> n \<and> n \<le> 254 \<and> n \<noteq> 247 then [char_of (n - 32)] else [c])"

definition js_upper :: "string \<Rightarrow> string" where
  "js_upper s = concat (map js_upper_char s)"

definition locationPart :: "string option \<Rightarrow> string option" where
  "locationPart v = truthy (map_option js_trim v)"

definition hasLocationLabel :: "PeerLocation option \<Rightarrow> bool" where
  "hasLocationLabel location \<longleftrightarrow>
     locationPart (Option.bind location loc_city) \<noteq> None \<or> locationPart (Option.bind location loc_country) \<noteq> None \<or>
     locationPart (Option.bind location loc_countryCode) \<noteq> None"

definition normalizedCountryCode :: "PeerLocation option \<Rightarrow> string option" where
  "normalizedCountryCode location = map_option js_upper (locationPart (Option.bind location loc_countryCode))"

record ApproxLocation =
  al_latitude :: rat
  al_longitude :: rat
  al_countryCode :: "string option"

definition distanceKm :: "(rat \<times> rat \<Rightarrow> rat \<times> rat \<Rightarrow> rat) \<Rightarrow> ApproxLocation \<Rightarrow> PeerLocation option \<Rightarrow> rat option" where
  "distanceKm great_circle origin destination =
     (case (Option.bind destination loc_latitude, Option.bind destination loc_longitude) of
        (Some destLat, Some destLon) \<Rightarrow>
          Some (great_circle (al_latitude origin, al_longitude origin) (destLat, destLon))
      | _ \<Rightarrow> None)"

text \<open>\<open>a ?? b\<close> on optional values.\<close>

definition or_else :: "'a option \<Rightarrow> 'a option \<Rightarrow> 'a option" where
  "or_else a b = (case a of Some x \<Rightarrow> Some x | None \<Rightarrow> b)"

definition sameExitNodeLocation :: "PeerLocation option \<Rightarrow> PeerLocation option \<Rightarrow> bool" where
  "sameExitNodeLocation a b =
     (case (a, b) of
        (Some la, Some lb) \<Rightarrow>
          (let country = (\<lambda>l. map_option js_upper (or_else (locationPart (loc_countryCode l)) (locationPart (loc_country l))));
               city = (\<lambda>l. map_option js_lower (or_else (locationPart (loc_cityCode l)) (locationPart (loc_city l))))
           in country la \<noteq> None \<and> country la = country lb \<and> city la \<noteq> None \<and> city la = city lb)
      | _ \<Rightarrow> False)"

text \<open>The flag: the two regional-indicator code points of a two-letter code.\<close>

definition countryCodeToEmoji :: "string \<Rightarrow> int list" where
  "countryCodeToEmoji code =
     (let upper = js_upper code in
      if length upper \<noteq> 2 then [] else map (\<lambda>c. 0x1f1e6 + int (of_char c) - 65) upper)"

section \<open>The time zones of the United States\<close>

definition TIMEZONE_APPROX_LOCATIONS :: "(string \<times> rat \<times> rat \<times> string) list" where
  "TIMEZONE_APPROX_LOCATIONS =
    [(''America/New_York'', (407128 / 10000, - (74006 / 1000), ''US'')),
     (''America/Detroit'', (423314 / 10000, - (830458 / 10000), ''US'')),
     (''America/Kentucky/Louisville'', (382527 / 10000, - (857585 / 10000), ''US'')),
     (''America/Kentucky/Monticello'', (368298 / 10000, - (848491 / 10000), ''US'')),
     (''America/Indiana/Indianapolis'', (397684 / 10000, - (861581 / 10000), ''US'')),
     (''America/Indiana/Vincennes'', (386773 / 10000, - (875286 / 10000), ''US'')),
     (''America/Indiana/Winamac'', (410514 / 10000, - (866031 / 10000), ''US'')),
     (''America/Indiana/Marengo'', (38369 / 1000, - (863436 / 10000), ''US'')),
     (''America/Indiana/Petersburg'', (384914 / 10000, - (872786 / 10000), ''US'')),
     (''America/Indiana/Vevay'', (387478 / 10000, - (850672 / 10000), ''US'')),
     (''America/Chicago'', (418781 / 10000, - (876298 / 10000), ''US'')),
     (''America/Indiana/Tell_City'', (379514 / 10000, - (867678 / 10000), ''US'')),
     (''America/Indiana/Knox'', (412959 / 10000, - (86625 / 1000), ''US'')),
     (''America/Menominee'', (451078 / 10000, - (876143 / 10000), ''US'')),
     (''America/North_Dakota/Center'', (471164 / 10000, - (1012996 / 10000), ''US'')),
     (''America/North_Dakota/New_Salem'', (468436 / 10000, - (1014107 / 10000), ''US'')),
     (''America/North_Dakota/Beulah'', (472633 / 10000, - (1017779 / 10000), ''US'')),
     (''America/Denver'', (397392 / 10000, - (1049903 / 10000), ''US'')),
     (''America/Boise'', (43615 / 1000, - (1162023 / 10000), ''US'')),
     (''America/Phoenix'', (334484 / 10000, - (112074 / 1000), ''US'')),
     (''America/Los_Angeles'', (340522 / 10000, - (1182437 / 10000), ''US'')),
     (''America/Anchorage'', (612181 / 10000, - (1499003 / 10000), ''US'')),
     (''America/Juneau'', (583019 / 10000, - (1344197 / 10000), ''US'')),
     (''America/Sitka'', (570531 / 10000, - (13533 / 100), ''US'')),
     (''America/Metlakatla'', (551292 / 10000, - (1315764 / 10000), ''US'')),
     (''America/Yakutat'', (595469 / 10000, - (1397272 / 10000), ''US'')),
     (''America/Nome'', (645011 / 10000, - (1654064 / 10000), ''US'')),
     (''America/Adak'', (5188 / 100, - (1766581 / 10000), ''US'')),
     (''Pacific/Honolulu'', (213069 / 10000, - (1578583 / 10000), ''US''))]"

text \<open>\<open>timeZone\<close> is the resolved time zone, \<^const>\<open>None\<close> when it cannot be read. The names that every object inherits are no time zones.\<close>

definition currentApproxLocation :: "string option \<Rightarrow> ApproxLocation option" where
  "currentApproxLocation timeZone =
     (case truthy timeZone of
        None \<Rightarrow> None
      | Some z \<Rightarrow> map_option (\<lambda>(lat, lon, cc). \<lparr>al_latitude = lat, al_longitude = lon, al_countryCode = Some cc\<rparr>)
          (map_of TIMEZONE_APPROX_LOCATIONS z))"

section \<open>Recommendation\<close>

abbreviation peer_name :: "PeerInfo \<Rightarrow> string" where
  "peer_name p \<equiv> machineName (peer_dnsName p) (peer_hostname p)"

definition bool_num :: "bool \<Rightarrow> rat" where
  "bool_num b = (if b then 1 else 0)"

definition node_label :: "PeerInfo \<Rightarrow> string" where
  "node_label p = formatLocationLabel (peer_location p) (peer_name p) False"

definition node_priority :: "PeerInfo \<Rightarrow> rat" where
  "node_priority p = js_default (Option.bind (peer_location p) loc_priority) 0"

text \<open>The comparison by place: 0 when it does not decide.\<close>

definition compare_place :: "(rat \<times> rat \<Rightarrow> rat \<times> rat \<Rightarrow> rat) \<Rightarrow> ApproxLocation option \<Rightarrow> PeerInfo \<Rightarrow> PeerInfo \<Rightarrow> rat" where
  "compare_place great_circle clientLocation a b =
     (case clientLocation of
        None \<Rightarrow> 0
      | Some client \<Rightarrow>
          (let same = (\<lambda>p. bool_num (normalizedCountryCode (peer_location p) = al_countryCode client));
               sameCountry = same b - same a;
               dist = (\<lambda>p. distanceKm great_circle client (peer_location p))
           in if sameCountry \<noteq> 0 then sameCountry
              else (case (dist a, dist b) of
                      (Some da, Some db) \<Rightarrow> da - db
                    | (Some _, None) \<Rightarrow> -1
                    | (None, Some _) \<Rightarrow> 1
                    | (None, None) \<Rightarrow> 0)))"

definition compareRecommendedMullvadExitNodes ::
  "(string \<Rightarrow> string \<Rightarrow> rat) \<Rightarrow> (rat \<times> rat \<Rightarrow> rat \<times> rat \<Rightarrow> rat) \<Rightarrow> ApproxLocation option \<Rightarrow> PeerInfo \<Rightarrow> PeerInfo \<Rightarrow> rat" where
  "compareRecommendedMullvadExitNodes lc great_circle clientLocation a b =
     (let online = bool_num (peer_online b) - bool_num (peer_online a);
          place = compare_place great_circle clientLocation a b;
          priority = node_priority b - node_priority a
      in if online \<noteq> 0 then online
         else if place \<noteq> 0 then place
         else if priority \<noteq> 0 then priority
         else lc (node_label a) (node_label b))"

definition recommendable :: "PeerInfo \<Rightarrow> bool" where
  "recommendable p \<longleftrightarrow> peer_exitNodeOption p \<and> isMullvadExitNodePeer p \<and> hasLocationLabel (peer_location p)"

definition selectRecommendedMullvadExitNode ::
  "(string \<Rightarrow> string \<Rightarrow> rat) \<Rightarrow> (rat \<times> rat \<Rightarrow> rat \<times> rat \<Rightarrow> rat) \<Rightarrow> ApproxLocation option \<Rightarrow> PeerInfo list \<Rightarrow> PeerInfo option" where
  "selectRecommendedMullvadExitNode lc great_circle clientLocation nodes =
     (case js_sort (compareRecommendedMullvadExitNodes lc great_circle clientLocation) (filter recommendable nodes) of
        [] \<Rightarrow> None
      | n # _ \<Rightarrow> Some n)"

section \<open>Grouping\<close>

definition filterExitNodes :: "PeerInfo list \<Rightarrow> string \<Rightarrow> PeerInfo list" where
  "filterExitNodes nodes query =
     (if query = [] then nodes
      else (let lower = js_lower query;
                has = (\<lambda>f n. case truthy (Option.bind (peer_location n) f) of
                         Some t \<Rightarrow> js_includes lower (js_lower t) | None \<Rightarrow> False)
            in filter (\<lambda>n. js_includes lower (js_lower (peer_name n)) \<or> js_includes lower (js_lower (peer_hostname n)) \<or>
                 has loc_city n \<or> has loc_country n \<or> has loc_countryCode n) nodes))"

record MullvadCityGroup =
  mc_city :: string
  mc_cityCode :: string
  mc_nodes :: "PeerInfo list"

record MullvadCountryGroup =
  mg_country :: string
  mg_countryCode :: string
  mg_cities :: "MullvadCityGroup list"

definition country_key :: "PeerInfo \<Rightarrow> PeerLocation \<Rightarrow> string" where
  "country_key n loc = js_default (or_else (locationPart (loc_countryCode loc)) (locationPart (loc_country loc))) (peer_id n)"

definition city_key :: "PeerInfo \<Rightarrow> PeerLocation \<Rightarrow> string" where
  "city_key n loc = js_default (or_else (locationPart (loc_cityCode loc)) (locationPart (loc_city loc))) (peer_name n)"

text \<open>The three maps that the loop over the nodes fills, in insertion order.\<close>

record MullvadMaps =
  mm_countries :: "(string \<times> (string \<times> PeerInfo list) list) list"
  mm_countryNames :: "(string \<times> string) list"
  mm_cityNames :: "(string \<times> string) list"

definition push_node :: "PeerInfo \<Rightarrow> MullvadMaps \<Rightarrow> MullvadMaps" where
  "push_node n m =
     (case peer_location n of
        None \<Rightarrow> m
      | Some loc \<Rightarrow>
          (let cc = country_key n loc; ck = city_key n loc
           in \<lparr>mm_countries = AList.map_default cc [(ck, [n])] (AList.map_default ck [n] (\<lambda>ns. ns @ [n])) (mm_countries m),
               mm_countryNames = AList.update cc
                 (js_default (or_else (locationPart (loc_country loc)) (locationPart (loc_countryCode loc))) ''Unknown'') (mm_countryNames m),
               mm_cityNames = AList.update ck (js_default (locationPart (loc_city loc)) (peer_name n)) (mm_cityNames m)\<rparr>))"

definition fill_maps :: "PeerInfo list \<Rightarrow> MullvadMaps" where
  "fill_maps nodes = fold push_node nodes \<lparr>mm_countries = [], mm_countryNames = [], mm_cityNames = []\<rparr>"

definition name_or_key :: "(string \<times> string) list \<Rightarrow> string \<Rightarrow> string" where
  "name_or_key names k = js_default (truthy (map_of names k)) k"

definition groupMullvadByCountry :: "(string \<Rightarrow> string \<Rightarrow> rat) \<Rightarrow> PeerInfo list \<Rightarrow> MullvadCountryGroup list" where
  "groupMullvadByCountry lc nodes =
     (let m = fill_maps nodes;
          cities = (\<lambda>cm. js_sort (\<lambda>a b. lc (mc_city a) (mc_city b))
            (map (\<lambda>(ck, ns). \<lparr>mc_city = name_or_key (mm_cityNames m) ck, mc_cityCode = ck, mc_nodes = ns\<rparr>) cm))
      in js_sort (\<lambda>a b. lc (mg_country a) (mg_country b))
           (map (\<lambda>(cc, cm). \<lparr>mg_country = name_or_key (mm_countryNames m) cc, mg_countryCode = cc, mg_cities = cities cm\<rparr>)
             (mm_countries m)))"

record ExitNodeGrouping =
  eg_own :: "PeerInfo list"
  eg_mullvad :: "MullvadCountryGroup list"
  eg_shared :: "PeerInfo list"

text \<open>Where the loop of \<open>groupExitNodes\<close> puts a node.\<close>

datatype ExitKind = OwnNode | MullvadNode | SharedNode

definition exit_kind :: "PeerInfo \<Rightarrow> ExitKind" where
  "exit_kind n =
     (if isMullvadExitNodePeer n
      then (if peer_location n \<noteq> None \<and> hasLocationLabel (peer_location n) then MullvadNode else SharedNode)
      else if js_default (peer_tags n) [] \<noteq> [] then SharedNode else OwnNode)"

definition groupExitNodes :: "(string \<Rightarrow> string \<Rightarrow> rat) \<Rightarrow> PeerInfo list \<Rightarrow> ExitNodeGrouping" where
  "groupExitNodes lc nodes =
     \<lparr>eg_own = filter (\<lambda>n. exit_kind n = OwnNode) nodes,
      eg_mullvad = groupMullvadByCountry lc (filter (\<lambda>n. exit_kind n = MullvadNode) nodes),
      eg_shared = filter (\<lambda>n. exit_kind n = SharedNode) nodes\<rparr>"

section \<open>The view\<close>

definition effectiveSelectedExitNodeID :: "TailscaleState \<Rightarrow> string option" where
  "effectiveSelectedExitNodeID s =
     (case ts_pendingExitNodeID s of
        Some x \<Rightarrow> truthy (Some x)
      | None \<Rightarrow>
          or_else (ts_selectedExitNodeID s)
            (or_else (truthy (Option.bind (ts_prefs s) pref_exitNodeID)) (truthy (map_option exit_id (ts_exitNode s)))))"

datatype ExitStatus = NoStatus | SubLabel string | OnlineStatus bool

text \<open>A row: \<open>er_target\<close> is the node a click selects, \<^const>\<open>None\<close> on the row that clears the selection.\<close>

record ExitRow =
  er_label :: string
  er_selected :: bool
  er_status :: ExitStatus
  er_flag :: "int list option"
  er_target :: "string option"
  er_spinner :: bool

definition createExitNodeRow :: "string \<Rightarrow> PeerInfo option \<Rightarrow> bool \<Rightarrow> string option \<Rightarrow> ExitRow" where
  "createExitNodeRow label node isSelected subLabelOverride =
     \<lparr>er_label = label, er_selected = isSelected,
      er_status = (case truthy subLabelOverride of
                     Some t \<Rightarrow> SubLabel t
                   | None \<Rightarrow> (case node of Some n \<Rightarrow> OnlineStatus (peer_online n) | None \<Rightarrow> NoStatus)),
      er_flag = map_option countryCodeToEmoji
        (truthy (Option.bind (Option.bind node peer_location) loc_countryCode)),
      er_target = map_option peer_id node, er_spinner = False\<rparr>"

definition handleSelect :: "ExitRow \<Rightarrow> ExitRow \<times> popup_effect list" where
  "handleSelect r =
     (if er_selected r then r else r\<lparr>er_spinner := True, er_selected := True\<rparr>,
      [Send (case er_target r of Some n \<Rightarrow> MSetExitNode n | None \<Rightarrow> MClearExitNode)])"

record CountryView =
  cv_flag :: "int list"
  cv_name :: string
  cv_code :: string
  cv_count :: nat
  cv_expanded :: bool
  cv_rows :: "ExitRow list"

datatype ExitItem =
    RecommendedItem ExitRow
  | NoneItem ExitRow
  | FlatSection string "ExitRow list"
  | MullvadSection "CountryView list"
  | NoMatchingNodes
  | NoNodesAvailable

record ExitView =
  ev_query :: string
  ev_expanded :: "string list"
  ev_autoExpandDone :: bool

definition flat_row :: "string option \<Rightarrow> PeerInfo \<Rightarrow> ExitRow" where
  "flat_row sel n = createExitNodeRow (node_label n) (Some n) (sel = Some (peer_id n)) None"

definition best_node :: "PeerInfo list \<Rightarrow> PeerInfo option" where
  "best_node nodes = (case List.find peer_online nodes of Some n \<Rightarrow> Some n | None \<Rightarrow> (case nodes of [] \<Rightarrow> None | n # _ \<Rightarrow> Some n))"

definition city_row :: "string option \<Rightarrow> MullvadCityGroup \<Rightarrow> ExitRow option" where
  "city_row sel c =
     map_option (\<lambda>best. createExitNodeRow (mc_city c) (Some best) (list_ex (\<lambda>n. sel = Some (peer_id n)) (mc_nodes c)) None)
       (best_node (mc_nodes c))"

definition country_view :: "ExitView \<Rightarrow> string option \<Rightarrow> MullvadCountryGroup \<Rightarrow> CountryView" where
  "country_view v sel g =
     \<lparr>cv_flag = countryCodeToEmoji (mg_countryCode g), cv_name = mg_country g, cv_code = mg_countryCode g,
      cv_count = length (mg_cities g), cv_expanded = (mg_countryCode g \<in> set (ev_expanded v)),
      cv_rows = List.map_filter (city_row sel) (mg_cities g)\<rparr>"

definition toggle_country :: "string \<Rightarrow> ExitView \<Rightarrow> ExitView" where
  "toggle_country cc v =
     v\<lparr>ev_expanded := (if cc \<in> set (ev_expanded v) then removeAll cc (ev_expanded v) else ev_expanded v @ [cc])\<rparr>"

text \<open>The country of the active node is opened once, when the Mullvad section is first shown with a selection.\<close>

definition auto_expand :: "PeerInfo list \<Rightarrow> string option \<Rightarrow> ExitView \<Rightarrow> ExitView" where
  "auto_expand allExitNodes sel v =
     (if ev_autoExpandDone v \<or> truthy sel = None then v
      else (let v1 = v\<lparr>ev_autoExpandDone := True\<rparr> in
            case List.find (\<lambda>n. Some (peer_id n) = sel) allExitNodes of
              None \<Rightarrow> v1
            | Some n \<Rightarrow>
                (case truthy (Option.bind (peer_location n) loc_countryCode) of
                   Some cc \<Rightarrow>
                     if isMullvadExitNodePeer n \<and> cc \<notin> set (ev_expanded v1) then v1\<lparr>ev_expanded := ev_expanded v1 @ [cc]\<rparr> else v1
                 | None \<Rightarrow> v1)))"

definition recommended_item :: "TailscaleState \<Rightarrow> PeerInfo list \<Rightarrow> PeerInfo \<Rightarrow> ExitItem" where
  "recommended_item s allExitNodes rec =
     (let sel = effectiveSelectedExitNodeID s;
          selectedLocation =
            (case truthy sel of
               None \<Rightarrow> None
             | Some x \<Rightarrow>
                 (case List.find (\<lambda>n. peer_id n = x) allExitNodes of
                    Some n \<Rightarrow> peer_location n
                  | None \<Rightarrow> (case ts_exitNode s of
                               Some e \<Rightarrow> if exit_id e = x then exit_location e else None
                             | None \<Rightarrow> None)))
      in RecommendedItem (createExitNodeRow (node_label rec) (Some rec)
           (sel = Some (peer_id rec) \<or> sameExitNodeLocation (peer_location rec) selectedLocation)
           (Some ''Best available Mullvad VPN'')))"

definition renderExitNodeList ::
  "(string \<Rightarrow> string \<Rightarrow> rat) \<Rightarrow> (rat \<times> rat \<Rightarrow> rat \<times> rat \<Rightarrow> rat) \<Rightarrow> ApproxLocation option \<Rightarrow> TailscaleState \<Rightarrow> PeerInfo list \<Rightarrow> ExitView
     \<Rightarrow> ExitView \<times> ExitItem list" where
  "renderExitNodeList lc great_circle clientLocation s allExitNodes v =
     (let filtered = filterExitNodes allExitNodes (ev_query v);
          recommended = selectRecommendedMullvadExitNode lc great_circle clientLocation allExitNodes;
          sel = effectiveSelectedExitNodeID s;
          searching = (ev_query v \<noteq> []);
          top = (if searching then []
                 else (case recommended of Some rec \<Rightarrow> [recommended_item s allExitNodes rec] | None \<Rightarrow> [])
                      @ [NoneItem (createExitNodeRow ''None (direct connection)'' None (sel = None) None)]);
          g = groupExitNodes lc filtered;
          hasAnyNodes = (eg_own g \<noteq> [] \<or> eg_mullvad g \<noteq> [] \<or> eg_shared g \<noteq> [])
      in if \<not> hasAnyNodes \<and> searching then (v, top @ [NoMatchingNodes])
         else if \<not> hasAnyNodes \<and> recommended = None then (v, top @ [NoNodesAvailable])
         else (let v' = (if eg_mullvad g \<noteq> [] then auto_expand allExitNodes sel v else v)
               in (v', top
                 @ (if eg_own g \<noteq> [] then [FlatSection ''My Devices'' (map (flat_row sel) (eg_own g))] else [])
                 @ (if eg_mullvad g \<noteq> [] then [MullvadSection (map (country_view v' sel) (eg_mullvad g))] else [])
                 @ (if eg_shared g \<noteq> [] then [FlatSection ''Shared'' (map (flat_row sel) (eg_shared g))] else []))))"

record ExitNodesScreen =
  es_view :: ExitView
  es_searchShown :: bool
  es_items :: "ExitItem list"
  es_allowLAN :: bool

definition renderExitNodes ::
  "(string \<Rightarrow> string \<Rightarrow> rat) \<Rightarrow> (rat \<times> rat \<Rightarrow> rat \<times> rat \<Rightarrow> rat) \<Rightarrow> ApproxLocation option \<Rightarrow> TailscaleState \<Rightarrow> bool \<Rightarrow> ExitView \<Rightarrow> ExitNodesScreen" where
  "renderExitNodes lc great_circle clientLocation s initialOpen v =
     (let v0 = (if initialOpen then v\<lparr>ev_query := []\<rparr> else v);
          allExitNodes = filter peer_exitNodeOption (ts_peers s);
          (v1, items) = renderExitNodeList lc great_circle clientLocation s allExitNodes v0
      in \<lparr>es_view = v1, es_searchShown = (length allExitNodes > 4), es_items = items,
          es_allowLAN = (case ts_prefs s of Some p \<Rightarrow> pref_exitNodeAllowLANAccess p | None \<Rightarrow> False)\<rparr>)"

definition search_input ::
  "(string \<Rightarrow> string \<Rightarrow> rat) \<Rightarrow> (rat \<times> rat \<Rightarrow> rat \<times> rat \<Rightarrow> rat) \<Rightarrow> ApproxLocation option \<Rightarrow> TailscaleState \<Rightarrow> string \<Rightarrow> ExitNodesScreen \<Rightarrow> ExitNodesScreen" where
  "search_input lc great_circle clientLocation s text scr =
     (let (v, items) = renderExitNodeList lc great_circle clientLocation s (filter peer_exitNodeOption (ts_peers s))
            ((es_view scr)\<lparr>ev_query := text\<rparr>)
      in scr\<lparr>es_view := v, es_items := items\<rparr>)"

definition change_allow_lan :: "bool \<Rightarrow> ExitNodesScreen \<Rightarrow> ExitNodesScreen \<times> popup_effect list" where
  "change_allow_lan checked scr = (scr\<lparr>es_allowLAN := checked\<rparr>, [Send (MSetPref (SetExitNodeAllowLANAccess checked))])"

section \<open>Lemmas\<close>

subsection \<open>Consistent comparisons\<close>

definition consistent :: "('a \<Rightarrow> 'a \<Rightarrow> rat) \<Rightarrow> bool" where
  "consistent cmp \<longleftrightarrow> (\<forall>x y. cmp x y < 0 \<longleftrightarrow> cmp y x > 0) \<and> (\<forall>x y z. cmp x y \<le> 0 \<longrightarrow> cmp y z \<le> 0 \<longrightarrow> cmp x z \<le> 0)"

lemma consistent_flip: "consistent cmp \<Longrightarrow> cmp x y \<le> 0 \<longleftrightarrow> cmp y x \<ge> 0"
  by (meson consistent_def not_less)

lemma consistent_total: "consistent cmp \<Longrightarrow> \<not> cmp x y \<le> 0 \<Longrightarrow> cmp y x \<le> 0"
  by (meson consistent_def le_less not_le)

lemma consistent_trans: "consistent cmp \<Longrightarrow> cmp x y \<le> 0 \<Longrightarrow> cmp y z \<le> 0 \<Longrightarrow> cmp x z \<le> 0"
  by (auto simp: consistent_def)

lemma consistent_lex:
  assumes f: "consistent f" and g: "consistent g"
  shows "consistent (\<lambda>x y. if f x y \<noteq> 0 then f x y else g x y)"
proof -
  have zero: "f x y = 0 \<longleftrightarrow> f y x = 0" for x y using consistent_flip [OF f] by (metis antisym order_refl)
  have "(if f x z \<noteq> 0 then f x z else g x z) \<le> 0"
    if xy: "(if f x y \<noteq> 0 then f x y else g x y) \<le> 0" and yz: "(if f y z \<noteq> 0 then f y z else g y z) \<le> 0" for x y z
  proof -
    have le: "f x y \<le> 0" "f y z \<le> 0" using xy yz by (auto split: if_splits)
    then have xz: "f x z \<le> 0" by (rule consistent_trans [OF f])
    show ?thesis
    proof (cases "f x z = 0")
      case True
      then have zx: "f z x \<le> 0" using zero [of x z] by simp
      have "f y x \<le> 0" "f z y \<le> 0" using consistent_trans [OF f le(2) zx] consistent_trans [OF f zx le(1)] by simp_all
      then have "f x y = 0" "f y z = 0" using le consistent_flip [OF f] by (metis antisym)+
      with True xy yz g show ?thesis by (simp add: consistent_trans)
    qed (use xz in simp)
  qed
  moreover have "(if f x y \<noteq> 0 then f x y else g x y) < 0 \<longleftrightarrow> (if f y x \<noteq> 0 then f y x else g y x) > 0" for x y
    using f g zero [of x y] by (auto simp: consistent_def)
  ultimately show ?thesis unfolding consistent_def by blast
qed

lemma consistent_key: "consistent (\<lambda>a b. k b - k a)"
  by (auto simp: consistent_def)

lemma consistent_pull: "consistent lc \<Longrightarrow> consistent (\<lambda>a b. lc (k a) (k b))"
  unfolding consistent_def by blast

lemma consistent_optional:
  "consistent (\<lambda>a b. case (d a, d b) of (Some x, Some y) \<Rightarrow> x - y | (Some _, None) \<Rightarrow> -1 | (None, Some _) \<Rightarrow> 1 | (None, None) \<Rightarrow> 0)"
  by (auto simp: consistent_def split: option.splits)

lemma consistent_place: "consistent (compare_place gc client)"
proof (cases client)
  case None
  then show ?thesis by (simp add: consistent_def compare_place_def)
next
  case (Some l)
  show ?thesis unfolding compare_place_def Some Let_def option.case
    by (rule consistent_lex [OF consistent_key consistent_optional])
qed

lemma consistent_recommended:
  assumes "consistent lc"
  shows "consistent (compareRecommendedMullvadExitNodes lc gc client)"
  unfolding compareRecommendedMullvadExitNodes_def Let_def
  by (intro consistent_lex consistent_key consistent_place consistent_pull [OF assms])

lemma js_insert_mset: "mset (js_insert cmp x ys) = add_mset x (mset ys)"
  by (induction ys) auto

lemma js_sort_mset [simp]: "mset (js_sort cmp xs) = mset xs"
  by (induction xs) (simp_all add: js_sort_def js_insert_mset)

lemma js_sort_set [simp]: "set (js_sort cmp xs) = set xs"
  by (rule mset_eq_setD) simp

lemma js_sort_Nil [simp]: "js_sort cmp [] = []"
  by (simp add: js_sort_def)

lemma js_sort_Nil_iff [simp]: "js_sort cmp xs = [] \<longleftrightarrow> xs = []"
  by (metis js_sort_set set_empty)

lemma js_insert_sorted:
  assumes "consistent cmp" and "sorted_wrt (\<lambda>a b. cmp a b \<le> 0) ys"
  shows "sorted_wrt (\<lambda>a b. cmp a b \<le> 0) (js_insert cmp x ys)"
  using assms(2)
proof (induction ys)
  case (Cons y ys)
  have "set (js_insert cmp x ys) = insert x (set ys)" by (metis js_insert_mset set_mset_add_mset_insert set_mset_mset)
  moreover have "cmp x z \<le> 0" if "cmp x y \<le> 0" "z \<in> set ys" for z
    using consistent_trans [OF assms(1) that(1)] Cons.prems that(2) by simp
  moreover have "cmp y x \<le> 0" if "\<not> cmp x y \<le> 0" by (rule consistent_total [OF assms(1) that])
  ultimately show ?case using Cons by simp
qed simp

lemma js_sort_sorted: "consistent cmp \<Longrightarrow> sorted_wrt (\<lambda>a b. cmp a b \<le> 0) (js_sort cmp xs)"
  by (induction xs) (simp_all add: js_sort_def js_insert_sorted)

subsection \<open>Recommendation\<close>

text \<open>
  A node is recommended whenever the list has a candidate, a Mullvad exit node with a place; the
  recommended node is such a candidate, no candidate compares better, and it is online if any
  candidate is.
\<close>

lemma recommended_best:
  assumes "consistent lc"
  shows "case selectRecommendedMullvadExitNode lc gc client nodes of
      None \<Rightarrow> filter recommendable nodes = []
    | Some n \<Rightarrow> n \<in> set nodes \<and> recommendable n \<and>
        (\<forall>m\<in>set nodes. recommendable m \<longrightarrow>
           compareRecommendedMullvadExitNodes lc gc client n m \<le> 0 \<and> (peer_online m \<longrightarrow> peer_online n))"
proof -
  let ?cmp = "compareRecommendedMullvadExitNodes lc gc client"
  have c: "consistent ?cmp" by (rule consistent_recommended [OF assms])
  show ?thesis
  proof (cases "js_sort ?cmp (filter recommendable nodes)")
    case Nil
    then show ?thesis by (simp add: selectRecommendedMullvadExitNode_def)
  next
    case (Cons n ns)
    have "set (n # ns) = set (filter recommendable nodes)" unfolding Cons [symmetric] by (rule js_sort_set)
    moreover have "\<forall>m\<in>set (n # ns). ?cmp n m \<le> 0"
      using js_sort_sorted [OF c, of "filter recommendable nodes"] consistent_flip [OF c, of n n] unfolding Cons by auto
    moreover have "peer_online n" if "?cmp n m \<le> 0" "peer_online m" for m
      using that by (simp add: compareRecommendedMullvadExitNodes_def bool_num_def Let_def split: if_splits)
    ultimately show ?thesis by (auto simp: selectRecommendedMullvadExitNode_def Cons)
  qed
qed

text \<open>The comparison of texts by their code units, as one that \<open>localeCompare\<close> may be.\<close>

definition code_unit_compare :: "string \<Rightarrow> string \<Rightarrow> rat" where
  "code_unit_compare a b = (if a = b then 0 else if a < b then -1 else 1)"

lemma consistent_code_unit: "consistent code_unit_compare"
  by (auto simp: consistent_def code_unit_compare_def)

definition mullvad_sample :: "string \<Rightarrow> bool \<Rightarrow> PeerInfo" where
  "mullvad_sample name online =
     \<lparr>peer_id = name, peer_hostname = name, peer_dnsName = name @ ''.mullvad.ts.net.'', peer_tailscaleIPs = Some [],
      peer_os = ''linux'', peer_online = online, peer_active = False, peer_exitNode = False, peer_exitNodeOption = True,
      peer_isSubnetRouter = False, peer_subnets = Some [], peer_tags = Some [MULLVAD_EXIT_NODE_TAG], peer_rxBytes = 0, peer_txBytes = 0,
      peer_lastSeen = None, peer_lastHandshake = None, peer_keyExpiry = None,
      peer_location = Some \<lparr>loc_city = Some ''Malmo'', loc_cityCode = Some ''mma'', loc_country = Some ''Sweden'',
        loc_countryCode = Some ''SE'', loc_latitude = None, loc_longitude = None, loc_priority = Some 10\<rparr>,
      peer_taildropTarget = False, peer_sshHost = False, peer_userId = 1, peer_userName = [], peer_userLoginName = [],
      peer_userProfilePicURL = []\<rparr>"

subsection \<open>Grouping\<close>

definition city_map_nodes :: "(string \<times> PeerInfo list) list \<Rightarrow> PeerInfo list" where
  "city_map_nodes cm = concat (map snd cm)"

definition country_map_nodes :: "(string \<times> (string \<times> PeerInfo list) list) list \<Rightarrow> PeerInfo list" where
  "country_map_nodes m = concat (map (\<lambda>(cc, cm). city_map_nodes cm) m)"

definition group_nodes :: "MullvadCountryGroup list \<Rightarrow> PeerInfo list" where
  "group_nodes gs = concat (map (\<lambda>g. concat (map mc_nodes (mg_cities g))) gs)"

text \<open>The keys of the maps are those of the nodes below them, and no key occurs twice.\<close>

definition keyed :: "(string \<times> (string \<times> PeerInfo list) list) list \<Rightarrow> bool" where
  "keyed m \<longleftrightarrow> distinct (map fst m) \<and> (\<forall>(cc, cm)\<in>set m. distinct (map fst cm) \<and>
     (\<forall>(ck, ns)\<in>set cm. \<forall>n\<in>set ns. \<exists>loc. peer_location n = Some loc \<and> country_key n loc = cc \<and> city_key n loc = ck))"

lemma map_default_keys: "fst ` set (AList.map_default k v f m) = insert k (fst ` set m)"
  by (induction m) auto

lemma map_default_distinct: "distinct (map fst m) \<Longrightarrow> distinct (map fst (AList.map_default k v f m))"
  by (induction m) (auto simp: map_default_keys)

lemma map_default_entry:
  "(k', w) \<in> set (AList.map_default k v f m) \<Longrightarrow>
   (k', w) \<in> set m \<or> k' = k \<and> (w = v \<or> (\<exists>u. (k, u) \<in> set m \<and> w = f u))"
  by (induction m) (auto split: if_splits)

lemma city_push_mset:
  "mset (city_map_nodes (AList.map_default ck [n] (\<lambda>ns. ns @ [n]) cm)) = add_mset n (mset (city_map_nodes cm))"
  by (induction cm) (auto simp: city_map_nodes_def)

lemma country_push_mset:
  "mset (country_map_nodes (AList.map_default cc [(ck, [n])] (AList.map_default ck [n] (\<lambda>ns. ns @ [n])) m)) =
   add_mset n (mset (country_map_nodes m))"
  by (induction m) (auto simp: country_map_nodes_def city_push_mset, simp add: city_map_nodes_def)

lemma push_node_mset:
  "peer_location n \<noteq> None \<Longrightarrow> mset (country_map_nodes (mm_countries (push_node n m))) = add_mset n (mset (country_map_nodes (mm_countries m)))"
  by (auto simp: push_node_def country_push_mset Let_def)

lemma push_node_keyed:
  assumes "keyed (mm_countries m)"
  shows "keyed (mm_countries (push_node n m))"
proof (cases "peer_location n")
  case None
  with assms show ?thesis by (simp add: push_node_def)
next
  case (Some loc)
  let ?cc = "country_key n loc" and ?ck = "city_key n loc"
  let ?city = "AList.map_default ?ck [n] (\<lambda>ns. ns @ [n])"
  define ok where "ok cc cm \<longleftrightarrow> distinct (map fst cm) \<and>
     (\<forall>(ck, ns)\<in>set cm. \<forall>n\<in>set ns. \<exists>loc. peer_location n = Some loc \<and> country_key n loc = cc \<and> city_key n loc = ck)" for cc cm
  have kd: "keyed m \<longleftrightarrow> distinct (map fst m) \<and> (\<forall>(cc, cm)\<in>set m. ok cc cm)" for m by (simp add: keyed_def ok_def)
  have city: "ok ?cc (?city cm)" if "ok ?cc cm" for cm
    using that Some by (fastforce simp: ok_def map_default_distinct dest!: map_default_entry)
  have new: "ok ?cc [(?ck, [n])]" using Some by (simp add: ok_def)
  have "\<forall>(cc, cm)\<in>set (AList.map_default ?cc [(?ck, [n])] ?city (mm_countries m)). ok cc cm"
    using assms city new unfolding kd by (auto dest!: map_default_entry)
  then show ?thesis using assms unfolding kd by (simp add: push_node_def Some Let_def map_default_distinct)
qed

lemma fill_maps_nodes:
  assumes "\<forall>n\<in>set nodes. peer_location n \<noteq> None"
  shows "mset (country_map_nodes (mm_countries (fill_maps nodes))) = mset nodes \<and> keyed (mm_countries (fill_maps nodes))"
proof -
  have "mset (country_map_nodes (mm_countries (fold push_node nodes m))) = mset nodes + mset (country_map_nodes (mm_countries m)) \<and>
      keyed (mm_countries (fold push_node nodes m))" if "keyed (mm_countries m)" for m
    using that assms by (induction nodes arbitrary: m) (simp_all add: push_node_mset push_node_keyed)
  from this [of "\<lparr>mm_countries = [], mm_countryNames = [], mm_cityNames = []\<rparr>"] show ?thesis
    by (simp add: fill_maps_def keyed_def country_map_nodes_def)
qed

lemma sum_list_sort [simp]: "sum_list (map f (js_sort cmp xs)) = sum_list (map (f :: 'a \<Rightarrow> 'b :: comm_monoid_add) xs)"
  by (metis js_sort_mset mset_map sum_mset_sum_list)

lemma distinct_map_sort [simp]: "distinct (map f (js_sort cmp xs)) \<longleftrightarrow> distinct (map f xs)"
  by (metis js_sort_mset mset_eq_imp_distinct_iff mset_map)

lemma grouped_nodes:
  assumes "\<forall>n\<in>set nodes. peer_location n \<noteq> None"
  shows "mset (group_nodes (groupMullvadByCountry lc nodes)) = mset nodes"
proof -
  have "mset (group_nodes (groupMullvadByCountry lc nodes)) = mset (country_map_nodes (mm_countries (fill_maps nodes)))"
    by (simp add: group_nodes_def groupMullvadByCountry_def country_map_nodes_def city_map_nodes_def Let_def
        comp_def case_prod_beta mset_concat)
  then show ?thesis using fill_maps_nodes [OF assms] by simp
qed

text \<open>A country group stands under its own keys.\<close>

definition group_keyed :: "MullvadCountryGroup \<Rightarrow> bool" where
  "group_keyed c \<longleftrightarrow> distinct (map mc_cityCode (mg_cities c)) \<and>
     list_all (\<lambda>d. list_all (\<lambda>n. peer_location n \<noteq> None \<and> country_key n (the (peer_location n)) = mg_countryCode c \<and>
       city_key n (the (peer_location n)) = mc_cityCode d) (mc_nodes d)) (mg_cities c)"

lemma groups_keyed:
  assumes "\<forall>n\<in>set nodes. peer_location n \<noteq> None"
  shows "distinct (map mg_countryCode (groupMullvadByCountry lc nodes)) \<and> list_all group_keyed (groupMullvadByCountry lc nodes)"
proof -
  define m where "m = fill_maps nodes"
  have keyed: "keyed (mm_countries m)" unfolding m_def using fill_maps_nodes [OF assms] by simp
  define cities where "cities cm = js_sort (\<lambda>a b. lc (mc_city a) (mc_city b))
      (map (\<lambda>(ck, ns). \<lparr>mc_city = name_or_key (mm_cityNames m) ck, mc_cityCode = ck, mc_nodes = ns\<rparr>) cm)" for cm
  define group where "group = (\<lambda>(cc, cm). \<lparr>mg_country = name_or_key (mm_countryNames m) cc, mg_countryCode = cc, mg_cities = cities cm\<rparr>)"
  have g: "groupMullvadByCountry lc nodes = js_sort (\<lambda>a b. lc (mg_country a) (mg_country b)) (map group (mm_countries m))"
    by (simp add: groupMullvadByCountry_def m_def group_def cities_def Let_def)
  have "group_keyed (group (cc, cm))" if "(cc, cm) \<in> set (mm_countries m)" for cc cm
  proof -
    have cm: "distinct (map fst cm)"
      "\<And>ck ns n. (ck, ns) \<in> set cm \<Longrightarrow> n \<in> set ns \<Longrightarrow> \<exists>loc. peer_location n = Some loc \<and> country_key n loc = cc \<and> city_key n loc = ck"
      using keyed that unfolding keyed_def by blast+
    show ?thesis
      using cm(1) by (auto simp: group_keyed_def group_def cities_def comp_def case_prod_beta list_all_iff dest: cm(2))
  qed
  then have "list_all group_keyed (groupMullvadByCountry lc nodes)" by (auto simp: g list_all_iff)
  moreover have "map mg_countryCode (map group xs) = map fst xs" for xs by (simp add: group_def case_prod_beta)
  ultimately show ?thesis using keyed by (simp add: g keyed_def del: map_map)
qed


subsection \<open>Rows\<close>

fun item_rows :: "ExitItem \<Rightarrow> ExitRow list" where
  "item_rows (RecommendedItem r) = [r]"
| "item_rows (NoneItem r) = [r]"
| "item_rows (FlatSection _ rs) = rs"
| "item_rows (MullvadSection cs) = concat (map cv_rows cs)"
| "item_rows NoMatchingNodes = []"
| "item_rows NoNodesAvailable = []"

lemma best_node_in: "best_node ns = Some n \<Longrightarrow> n \<in> set ns"
  by (auto simp: best_node_def find_Some_iff split: option.splits list.splits)

lemma best_node_online: "best_node ns = Some n \<Longrightarrow> m \<in> set ns \<Longrightarrow> peer_online m \<Longrightarrow> peer_online n"
  by (auto simp: best_node_def find_Some_iff find_None_iff split: option.splits)

lemma filterExitNodes_subset: "set (filterExitNodes nodes q) \<subseteq> set nodes"
  by (auto simp: filterExitNodes_def Let_def)

lemma recommended_in: "selectRecommendedMullvadExitNode lc gc client nodes = Some n \<Longrightarrow> n \<in> set nodes"
proof -
  assume "selectRecommendedMullvadExitNode lc gc client nodes = Some n"
  then have "n \<in> set (js_sort (compareRecommendedMullvadExitNodes lc gc client) (filter recommendable nodes))"
    by (auto simp: selectRecommendedMullvadExitNode_def simp del: js_sort_set split: list.splits)
  then show ?thesis by simp
qed

lemma group_members:
  assumes "c \<in> set (eg_mullvad (groupExitNodes lc nodes))" and "d \<in> set (mg_cities c)" and "n \<in> set (mc_nodes d)"
  shows "n \<in> set nodes"
proof -
  define ms where "ms = filter (\<lambda>n. exit_kind n = MullvadNode) nodes"
  have loc: "\<forall>n\<in>set ms. peer_location n \<noteq> None" by (auto simp: ms_def exit_kind_def split: if_splits)
  have "n \<in> set (group_nodes (groupMullvadByCountry lc ms))" using assms by (auto simp: group_nodes_def groupExitNodes_def ms_def)
  then have "n \<in> set ms" using grouped_nodes [OF loc] by (metis set_mset_mset)
  then show ?thesis by (simp add: ms_def)
qed

text \<open>The ids of the nodes that offer themselves are the only targets of the rows.\<close>

definition offered :: "PeerInfo list \<Rightarrow> ExitRow \<Rightarrow> bool" where
  "offered nodes r \<longleftrightarrow> (case er_target r of Some x \<Rightarrow> x \<in> peer_id ` set nodes | None \<Rightarrow> True)"

lemma flat_offered: "set ns \<subseteq> set nodes \<Longrightarrow> list_all (offered nodes) (map (flat_row sel) ns)"
  by (auto simp: list_all_iff offered_def flat_row_def createExitNodeRow_def)

lemma country_offered:
  assumes "c \<in> set (eg_mullvad (groupExitNodes lc nodes))"
  shows "list_all (offered nodes) (cv_rows (country_view v sel c))"
proof -
  have "offered nodes r" if "d \<in> set (mg_cities c)" "city_row sel d = Some r" for d r
    using that group_members [OF assms that(1)] best_node_in
    by (fastforce simp: city_row_def offered_def createExitNodeRow_def)
  then show ?thesis by (auto simp: country_view_def list_all_iff List.map_filter_def split: option.splits)
qed

lemma list_offered:
  "list_all (\<lambda>i. list_all (offered nodes) (item_rows i)) (snd (renderExitNodeList lc gc client s nodes v))"
proof -
  let ?g = "groupExitNodes lc (filterExitNodes nodes (ev_query v))"
  have sub: "set (filterExitNodes nodes (ev_query v)) \<subseteq> set nodes" by (rule filterExitNodes_subset)
  have mono: "offered (filterExitNodes nodes (ev_query v)) r \<Longrightarrow> offered nodes r" for r
    using sub by (auto simp: offered_def split: option.splits)
  have flat: "list_all (offered nodes) (map (flat_row sel) (eg_own ?g))" "list_all (offered nodes) (map (flat_row sel) (eg_shared ?g))" for sel
    using sub by (intro flat_offered; auto simp: groupExitNodes_def)+
  have countries: "list_all (offered nodes) (concat (map cv_rows (map (country_view w sel) (eg_mullvad ?g))))" for w sel
    using country_offered mono by (fastforce simp: list_all_iff)
  have rec: "list_all (offered nodes) (item_rows (recommended_item s nodes n))"
    if "selectRecommendedMullvadExitNode lc gc client nodes = Some n" for n
    using recommended_in [OF that] by (simp add: recommended_item_def Let_def offered_def createExitNodeRow_def)
  have none: "list_all (offered nodes) (item_rows (NoneItem (createExitNodeRow t None b None)))" for t b
    by (simp add: offered_def createExitNodeRow_def)
  show ?thesis
    unfolding renderExitNodeList_def Let_def
    using flat countries rec none
    by (auto split: option.splits simp del: map_map concat.simps)
qed

text \<open>
  Every row of the picker either clears the selection or selects a device of the current state that offers
  itself as an exit node, also after a search.
\<close>

lemma exit_picker_offers:
  "let ok = list_all (\<lambda>i. list_all (\<lambda>r. snd (handleSelect r) = [Send MClearExitNode] \<or>
      snd (handleSelect r) \<in> (\<lambda>p. [Send (MSetExitNode (peer_id p))]) ` set (filter peer_exitNodeOption (ts_peers s))) (item_rows i))
   in ok (es_items (renderExitNodes lc gc client s initialOpen v)) \<and>
      ok (es_items (search_input lc gc client s text scr))"
proof -
  have "list_all (\<lambda>i. list_all (\<lambda>r. snd (handleSelect r) = [Send MClearExitNode] \<or>
      snd (handleSelect r) \<in> (\<lambda>p. [Send (MSetExitNode (peer_id p))]) ` set (filter peer_exitNodeOption (ts_peers s))) (item_rows i))
      (snd (renderExitNodeList lc gc client s (filter peer_exitNodeOption (ts_peers s)) w))" for w
    using list_offered [of "filter peer_exitNodeOption (ts_peers s)" lc gc client s w]
    by (rule list.pred_mono_strong) (erule list.pred_mono_strong, force simp: offered_def handleSelect_def split: option.splits)
  then show ?thesis by (simp add: renderExitNodes_def search_input_def Let_def case_prod_beta)
qed

text \<open>
  City names are kept by city key alone: a city of one country takes the name of the city of another
  country with the same code.
\<close>

lemma city_label_of_other_country:
  "let place = (\<lambda>city cc. Some \<lparr>loc_city = Some city, loc_cityCode = Some ''xyz'', loc_country = Some cc, loc_countryCode = Some cc,
         loc_latitude = None, loc_longitude = None, loc_priority = None\<rparr>);
       gs = groupMullvadByCountry code_unit_compare
         [mullvad_sample ''a'' True\<lparr>peer_location := place ''Alpha'' ''AA''\<rparr>, mullvad_sample ''b'' True\<lparr>peer_location := place ''Beta'' ''BB''\<rparr>]
   in map (\<lambda>g. (mg_countryCode g, map mc_city (mg_cities g))) gs = [(''AA'', [''Beta'']), (''BB'', [''Beta''])]"
  by code_simp

end
