(* ===== verification/Popup_Profiles.thy ===== *)
theory Popup_Profiles
  imports Popup_Utils State_Store
begin

text \<open>
  The profile switcher (\<open>packages/shared/src/popup/views/profiles.ts\<close>) as a state machine: a session belongs to
  one opening of the switcher and keeps the command that waits for the helper's confirmation, with
  its timer. Every redraw makes a new view element; a handler knows the element it was made for,
  by number, and does nothing once that element is not the session's or not shown.

  The lemmas show that a pending command always has its timer, that commands are sent one at a time
  and that only profiles the helper has reported are marked as active.
\<close>

datatype CommandType = SwitchCommand | DeleteCommand

record PendingCommand =
  cmd_type :: CommandType
  cmd_profileID :: string
  cmd_name :: string

text \<open>The pair of code and message is what \<open>diagnosticKey\<close> serialises; \<open>ses_timer\<close> holds the command its callback closes over.\<close>

record ProfileSession =
  ses_view :: "nat option"
  ses_state :: TailscaleState
  ses_confirmedProfileID :: "string option"
  ses_pending :: "PendingCommand option"
  ses_timer :: "PendingCommand option"
  ses_diagnostic :: "string option \<times> string option"
  ses_feedback :: "string option"

record ProfilesRoot =
  pv_session :: "ProfileSession option"
  pv_shown :: "nat option"
  pv_next :: nat

datatype prof_effect = ProfSend BackgroundMessage | ProfBack

definition profiles_init :: ProfilesRoot where
  "profiles_init = \<lparr>pv_session = None, pv_shown = None, pv_next = 0\<rparr>"

section \<open>Sessions\<close>

definition clearPending :: "ProfileSession \<Rightarrow> ProfileSession" where
  "clearPending ses = ses\<lparr>ses_timer := None, ses_pending := None\<rparr>"

definition closeSession :: "ProfilesRoot \<Rightarrow> ProfilesRoot" where
  "closeSession r = r\<lparr>pv_session := None\<rparr>"

definition diagnosticKey :: "TailscaleState \<Rightarrow> string option \<times> string option" where
  "diagnosticKey s = (map_option hd_code (ts_helperDiagnostic s), Option.bind (ts_helperDiagnostic s) hd_message)"

definition helperUnavailable :: "TailscaleState \<Rightarrow> bool" where
  "helperUnavailable s \<longleftrightarrow> \<not> ts_hostConnected s \<or> ts_helperFailure s \<noteq> None"

definition new_session :: "TailscaleState \<Rightarrow> ProfileSession" where
  "new_session s =
     \<lparr>ses_view = None, ses_state = s, ses_confirmedProfileID = truthy (map_option prof_id (ts_currentProfile s)),
      ses_pending = None, ses_timer = None, ses_diagnostic = diagnosticKey s, ses_feedback = None\<rparr>"

text \<open>The session a redraw works on: the old one while its view is shown, a new one otherwise.\<close>

definition session_for :: "TailscaleState \<Rightarrow> ProfilesRoot \<Rightarrow> ProfileSession" where
  "session_for s r =
     (case pv_session r of
        Some ses \<Rightarrow> if ses_view ses \<noteq> None \<and> ses_view ses = pv_shown r then ses else new_session s
      | None \<Rightarrow> new_session s)"

definition command_error_code :: "CommandType \<Rightarrow> string" where
  "command_error_code t =
     (case t of SwitchCommand \<Rightarrow> ''helper-command-switch-profile-error'' | DeleteCommand \<Rightarrow> ''helper-command-delete-profile-error'')"

definition confirmed_by :: "TailscaleState \<Rightarrow> PendingCommand \<Rightarrow> bool" where
  "confirmed_by s c =
     (case cmd_type c of
        SwitchCommand \<Rightarrow> map_option prof_id (ts_currentProfile s) = Some (cmd_profileID c)
      | DeleteCommand \<Rightarrow> \<not> list_ex (\<lambda>p. prof_id p = cmd_profileID c) (ts_profiles s))"

definition settle_pending :: "TailscaleState \<Rightarrow> ProfileSession \<Rightarrow> ProfileSession" where
  "settle_pending s ses =
     (case ses_pending ses of
        None \<Rightarrow> ses
      | Some c \<Rightarrow>
          if helperUnavailable s
          then (clearPending ses)\<lparr>ses_feedback := Some ''The helper connection was lost before confirming the change. Reconnect, then try again.''\<rparr>
          else if confirmed_by s c then (clearPending ses)\<lparr>ses_feedback := None\<rparr>
          else if diagnosticKey s \<noteq> ses_diagnostic ses \<and>
            map_option hd_code (ts_helperDiagnostic s) = Some (command_error_code (cmd_type c))
          then (clearPending ses)\<lparr>ses_feedback := Some (case cmd_type c of
                  SwitchCommand \<Rightarrow> ''The helper could not switch profiles. Select a profile to try again.''
                | DeleteCommand \<Rightarrow> ''The helper could not delete the profile. Try deleting it again.'')\<rparr>
          else ses)"

definition note_identity :: "TailscaleState \<Rightarrow> ProfileSession \<Rightarrow> ProfileSession" where
  "note_identity s ses =
     (case truthy (map_option prof_id (ts_currentProfile s)) of
        None \<Rightarrow> ses
      | Some pid \<Rightarrow>
          (if ses_pending ses = None \<and> ses_confirmedProfileID ses \<noteq> Some pid then ses\<lparr>ses_feedback := None\<rparr> else ses)
            \<lparr>ses_confirmedProfileID := Some pid\<rparr>)"

definition renderProfiles :: "TailscaleState \<Rightarrow> ProfilesRoot \<Rightarrow> ProfilesRoot" where
  "renderProfiles s r =
     (let ses = note_identity s ((settle_pending s (session_for s r))\<lparr>ses_diagnostic := diagnosticKey s, ses_state := s\<rparr>);
          view = pv_next r
      in r\<lparr>pv_session := Some (ses\<lparr>ses_view := Some view\<rparr>), pv_shown := Some view, pv_next := view + 1\<rparr>)"

section \<open>Handlers\<close>

text \<open>The session whose view \<open>v\<close> is, if that view is the current one.\<close>

definition active_session :: "nat \<Rightarrow> ProfilesRoot \<Rightarrow> ProfileSession option" where
  "active_session v r =
     (case pv_session r of Some ses \<Rightarrow> if ses_view ses = Some v then Some ses else None | None \<Rightarrow> None)"

definition canRunCommand :: "nat \<Rightarrow> ProfilesRoot \<Rightarrow> bool" where
  "canRunCommand v r =
     (case active_session v r of
        Some ses \<Rightarrow> pv_shown r = Some v \<and> ses_pending ses = None \<and> \<not> helperUnavailable (ses_state ses)
      | None \<Rightarrow> False)"

definition command_message :: "PendingCommand \<Rightarrow> BackgroundMessage" where
  "command_message c = (case cmd_type c of SwitchCommand \<Rightarrow> MSwitchProfile (cmd_profileID c) | DeleteCommand \<Rightarrow> MDeleteProfile (cmd_profileID c))"

definition beginCommand :: "nat \<Rightarrow> PendingCommand \<Rightarrow> ProfilesRoot \<Rightarrow> ProfilesRoot \<times> prof_effect list" where
  "beginCommand v c r =
     (if \<not> canRunCommand v r then (r, [])
      else (case pv_session r of
              None \<Rightarrow> (r, [])
            | Some ses \<Rightarrow>
                (renderProfiles (ses_state ses)
                   (r\<lparr>pv_session := Some (ses\<lparr>ses_pending := Some c, ses_feedback := None, ses_timer := Some c\<rparr>)\<rparr>),
                 [ProfSend (command_message c)])))"

text \<open>The timer of the pending command fires after twenty seconds.\<close>

definition command_timeout :: "ProfilesRoot \<Rightarrow> ProfilesRoot" where
  "command_timeout r =
     (case pv_session r of
        None \<Rightarrow> r
      | Some ses \<Rightarrow>
          (case ses_timer ses of
             None \<Rightarrow> r
           | Some c \<Rightarrow>
               if ses_view ses = None \<or> ses_view ses \<noteq> pv_shown r then closeSession r
               else renderProfiles (ses_state ses) (r\<lparr>pv_session := Some ((clearPending ses)\<lparr>ses_feedback := Some (case cmd_type c of
                        SwitchCommand \<Rightarrow> ''The helper did not confirm the profile switch within 20 seconds. Check the connection, then select a profile to try again.''
                      | DeleteCommand \<Rightarrow> ''The helper did not confirm the deletion within 20 seconds. Check the connection, then try deleting the profile again.'')\<rparr>)\<rparr>)))"

definition back_click :: "nat \<Rightarrow> ProfilesRoot \<Rightarrow> ProfilesRoot \<times> prof_effect list" where
  "back_click v r =
     (case active_session v r of
        None \<Rightarrow> (r, [])
      | Some _ \<Rightarrow> ((closeSession r)\<lparr>pv_shown := None\<rparr>, [ProfBack]))"

definition add_click :: "nat \<Rightarrow> ProfilesRoot \<Rightarrow> ProfilesRoot \<times> prof_effect list" where
  "add_click v r =
     (if \<not> canRunCommand v r then (r, [])
      else ((closeSession r)\<lparr>pv_shown := None\<rparr>, [ProfSend MNewProfile, ProfBack]))"

definition profile_label :: "ProfileInfo \<Rightarrow> string" where
  "profile_label p = (if prof_name p \<noteq> [] then prof_name p else prof_id p)"

section \<open>Rows\<close>

record ProfileRow =
  pr_id :: string
  pr_label :: string
  pr_isCurrent :: bool
  pr_selectDisabled :: bool
  pr_badge :: "string option"
  pr_spinner :: bool
  pr_delete :: "bool option"

definition createProfileRow :: "ProfileInfo \<Rightarrow> bool \<Rightarrow> bool \<Rightarrow> bool \<Rightarrow> PendingCommand option \<Rightarrow> ProfileRow" where
  "createProfileRow p isCurrent canDelete commandsDisabled pending =
     \<lparr>pr_id = prof_id p, pr_label = profile_label p, pr_isCurrent = isCurrent, pr_selectDisabled = (isCurrent \<or> commandsDisabled),
      pr_badge = (if isCurrent then Some ''Active''
                  else map_option (\<lambda>c. (if cmd_type c = SwitchCommand then ''Switching'' else ''Deleting'') @ ellipsis) pending),
      pr_spinner = (pending \<noteq> None), pr_delete = (if \<not> isCurrent \<and> canDelete then Some commandsDisabled else None)\<rparr>"

definition profile_rows :: "ProfileSession \<Rightarrow> ProfileRow list" where
  "profile_rows ses =
     (let s = ses_state ses; commandsDisabled = (ses_pending ses \<noteq> None \<or> helperUnavailable s)
      in map (\<lambda>p. createProfileRow p (ses_confirmedProfileID ses = Some (prof_id p)) (length (ts_profiles s) > 1) commandsDisabled
                (case ses_pending ses of Some c \<Rightarrow> if cmd_profileID c = prof_id p then Some c else None | None \<Rightarrow> None))
             (ts_profiles s))"

definition profile_status :: "ProfileSession \<Rightarrow> string" where
  "profile_status ses =
     (case ses_pending ses of
        Some c \<Rightarrow> (if cmd_type c = SwitchCommand then ''Switching to '' else ''Deleting '') @ cmd_name c @ ellipsis
                    @ '' Waiting for the helper to confirm.''
      | None \<Rightarrow> js_default (ses_feedback ses)
                  (if helperUnavailable (ses_state ses) then ''The helper is disconnected. Reconnect to manage profiles.'' else []))"

text \<open>A click on a row of the view \<open>v\<close>: disabled and missing buttons give no event; \<open>confirmed\<close> is the answer to the dialog.\<close>

definition profile_command :: "CommandType \<Rightarrow> ProfileInfo \<Rightarrow> PendingCommand" where
  "profile_command t p = \<lparr>cmd_type = t, cmd_profileID = prof_id p, cmd_name = profile_label p\<rparr>"

definition select_click :: "nat \<Rightarrow> ProfileInfo \<Rightarrow> ProfilesRoot \<Rightarrow> ProfilesRoot \<times> prof_effect list" where
  "select_click v p r =
     (case active_session v r of
        None \<Rightarrow> (r, [])
      | Some ses \<Rightarrow>
          if p \<in> set (ts_profiles (ses_state ses)) \<and>
            list_ex (\<lambda>row. pr_id row = prof_id p \<and> \<not> pr_selectDisabled row) (profile_rows ses)
          then beginCommand v (profile_command SwitchCommand p) r else (r, []))"

definition delete_click :: "nat \<Rightarrow> ProfileInfo \<Rightarrow> bool \<Rightarrow> ProfilesRoot \<Rightarrow> ProfilesRoot \<times> prof_effect list" where
  "delete_click v p confirmed r =
     (case active_session v r of
        None \<Rightarrow> (r, [])
      | Some ses \<Rightarrow>
          if p \<in> set (ts_profiles (ses_state ses)) \<and>
            list_ex (\<lambda>row. pr_id row = prof_id p \<and> pr_delete row = Some False) (profile_rows ses) \<and> canRunCommand v r \<and> confirmed
          then beginCommand v (profile_command DeleteCommand p) r else (r, []))"

section \<open>Runs\<close>

datatype prof_event =
    ProfRender TailscaleState
  | ProfReplaced
  | ProfSelect nat ProfileInfo
  | ProfDelete nat ProfileInfo bool
  | ProfAdd nat
  | ProfBackClick nat
  | ProfTimeout

fun prof_step :: "prof_event \<Rightarrow> ProfilesRoot \<Rightarrow> ProfilesRoot \<times> prof_effect list" where
  "prof_step (ProfRender s) r = (renderProfiles s r, [])"
| "prof_step ProfReplaced r = (r\<lparr>pv_shown := None\<rparr>, [])"
| "prof_step (ProfSelect v p) r = select_click v p r"
| "prof_step (ProfDelete v p confirmed) r = delete_click v p confirmed r"
| "prof_step (ProfAdd v) r = add_click v r"
| "prof_step (ProfBackClick v) r = back_click v r"
| "prof_step ProfTimeout r = (command_timeout r, [])"

text \<open>The states of the switcher, with the effects so far and the states it was drawn with.\<close>

inductive prof_reach :: "ProfilesRoot \<Rightarrow> prof_effect list \<Rightarrow> TailscaleState list \<Rightarrow> bool" where
  start: "prof_reach profiles_init [] []"
| step: "prof_reach r es ss \<Longrightarrow> prof_step ev r = (r', es') \<Longrightarrow>
    prof_reach r' (es @ es') (ss @ (case ev of ProfRender s \<Rightarrow> [s] | _ \<Rightarrow> []))"

definition pending_command :: "ProfilesRoot \<Rightarrow> PendingCommand option" where
  "pending_command r = Option.bind (pv_session r) ses_pending"

section \<open>Lemmas\<close>

abbreviation current_id :: "TailscaleState \<Rightarrow> string option" where
  "current_id s \<equiv> truthy (map_option prof_id (ts_currentProfile s))"

text \<open>
  The invariant of a session: its timer is that of the pending command, its diagnostic is that of its
  state, and the confirmed profile was current in a state it was drawn with, the latest one that had any.
\<close>

definition session_inv :: "TailscaleState set \<Rightarrow> ProfileSession \<Rightarrow> bool" where
  "session_inv ss ses \<longleftrightarrow>
     ses_timer ses = ses_pending ses \<and> ses_diagnostic ses = diagnosticKey (ses_state ses) \<and> ses_state ses \<in> ss \<and>
     (\<forall>pid. current_id (ses_state ses) = Some pid \<longrightarrow> ses_confirmedProfileID ses = Some pid) \<and>
     (\<forall>pid. ses_confirmedProfileID ses = Some pid \<longrightarrow> (\<exists>s\<in>ss. current_id s = Some pid))"

definition root_inv :: "TailscaleState set \<Rightarrow> ProfilesRoot \<Rightarrow> bool" where
  "root_inv ss r \<longleftrightarrow> (case pv_session r of Some ses \<Rightarrow> session_inv ss ses | None \<Rightarrow> True)"

lemma session_inv_mono: "session_inv ss ses \<Longrightarrow> ss \<subseteq> ss' \<Longrightarrow> session_inv ss' ses"
  unfolding session_inv_def by blast

lemma session_for_inv: "root_inv ss r \<Longrightarrow> session_inv (insert s ss) (session_for s r)"
  by (auto simp: root_inv_def session_for_def new_session_def session_inv_def split: option.splits)

text \<open>What a redraw does to the fields of the session.\<close>

lemma settle_fields:
  "ses_confirmedProfileID (settle_pending s ses) = ses_confirmedProfileID ses"
  "ses_timer ses = ses_pending ses \<Longrightarrow> ses_timer (settle_pending s ses) = ses_pending (settle_pending s ses)"
  "ses_pending (settle_pending s ses) = None \<or> ses_pending (settle_pending s ses) = ses_pending ses"
  by (auto simp: settle_pending_def clearPending_def split: option.splits)

lemma note_fields:
  "ses_timer (note_identity s ses) = ses_timer ses" "ses_pending (note_identity s ses) = ses_pending ses"
  "ses_diagnostic (note_identity s ses) = ses_diagnostic ses" "ses_state (note_identity s ses) = ses_state ses"
  "ses_confirmedProfileID (note_identity s ses) = (case current_id s of Some pid \<Rightarrow> Some pid | None \<Rightarrow> ses_confirmedProfileID ses)"
  by (auto simp: note_identity_def split: option.splits)

lemma render_inv:
  assumes "root_inv ss r"
  shows "root_inv (insert s ss) (renderProfiles s r)"
proof -
  let ?old = "session_for s r"
  have inv: "session_inv (insert s ss) ?old" by (rule session_for_inv [OF assms])
  then have t: "ses_timer ?old = ses_pending ?old"
    and c: "\<And>pid. ses_confirmedProfileID ?old = Some pid \<Longrightarrow> \<exists>s'\<in>insert s ss. current_id s' = Some pid"
    by (auto simp: session_inv_def)
  show ?thesis
    using settle_fields(2) [OF t, of s] c
    by (auto simp: root_inv_def renderProfiles_def session_inv_def note_fields settle_fields(1) Let_def split: option.splits)
qed

lemma render_inv_same: "root_inv ss r \<Longrightarrow> s \<in> ss \<Longrightarrow> root_inv ss (renderProfiles s r)"
  using render_inv [of ss r s] by (simp add: insert_absorb)

lemma begin_inv: "root_inv ss r \<Longrightarrow> beginCommand v c r = (r', es) \<Longrightarrow> root_inv ss r'"
  by (auto simp: beginCommand_def split: if_splits option.splits intro!: render_inv_same)
    (auto simp: root_inv_def session_inv_def)

lemma timeout_inv: "root_inv ss r \<Longrightarrow> root_inv ss (command_timeout r)"
  by (auto simp: command_timeout_def closeSession_def split: option.splits intro!: render_inv_same)
    (auto simp: root_inv_def session_inv_def clearPending_def)

lemma step_inv:
  assumes "root_inv ss r" and "prof_step ev r = (r', es)"
  shows "root_inv (ss \<union> (case ev of ProfRender s \<Rightarrow> {s} | _ \<Rightarrow> {})) r'"
proof (cases ev)
  case (ProfRender s)
  with assms render_inv show ?thesis by auto
next
  case ProfTimeout
  with assms timeout_inv show ?thesis by auto
next
  case (ProfSelect v p)
  with assms show ?thesis
    by (auto simp: select_click_def split: option.splits if_splits dest: begin_inv [OF assms(1)])
next
  case (ProfDelete v p b)
  with assms show ?thesis
    by (auto simp: delete_click_def split: option.splits if_splits dest: begin_inv [OF assms(1)])
qed (use assms in \<open>auto simp: add_click_def back_click_def closeSession_def root_inv_def split: option.splits if_splits\<close>)

lemma reach_inv: "prof_reach r es ss \<Longrightarrow> root_inv (set ss) r"
proof (induction rule: prof_reach.induct)
  case start
  then show ?case by (simp add: root_inv_def profiles_init_def)
next
  case (step r es ss ev r' es')
  from step_inv [OF step.IH step(2)] show ?case by (cases ev) simp_all
qed

subsection \<open>Commands\<close>

text \<open>A command that is not already fulfilled stays pending through the redraw that shows it.\<close>

lemma render_keeps_pending:
  assumes "pv_session r = Some ses" and "ses_view ses = pv_shown r" and "ses_view ses \<noteq> None" and "ses_pending ses = Some c"
    and "ses_diagnostic ses = diagnosticKey s" and "\<not> helperUnavailable s" and "\<not> confirmed_by s c"
  shows "pending_command (renderProfiles s r) = Some c"
  using assms by (simp add: pending_command_def renderProfiles_def session_for_def settle_pending_def note_fields Let_def)

lemma begin_pending:
  assumes "root_inv ss r" and "beginCommand v c r = (r', es)" and "es \<noteq> []"
    and "\<And>ses. pv_session r = Some ses \<Longrightarrow> \<not> confirmed_by (ses_state ses) c"
  shows "es = [ProfSend (command_message c)] \<and> pending_command r = None \<and> pending_command r' = Some c"
proof -
  have can: "canRunCommand v r" using assms(2,3) by (auto simp: beginCommand_def split: if_splits)
  then obtain ses where ses: "pv_session r = Some ses" "ses_view ses = Some v" "pv_shown r = Some v" "ses_pending ses = None"
      "\<not> helperUnavailable (ses_state ses)"
    by (auto simp: canRunCommand_def active_session_def split: option.splits if_splits)
  let ?r = "r\<lparr>pv_session := Some (ses\<lparr>ses_pending := Some c, ses_feedback := None, ses_timer := Some c\<rparr>)\<rparr>"
  have "pending_command (renderProfiles (ses_state ses) ?r) = Some c"
    using ses assms(1) assms(4) [OF ses(1)]
    by (intro render_keeps_pending [of _ "ses\<lparr>ses_pending := Some c, ses_feedback := None, ses_timer := Some c\<rparr>"])
      (auto simp: root_inv_def session_inv_def)
  with assms(2) can ses show ?thesis by (auto simp: beginCommand_def pending_command_def)
qed

lemma begin_effects: "beginCommand v c r = (r', es) \<Longrightarrow> es = [] \<or> es = [ProfSend (command_message c)]"
  by (auto simp: beginCommand_def split: if_splits option.splits)

lemma select_not_confirmed:
  assumes "root_inv ss r" and "active_session v r = Some ses" and "prof_id p \<noteq> []"
    and "list_ex (\<lambda>row. pr_id row = prof_id p \<and> \<not> pr_selectDisabled row) (profile_rows ses)"
  shows "\<not> confirmed_by (ses_state ses) (profile_command SwitchCommand p)"
proof -
  have "ses_confirmedProfileID ses \<noteq> Some (prof_id p)"
    using assms(4) by (auto simp: profile_rows_def list_ex_iff createProfileRow_def Let_def)
  moreover have "session_inv ss ses"
    using assms(1,2) by (auto simp: root_inv_def active_session_def split: option.splits if_splits)
  ultimately show ?thesis using assms(3)
    by (auto simp: session_inv_def confirmed_by_def profile_command_def truthy_def)
qed

lemma command_sent:
  assumes inv: "root_inv ss r" and step: "prof_step ev r = (r', es')" and pid: "pid \<noteq> []"
    and sent: "ProfSend (MSwitchProfile pid) \<in> set es' \<or> ProfSend (MDeleteProfile pid) \<in> set es'"
  shows "pending_command r = None \<and> map_option cmd_profileID (pending_command r') = Some pid"
proof (cases ev)
  case (ProfSelect v p)
  then obtain ses where a: "active_session v r = Some ses"
      "list_ex (\<lambda>row. pr_id row = prof_id p \<and> \<not> pr_selectDisabled row) (profile_rows ses)"
    and b: "beginCommand v (profile_command SwitchCommand p) r = (r', es')"
    using step sent by (auto simp: select_click_def split: option.splits if_splits)
  have ne: "es' \<noteq> []" and p: "prof_id p = pid"
    using begin_effects [OF b] sent by (auto simp: command_message_def profile_command_def)
  have "pv_session r = Some ses" using a(1) by (auto simp: active_session_def split: option.splits if_splits)
  then show ?thesis
    using begin_pending [OF inv b ne] select_not_confirmed [OF inv a(1) _ a(2)] p pid by (simp add: profile_command_def)
next
  case (ProfDelete v p confirmed)
  then obtain ses where a: "active_session v r = Some ses" "p \<in> set (ts_profiles (ses_state ses))"
    and b: "beginCommand v (profile_command DeleteCommand p) r = (r', es')"
    using step sent by (auto simp: delete_click_def split: option.splits if_splits)
  have ne: "es' \<noteq> []" and p: "prof_id p = pid"
    using begin_effects [OF b] sent by (auto simp: command_message_def profile_command_def)
  have "pv_session r = Some ses" using a(1) by (auto simp: active_session_def split: option.splits if_splits)
  moreover have "\<not> confirmed_by (ses_state ses) (profile_command DeleteCommand p)"
    using a(2) by (auto simp: confirmed_by_def profile_command_def list_ex_iff)
  ultimately show ?thesis using begin_pending [OF inv b ne] p by (simp add: profile_command_def)
qed (use step sent in \<open>auto simp: add_click_def back_click_def split: option.splits if_splits\<close>)

lemma timeout_releases:
  assumes "root_inv ss r"
  shows "pending_command (command_timeout r) = None"
proof (cases "pv_session r")
  case (Some ses)
  have "session_inv ss ses" using assms Some by (simp add: root_inv_def)
  then show ?thesis
    by (auto simp: command_timeout_def Some pending_command_def closeSession_def session_inv_def renderProfiles_def session_for_def
        settle_pending_def clearPending_def note_fields Let_def split: option.splits)
qed (simp add: command_timeout_def pending_command_def)

text \<open>
  C24: the profile switcher sends one command at a time: a switch or deletion is only sent when none waits
  for the helper, and it then waits itself. Whatever waits is released by its timer, so the
  switcher cannot stay locked.
\<close>

theorem profile_commands_serial:
  assumes "prof_reach r es ss" and "prof_step ev r = (r', es')"
  shows "(\<forall>pid. pid \<noteq> [] \<longrightarrow> ProfSend (MSwitchProfile pid) \<in> set es' \<or> ProfSend (MDeleteProfile pid) \<in> set es' \<longrightarrow>
      pending_command r = None \<and> map_option cmd_profileID (pending_command r') = Some pid) \<and>
    pending_command (command_timeout r) = None"
  using command_sent [OF reach_inv [OF assms(1)] assms(2)] timeout_releases [OF reach_inv [OF assms(1)]] by blast

definition two_profiles :: TailscaleState where
  "two_profiles = DEFAULT_STATE\<lparr>ts_hostConnected := True, ts_currentProfile := Some \<lparr>prof_id = ''a'', prof_name = ''A''\<rparr>,
     ts_profiles := [\<lparr>prof_id = ''a'', prof_name = ''A''\<rparr>, \<lparr>prof_id = ''b'', prof_name = ''B''\<rparr>]\<rparr>"

theorem profile_commands_serial_witness:
  "let r = renderProfiles two_profiles profiles_init;
       r' = fst (prof_step (ProfSelect 0 \<lparr>prof_id = ''b'', prof_name = ''B''\<rparr>) r)
   in pending_command r = None \<and> map_option cmd_profileID (pending_command r') = Some ''b''"
proof -
  let ?r = "renderProfiles two_profiles profiles_init" and ?ev = "ProfSelect 0 \<lparr>prof_id = ''b'', prof_name = ''B''\<rparr>"
  have "prof_reach ?r ([] @ []) ([] @ [two_profiles])"
    using prof_reach.step [OF prof_reach.start, of "ProfRender two_profiles"] by simp
  moreover have "ProfSend (MSwitchProfile ''b'') \<in> set (snd (prof_step ?ev ?r))" by code_simp
  ultimately show ?thesis
    using profile_commands_serial [of ?r _ _ ?ev "fst (prof_step ?ev ?r)" "snd (prof_step ?ev ?r)"] by auto
qed

text \<open>A row is only marked as active for a profile that the helper has reported as current.\<close>

lemma active_row_reported:
  assumes "prof_reach r es ss" and "pv_session r = Some ses" and "row \<in> set (profile_rows ses)" and "pr_isCurrent row"
  shows "\<exists>s\<in>set ss. current_id s = Some (pr_id row)"
  using reach_inv [OF assms(1)] assms(2-4)
  by (auto simp: root_inv_def session_inv_def profile_rows_def createProfileRow_def Let_def)

end
