(* ===== verification/Popup_Install.thy ===== *)
theory Popup_Install
  imports Popup_Utils
begin

text \<open>
  The setup and repair view (\<open>packages/shared/src/popup/views/install-helpers.ts\<close>): which release asset or
  shell command is offered for which platform, and what its buttons do. The version of the manifest is the
  argument \<open>version\<close>. The lemmas show that a malformed version can neither change the words of the
  command a user pastes into a shell nor the site that is opened.
\<close>

section \<open>Release assets\<close>

datatype InstallerArchitecture = Amd64 | Arm64 | UnknownArch

record InstallerDownload =
  dl_filename :: "string option"
  dl_label :: string
  dl_url :: string

definition RELEASES_BASE :: string where
  "RELEASES_BASE = ''https://github.com/dantraynor/tailchrome/releases''"

text \<open>One number of \<open>RELEASE_VERSION_PATTERN\<close>: \<open>0|[1-9][0-9]*\<close>.\<close>

definition version_number :: "string \<Rightarrow> bool" where
  "version_number p \<longleftrightarrow> p = ''0'' \<or> (p \<noteq> [] \<and> list_all is_digit p \<and> hd p \<noteq> CHR ''0'')"

definition RELEASE_VERSION_PATTERN :: "string \<Rightarrow> bool" where
  "RELEASE_VERSION_PATTERN s \<longleftrightarrow>
     (let parts = js_split (CHR ''.'') s in length parts = 3 \<and> list_all version_number parts)"

definition currentReleaseTag :: "string option \<Rightarrow> string option" where
  "currentReleaseTag version =
     (let raw = js_default version [];
          rawVersion = (case raw of [] \<Rightarrow> [] | c # cs \<Rightarrow> if c = CHR ''v'' then cs else raw)
      in if RELEASE_VERSION_PATTERN rawVersion then Some (CHR ''v'' # rawVersion) else None)"

definition releaseAssetURL :: "string option \<Rightarrow> string \<Rightarrow> string option" where
  "releaseAssetURL version filename =
     map_option (\<lambda>tag. RELEASES_BASE @ ''/download/'' @ tag @ ''/'' @ filename) (currentReleaseTag version)"

definition releasePageURL :: "string option \<Rightarrow> string" where
  "releasePageURL version =
     (case currentReleaseTag version of Some tag \<Rightarrow> RELEASES_BASE @ ''/tag/'' @ tag | None \<Rightarrow> RELEASES_BASE)"

definition normalizeInstallerPlatform :: "string \<Rightarrow> string \<Rightarrow> Platform \<times> InstallerArchitecture" where
  "normalizeInstallerPlatform os arch =
     ((if os = ''mac'' then MacOS else if os = ''win'' then Windows else if os = ''linux'' then Linux else UnknownPlatform),
      (if arch = ''x86-64'' then Amd64 else if arch = ''arm64'' \<or> arch = ''aarch64'' then Arm64 else UnknownArch))"

text \<open>\<open>info\<close> is what \<open>getPlatformInfo\<close> gives, \<^const>\<open>None\<close> when it fails.\<close>

definition getInstallerPlatform :: "(string \<times> string) option \<Rightarrow> Platform \<times> InstallerArchitecture" where
  "getInstallerPlatform info =
     (case info of Some (os, arch) \<Rightarrow> normalizeInstallerPlatform os arch | None \<Rightarrow> (UnknownPlatform, UnknownArch))"

definition downloadFor :: "string option \<Rightarrow> string \<Rightarrow> string \<Rightarrow> InstallerDownload list" where
  "downloadFor version filename label =
     (case releaseAssetURL version filename of
        Some url \<Rightarrow> [\<lparr>dl_filename = Some filename, dl_label = label, dl_url = url\<rparr>]
      | None \<Rightarrow> [])"

definition release_page :: "string option \<Rightarrow> InstallerDownload" where
  "release_page version = \<lparr>dl_filename = None, dl_label = ''Open release information'', dl_url = releasePageURL version\<rparr>"

definition installerDownloads :: "string option \<Rightarrow> Platform \<Rightarrow> InstallerArchitecture \<Rightarrow> InstallerDownload list" where
  "installerDownloads version platform arch =
     (if platform = Linux \<and> (arch = Amd64 \<or> arch = Arm64)
      then downloadFor version ''tailchrome-install.sh'' ''Use the per-user Linux installer''
      else if platform = MacOS \<and> (arch = Amd64 \<or> arch = Arm64)
      then downloadFor version ''tailchrome-helper-macos-user.zip'' ''Download the signed helper app (.zip)''
      else if platform = Windows \<and> arch = Amd64
      then downloadFor version ''tailchrome-helper-windows-x64.msi'' ''Download the per-user installer (.msi)''
      else if platform = Windows \<and> arch = Arm64
      then downloadFor version ''tailchrome-install.ps1'' ''Copy the native ARM64 PowerShell command''
      else [release_page version])"

definition arch_name :: "InstallerArchitecture \<Rightarrow> string" where
  "arch_name a = (case a of Amd64 \<Rightarrow> ''amd64'' | Arm64 \<Rightarrow> ''arm64'' | UnknownArch \<Rightarrow> ''unknown'')"

definition binaryFilename :: "Platform \<Rightarrow> InstallerArchitecture \<Rightarrow> string option" where
  "binaryFilename platform arch =
     (if platform = Windows \<and> (arch = Amd64 \<or> arch = Arm64)
      then Some (''tailscale-browser-ext-windows-'' @ arch_name arch @ ''.exe'')
      else if platform = Linux \<and> arch \<noteq> UnknownArch then Some (''tailscale-browser-ext-linux-'' @ arch_name arch)
      else if platform = MacOS \<and> arch \<noteq> UnknownArch then Some (''tailscale-browser-ext-darwin-'' @ arch_name arch)
      else None)"

definition buildDownloadURL :: "string option \<Rightarrow> Platform \<Rightarrow> InstallerArchitecture \<Rightarrow> string" where
  "buildDownloadURL version platform arch =
     (case Option.bind (binaryFilename platform arch) (releaseAssetURL version) of
        Some url \<Rightarrow> url
      | None \<Rightarrow> releasePageURL version)"

definition supportsInstaller :: "Platform \<Rightarrow> InstallerArchitecture \<Rightarrow> bool" where
  "supportsInstaller platform arch \<longleftrightarrow>
     (platform = Linux \<or> platform = MacOS \<or> platform = Windows) \<and> (arch = Amd64 \<or> arch = Arm64)"

text \<open>The single quote.\<close>

definition quote :: string where
  "quote = [CHR 0x27]"

definition unixInstallCommand :: "string option \<Rightarrow> string option" where
  "unixInstallCommand version =
     (case (currentReleaseTag version, releaseAssetURL version ''tailchrome-install.sh'') of
        (Some tag, Some scriptURL) \<Rightarrow>
          Some (''curl -fsSL --proto '' @ quote @ ''=https'' @ quote @ '' --proto-redir '' @ quote @ ''=https'' @ quote
            @ '' --tlsv1.2 '' @ quote @ scriptURL @ quote @ '' | bash -s -- --version '' @ quote @ tag @ quote)
      | _ \<Rightarrow> None)"

definition powershellInstallCommand :: "string option \<Rightarrow> string option" where
  "powershellInstallCommand version =
     (case (currentReleaseTag version, releaseAssetURL version ''tailchrome-install.ps1'') of
        (Some tag, Some scriptURL) \<Rightarrow>
          Some (''& ([scriptblock]::Create((Invoke-RestMethod -Uri '' @ quote @ scriptURL @ quote @ ''))) -Version ''
            @ quote @ tag @ quote)
      | _ \<Rightarrow> None)"

section \<open>The view\<close>

definition platformLabel :: "Platform \<Rightarrow> string" where
  "platformLabel p = (case p of MacOS \<Rightarrow> ''macOS'' | Windows \<Rightarrow> ''Windows'' | Linux \<Rightarrow> ''Linux'' | UnknownPlatform \<Rightarrow> ''your computer'')"

datatype InstallAction =
    DownloadLink InstallerDownload "RetrySource option"
  | CodeBlock string
  | AltHeading string
  | AltText string
  | AdvancedDocs

definition ADVANCED_DOCS_URL :: string where
  "ADVANCED_DOCS_URL = ''https://github.com/dantraynor/tailchrome/blob/main/docs/helper-installation.md''"

definition createReleaseLink :: "string option \<Rightarrow> InstallAction" where
  "createReleaseLink version = DownloadLink (release_page version) None"

definition requestNativeHostRetries :: "RetrySource \<Rightarrow> popup_effect list" where
  [simp]: "requestNativeHostRetries source = [Send (MRetryNativeHost source)]"

fun click_install :: "InstallAction \<Rightarrow> popup_effect list" where
  "click_install (DownloadLink d src) =
     (case src of Some s \<Rightarrow> requestNativeHostRetries s | None \<Rightarrow> []) @ [PopupTab (dl_url d)]"
| "click_install (CodeBlock command) =
     requestNativeHostRetries Fallback @ [CopyText command, toast_info ''Command copied to clipboard'']"
| "click_install AdvancedDocs = [PopupTab ADVANCED_DOCS_URL]"
| "click_install _ = []"

definition primaryHeading :: "Platform \<Rightarrow> InstallerArchitecture \<Rightarrow> string" where
  "primaryHeading platform arch =
     (if platform = Linux \<and> (arch = Amd64 \<or> arch = Arm64) then ''Install for your user''
      else if platform = MacOS \<and> (arch = Amd64 \<or> arch = Arm64) then ''Install the signed app for your user''
      else if platform = Windows \<and> arch = Arm64 then ''Install natively for Windows ARM64''
      else if platform = Windows \<and> (arch = Amd64 \<or> arch = Arm64) then ''Install for your user''
      else ''Choose a supported release'')"

definition primaryInstructions :: "Platform \<Rightarrow> InstallerArchitecture \<Rightarrow> string" where
  "primaryInstructions platform arch =
     (if platform = Linux \<and> (arch = Amd64 \<or> arch = Arm64)
      then ''Copy this version-pinned command into a terminal and run it. No administrator access is required.''
      else if platform = MacOS \<and> (arch = Amd64 \<or> arch = Arm64)
      then ''Download the signed ZIP, open it, then open Tailchrome Helper. It installs and registers the helper for your account.''
      else if platform = Windows \<and> arch = Arm64
      then ''Copy this command into PowerShell. It downloads the release script over HTTPS and verifies the native ARM64 helper.''
      else if platform = Windows \<and> (arch = Amd64 \<or> arch = Arm64)
      then ''Download and open the MSI. It installs and registers the helper for your account without administrator access.''
      else ''Open release information to find a supported installer.'')"

definition primaryHint :: "Platform \<Rightarrow> InstallerArchitecture \<Rightarrow> string" where
  "primaryHint platform arch =
     (if (platform = Linux \<or> platform = Windows) \<and> (arch = Amd64 \<or> arch = Arm64)
      then ''Rerunning this setup repairs registration too.''
      else if platform = MacOS \<and> (arch = Amd64 \<or> arch = Arm64) then ''Reopen Tailchrome Helper to repair setup.''
      else ''Runtime platform information for '' @ platformLabel platform @ '' is unsupported.'')"

record PrimaryCard =
  pc_heading :: string
  pc_instructions :: string
  pc_action :: InstallAction
  pc_hint :: string

definition primary_action :: "string option \<Rightarrow> Platform \<Rightarrow> InstallerArchitecture \<Rightarrow> InstallAction" where
  "primary_action version platform arch =
     (let downloads = (if supportsInstaller platform arch then installerDownloads version platform arch else [])
      in case downloads of
           [] \<Rightarrow> createReleaseLink version
         | primary # _ \<Rightarrow>
             if platform = Linux \<or> (platform = Windows \<and> arch = Arm64)
             then (case (if platform = Linux then unixInstallCommand version else powershellInstallCommand version) of
                     Some command \<Rightarrow> CodeBlock command
                   | None \<Rightarrow> createReleaseLink version)
             else DownloadLink primary (Some Package))"

definition createPrimaryInstall :: "string option \<Rightarrow> Platform \<Rightarrow> InstallerArchitecture \<Rightarrow> PrimaryCard" where
  "createPrimaryInstall version platform arch =
     \<lparr>pc_heading = primaryHeading platform arch, pc_instructions = primaryInstructions platform arch,
      pc_action = primary_action version platform arch, pc_hint = primaryHint platform arch\<rparr>"

definition appendDownloadIfAvailable :: "string option \<Rightarrow> string \<Rightarrow> string \<Rightarrow> InstallAction list" where
  "appendDownloadIfAvailable version filename label =
     map (\<lambda>d. DownloadLink d (Some Package)) (downloadFor version filename label)"

definition appendCommandIfAvailable :: "string option \<Rightarrow> InstallAction list" where
  "appendCommandIfAvailable command = (case command of Some c \<Rightarrow> [CodeBlock c] | None \<Rightarrow> [])"

definition createAlternativeInstallDetails :: "string option \<Rightarrow> Platform \<Rightarrow> InstallerArchitecture \<Rightarrow> InstallAction list" where
  "createAlternativeInstallDetails version platform arch =
     (if platform = Linux then
        (if arch = Amd64 then
           AltHeading ''System packages''
           # appendDownloadIfAvailable version ''tailchrome-helper-linux-amd64.deb'' ''Download Debian/Ubuntu package (.deb)''
           @ appendDownloadIfAvailable version ''tailchrome-helper-linux-x86_64.rpm'' ''Download Fedora/RHEL package (.rpm)''
         else [])
        @ [AdvancedDocs]
      else if platform = MacOS then
        AltHeading ''Terminal option'' # appendCommandIfAvailable (unixInstallCommand version)
        @ AltHeading ''System installer''
        # appendDownloadIfAvailable version ''tailchrome-helper-macos.pkg'' ''Download macOS installer (.pkg)''
        @ [AdvancedDocs]
      else if platform = Windows \<and> arch = Amd64 then
        AltHeading ''PowerShell option'' # appendCommandIfAvailable (powershellInstallCommand version) @ [AdvancedDocs]
      else if platform = Windows \<and> arch = Arm64 then
        AltHeading ''x64 package (runs under emulation)''
        # AltText ''Use this only if the native PowerShell option is unavailable. The MSI contains the x64 helper and Windows runs it through x64 emulation.''
        # appendDownloadIfAvailable version ''tailchrome-helper-windows-x64.msi'' ''Download x64 MSI (emulation alternative)''
        @ [AdvancedDocs]
      else [])"

definition helperFailureDescription :: "HelperFailureKind option \<Rightarrow> string" where
  "helperFailureDescription kind =
     (case kind of
        Some HelperUnavailable \<Rightarrow> ''Tailchrome could not find a registered helper for this browser.''
      | Some HelperNotAllowed \<Rightarrow> ''This browser refused access to the registered helper.''
      | Some HelperIncompatible \<Rightarrow> ''The helper and extension reported an incompatible protocol.''
      | _ \<Rightarrow> ''Tailscale needs a small helper app to connect your browser to your tailnet.'')"

text \<open>The button that asks for discovery: disabled for three seconds after a click.\<close>

record RetryButton =
  rb_disabled :: bool
  rb_text :: string

definition retry_button :: RetryButton where
  "retry_button = \<lparr>rb_disabled = False, rb_text = ''Retry discovery''\<rparr>"

definition retry_click :: "RetryButton \<Rightarrow> RetryButton \<times> popup_effect list" where
  "retry_click b =
     (if rb_disabled b then (b, [])
      else (\<lparr>rb_disabled = True, rb_text = ''Retrying'' @ ellipsis\<rparr>, requestNativeHostRetries Manual))"

definition retry_timeout :: "RetryButton \<Rightarrow> RetryButton" where
  "retry_timeout b = retry_button"

text \<open>A command with its copy button, whose text changes for two seconds after a click.\<close>

record CommandBlock =
  cmd_code :: string
  cmd_button :: string
  cmd_timers :: nat

definition createCodeBlock :: "string \<Rightarrow> CommandBlock" where
  "createCodeBlock command = \<lparr>cmd_code = command, cmd_button = ''Copy command'', cmd_timers = 0\<rparr>"

definition copy_command :: "CommandBlock \<Rightarrow> CommandBlock \<times> popup_effect list" where
  "copy_command b = (b\<lparr>cmd_button := ''Copied'', cmd_timers := Suc (cmd_timers b)\<rparr>, click_install (CodeBlock (cmd_code b)))"

definition copy_command_timeout :: "CommandBlock \<Rightarrow> CommandBlock" where
  "copy_command_timeout b =
     (if cmd_timers b = 0 then b else b\<lparr>cmd_button := ''Copy command'', cmd_timers := cmd_timers b - 1\<rparr>)"

record InstallScreen =
  is_title :: string
  is_description :: string
  is_repair :: bool
  is_primary :: PrimaryCard
  is_alternatives :: "InstallAction list option"
  is_nextTitle :: string
  is_nextBody :: string
  is_retry :: RetryButton
  is_diagnostics :: bool

text \<open>
  \<open>renderInstallFlow\<close> after the platform is known; a view that replaced the placeholder in the meantime is
  left alone.
\<close>

definition renderInstallFlow :: "string option \<Rightarrow> (string \<times> string) option \<Rightarrow> TailscaleState \<Rightarrow> bool \<Rightarrow> InstallScreen option" where
  "renderInstallFlow version info s pendingShown =
     (if \<not> pendingShown then None
      else (let (platform, arch) = getInstallerPlatform info;
                repairProminent = (ts_repairRegistrationAvailable s \<or> map_option hf_kind (ts_helperFailure s) = Some HelperNotAllowed);
                supported = supportsInstaller platform arch
            in Some \<lparr>is_title = (if repairProminent then ''Set up or repair Tailchrome'' else ''Set up Tailchrome''),
                 is_description = helperFailureDescription (map_option hf_kind (ts_helperFailure s)),
                 is_repair = repairProminent,
                 is_primary = createPrimaryInstall version platform arch,
                 is_alternatives = (if supported then Some (createAlternativeInstallDetails version platform arch) else None),
                 is_nextTitle = (if supported then ''After setup'' else ''Supported releases''),
                 is_nextBody = (if supported
                   then ''The installer verifies the helper and registers it for your account. Tailchrome will retry discovery automatically.''
                   else ''Tailchrome cannot identify a supported operating system and architecture, so it will not guess an asset.''),
                 is_retry = retry_button, is_diagnostics = (ts_helperFailure s \<noteq> None)\<rparr>))"

section \<open>The words of a shell command\<close>

text \<open>
  How a POSIX shell splits a line without other quoting than single quotes: unquoted blanks end a
  word, quoted text is taken literally. \<^const>\<open>None\<close> is an unterminated quote.
\<close>

fun sh_words :: "bool \<Rightarrow> string option \<Rightarrow> string \<Rightarrow> string list option" where
  "sh_words q w [] = (if q then None else Some (case w of Some t \<Rightarrow> [t] | None \<Rightarrow> []))"
| "sh_words q w (c # cs) =
     (if c = CHR 0x27 then sh_words (\<not> q) (Some (js_default w [])) cs
      else if c = CHR '' '' \<and> \<not> q
      then map_option (\<lambda>ws. (case w of Some t \<Rightarrow> [t] | None \<Rightarrow> []) @ ws) (sh_words False None cs)
      else sh_words q (Some (js_default w [] @ [c])) cs)"

section \<open>Lemmas\<close>

definition tag_char :: "char \<Rightarrow> bool" where
  "tag_char c \<longleftrightarrow> is_digit c \<or> c = CHR ''v'' \<or> c = CHR ''.''"

lemma release_version_chars: "RELEASE_VERSION_PATTERN s \<Longrightarrow> list_all (\<lambda>c. is_digit c \<or> c = CHR ''.'') s"
proof -
  assume "RELEASE_VERSION_PATTERN s"
  then have "\<forall>p\<in>set (js_split (CHR ''.'') s). list_all is_digit p"
    by (auto simp: RELEASE_VERSION_PATTERN_def version_number_def list_all_iff is_digit_def Let_def)
  moreover have "set (js_join [c] ps) \<subseteq> insert c (\<Union> (set ` set ps))" for c ps
    by (induction "[c]" ps rule: js_join.induct) auto
  from this [of "CHR ''.''" "js_split (CHR ''.'') s"]
  have "set s \<subseteq> insert (CHR ''.'') (\<Union> (set ` set (js_split (CHR ''.'') s)))" by (simp add: js_join_split)
  ultimately show ?thesis by (fastforce simp: list_all_iff)
qed

lemma release_tag_chars:
  assumes "currentReleaseTag version = Some tag"
  shows "list_all tag_char tag"
proof -
  obtain r where "RELEASE_VERSION_PATTERN r" "tag = CHR ''v'' # r"
    using assms by (auto simp: currentReleaseTag_def Let_def split: if_splits)
  then show ?thesis using release_version_chars [of r] by (auto simp: tag_char_def list_all_iff)
qed

lemma tag_char_plain: "tag_char c \<Longrightarrow> c \<noteq> CHR 0x27 \<and> c \<noteq> CHR '' ''"
  by (auto simp: tag_char_def is_digit_def Let_def)

lemma sh_quoted:
  "CHR 0x27 \<notin> set t \<Longrightarrow>
   sh_words True (Some w) (t @ CHR 0x27 # rest) = sh_words False (Some (w @ t)) rest"
  by (induction t arbitrary: w) (auto simp: js_default_def)

lemma sh_plain:
  "list_all (\<lambda>c. c \<noteq> CHR 0x27 \<and> c \<noteq> CHR '' '') t \<Longrightarrow>
   sh_words False (Some w) (t @ rest) = sh_words False (Some (w @ t)) rest"
  by (induction t arbitrary: w) (auto simp: js_default_def)

lemma append_single: "(@) [t] = (#) t"
  by (simp add: fun_eq_iff)

text \<open>One quoted word, and one unquoted word, followed by a blank or the end.\<close>

lemma sh_quoted_word:
  "CHR 0x27 \<notin> set t \<Longrightarrow> sh_words False None (quote @ t @ quote) = Some [t]"
  "CHR 0x27 \<notin> set t \<Longrightarrow>
     sh_words False None (quote @ t @ quote @ '' '' @ rest) = map_option ((#) t) (sh_words False None rest)"
  by (simp_all add: quote_def js_default_def sh_quoted [of t "[]", simplified] append_single)

definition plain_word :: "string \<Rightarrow> bool" where
  "plain_word t \<longleftrightarrow> t \<noteq> [] \<and> list_all (\<lambda>c. c \<noteq> CHR 0x27 \<and> c \<noteq> CHR '' '') t"

lemma sh_plain_word:
  assumes "plain_word t"
  shows "sh_words False None (t @ '' '' @ rest) = map_option ((#) t) (sh_words False None rest)"
proof -
  obtain c cs where t: "t = c # cs" using assms by (cases t) (auto simp: plain_word_def)
  with assms sh_plain [of cs "[c]" "'' '' @ rest"] show ?thesis
    by (simp add: plain_word_def js_default_def append_single)
qed

lemma asset_url_unquoted:
  assumes "currentReleaseTag version = Some tag"
  shows "CHR 0x27 \<notin> set (RELEASES_BASE @ ''/download/'' @ tag @ ''/tailchrome-install.sh'')" and "CHR 0x27 \<notin> set tag"
proof -
  show tag: "CHR 0x27 \<notin> set tag"
    using release_tag_chars [OF assms] tag_char_plain by (auto simp: list_all_iff)
  have "CHR 0x27 \<notin> set RELEASES_BASE \<and> CHR 0x27 \<notin> set ''/download/'' \<and>
      CHR 0x27 \<notin> set ''/tailchrome-install.sh''" by code_simp
  with tag show "CHR 0x27 \<notin> set (RELEASES_BASE @ ''/download/'' @ tag @ ''/tailchrome-install.sh'')"
    by (simp only: set_append Un_iff) blast
qed

lemma command_words_plain:
  "plain_word ''curl''" "plain_word ''-fsSL''" "plain_word ''--proto''" "plain_word ''--proto-redir''" "plain_word ''--tlsv1.2''"
  "plain_word ''|''" "plain_word ''bash''" "plain_word ''-s''" "plain_word ''--''" "plain_word ''--version''"
  by code_simp+

lemma https_unquoted: "CHR 0x27 \<notin> set ''=https''"
  by code_simp

text \<open>
  C26: whatever the manifest's version is, the command offered for a terminal is split by the shell into
  exactly the intended words: the release script of a version made of digits and dots is piped into
  \<open>bash\<close>, which gets that version. A malformed version gives no command.
\<close>

theorem install_command_words:
  "case unixInstallCommand version of
     None \<Rightarrow> currentReleaseTag version = None
   | Some c \<Rightarrow> (case currentReleaseTag version of
       None \<Rightarrow> False
     | Some tag \<Rightarrow> list_all tag_char tag \<and>
         sh_words False None c =
           Some [''curl'', ''-fsSL'', ''--proto'', ''=https'', ''--proto-redir'', ''=https'', ''--tlsv1.2'',
             RELEASES_BASE @ ''/download/'' @ tag @ ''/tailchrome-install.sh'', ''|'', ''bash'', ''-s'', ''--'', ''--version'', tag])"
proof (cases "currentReleaseTag version")
  case None
  then show ?thesis by (simp add: unixInstallCommand_def)
next
  case (Some tag)
  let ?url = "RELEASES_BASE @ ''/download/'' @ tag @ ''/tailchrome-install.sh''"
  define url where "url = ?url"
  have u: "CHR 0x27 \<notin> set url" "CHR 0x27 \<notin> set tag"
    unfolding url_def by (fact asset_url_unquoted [OF Some])+
  define c where "c = ''curl'' @ '' '' @ ''-fsSL'' @ '' '' @ ''--proto'' @ '' '' @ quote @ ''=https'' @ quote @ '' '' @ ''--proto-redir'' @ '' '' @
      quote @ ''=https'' @ quote @ '' '' @ ''--tlsv1.2'' @ '' '' @ quote @ url @ quote @ '' '' @ ''|'' @ '' '' @ ''bash'' @ '' '' @ ''-s'' @ '' '' @
      ''--'' @ '' '' @ ''--version'' @ '' '' @ quote @ tag @ quote"
  have "unixInstallCommand version = Some c"
    by (simp add: unixInstallCommand_def releaseAssetURL_def Some c_def url_def)
  moreover have "sh_words False None c =
      Some [''curl'', ''-fsSL'', ''--proto'', ''=https'', ''--proto-redir'', ''=https'', ''--tlsv1.2'', url, ''|'', ''bash'', ''-s'', ''--'', ''--version'', tag]"
    unfolding c_def
    by (simp only: sh_plain_word sh_quoted_word command_words_plain https_unquoted u option.map not_False_eq_True)
  ultimately show ?thesis using Some release_tag_chars [OF Some] by (simp add: url_def)
qed

end
