(* ===== verification/Popup_Frame.thy ===== *)
theory Popup_Frame
  imports Popup_Connected Popup_Exit_Nodes Popup_Profiles Popup_Install
begin

text \<open>
  The popup as a whole (\<open>packages/shared/src/popup/popup.ts\<close>): which view a state asks for, when it is drawn or
  patched, the sub-views that hold updates back, the notices, and the messages from and to the background
  script. The views are those of the other popup theories. \<^term>\<open>render\<close> is the code's \<open>render\<close>, the events are
  messages, answers of the browser and what the user does. The lemmas show that the popup shows the newest
  state.
\<close>

section \<open>State\<close>

datatype ViewName = VInstall | VLogin | VConnected | VDisconnected

datatype SubView = ExitNodesSub | ProfilesSub

text \<open>The content of the root element; \<open>InstallWait n\<close> is the placeholder of the \<open>n\<close>-th drawing of the setup view.\<close>

datatype Screen =
    Skeleton
  | InstallWait nat
  | InstallShown InstallScreen
  | LoginScreen LoginView
  | ConnectedScreen ConnectedView
  | DisconnectedScreen DisconnectedView
  | ExitScreen ExitNodesScreen
  | ProfilesScreen

record RoutingNotice =
  rn_text :: string
  rn_release :: bool

record VersionNotice =
  vt_copy :: string
  vt_link :: string
  vt_url :: string

record Notices =
  nt_routing :: "RoutingNotice option"
  nt_version :: "VersionNotice option"

definition no_notices :: Notices where
  "no_notices = \<lparr>nt_routing = None, nt_version = None\<rparr>"

text \<open>The module's variables, with those of the views it embeds; \<open>pf_log\<close> lists what left the popup.\<close>

record Popup =
  pf_port :: bool
  pf_helperVersionNoticeDismissed :: bool
  pf_currentView :: "ViewName option"
  pf_lastStateVersion :: int
  pf_subViewActive :: bool
  pf_deferredState :: "TailscaleState option"
  pf_subViewUpdater :: "SubView option"
  pf_subViewVersion :: int
  pf_lastKnownState :: "TailscaleState option"
  pf_screen :: Screen
  pf_notices :: Notices
  pf_installs :: "(nat \<times> TailscaleState) list"
  pf_nextInstall :: nat
  pf_ui :: ConnectedUi
  pf_standaloneOpen :: bool
  pf_exitView :: ExitView
  pf_profiles :: ProfilesRoot
  pf_urls :: CustomUrls
  pf_toasts :: ToastArea
  pf_log :: "popup_effect list"

text \<open>The browser around the popup: the environment of the views, text comparison, distance, place and version.\<close>

record FrameEnv =
  fe_view :: ViewEnv
  fe_compare :: "string \<Rightarrow> string \<Rightarrow> rat"
  fe_distance :: "rat \<times> rat \<Rightarrow> rat \<times> rat \<Rightarrow> rat"
  fe_location :: "ApproxLocation option"
  fe_version :: "string option"

definition view_env :: "FrameEnv \<Rightarrow> Popup \<Rightarrow> ViewEnv" where
  "view_env F p = (fe_view F)\<lparr>ve_urls := pf_urls p\<rparr>"

text \<open>\<open>init\<close>: the stored addresses are read (or not) before the port is opened.\<close>

definition popup_init :: "CustomUrls option \<Rightarrow> Popup" where
  "popup_init stored =
     \<lparr>pf_port = True, pf_helperVersionNoticeDismissed = False, pf_currentView = None, pf_lastStateVersion = -1,
      pf_subViewActive = False, pf_deferredState = None, pf_subViewUpdater = None, pf_subViewVersion = -1,
      pf_lastKnownState = None, pf_screen = Skeleton, pf_notices = no_notices, pf_installs = [], pf_nextInstall = 0,
      pf_ui = \<lparr>ui_peerSearchQuery = [], ui_routesOpen = False, ui_splitOpen = False, ui_coordOpen = False, ui_advancedOpen = False,
        ui_revealed = None, ui_proxyHost = ''127.0.0.1'', ui_lastHealthKey = [], ui_listExpanded = False\<rparr>,
      pf_standaloneOpen = False, pf_exitView = \<lparr>ev_query = [], ev_expanded = [], ev_autoExpandDone = False\<rparr>,
      pf_profiles = profiles_init, pf_urls = loadCustomUrls stored, pf_toasts = toast_area_init, pf_log = []\<rparr>"

section \<open>Messages and effects\<close>

definition sendMessage :: "BackgroundMessage \<Rightarrow> Popup \<Rightarrow> Popup" where
  "sendMessage msg p =
     (if pf_port p then p\<lparr>pf_log := pf_log p @ [Send msg]\<rparr>
      else p\<lparr>pf_toasts := showToast ''Connection lost. Please reopen the popup.'' (toast_level Error) (pf_toasts p)\<rparr>)"

definition do_effect :: "popup_effect \<Rightarrow> Popup \<Rightarrow> Popup" where
  "do_effect e p =
     (case e of
        Send m \<Rightarrow> sendMessage m p
      | ShowToast t opts \<Rightarrow> p\<lparr>pf_toasts := showToast t opts (pf_toasts p)\<rparr>
      | _ \<Rightarrow> p\<lparr>pf_log := pf_log p @ [e]\<rparr>)"

definition do_effects :: "popup_effect list \<Rightarrow> Popup \<Rightarrow> Popup" where
  "do_effects es p = fold do_effect es p"

section \<open>Notices\<close>

definition viewForState :: "TailscaleState \<Rightarrow> ViewName" where
  "viewForState s =
     (let kind = map_option hf_kind (ts_helperFailure s)
      in if kind = Some HelperUnavailable \<or> kind = Some HelperNotAllowed \<or> kind = Some HelperIncompatible then VInstall
         else if ts_backendState s = NeedsLogin then VLogin
         else if ts_backendState s = Running then VConnected
         else VDisconnected)"

definition syncRoutingNotice :: "TailscaleState \<Rightarrow> RoutingNotice option" where
  "syncRoutingNotice s =
     (case ts_routingHealth s of
        None \<Rightarrow> None
      | Some h \<Rightarrow>
          if rh_status h = RActive \<or> rh_status h = RInactive then None
          else Some \<lparr>rn_text = rh_message h, rn_release = (map_option rp_mode (ts_routingPolicy s) \<noteq> Some PDirect)\<rparr>)"

definition version_notice :: "bool \<Rightarrow> TailscaleState \<Rightarrow> VersionNotice option" where
  "version_notice dismissed s =
     (case ts_helperVersionNotice s of
        None \<Rightarrow> None
      | Some n \<Rightarrow>
          if dismissed then None
          else Some \<lparr>vt_copy = (case vn_relation n of
               Different \<Rightarrow> ''Helper '' @ vn_installed n @ '' differs from companion release '' @ vn_release n @ ''. ''
             | Older \<Rightarrow> ''Helper '' @ vn_installed n @ '' is older than companion release '' @ vn_release n @ ''. ''
             | Newer \<Rightarrow> ''Helper '' @ vn_installed n @ '' is newer than companion release '' @ vn_release n @ ''. '')
               @ ''Available features remain usable.'',
             vt_link = (if vn_relation n = Older then ''View release installer'' else ''View release information''),
             vt_url = ''https://github.com/dantraynor/tailchrome/releases/tag/v'' @ vn_release n\<rparr>)"

text \<open>Both notices go into the element of class \<open>view\<close>, which the skeleton and the placeholder do not have.\<close>

fun has_view :: "Screen \<Rightarrow> bool" where
  "has_view Skeleton = False"
| "has_view (InstallWait _) = False"
| "has_view _ = True"

definition syncHelperVersionNotice :: "TailscaleState \<Rightarrow> Popup \<Rightarrow> Popup" where
  "syncHelperVersionNotice s p =
     p\<lparr>pf_notices := (if has_view (pf_screen p)
        then \<lparr>nt_routing = syncRoutingNotice s, nt_version = version_notice (pf_helperVersionNoticeDismissed p) s\<rparr>
        else no_notices)\<rparr>"

section \<open>Drawing\<close>

text \<open>
  Replacing the content of the root element removes the notices and a profile view with it. A view patched in place
  keeps its element; its notices are drawn anew all the same.
\<close>

definition replace_root :: "Screen \<Rightarrow> Popup \<Rightarrow> Popup" where
  "replace_root scr p = p\<lparr>pf_screen := scr, pf_notices := no_notices, pf_profiles := (pf_profiles p)\<lparr>pv_shown := None\<rparr>\<rparr>"

definition show_connected :: "ConnectedUi \<times> ConnectedView \<Rightarrow> Popup \<Rightarrow> Popup" where
  "show_connected uv p = (replace_root (ConnectedScreen (snd uv)) p)\<lparr>pf_ui := fst uv\<rparr>"

definition render_full :: "FrameEnv \<Rightarrow> TailscaleState \<Rightarrow> Popup \<Rightarrow> Popup" where
  "render_full F s p =
     (case viewForState s of
        VInstall \<Rightarrow>
          (replace_root (InstallWait (pf_nextInstall p)) p)
            \<lparr>pf_installs := pf_installs p @ [(pf_nextInstall p, s)], pf_nextInstall := pf_nextInstall p + 1\<rparr>
      | VLogin \<Rightarrow> syncHelperVersionNotice s (replace_root (LoginScreen (renderNeedsLogin (pf_standaloneOpen p) s)) p)
      | VConnected \<Rightarrow> syncHelperVersionNotice s (show_connected (renderConnected (view_env F p) s (pf_ui p)) p)
      | VDisconnected \<Rightarrow>
          syncHelperVersionNotice s (replace_root (DisconnectedScreen (renderDisconnected (pf_standaloneOpen p) (Some s))) p))"

text \<open>The same view again: patched in place where the view has inputs, drawn anew otherwise.\<close>

definition render_same :: "FrameEnv \<Rightarrow> InputFocus \<Rightarrow> TailscaleState \<Rightarrow> Popup \<Rightarrow> Popup" where
  "render_same F focus s p =
     (case (viewForState s, pf_screen p) of
        (VConnected, ConnectedScreen v) \<Rightarrow>
          syncHelperVersionNotice s (show_connected (updateConnected (view_env F p) focus s (pf_ui p) v) p)
      | (VLogin, LoginScreen v) \<Rightarrow>
          syncHelperVersionNotice s
            (replace_root (LoginScreen (updateNeedsLogin (pf_standaloneOpen p) (focus = CoordFocus) s v)) p)
      | (VDisconnected, DisconnectedScreen v) \<Rightarrow>
          syncHelperVersionNotice s
            (replace_root (DisconnectedScreen (updateDisconnected (pf_standaloneOpen p) (focus = CoordFocus) s v)) p)
      | _ \<Rightarrow> render_full F s p)"

text \<open>The renderer of a sub-view; the picker resets its search when it was not shown before.\<close>

definition render_sub :: "FrameEnv \<Rightarrow> SubView \<Rightarrow> TailscaleState \<Rightarrow> Popup \<Rightarrow> Popup" where
  "render_sub F sub s p =
     (case sub of
        ExitNodesSub \<Rightarrow>
          (let initialOpen = (case pf_screen p of ExitScreen _ \<Rightarrow> False | _ \<Rightarrow> True);
               scr = renderExitNodes (fe_compare F) (fe_distance F) (fe_location F) s initialOpen (pf_exitView p)
           in (replace_root (ExitScreen scr) p)\<lparr>pf_exitView := es_view scr\<rparr>)
      | ProfilesSub \<Rightarrow>
          p\<lparr>pf_profiles := renderProfiles s (pf_profiles p), pf_screen := ProfilesScreen, pf_notices := no_notices\<rparr>)"

definition render :: "FrameEnv \<Rightarrow> InputFocus \<Rightarrow> TailscaleState \<Rightarrow> Popup \<Rightarrow> Popup" where
  "render F focus s p0 =
     (let p = p0\<lparr>pf_lastKnownState := Some s\<rparr>; version = int (ts_stateVersion s); view = viewForState s
      in if pf_subViewActive p
         then (let p1 = p\<lparr>pf_deferredState := Some s\<rparr>
               in case pf_subViewUpdater p1 of
                    Some sub \<Rightarrow> if version \<noteq> pf_subViewVersion p1 then render_sub F sub s (p1\<lparr>pf_subViewVersion := version\<rparr>) else p1
                  | None \<Rightarrow> p1)
         else if pf_currentView p = Some view \<and> version = pf_lastStateVersion p then p
         else (let p1 = p\<lparr>pf_currentView := Some view, pf_lastStateVersion := version\<rparr>
               in if pf_currentView p = Some view then render_same F focus s p1 else render_full F s p1))"

definition enterSubView :: "SubView option \<Rightarrow> Popup \<Rightarrow> Popup" where
  "enterSubView updater p =
     p\<lparr>pf_subViewActive := True, pf_deferredState := None, pf_subViewUpdater := updater, pf_subViewVersion := -1\<rparr>"

definition leaveSubView :: "FrameEnv \<Rightarrow> Popup \<Rightarrow> Popup" where
  "leaveSubView F p =
     (let st = or_else (pf_deferredState p) (pf_lastKnownState p);
          p1 = p\<lparr>pf_subViewActive := False, pf_subViewUpdater := None, pf_subViewVersion := -1, pf_deferredState := None\<rparr>
      in case st of
           Some s \<Rightarrow> render F NoFocus s (p1\<lparr>pf_currentView := None, pf_lastStateVersion := -1\<rparr>)
         | None \<Rightarrow> p1)"

definition openSubView :: "FrameEnv \<Rightarrow> SubView \<Rightarrow> Popup \<Rightarrow> Popup" where
  "openSubView F sub p =
     (case pf_lastKnownState p of
        None \<Rightarrow> p
      | Some s \<Rightarrow> render_sub F sub s (enterSubView (Some sub) p))"

text \<open>The platform is known: the setup view replaces its placeholder, and its notices follow while it is current.\<close>

definition install_ready :: "FrameEnv \<Rightarrow> nat \<Rightarrow> (string \<times> string) option \<Rightarrow> Popup \<Rightarrow> Popup" where
  "install_ready F n info p =
     (case map_of (pf_installs p) n of
        None \<Rightarrow> p
      | Some s \<Rightarrow>
          (let p1 = p\<lparr>pf_installs := filter (\<lambda>i. fst i \<noteq> n) (pf_installs p)\<rparr>;
               p2 = (case renderInstallFlow (fe_version F) info s (pf_screen p = InstallWait n) of
                       Some scr \<Rightarrow> replace_root (InstallShown scr) p1
                     | None \<Rightarrow> p1)
           in if pf_currentView p2 = Some VInstall \<and> map_option ts_stateVersion (pf_lastKnownState p2) = Some (ts_stateVersion s)
              then syncHelperVersionNotice s p2 else p2))"

section \<open>Events\<close>

text \<open>
  Messages and the end of the port, the answer about the platform, and what the user does on the screen that is shown.
  \<open>InputFocus\<close> says which input has the focus when a state arrives.
\<close>

datatype popup_event =
    PopMessage PopupMessage InputFocus
  | PopDisconnected
  | PopInstallReady nat "(string \<times> string) option"
  | PopOpen SubView
  | PopConnected ConnectedAction
  | PopRow string row_op
  | PopLogin
  | PopHeader bool
  | PopRetry
  | PopReinstall
  | PopCoord coord_op
  | PopExitBack
  | PopExitSelect ExitRow
  | PopExitSearch string
  | PopExitCountry string
  | PopExitLan bool
  | PopProfile prof_event
  | PopRelease
  | PopDismiss
  | PopReleaseLink

definition on_message :: "FrameEnv \<Rightarrow> PopupMessage \<Rightarrow> InputFocus \<Rightarrow> Popup \<Rightarrow> Popup" where
  "on_message F msg focus p =
     (case msg of
        StateMsg s \<Rightarrow> render F focus s p
      | Toast message level persistent dismissMs \<Rightarrow>
          p\<lparr>pf_toasts := showToast message
             \<lparr>to_level = Some level, to_persistent = Some persistent, to_dismissMs = dismissMs, to_multiline = None\<rparr> (pf_toasts p)\<rparr>
      | ExternalProxyDetails d \<Rightarrow>
          (case pf_screen p of
             ConnectedScreen v \<Rightarrow>
               (case setExternalProxyDetails (view_env F p) d (pf_ui p) v of
                  (u', v') \<Rightarrow> p\<lparr>pf_ui := u', pf_screen := ConnectedScreen v'\<rparr>)
           | _ \<Rightarrow> p\<lparr>pf_ui := (pf_ui p)\<lparr>ui_revealed := Some d\<rparr>\<rparr>))"

text \<open>The rows for the exit node and the profile open their sub-view; the second one exists while there are profiles.\<close>

definition click_open :: "FrameEnv \<Rightarrow> SubView \<Rightarrow> Popup \<Rightarrow> Popup" where
  "click_open F sub p =
     (case pf_screen p of
        ConnectedScreen v \<Rightarrow> if sub = ProfilesSub \<and> cn_profile v = None then p else openSubView F sub p
      | _ \<Rightarrow> p)"

definition on_connected :: "FrameEnv \<Rightarrow> ConnectedAction \<Rightarrow> Popup \<Rightarrow> Popup" where
  "on_connected F a p =
     (case pf_screen p of
        ConnectedScreen v \<Rightarrow>
          (case connected_action (view_env F p) (pf_lastKnownState p) a (pf_ui p) v of
             (u', v', es) \<Rightarrow> do_effects es (p\<lparr>pf_ui := u', pf_screen := ConnectedScreen v'\<rparr>))
      | _ \<Rightarrow> p)"

definition on_row :: "string \<Rightarrow> row_op \<Rightarrow> Popup \<Rightarrow> Popup" where
  "on_row peerId op p =
     (case pf_screen p of
        ConnectedScreen v \<Rightarrow>
          (case List.find (\<lambda>r. row_peerId r = peerId) (body_rows (cn_peers v)) of
             None \<Rightarrow> p
           | Some r \<Rightarrow>
               (case row_step op (pf_urls p) r of
                  (urls, r', es) \<Rightarrow>
                    do_effects es (p\<lparr>pf_urls := urls,
                      pf_screen := ConnectedScreen
                        (v\<lparr>cn_peers := on_rows (\<lambda>q. if row_peerId q = peerId then r' else q) (cn_peers v)\<rparr>)\<rparr>)))
      | _ \<Rightarrow> p)"

text \<open>The header, the recovery buttons and the coordination-server editor of the standalone views.\<close>

definition on_header :: "bool \<Rightarrow> Popup \<Rightarrow> Popup" where
  "on_header checked p =
     (case pf_screen p of
        LoginScreen v \<Rightarrow>
          (case header_change checked (lv_header v) of (t, es) \<Rightarrow> do_effects es (p\<lparr>pf_screen := LoginScreen (v\<lparr>lv_header := t\<rparr>)\<rparr>))
      | DisconnectedScreen v \<Rightarrow>
          (case header_change checked (dv_header v) of (t, es) \<Rightarrow> do_effects es (p\<lparr>pf_screen := DisconnectedScreen (v\<lparr>dv_header := t\<rparr>)\<rparr>))
      | _ \<Rightarrow> p)"

definition on_retry :: "Popup \<Rightarrow> Popup" where
  "on_retry p =
     (case pf_screen p of
        DisconnectedScreen v \<Rightarrow>
          (case dv_recovery v of
             None \<Rightarrow> p
           | Some (hints, b, rest) \<Rightarrow>
               (case retry_connection b of
                  (b', es) \<Rightarrow> do_effects es (p\<lparr>pf_screen := DisconnectedScreen (v\<lparr>dv_recovery := Some (hints, b', rest)\<rparr>)\<rparr>)))
      | InstallShown v \<Rightarrow>
          (case retry_click (is_retry v) of (b', es) \<Rightarrow> do_effects es (p\<lparr>pf_screen := InstallShown (v\<lparr>is_retry := b'\<rparr>)\<rparr>))
      | _ \<Rightarrow> p)"

definition on_reinstall :: "FrameEnv \<Rightarrow> Popup \<Rightarrow> Popup" where
  "on_reinstall F p =
     (case pf_screen p of
        DisconnectedScreen v \<Rightarrow>
          (case dv_recovery v of
             Some (_, _, True, _) \<Rightarrow> do_effects (reinstall_click (js_default (fe_version F) [])) p
           | _ \<Rightarrow> p)
      | _ \<Rightarrow> p)"

definition coord_edit :: "FrameEnv \<Rightarrow> coord_op \<Rightarrow> CoordRow \<Rightarrow> Popup \<Rightarrow> CoordRow \<times> Popup" where
  "coord_edit F op r p =
     (case coord_step (ve_parse_url (fe_view F)) op r of
        (r', es) \<Rightarrow> (r', do_effects es (case op of CoToggle b \<Rightarrow> p\<lparr>pf_standaloneOpen := b\<rparr> | _ \<Rightarrow> p)))"

definition on_coord :: "FrameEnv \<Rightarrow> coord_op \<Rightarrow> Popup \<Rightarrow> Popup" where
  "on_coord F op p =
     (case pf_screen p of
        LoginScreen v \<Rightarrow> (case coord_edit F op (lv_coord v) p of (r, p1) \<Rightarrow> p1\<lparr>pf_screen := LoginScreen (v\<lparr>lv_coord := r\<rparr>)\<rparr>)
      | DisconnectedScreen v \<Rightarrow>
          (case dv_coord v of
             None \<Rightarrow> p
           | Some c \<Rightarrow> (case coord_edit F op c p of (r, p1) \<Rightarrow> p1\<lparr>pf_screen := DisconnectedScreen (v\<lparr>dv_coord := Some r\<rparr>)\<rparr>))
      | _ \<Rightarrow> p)"

text \<open>The exit-node picker. Its handlers close over the state it was drawn with, the latest one.\<close>

fun map_rows :: "(ExitRow \<Rightarrow> ExitRow) \<Rightarrow> ExitItem \<Rightarrow> ExitItem" where
  "map_rows f (RecommendedItem r) = RecommendedItem (f r)"
| "map_rows f (NoneItem r) = NoneItem (f r)"
| "map_rows f (FlatSection t rs) = FlatSection t (map f rs)"
| "map_rows f (MullvadSection cs) = MullvadSection (map (\<lambda>c. c\<lparr>cv_rows := map f (cv_rows c)\<rparr>) cs)"
| "map_rows f NoMatchingNodes = NoMatchingNodes"
| "map_rows f NoNodesAvailable = NoNodesAvailable"

definition show_exit :: "ExitNodesScreen \<Rightarrow> Popup \<Rightarrow> Popup" where
  "show_exit scr p = p\<lparr>pf_screen := ExitScreen scr, pf_exitView := es_view scr\<rparr>"

definition on_exit_select :: "ExitRow \<Rightarrow> Popup \<Rightarrow> Popup" where
  "on_exit_select r p =
     (case pf_screen p of
        ExitScreen scr \<Rightarrow>
          if r \<in> set (concat (map item_rows (es_items scr)))
          then (case handleSelect r of
                  (r', es) \<Rightarrow> do_effects es (show_exit (scr\<lparr>es_items := map (map_rows (\<lambda>q. if q = r then r' else q)) (es_items scr)\<rparr>) p))
          else p
      | _ \<Rightarrow> p)"

definition on_exit_search :: "FrameEnv \<Rightarrow> string \<Rightarrow> Popup \<Rightarrow> Popup" where
  "on_exit_search F text p =
     (case (pf_screen p, pf_lastKnownState p) of
        (ExitScreen scr, Some s) \<Rightarrow>
          if es_searchShown scr then show_exit (search_input (fe_compare F) (fe_distance F) (fe_location F) s text scr) p else p
      | _ \<Rightarrow> p)"

definition on_exit_country :: "string \<Rightarrow> Popup \<Rightarrow> Popup" where
  "on_exit_country code p =
     (case pf_screen p of
        ExitScreen scr \<Rightarrow>
          show_exit (scr\<lparr>es_view := toggle_country code (es_view scr),
            es_items := map (\<lambda>i. case i of
                MullvadSection cs \<Rightarrow> MullvadSection (map (\<lambda>c. if cv_code c = code then c\<lparr>cv_expanded := \<not> cv_expanded c\<rparr> else c) cs)
              | _ \<Rightarrow> i) (es_items scr)\<rparr>) p
      | _ \<Rightarrow> p)"

definition on_exit_lan :: "bool \<Rightarrow> Popup \<Rightarrow> Popup" where
  "on_exit_lan checked p =
     (case pf_screen p of
        ExitScreen scr \<Rightarrow> (case change_allow_lan checked scr of (scr', es) \<Rightarrow> do_effects es (show_exit scr' p))
      | _ \<Rightarrow> p)"

text \<open>The profile switcher: going back leaves the sub-view.\<close>

definition prof_do :: "FrameEnv \<Rightarrow> prof_effect \<Rightarrow> Popup \<Rightarrow> Popup" where
  "prof_do F e p = (case e of ProfSend m \<Rightarrow> sendMessage m p | ProfBack \<Rightarrow> leaveSubView F p)"

definition on_profile :: "FrameEnv \<Rightarrow> prof_event \<Rightarrow> Popup \<Rightarrow> Popup" where
  "on_profile F ev p =
     (case ev of
        ProfRender _ \<Rightarrow> p
      | ProfReplaced \<Rightarrow> p
      | ProfTimeout \<Rightarrow> p\<lparr>pf_profiles := command_timeout (pf_profiles p)\<rparr>
      | _ \<Rightarrow>
          if pf_screen p = ProfilesScreen
          then (case prof_step ev (pf_profiles p) of (r, es) \<Rightarrow> fold (prof_do F) es (p\<lparr>pf_profiles := r\<rparr>))
          else p)"

text \<open>The notices: releasing routing, dismissing the version notice and following its link.\<close>

definition on_release :: "Popup \<Rightarrow> Popup" where
  "on_release p =
     (case nt_routing (pf_notices p) of
        Some n \<Rightarrow> if rn_release n then sendMessage MReleaseRouting p else p
      | None \<Rightarrow> p)"

definition on_dismiss :: "Popup \<Rightarrow> Popup" where
  "on_dismiss p =
     (if nt_version (pf_notices p) = None then p
      else p\<lparr>pf_helperVersionNoticeDismissed := True, pf_notices := (pf_notices p)\<lparr>nt_version := None\<rparr>\<rparr>)"

definition on_release_link :: "Popup \<Rightarrow> Popup" where
  "on_release_link p =
     (case nt_version (pf_notices p) of Some n \<Rightarrow> do_effect (PopupTab (vt_url n)) p | None \<Rightarrow> p)"

definition popup_step :: "FrameEnv \<Rightarrow> popup_event \<Rightarrow> Popup \<Rightarrow> Popup" where
  "popup_step F ev p =
     (case ev of
        PopMessage msg focus \<Rightarrow> if pf_port p then on_message F msg focus p else p
      | PopDisconnected \<Rightarrow> p\<lparr>pf_port := False\<rparr>
      | PopInstallReady n info \<Rightarrow> install_ready F n info p
      | PopOpen sub \<Rightarrow> click_open F sub p
      | PopConnected a \<Rightarrow> on_connected F a p
      | PopRow peerId op \<Rightarrow> on_row peerId op p
      | PopLogin \<Rightarrow> (case pf_screen p of LoginScreen v \<Rightarrow> do_effects (login_click v) p | _ \<Rightarrow> p)
      | PopHeader checked \<Rightarrow> on_header checked p
      | PopRetry \<Rightarrow> on_retry p
      | PopReinstall \<Rightarrow> on_reinstall F p
      | PopCoord op \<Rightarrow> if is_update op then p else on_coord F op p
      | PopExitBack \<Rightarrow> (case pf_screen p of ExitScreen _ \<Rightarrow> leaveSubView F p | _ \<Rightarrow> p)
      | PopExitSelect r \<Rightarrow> on_exit_select r p
      | PopExitSearch text \<Rightarrow> on_exit_search F text p
      | PopExitCountry code \<Rightarrow> on_exit_country code p
      | PopExitLan checked \<Rightarrow> on_exit_lan checked p
      | PopProfile e \<Rightarrow> on_profile F e p
      | PopRelease \<Rightarrow> on_release p
      | PopDismiss \<Rightarrow> on_dismiss p
      | PopReleaseLink \<Rightarrow> on_release_link p)"

end
