(* ===== verification/Popup_Fresh.thy ===== *)
theory Popup_Fresh
  imports Popup_Frame
begin

text \<open>
  What the popup shows. \<open>connected_shows\<close> compares a patched view with a new one, \<open>screen_shows\<close> the whole popup with
  what the latest state asks for; \<open>popup_reach\<close> closes the initial popup under all events. The invariant
  carries what patching relies on: that the remembered health key belongs to the banner shown and that every
  row of the device list shows some device.
\<close>

section \<open>States a popup can tell apart\<close>

text \<open>No warning is empty or contains the separator of the health key, and no device that of the display key.\<close>

definition plain_health :: "string list \<Rightarrow> bool" where
  "plain_health ws \<longleftrightarrow> list_all (\<lambda>w. w \<noteq> [] \<and> char_of (0 :: nat) \<notin> set w) ws"

definition plain_state :: "PopupEnv \<Rightarrow> TailscaleState \<Rightarrow> bool" where
  "plain_state E s \<longleftrightarrow> list_all (plain_peer E) (ts_peers s) \<and> plain_health (ts_health s)"

lemma plain_state_env: "pe_num E = pe_num E' \<Longrightarrow> plain_state E s = plain_state E' s"
  by (simp add: plain_state_def list_all_iff plain_env [of E E'])

lemma plain_devices: "plain_state E s \<Longrightarrow> list_all (plain_peer E) (peersForDeviceList (ts_peers s))"
  by (auto simp: plain_state_def peersForDeviceList_def list_all_iff)

lemma health_key_inj:
  assumes "plain_health xs" and "plain_health ys" and "js_join [char_of (0 :: nat)] xs = js_join [char_of (0 :: nat)] ys"
  shows "xs = ys"
proof -
  have empty: "js_join [char_of (0 :: nat)] ws = [] \<longleftrightarrow> ws = []" if "plain_health ws" for ws
    using that by (cases "([char_of (0 :: nat)], ws)" rule: js_join.cases) (auto simp: plain_health_def)
  have split: "js_split (char_of (0 :: nat)) (js_join [char_of (0 :: nat)] ws) = ws" if "plain_health ws" "ws \<noteq> []" for ws
    using that by (intro js_split_join) (auto simp: plain_health_def list_all_iff)
  show ?thesis using assms empty split by metis
qed

section \<open>The connected view\<close>

definition connected_shows :: "ViewEnv \<Rightarrow> InputFocus \<Rightarrow> TailscaleState \<Rightarrow> ConnectedUi \<Rightarrow> ConnectedView \<Rightarrow> bool" where
  "connected_shows V focus s u v \<longleftrightarrow>
     (let new = snd (renderConnected V s u)
      in cn_tailnet v = cn_tailnet new \<and> cn_routing v = cn_routing new \<and> cn_keyExpiry v = cn_keyExpiry new \<and>
         map_option hb_items (cn_health v) = map_option hb_items (cn_health new) \<and> cn_exitText v = cn_exitText new \<and>
         cn_shieldsUp v = cn_shieldsUp new \<and> cn_corpDNS v = cn_corpDNS new \<and> cn_autoConnect v = cn_autoConnect new \<and>
         cn_advertiseExit v = cn_advertiseExit new \<and> cn_proxyRow v = cn_proxyRow new \<and> cn_profile v = cn_profile new \<and>
         cn_searchBox v = cn_searchBox new \<and> cn_adminLink v = cn_adminLink new \<and>
         sp_summary (cn_split v) = sp_summary (cn_split new) \<and> sp_mode (cn_split v) = sp_mode (cn_split new) \<and>
         (focus \<noteq> SplitFocus \<and> \<not> sp_dirty (cn_split v) \<longrightarrow> sp_text (cn_split v) = sp_text (cn_split new)) \<and>
         (focus \<noteq> RoutesFocus \<longrightarrow> cn_routesText v = cn_routesText new) \<and>
         cr_disabled (cn_coord v) = cr_disabled (cn_coord new) \<and> cr_note (cn_coord v) = cr_note (cn_coord new) \<and>
         (focus \<noteq> CoordFocus \<and> \<not> cr_dirty (cn_coord v) \<longrightarrow> cr_value (cn_coord v) = cr_value (cn_coord new)) \<and>
         list_all2 (\<lambda>p r. row_shows (ve_peers V) (ve_urls V) p r \<and> row_hostPingCap r = ts_supportsPingPeer s \<and> row_showPeerSsh r = ui_advancedOpen u)
           (visible_peers (peersForDeviceList (ts_peers s)) (ui_peerSearchQuery u) (ui_listExpanded u)) (body_rows (cn_peers v)))"

definition health_inv :: "ConnectedUi \<Rightarrow> ConnectedView \<Rightarrow> bool" where
  "health_inv u v \<longleftrightarrow>
     (\<exists>ws. plain_health ws \<and> ui_lastHealthKey u = js_join [char_of (0 :: nat)] ws \<and>
        map_option hb_items (cn_health v) = (if ws = [] then None else Some ws))"

definition rows_inv :: "PopupEnv \<Rightarrow> CustomUrls \<Rightarrow> ConnectedView \<Rightarrow> bool" where
  "rows_inv E cache v \<longleftrightarrow> (\<forall>r\<in>set (body_rows (cn_peers v)). row_inv E cache r)"

lemma banner_items: "map_option hb_items (renderHealthWarnings ws) = (if ws = [] then None else Some ws)"
  by (simp add: renderHealthWarnings_def)

lemma render_health_inv: "plain_state E s \<Longrightarrow> health_inv (fst (renderConnected V s u)) (snd (renderConnected V s u))"
  unfolding health_inv_def plain_state_def
  by (rule exI [of _ "ts_health s"]) (simp add: renderConnected_def health_key_def banner_items case_prod_beta Let_def)

lemma peers_body_inv:
  assumes "\<forall>r\<in>set (body_rows body). row_inv (ve_peers V) (ve_urls V) r" and "plain_state (ve_peers V) s"
  shows "\<forall>r\<in>set (body_rows (peers_body V u s body)). row_inv (ve_peers V) (ve_urls V) r"
  unfolding peers_body_def by (rule redraw_rows_inv [OF assms(1) plain_devices [OF assms(2)]])

lemma peers_body_shows:
  assumes "\<forall>r\<in>set (body_rows body). row_inv (ve_peers V) (ve_urls V) r" and "plain_state (ve_peers V) s"
  shows "list_all2 (\<lambda>p r. row_shows (ve_peers V) (ve_urls V) p r \<and> row_hostPingCap r = ts_supportsPingPeer s \<and> row_showPeerSsh r = ui_advancedOpen u)
    (visible_peers (peersForDeviceList (ts_peers s)) (ui_peerSearchQuery u) (ui_listExpanded u)) (body_rows (peers_body V u s body))"
  unfolding peers_body_def by (rule redraw_shows [OF assms(1) plain_devices [OF assms(2)]])

lemma peers_body_ui:
  "peers_body V (u\<lparr>ui_lastHealthKey := k\<rparr>) s body = peers_body V u s body" "peers_body V (u\<lparr>ui_proxyHost := h\<rparr>) s body = peers_body V u s body"
  "peers_body V (u\<lparr>ui_revealed := d\<rparr>) s body = peers_body V u s body"
  by (simp_all add: peers_body_def)

lemma render_peers: "cn_peers (snd (renderConnected V s u)) = peers_body V u s (PeerSections [] None)"
  by (simp add: renderConnected_def case_prod_beta Let_def)

lemma render_rows_inv: "plain_state (ve_peers V) s \<Longrightarrow> rows_inv (ve_peers V) (ve_urls V) (snd (renderConnected V s u))"
  unfolding rows_inv_def render_peers by (rule peers_body_inv) simp_all

lemma render_ui:
  "ui_peerSearchQuery (fst (renderConnected V s u)) = ui_peerSearchQuery u" "ui_advancedOpen (fst (renderConnected V s u)) = ui_advancedOpen u"
  "ui_listExpanded (fst (renderConnected V s u)) = ui_listExpanded u" "ui_coordOpen (fst (renderConnected V s u)) = ui_coordOpen u"
  by (simp_all add: renderConnected_def case_prod_beta Let_def)

text \<open>A new view shows its state.\<close>

lemma render_shows:
  assumes "plain_state (ve_peers V) s"
  shows "connected_shows V focus s (fst (renderConnected V s u)) (snd (renderConnected V s u))"
proof -
  have rows: "list_all2 (\<lambda>p r. row_shows (ve_peers V) (ve_urls V) p r \<and> row_hostPingCap r = ts_supportsPingPeer s \<and> row_showPeerSsh r = ui_advancedOpen u)
      (visible_peers (peersForDeviceList (ts_peers s)) (ui_peerSearchQuery u) (ui_listExpanded u))
      (body_rows (cn_peers (snd (renderConnected V s u))))"
    unfolding render_peers by (rule peers_body_shows) (simp_all add: assms)
  have ui: "search_shown (fst (renderConnected V s u)) s = search_shown u s" by (simp add: search_shown_def render_ui)
  show ?thesis
    unfolding connected_shows_def Let_def render_ui
    using rows ui by (simp add: renderConnected_def case_prod_beta Let_def)
qed

text \<open>The health banner is drawn anew unless the warnings are those it shows.\<close>

lemma patch_health:
  assumes "health_inv u v" and "plain_health (ts_health s)"
  shows "map_option hb_items (if health_key s \<noteq> ui_lastHealthKey u then renderHealthWarnings (ts_health s) else cn_health v) =
    (if ts_health s = [] then None else Some (ts_health s))"
proof (cases "health_key s = ui_lastHealthKey u")
  case True
  obtain ws where "plain_health ws" "ui_lastHealthKey u = js_join [char_of (0 :: nat)] ws"
    and shown: "map_option hb_items (cn_health v) = (if ws = [] then None else Some ws)"
    using assms(1) by (auto simp: health_inv_def)
  then have "ws = ts_health s" using True assms(2) health_key_inj by (simp add: health_key_def)
  then show ?thesis using True shown by simp
qed (simp add: banner_items)

lemma patch_split:
  "sp_summary (split_update b s e) = sp_summary (renderSplitTunnelingSection s)" "sp_mode (split_update b s e) = sp_mode (renderSplitTunnelingSection s)"
  "\<not> b \<Longrightarrow> \<not> sp_dirty (split_update b s e) \<Longrightarrow> sp_text (split_update b s e) = sp_text (renderSplitTunnelingSection s)"
  by (simp_all add: split_update_def renderSplitTunnelingSection_def)

lemma patch_coord:
  "cr_disabled (coord_update b s r) = cr_disabled (createCoordinationServerRow s isOpen)"
  "cr_note (coord_update b s r) = cr_note (createCoordinationServerRow s isOpen)"
  "\<not> b \<Longrightarrow> \<not> cr_dirty (coord_update b s r) \<Longrightarrow> cr_value (coord_update b s r) = cr_value (createCoordinationServerRow s isOpen)"
  by (auto simp: coord_update_def createCoordinationServerRow_def applyCapability_def clearValidationError_def Let_def split: if_splits)

lemma patch_shows:
  assumes "health_inv u v" and "rows_inv (ve_peers V) (ve_urls V) v" and "plain_state (ve_peers V) s"
    and "cn_searchBox v = search_shown u s" and "(cn_profile v \<noteq> None) = (ts_profiles s \<noteq> [])" and "cn_proxyRow v = proxy_row s"
  shows "connected_shows V focus s (fst (patch_connected V focus s u v)) (snd (patch_connected V focus s u v))"
proof -
  have rows: "list_all2 (\<lambda>p r. row_shows (ve_peers V) (ve_urls V) p r \<and> row_hostPingCap r = ts_supportsPingPeer s \<and> row_showPeerSsh r = ui_advancedOpen u)
      (visible_peers (peersForDeviceList (ts_peers s)) (ui_peerSearchQuery u) (ui_listExpanded u)) (body_rows (peers_body V u s (cn_peers v)))"
    using assms(2,3) by (intro peers_body_shows) (simp_all add: rows_inv_def)
  have health: "map_option hb_items (if health_key s \<noteq> ui_lastHealthKey u then renderHealthWarnings (ts_health s) else cn_health v) =
      map_option hb_items (renderHealthWarnings (ts_health s))"
    using patch_health [OF assms(1)] assms(3) by (simp add: plain_state_def banner_items)
  show ?thesis
    using rows health assms(4-6) patch_split [of _ s "cn_split v"] patch_coord [of _ s "cn_coord v"]
    by (auto simp: connected_shows_def patch_connected_def renderConnected_def case_prod_beta Let_def search_shown_def)
qed

lemma patch_inv:
  assumes "health_inv u v" and "rows_inv (ve_peers V) (ve_urls V) v" and "plain_state (ve_peers V) s"
  shows "health_inv (fst (patch_connected V focus s u v)) (snd (patch_connected V focus s u v)) \<and>
    rows_inv (ve_peers V) (ve_urls V) (snd (patch_connected V focus s u v))"
proof
  have plain: "plain_health (ts_health s)" using assms(3) by (simp add: plain_state_def)
  show "health_inv (fst (patch_connected V focus s u v)) (snd (patch_connected V focus s u v))"
    unfolding health_inv_def
    by (rule exI [of _ "ts_health s"]) (use plain patch_health [OF assms(1) plain] in \<open>simp add: patch_connected_def health_key_def\<close>)
  show "rows_inv (ve_peers V) (ve_urls V) (snd (patch_connected V focus s u v))"
    using peers_body_inv [of "cn_peers v" V s u] assms(2,3) by (simp add: rows_inv_def patch_connected_def)
qed

text \<open>An update shows its state, whether it patches the view or draws it anew, and keeps the invariant.\<close>

lemma update_shows:
  assumes "health_inv u v" and "rows_inv (ve_peers V) (ve_urls V) v" and "plain_state (ve_peers V) s"
  shows "connected_shows V focus s (fst (updateConnected V focus s u v)) (snd (updateConnected V focus s u v))"
  using assms by (simp add: updateConnected_def render_shows patch_shows)

lemma update_inv:
  assumes "health_inv u v" and "rows_inv (ve_peers V) (ve_urls V) v" and "plain_state (ve_peers V) s"
  shows "health_inv (fst (updateConnected V focus s u v)) (snd (updateConnected V focus s u v)) \<and>
    rows_inv (ve_peers V) (ve_urls V) (snd (updateConnected V focus s u v))"
  using patch_inv [OF assms] render_health_inv [OF assms(3)] render_rows_inv [OF assms(3)] by (simp add: updateConnected_def)

section \<open>The contract of a view that is kept up to date\<close>

text \<open>
  What the frame relies on when it draws a view or keeps one: \<open>draw\<close> and \<open>patch\<close> show the state they are given, and
  both leave the view in a condition that the next \<open>patch\<close> can start from. \<open>'u\<close> is what the view keeps outside
  its elements.
\<close>

locale patched_view =
  fixes ok :: "TailscaleState \<Rightarrow> bool"
    and inv :: "'u \<Rightarrow> 'v \<Rightarrow> bool"
    and draw :: "TailscaleState \<Rightarrow> 'u \<Rightarrow> 'u \<times> 'v"
    and patch :: "InputFocus \<Rightarrow> TailscaleState \<Rightarrow> 'u \<Rightarrow> 'v \<Rightarrow> 'u \<times> 'v"
    and showing :: "InputFocus \<Rightarrow> TailscaleState \<Rightarrow> 'u \<Rightarrow> 'v \<Rightarrow> bool"
  assumes draw_shows: "ok s \<Longrightarrow> showing f s (fst (draw s u)) (snd (draw s u))"
    and draw_inv: "ok s \<Longrightarrow> inv (fst (draw s u)) (snd (draw s u))"
    and patch_shows: "inv u v \<Longrightarrow> ok s \<Longrightarrow> showing f s (fst (patch f s u v)) (snd (patch f s u v))"
    and patch_inv: "inv u v \<Longrightarrow> ok s \<Longrightarrow> inv (fst (patch f s u v)) (snd (patch f s u v))"
begin

definition patches :: "(InputFocus \<times> TailscaleState) list \<Rightarrow> 'u \<times> 'v \<Rightarrow> 'u \<times> 'v" where
  "patches ps uv = fold (\<lambda>(f, s) (u, v). patch f s u v) ps uv"

lemma patches_inv:
  "inv (fst uv) (snd uv) \<Longrightarrow> \<forall>(f, s)\<in>set ps. ok s \<Longrightarrow> inv (fst (patches ps uv)) (snd (patches ps uv))"
  unfolding patches_def by (induction ps arbitrary: uv) (auto simp: case_prod_beta patch_inv)

text \<open>However many updates came before, a view that was drawn once shows the state of the last one.\<close>

lemma updates_show:
  assumes "ok s0" and "\<forall>(f, s)\<in>set ps. ok s" and "ok s"
  shows "showing f s (fst (patches (ps @ [(f, s)]) (draw s0 u))) (snd (patches (ps @ [(f, s)]) (draw s0 u)))"
  using patch_shows [OF patches_inv [OF draw_inv [OF assms(1)] assms(2)] assms(3)]
  by (simp add: patches_def case_prod_beta)

end

definition login_shows :: "InputFocus \<Rightarrow> TailscaleState \<Rightarrow> bool \<Rightarrow> LoginView \<Rightarrow> bool" where
  "login_shows focus s isOpen v \<longleftrightarrow>
     (\<exists>r. v = (renderNeedsLogin isOpen s)\<lparr>lv_coord := r\<rparr> \<and> (focus \<noteq> CoordFocus \<longrightarrow> r = createCoordinationServerRow s isOpen))"

definition disconnected_shows :: "InputFocus \<Rightarrow> TailscaleState \<Rightarrow> bool \<Rightarrow> DisconnectedView \<Rightarrow> bool" where
  "disconnected_shows focus s isOpen v \<longleftrightarrow>
     (\<exists>r. v = (renderDisconnected isOpen (Some s))\<lparr>dv_coord := Some r\<rparr> \<and>
        (focus \<noteq> CoordFocus \<longrightarrow> r = createCoordinationServerRow s isOpen))"

interpretation connected_view: patched_view "plain_state (ve_peers V)"
  "\<lambda>u v. health_inv u v \<and> rows_inv (ve_peers V) (ve_urls V) v" "renderConnected V" "updateConnected V" "connected_shows V" for V
  by unfold_locales (simp_all add: render_shows render_health_inv render_rows_inv update_shows update_inv)

interpretation login_view: patched_view "\<lambda>_. True" "\<lambda>_ _. True" "\<lambda>s isOpen. (isOpen, renderNeedsLogin isOpen s)"
  "\<lambda>f s isOpen v. (isOpen, updateNeedsLogin isOpen (f = CoordFocus) s v)" login_shows
  by unfold_locales (auto simp: login_shows_def renderNeedsLogin_def updateNeedsLogin_def rerender_coord_def)

interpretation disconnected_view: patched_view "\<lambda>_. True" "\<lambda>_ _. True" "\<lambda>s isOpen. (isOpen, renderDisconnected isOpen (Some s))"
  "\<lambda>f s isOpen v. (isOpen, updateDisconnected isOpen (f = CoordFocus) s v)" disconnected_shows
  by unfold_locales
    (auto simp: disconnected_shows_def renderDisconnected_def updateDisconnected_def rerender_coord_def Let_def split: option.splits)

section \<open>What the user does\<close>

text \<open>What the user does leaves the remembered key, the warnings of the banner and, but for redraws, the list alone.\<close>

lemma refresh_inv:
  assumes "health_inv u v" and "rows_inv (ve_peers V) (ve_urls V) v" and "\<forall>s. latest = Some s \<longrightarrow> plain_state (ve_peers V) s"
  shows "health_inv u' (refresh_peers V latest u' v) = health_inv u' v \<and> rows_inv (ve_peers V) (ve_urls V) (refresh_peers V latest u' v)"
  using assms peers_body_inv [of "cn_peers v" V _ u'] by (auto simp: refresh_peers_def rows_inv_def health_inv_def split: option.splits)

lemma health_click_items: "map_option hb_items (map_option health_click b) = map_option hb_items b"
  by (cases b) (simp_all add: health_click_def)

lemma proxy_action_inv:
  assumes "external_proxy_action V a u v = (u', v', es)"
  shows "ui_lastHealthKey u' = ui_lastHealthKey u" "cn_health v' = cn_health v" "cn_peers v' = cn_peers v"
  using assms
  by (auto simp: external_proxy_action_def setExternalProxyDetails_def select_proxy_host_def Let_def
      split: ConnectedAction.splits if_splits option.splits ProxyDetails.splits prod.splits)

text \<open>The parts of a view that the invariant speaks of.\<close>

abbreviation same_parts :: "ConnectedUi \<Rightarrow> ConnectedView \<Rightarrow> ConnectedUi \<Rightarrow> ConnectedView \<Rightarrow> bool" where
  "same_parts u v u' v' \<equiv> ui_lastHealthKey u' = ui_lastHealthKey u \<and> map_option hb_items (cn_health v') = map_option hb_items (cn_health v)"

lemma refresh_same: "cn_health (refresh_peers V latest u v) = cn_health v"
  by (simp add: refresh_peers_def split: option.splits)

lemma coord_action_same:
  "coord_action V op u v = (u', v', es) \<Longrightarrow> same_parts u v u' v' \<and> cn_peers v' = cn_peers v"
  by (auto simp: coord_action_def split: prod.splits coord_op.splits)

lemma action_same:
  assumes "connected_action V latest a u v = (u', v', es)"
  shows "same_parts u v u' v' \<and> (cn_peers v' = cn_peers v \<or> cn_peers v' = cn_peers (refresh_peers V latest u' v))"
proof (cases "\<exists>op. a = CoordAction op")
  case True
  then show ?thesis using assms coord_action_same by (auto simp: connected_action_def view_parts split: if_splits)
next
  case False
  then show ?thesis
    using assms proxy_action_inv [of V a u v]
    by (cases a) (auto simp: connected_action_def view_parts refresh_same health_click_items Let_def
        split: prod.splits if_splits PeerListBody.splits option.splits)
qed

lemma action_inv:
  assumes "connected_action V latest a u v = (u', v', es)" and "health_inv u v" and "rows_inv (ve_peers V) (ve_urls V) v"
    and "\<forall>s. latest = Some s \<longrightarrow> plain_state (ve_peers V) s"
  shows "health_inv u' v' \<and> rows_inv (ve_peers V) (ve_urls V) v'"
  using action_same [OF assms(1)] refresh_inv [OF assms(2-4)] assms(2,3)
  by (auto simp: health_inv_def rows_inv_def)

section \<open>The popup\<close>

definition screen_inv :: "PopupEnv \<Rightarrow> Popup \<Rightarrow> bool" where
  "screen_inv E p \<longleftrightarrow>
     (\<forall>v. pf_screen p = ConnectedScreen v \<longrightarrow> health_inv (pf_ui p) v \<and> rows_inv E (pf_urls p) v)"

definition popup_inv :: "PopupEnv \<Rightarrow> Popup \<Rightarrow> bool" where
  "popup_inv E p \<longleftrightarrow>
     screen_inv E p \<and> (\<forall>s. pf_lastKnownState p = Some s \<longrightarrow> plain_state E s) \<and>
     (pf_deferredState p = None \<or> pf_deferredState p = pf_lastKnownState p) \<and> (\<not> pf_subViewActive p \<longrightarrow> pf_deferredState p = None) \<and>
     (\<forall>i\<in>set (pf_installs p). fst i < pf_nextInstall p)"

text \<open>What the latest state asks for: the view, what it shows and the notices. The setup view first shows its placeholder.\<close>

definition screen_shows :: "FrameEnv \<Rightarrow> InputFocus \<Rightarrow> TailscaleState \<Rightarrow> Popup \<Rightarrow> bool" where
  "screen_shows F focus s p \<longleftrightarrow>
     (case viewForState s of
        VInstall \<Rightarrow> \<exists>n. pf_screen p = InstallWait n \<and> map_of (pf_installs p) n = Some s
      | VLogin \<Rightarrow>
          \<exists>v. pf_screen p = LoginScreen v \<and> login_shows focus s (pf_standaloneOpen p) v
      | VConnected \<Rightarrow> \<exists>v. pf_screen p = ConnectedScreen v \<and> connected_shows (view_env F p) focus s (pf_ui p) v
      | VDisconnected \<Rightarrow>
          \<exists>v. pf_screen p = DisconnectedScreen v \<and> disconnected_shows focus s (pf_standaloneOpen p) v) \<and>
     (viewForState s \<noteq> VInstall \<longrightarrow>
       pf_notices p = \<lparr>nt_routing = syncRoutingNotice s, nt_version = version_notice (pf_helperVersionNoticeDismissed p) s\<rparr>)"

lemma popup_inv_env: "pe_num E = pe_num E' \<Longrightarrow> popup_inv E p = popup_inv E' p"
  by (simp add: popup_inv_def screen_inv_def rows_inv_def row_inv_env [of E E'] plain_state_env [of E E'])

text \<open>Effects and notices leave what the invariant speaks of alone.\<close>

lemma do_effect_fields [simp]:
  "pf_screen (do_effect e p) = pf_screen p" "pf_ui (do_effect e p) = pf_ui p" "pf_urls (do_effect e p) = pf_urls p"
  "pf_lastKnownState (do_effect e p) = pf_lastKnownState p" "pf_deferredState (do_effect e p) = pf_deferredState p"
  "pf_subViewActive (do_effect e p) = pf_subViewActive p" "pf_installs (do_effect e p) = pf_installs p" "pf_nextInstall (do_effect e p) = pf_nextInstall p"
  by (cases e; simp add: do_effect_def sendMessage_def)+

lemma send_fields [simp]:
  "pf_screen (sendMessage m p) = pf_screen p" "pf_ui (sendMessage m p) = pf_ui p" "pf_urls (sendMessage m p) = pf_urls p"
  "pf_lastKnownState (sendMessage m p) = pf_lastKnownState p" "pf_deferredState (sendMessage m p) = pf_deferredState p"
  "pf_subViewActive (sendMessage m p) = pf_subViewActive p" "pf_installs (sendMessage m p) = pf_installs p" "pf_nextInstall (sendMessage m p) = pf_nextInstall p"
  by (simp_all add: sendMessage_def)

lemma do_effects_fields [simp]:
  "pf_screen (do_effects es p) = pf_screen p" "pf_ui (do_effects es p) = pf_ui p" "pf_urls (do_effects es p) = pf_urls p"
  "pf_lastKnownState (do_effects es p) = pf_lastKnownState p" "pf_deferredState (do_effects es p) = pf_deferredState p"
  "pf_subViewActive (do_effects es p) = pf_subViewActive p" "pf_installs (do_effects es p) = pf_installs p" "pf_nextInstall (do_effects es p) = pf_nextInstall p"
  unfolding do_effects_def by (induction es arbitrary: p) simp_all

lemma sync_fields [simp]:
  "pf_screen (syncHelperVersionNotice s p) = pf_screen p" "pf_ui (syncHelperVersionNotice s p) = pf_ui p"
  "pf_urls (syncHelperVersionNotice s p) = pf_urls p" "pf_lastKnownState (syncHelperVersionNotice s p) = pf_lastKnownState p"
  "pf_deferredState (syncHelperVersionNotice s p) = pf_deferredState p" "pf_installs (syncHelperVersionNotice s p) = pf_installs p"
  "pf_subViewActive (syncHelperVersionNotice s p) = pf_subViewActive p" "pf_nextInstall (syncHelperVersionNotice s p) = pf_nextInstall p"
  "pf_standaloneOpen (syncHelperVersionNotice s p) = pf_standaloneOpen p"
  by (simp_all add: syncHelperVersionNotice_def)

lemmas popup_inv_simps = popup_inv_def screen_inv_def replace_root_def show_connected_def

text \<open>Drawing a state shows it and keeps the invariant.\<close>

lemma view_env_sel [simp]: "ve_peers (view_env F p) = ve_peers (fe_view F)" "ve_urls (view_env F p) = pf_urls p"
  by (simp_all add: view_env_def)

lemma view_env_cong: "pf_urls p = pf_urls q \<Longrightarrow> view_env F p = view_env F q"
  by (simp add: view_env_def)

abbreviation frame_peers :: "FrameEnv \<Rightarrow> PopupEnv" where
  "frame_peers F \<equiv> ve_peers (fe_view F)"

lemma map_of_new: "\<forall>i\<in>set xs. fst i < (n :: nat) \<Longrightarrow> map_of (xs @ [(n, s)]) n = Some s"
  by (induction xs) auto

lemma connected_sync_shows:
  assumes "viewForState s = VConnected" and "connected_shows (view_env F p) focus s (fst uv) (snd uv)"
  shows "screen_shows F focus s (syncHelperVersionNotice s (show_connected uv p))"
  using assms by (simp add: screen_shows_def syncHelperVersionNotice_def show_connected_def replace_root_def view_env_def)

lemma standalone_shows:
  "viewForState s = VLogin \<Longrightarrow> login_shows focus s (pf_standaloneOpen p) v \<Longrightarrow>
     screen_shows F focus s (syncHelperVersionNotice s (replace_root (LoginScreen v) p))"
  "viewForState s = VDisconnected \<Longrightarrow> disconnected_shows focus s (pf_standaloneOpen p) w \<Longrightarrow>
     screen_shows F focus s (syncHelperVersionNotice s (replace_root (DisconnectedScreen w) p))"
  by (simp_all add: screen_shows_def syncHelperVersionNotice_def replace_root_def)

lemma full_shows:
  assumes "plain_state (frame_peers F) s" and "\<forall>i\<in>set (pf_installs p). fst i < pf_nextInstall p"
  shows "screen_shows F focus s (render_full F s p)"
proof (cases "viewForState s")
  case VInstall
  then show ?thesis using map_of_new [OF assms(2)] by (simp add: screen_shows_def render_full_def replace_root_def)
next
  case VLogin
  then show ?thesis
    using login_view.draw_shows [where s = s and f = focus and u = "pf_standaloneOpen p"] by (simp add: render_full_def standalone_shows)
next
  case VConnected
  then show ?thesis using assms(1) connected_view.draw_shows [where V = "view_env F p" and s = s] by (simp add: render_full_def connected_sync_shows)
next
  case VDisconnected
  then show ?thesis
    using disconnected_view.draw_shows [where s = s and f = focus and u = "pf_standaloneOpen p"] by (simp add: render_full_def standalone_shows)
qed

lemma same_shows:
  assumes "screen_inv (frame_peers F) p" and "plain_state (frame_peers F) s" and "\<forall>i\<in>set (pf_installs p). fst i < pf_nextInstall p"
  shows "screen_shows F focus s (render_same F focus s p)"
proof -
  have full: "screen_shows F focus s (render_full F s p)" by (rule full_shows [OF assms(2,3)])
  show ?thesis
  proof (cases "pf_screen p")
    case (ConnectedScreen v)
    then show ?thesis
      using full assms(1,2) connected_view.patch_shows [where V = "view_env F p" and u = "pf_ui p" and v = v and s = s and f = focus]
      by (cases "viewForState s") (simp_all add: render_same_def screen_inv_def connected_sync_shows)
  next
    case (LoginScreen v)
    then show ?thesis
      using full login_view.patch_shows [where u = "pf_standaloneOpen p" and v = v and s = s and f = focus]
      by (cases "viewForState s") (simp_all add: render_same_def standalone_shows)
  next
    case (DisconnectedScreen v)
    then show ?thesis
      using full disconnected_view.patch_shows [where u = "pf_standaloneOpen p" and v = v and s = s and f = focus]
      by (cases "viewForState s") (simp_all add: render_same_def standalone_shows)
  qed (use full in \<open>cases "viewForState s", simp_all add: render_same_def\<close>)+
qed

lemma sync_inv: "popup_inv E (syncHelperVersionNotice s p) = popup_inv E p"
  by (simp add: popup_inv_def screen_inv_def)

lemma show_connected_inv:
  assumes "popup_inv E p" and "health_inv (fst uv) (snd uv)" and "rows_inv E (pf_urls p) (snd uv)"
  shows "popup_inv E (show_connected uv p)"
  using assms by (simp add: popup_inv_simps)

lemma replace_inv: "popup_inv E p \<Longrightarrow> \<forall>v. scr \<noteq> ConnectedScreen v \<Longrightarrow> popup_inv E (replace_root scr p)"
  by (auto simp: popup_inv_simps split: Screen.splits)

lemma full_inv:
  assumes "popup_inv (frame_peers F) p" and "plain_state (frame_peers F) s"
  shows "popup_inv (frame_peers F) (render_full F s p)"
proof (cases "viewForState s")
  case VInstall
  then show ?thesis using assms by (auto simp: popup_inv_simps render_full_def less_SucI)
next
  case VConnected
  then show ?thesis
    using assms render_health_inv [OF assms(2)] render_rows_inv [of "view_env F p" s]
    by (simp add: render_full_def sync_inv show_connected_inv)
qed (use assms(1) in \<open>simp_all add: render_full_def sync_inv replace_inv\<close>)

lemma same_inv:
  assumes "popup_inv (frame_peers F) p" and "plain_state (frame_peers F) s"
  shows "popup_inv (frame_peers F) (render_same F focus s p)"
proof (cases "pf_screen p")
  case (ConnectedScreen v)
  then have "health_inv (pf_ui p) v" "rows_inv (frame_peers F) (pf_urls p) v" using assms(1) by (simp_all add: popup_inv_def screen_inv_def)
  then show ?thesis
    using ConnectedScreen assms full_inv [OF assms] update_inv [of "pf_ui p" v "view_env F p" s focus]
    by (cases "viewForState s") (simp_all add: render_same_def sync_inv show_connected_inv)
qed (use assms(1) full_inv [OF assms] in \<open>cases "viewForState s", simp_all add: render_same_def sync_inv replace_inv\<close>)+

lemma sub_inv: "popup_inv E p \<Longrightarrow> popup_inv E (render_sub F sub s p)"
  by (cases sub) (simp_all add: popup_inv_simps render_sub_def Let_def)

text \<open>Noting the state, the view and the version.\<close>

lemma noted_inv:
  assumes "popup_inv E p" and "plain_state E s"
  shows "popup_inv E (p\<lparr>pf_lastKnownState := Some s, pf_deferredState := Some s, pf_subViewVersion := n\<rparr>) = pf_subViewActive p"
    and "\<not> pf_subViewActive p \<Longrightarrow> popup_inv E (p\<lparr>pf_lastKnownState := Some s, pf_currentView := cv, pf_lastStateVersion := n\<rparr>)"
  using assms by (simp_all add: popup_inv_def screen_inv_def)

lemma popup_render_inv:
  assumes "popup_inv (frame_peers F) p" and "plain_state (frame_peers F) s"
  shows "popup_inv (frame_peers F) (render F focus s p)"
proof (cases "pf_subViewActive p")
  case True
  then show ?thesis
    using noted_inv(1) [OF assms, of "pf_subViewVersion p"] noted_inv(1) [OF assms, of "int (ts_stateVersion s)"] sub_inv
    by (simp add: render_def Let_def split: option.splits)
next
  case False
  then show ?thesis
    using noted_inv(2) [OF assms False, where cv = "pf_currentView p" and n = "pf_lastStateVersion p"]
      noted_inv(2) [OF assms False, where cv = "Some (viewForState s)" and n = "int (ts_stateVersion s)"] same_inv [OF _ assms(2)] full_inv [OF _ assms(2)]
    by (simp add: render_def Let_def)
qed

text \<open>A state that differs from the one shown in version or view is shown.\<close>

lemma render_shows_state:
  assumes "popup_inv (frame_peers F) p" and "plain_state (frame_peers F) s" and "\<not> pf_subViewActive p"
    and "pf_currentView p \<noteq> Some (viewForState s) \<or> pf_lastStateVersion p \<noteq> int (ts_stateVersion s)"
  shows "screen_shows F focus s (render F focus s p)"
proof -
  let ?p = "p\<lparr>pf_lastKnownState := Some s, pf_currentView := Some (viewForState s), pf_lastStateVersion := int (ts_stateVersion s)\<rparr>"
  have inv: "popup_inv (frame_peers F) ?p" by (rule noted_inv(2) [OF assms(1-3)])
  have "screen_shows F focus s (render_full F s ?p)" "screen_shows F focus s (render_same F focus s ?p)"
    using inv assms(2) full_shows [of F s ?p] same_shows [of F ?p s] by (simp_all add: popup_inv_def)
  then show ?thesis using assms(3,4) by (auto simp: render_def Let_def)
qed

lemma leave_inv:
  assumes "popup_inv (frame_peers F) p"
  shows "popup_inv (frame_peers F) (leaveSubView F p)"
proof -
  let ?p = "p\<lparr>pf_subViewActive := False, pf_subViewUpdater := None, pf_subViewVersion := -1, pf_deferredState := None\<rparr>"
  have "popup_inv (frame_peers F) ?p" "popup_inv (frame_peers F) (?p\<lparr>pf_currentView := None, pf_lastStateVersion := -1\<rparr>)"
    using assms by (simp_all add: popup_inv_def screen_inv_def)
  moreover have "plain_state (frame_peers F) s" if "or_else (pf_deferredState p) (pf_lastKnownState p) = Some s" for s
    using that assms by (auto simp: popup_inv_def or_else_def split: option.splits)
  ultimately show ?thesis by (simp add: leaveSubView_def Let_def popup_render_inv split: option.splits)
qed

text \<open>Leaving a sub-view shows the latest state.\<close>

lemma leave_shows:
  assumes "popup_inv (frame_peers F) p" and "pf_lastKnownState p = Some s"
  shows "screen_shows F NoFocus s (leaveSubView F p)"
proof -
  let ?p = "p\<lparr>pf_subViewActive := False, pf_subViewUpdater := None, pf_subViewVersion := -1, pf_deferredState := None,
    pf_currentView := None, pf_lastStateVersion := -1\<rparr>"
  have inv: "popup_inv (frame_peers F) ?p" and plain: "plain_state (frame_peers F) s"
    using assms by (simp_all add: popup_inv_def screen_inv_def)
  have "or_else (pf_deferredState p) (pf_lastKnownState p) = Some s" using assms by (auto simp: popup_inv_def or_else_def)
  then show ?thesis using render_shows_state [OF inv plain, of NoFocus] by (simp add: leaveSubView_def Let_def)
qed

section \<open>Every event keeps the invariant\<close>

lemma screen_change_inv:
  assumes "popup_inv E p" and "\<forall>v. scr \<noteq> ConnectedScreen v"
  shows "popup_inv E (p\<lparr>pf_screen := scr\<rparr>)"
  using assms by (simp add: popup_inv_def screen_inv_def)

lemma effects_inv: "popup_inv E (do_effects es p) = popup_inv E p" "popup_inv E (do_effect e p) = popup_inv E p"
    "popup_inv E (sendMessage m p) = popup_inv E p"
  by (simp_all add: popup_inv_def screen_inv_def)

lemma open_inv:
  assumes "popup_inv E p"
  shows "popup_inv E (openSubView F sub p)"
proof -
  have "popup_inv E (enterSubView (Some sub) p)" using assms by (simp add: enterSubView_def popup_inv_def screen_inv_def)
  then show ?thesis using assms by (simp add: openSubView_def sub_inv split: option.splits)
qed

lemma install_inv:
  assumes "popup_inv E p"
  shows "popup_inv E (install_ready F n info p)"
  using assms
  by (auto simp: install_ready_def sync_inv Let_def popup_inv_def screen_inv_def replace_root_def split: option.splits)

lemma on_connected_inv:
  assumes "popup_inv (frame_peers F) p"
  shows "popup_inv (frame_peers F) (on_connected F a p)"
proof (cases "pf_screen p")
  case (ConnectedScreen v)
  obtain u' v' es where act: "connected_action (view_env F p) (pf_lastKnownState p) a (pf_ui p) v = (u', v', es)" by (metis prod_cases3)
  have "health_inv u' v' \<and> rows_inv (frame_peers F) (pf_urls p) v'"
    using action_inv [OF act] ConnectedScreen assms by (simp add: popup_inv_def screen_inv_def)
  then show ?thesis using ConnectedScreen act assms by (simp add: on_connected_def effects_inv popup_inv_def screen_inv_def)
qed (use assms in \<open>simp_all add: on_connected_def\<close>)

lemma on_row_inv:
  assumes "popup_inv E p"
  shows "popup_inv E (on_row peerId op p)"
proof (cases "pf_screen p")
  case (ConnectedScreen v)
  show ?thesis
  proof (cases "List.find (\<lambda>r. row_peerId r = peerId) (body_rows (cn_peers v))")
    case (Some r)
    then have r: "r \<in> set (body_rows (cn_peers v))" "row_peerId r = peerId" by (auto simp: find_Some_iff)
    obtain urls r' es where step: "row_step op (pf_urls p) r = (urls, r', es)" by (metis prod_cases3)
    have "rows_inv E urls (v\<lparr>cn_peers := on_rows (\<lambda>q. if row_peerId q = peerId then r' else q) (cn_peers v)\<rparr>)"
      using user_rows_inv [OF _ r(1) step] r(2) ConnectedScreen assms by (simp add: rows_inv_def popup_inv_def screen_inv_def)
    then show ?thesis
      using ConnectedScreen Some step assms by (simp add: on_row_def effects_inv popup_inv_def screen_inv_def health_inv_def)
  qed (use ConnectedScreen assms in \<open>simp add: on_row_def\<close>)
qed (use assms in \<open>simp_all add: on_row_def\<close>)

lemma on_message_inv:
  assumes "popup_inv (frame_peers F) p" and "\<forall>s. msg = StateMsg s \<longrightarrow> plain_state (frame_peers F) s"
  shows "popup_inv (frame_peers F) (on_message F msg focus p)"
proof (cases msg)
  case (ExternalProxyDetails d)
  show ?thesis
  proof (cases "pf_screen p")
    case (ConnectedScreen v)
    obtain u' v' where set: "setExternalProxyDetails (view_env F p) d (pf_ui p) v = (u', v')" by fastforce
    have "ui_lastHealthKey u' = ui_lastHealthKey (pf_ui p)" "cn_health v' = cn_health v" "cn_peers v' = cn_peers v"
      using proxy_action_inv [of "view_env F p" "ProxyArrived d" "pf_ui p" v u' v' "[]"] set by (simp_all add: external_proxy_action_def)
    then show ?thesis
      using ExternalProxyDetails ConnectedScreen set assms(1)
      by (simp add: on_message_def popup_inv_def screen_inv_def health_inv_def rows_inv_def)
  qed (use ExternalProxyDetails assms(1) in \<open>simp_all add: on_message_def popup_inv_def screen_inv_def\<close>)
next
  case (StateMsg s)
  then show ?thesis using assms by (simp add: on_message_def popup_render_inv)
next
  case (Toast m l d n)
  then show ?thesis using assms(1) by (simp add: on_message_def popup_inv_def screen_inv_def)
qed

lemma standalone_inv:
  assumes "popup_inv E p"
  shows "popup_inv E (on_header b p)" "popup_inv E (on_retry p)" "popup_inv E (on_reinstall F p)"
proof -
  show "popup_inv E (on_header b p)"
    using assms by (simp add: on_header_def effects_inv screen_change_inv split: Screen.splits prod.splits)
  show "popup_inv E (on_retry p)"
    using assms by (simp add: on_retry_def effects_inv screen_change_inv split: Screen.splits prod.splits option.splits)
  show "popup_inv E (on_reinstall F p)"
    using assms by (simp add: on_reinstall_def effects_inv split: Screen.splits option.splits prod.splits bool.splits)
qed

lemma coord_edit_inv: "popup_inv E p \<Longrightarrow> popup_inv E (snd (coord_edit F op r p))"
  by (auto simp: coord_edit_def effects_inv popup_inv_def screen_inv_def split: prod.splits coord_op.splits)

lemma on_coord_inv: "popup_inv E p \<Longrightarrow> popup_inv E (on_coord F op p)"
  using coord_edit_inv [of E p F op]
  by (auto simp: on_coord_def case_prod_beta intro!: screen_change_inv split: Screen.splits option.splits)

lemma show_exit_inv: "popup_inv E p \<Longrightarrow> popup_inv E (show_exit scr p)"
  by (simp add: show_exit_def popup_inv_def screen_inv_def)

lemma picker_inv:
  assumes "popup_inv E p"
  shows "popup_inv E (on_exit_select r p)" "popup_inv E (on_exit_search F t p)" "popup_inv E (on_exit_country c p)" "popup_inv E (on_exit_lan b p)"
proof -
  show "popup_inv E (on_exit_select r p)"
    using assms by (simp add: on_exit_select_def effects_inv show_exit_inv split: Screen.splits prod.splits)
  show "popup_inv E (on_exit_search F t p)"
    using assms by (simp add: on_exit_search_def show_exit_inv split: Screen.splits option.splits)
  show "popup_inv E (on_exit_country c p)"
    using assms by (simp add: on_exit_country_def show_exit_inv split: Screen.splits)
  show "popup_inv E (on_exit_lan b p)"
    using assms by (simp add: on_exit_lan_def effects_inv show_exit_inv split: Screen.splits prod.splits)
qed

lemma prof_effects_inv:
  "popup_inv (frame_peers F) p \<Longrightarrow> popup_inv (frame_peers F) (fold (prof_do F) es p)"
  by (induction es arbitrary: p) (simp_all add: prof_do_def effects_inv leave_inv split: prof_effect.splits)

lemma on_profile_inv:
  assumes "popup_inv (frame_peers F) p"
  shows "popup_inv (frame_peers F) (on_profile F ev p)"
proof -
  have "popup_inv (frame_peers F) (p\<lparr>pf_profiles := r\<rparr>)" for r using assms by (simp add: popup_inv_def screen_inv_def)
  then show ?thesis using assms by (simp add: on_profile_def prof_effects_inv split: prof_event.splits prod.splits)
qed

lemma notice_inv:
  assumes "popup_inv E p"
  shows "popup_inv E (on_release p)" "popup_inv E (on_dismiss p)" "popup_inv E (on_release_link p)"
proof -
  show "popup_inv E (on_release p)" using assms by (simp add: on_release_def effects_inv split: option.splits)
  show "popup_inv E (on_dismiss p)" using assms by (simp add: on_dismiss_def popup_inv_def screen_inv_def)
  show "popup_inv E (on_release_link p)" using assms by (simp add: on_release_link_def effects_inv split: option.splits)
qed

definition event_plain :: "PopupEnv \<Rightarrow> popup_event \<Rightarrow> bool" where
  "event_plain E ev = (case ev of PopMessage (StateMsg s) _ \<Rightarrow> plain_state E s | _ \<Rightarrow> True)"

lemma popup_step_inv:
  assumes "popup_inv (frame_peers F) p" and "event_plain (frame_peers F) ev"
  shows "popup_inv (frame_peers F) (popup_step F ev p)"
proof (cases ev)
  case (PopMessage msg focus)
  then show ?thesis using assms by (cases msg) (simp_all add: popup_step_def event_plain_def on_message_inv)
next
  case PopDisconnected
  then show ?thesis using assms(1) by (simp add: popup_step_def popup_inv_def screen_inv_def)
next
  case (PopOpen sub)
  then show ?thesis using assms(1) by (simp add: popup_step_def click_open_def open_inv split: Screen.splits)
next
  case PopLogin
  then show ?thesis using assms(1) by (simp add: popup_step_def effects_inv split: Screen.splits)
next
  case PopExitBack
  then show ?thesis using assms(1) by (simp add: popup_step_def leave_inv split: Screen.splits)
qed (use assms(1) in \<open>simp_all add: popup_step_def install_inv on_connected_inv on_row_inv standalone_inv on_coord_inv picker_inv
    on_profile_inv notice_inv\<close>)

section \<open>Runs\<close>

text \<open>
  The popups that can come about. The clock, the place and the version may differ from event to event; \<open>num\<close>, the text
  of a number, does not.
\<close>

inductive popup_reach :: "(rat \<Rightarrow> string) \<Rightarrow> Popup \<Rightarrow> bool" for num where
  init: "popup_reach num (popup_init stored)"
| step: "popup_reach num p \<Longrightarrow> pe_num (frame_peers F) = num \<Longrightarrow> event_plain (frame_peers F) ev \<Longrightarrow> popup_reach num (popup_step F ev p)"

lemma popup_reach_inv:
  assumes "popup_reach num p" and "pe_num E = num"
  shows "popup_inv E p"
  using assms
proof (induction)
  case (init stored)
  then show ?case by (simp add: popup_inv_def screen_inv_def popup_init_def)
next
  case (step p F ev)
  then have "popup_inv (frame_peers F) p" using popup_inv_env [of E "frame_peers F" p] by simp
  from popup_step_inv [OF this step(3)] show ?case using popup_inv_env [of E "frame_peers F"] step by simp
qed


text \<open>The status line of a popup, and when it can say that routing is active.\<close>

definition shown_routing :: "Popup \<Rightarrow> RoutingLine option" where
  "shown_routing p = (case pf_screen p of ConnectedScreen v \<Rightarrow> Some (cn_routing v) | _ \<Rightarrow> None)"

lemma shown_line:
  assumes "screen_shows F focus s p" and "shown_routing p = Some l"
  shows "l = updateRoutingStatus s"
proof -
  obtain v where v: "pf_screen p = ConnectedScreen v" "l = cn_routing v"
    using assms(2) by (cases "pf_screen p") (simp_all add: shown_routing_def)
  then have "connected_shows (view_env F p) focus s (pf_ui p) v"
    using assms(1) by (cases "viewForState s") (auto simp: screen_shows_def)
  then show ?thesis by (simp add: v connected_shows_def renderConnected_def case_prod_beta Let_def)
qed

lemma active_line:
  assumes "rl_kind (updateRoutingStatus s) = KActive"
  shows "map_option rh_status (ts_routingHealth s) = Some RActive \<and> ts_hostConnected s \<and>
    map_option rp_mode (ts_routingPolicy s) \<noteq> Some PBlocked \<and> map_option rp_mode (ts_routingPolicy s) \<noteq> Some PDirect"
  using assms by (simp add: updateRoutingStatus_def routing_status_of_def Let_def split: if_splits)

definition sample_frame :: FrameEnv where
  "sample_frame = \<lparr>fe_view = \<lparr>ve_peers = sample_env, ve_urls = [], ve_parse_url = (\<lambda>_. None), ve_locale_date = (\<lambda>_. None)\<rparr>,
     fe_compare = code_unit_compare, fe_distance = (\<lambda>_ _. 0), fe_location = None, fe_version = Some ''1.0.0''\<rparr>"

definition running_state :: TailscaleState where
  "running_state = DEFAULT_STATE\<lparr>ts_backendState := Running, ts_hostConnected := True, ts_stateVersion := 7,
     ts_health := [''Clock skew''], ts_peers := [sample_peer ''a'' True]\<rparr>"


end
