(* ===== verification/Spec2Isabelle.thy ===== *)
theory Spec2Isabelle
  imports Background_Decisions Extension Homebrew_Update Popup_Copy Popup_Files Popup_Surface Popup_Fresh
begin

text \<open>
  Tailchrome is a browser extension that puts one browser profile on a Tailscale tailnet. A native
  helper (Go, outside this development) runs the node and a local proxy; the extension's background
  script talks to it over native messaging, keeps the state the popup shows, and tells the browser
  which requests go through the helper's proxy. The development models the TypeScript of the
  extension (\<open>packages/shared/src\<close> and \<open>packages/extension\<close>): the entry points, the background script, the proxy
  managers of both browsers, the popup, and the data they share; and the build configuration and the release
  scripts (\<open>scripts\<close>) that decide what is shipped.

  \<^bold>\<open>Parts and theories\<close>, from the bottom up:

  \<^item> \<open>Prelude\<close>: JavaScript's string, array and insertion-ordered collection operations as executable
    functions. \<open>Types\<close>: the data of \<open>types.ts\<close>, and untyped JavaScript values. \<open>Js_Regex\<close>: a backtracking
    matcher for the regular expressions of the source. \<open>Constants\<close>: \<open>constants.ts\<close>.
  \<^item> \<open>Ipv6_Subnets\<close>, \<open>Proxy_Utils\<close>, \<open>Domain_Split\<close>, \<open>Helper_Diagnostics\<close>: \<open>ipv6-subnets.ts\<close>,
    \<open>proxy-utils.ts\<close>, \<open>domain-split.ts\<close>, \<open>helper-diagnostics.ts\<close>, the pure functions between untrusted text
    and browser routing or reports. Parsed routes overlap no forbidden range, parsing undoes
    printing, normal forms are stable, and no diagnostic value can add a line to a report.
  \<^item> \<open>Build_Config\<close>, \<open>Release_Checks\<close>, \<open>Homebrew_Update\<close>: \<open>wxt.config.ts\<close> with the manifest of either browser and
    \<open>firefox-disclosure.ts\<close>; \<open>validate-release-tag.mjs\<close>, \<open>validate-extension-ids.mjs\<close> and
    \<open>validate-firefox-publish.mjs\<close>; \<open>update-homebrew.mjs\<close>. What a passed check guarantees: the built manifest is
    accepted exactly when the disclosure is approved, and an update of the Homebrew definitions pins the release
    and nothing else.
  \<^item> \<open>State_Store\<close>, \<open>Badge_Manager\<close>, \<open>Proxy_Session\<close>, \<open>Auto_Connect\<close>: \<open>state-store.ts\<close>,
    \<open>badge-manager.ts\<close>, \<open>proxy-session.ts\<close>, \<open>auto-connect.ts\<close>. The locale \<open>intent_cell\<close> is the contract of
    the two stored connection decisions.
  \<^item> \<open>Timer_Service\<close>: \<open>timer-service.ts\<close> and \<open>chrome-alarm-timer-service.ts\<close>. The locale \<open>timer_service\<close> is
    the contract of named one-shot timers, with both services and the background script's own timer
    table as instances.
  \<^item> \<open>Routing_Protection\<close>, \<open>Routing_Machine\<close>: \<open>routing-protection.ts\<close>, its operations one by one and then as
    a step relation. The invariants say that what is saved is accepted again on restart, that
    protection of an account only widens, that an account switch blocks everything until another
    account is confirmed, and that only the user's own request lifts protection.
  \<^item> \<open>Firefox_Proxy_Manager\<close>, \<open>Chrome_Proxy_Auth\<close>, \<open>Chrome_Pac\<close>, \<open>Chrome_Proxy_Manager\<close>, \<open>Proxy_Routing\<close>,
    \<open>Chrome_Machine\<close>: the two proxy managers of \<open>packages/extension/src/background\<close>. \<open>Proxy_Routing\<close> shows that
    Chrome's generated PAC script and Firefox's per-request decision route every host alike;
    \<open>Chrome_Machine\<close> that nothing is reported active which the browser has not confirmed.
  \<^item> \<open>Native_Reply\<close>, \<open>Native_Host\<close>: \<open>native-host.ts\<close>, the screen on the helper's messages and the
    connection with its reconnect back-off.
  \<^item> \<open>Background_Util\<close>, \<open>Background_State\<close>, \<open>Background_Native\<close>, \<open>Background_Popup\<close>, \<open>Background\<close>: \<open>background.ts\<close>,
    from its module-level functions to \<open>initBackground\<close> and the events that call into it.
    \<open>Background_Safety\<close> has the invariant of every reachable state and \<open>Background_Decisions\<close> what
    its decisions come to. \<open>Proxy_Contract\<close> has the locale \<open>proxy_manager\<close>, the contract the script relies
    on when it calls a proxy manager, with the managers of both browsers as instances.
  \<^item> \<open>Extension\<close>: \<open>entrypoints/background.ts\<close>, \<open>firefox.ts\<close>, \<open>chrome.ts\<close> and \<open>startup-wake.ts\<close>, and the machine they
    start, the background script beside the proxy manager it drives. The locale \<open>driven_manager\<close> extends
    \<open>proxy_manager\<close> by the events of the manager's own and has what holds of the machine for every manager that
    obeys it.
  \<^item> \<open>Popup_Utils\<close>, \<open>Popup_Files\<close>, \<open>Popup_Peers\<close>, \<open>Popup_Exit_Nodes\<close>, \<open>Popup_Install\<close>, \<open>Popup_Profiles\<close>, \<open>Popup_Coord\<close>:
    the parts of the popup (\<open>packages/shared/src/popup\<close>): texts and toasts, sending a file, the device list, the
    exit-node picker, the setup view, the profile switcher and the coordination-server editor. Files arrive
    whole, reused rows are fresh, the picker offers only exit nodes, shell commands are split into the intended
    words, profile commands are serial, and only acceptable servers are saved.
  \<^item> \<open>Popup_Icons\<close>, \<open>Popup_Copy\<close>: the icon library as drawings, and what leaves the popup by the clipboard: the copy
    buttons, the fallback, and the connection card of the local app proxy, whose addresses read back as the
    credentials they were made of and which shows nothing of a masked password.
  \<^item> \<open>Popup_Views\<close>, \<open>Popup_Connected\<close>, \<open>Popup_Frame\<close>, \<open>Popup_Surface\<close>, \<open>Popup_Fresh\<close>: the shared components with the
    disconnected and the login view, the connected view, \<open>popup.ts\<close>, and the choice between popup and side panel
    (\<open>ui-surface.ts\<close>) with the diagnostic report. The locale \<open>patched_view\<close> in
    \<open>Popup_Fresh\<close> is the contract of a view that is drawn once and patched by later states, with the connected,
    the login and the disconnected view as instances; on it rests that a popup, whatever happened before,
    shows the newest state.

  This theory states what the whole gives.

  \<^bold>\<open>State and operations.\<close> A class is a record and a method a function on it that returns the record
  updated; the closure of \<open>initBackground\<close> is the record \<^typ>\<open>Background\<close>, which contains the store,
  the routing protection, the badge and the native connection. Calls to the browser are appended to
  logs (\<^const>\<open>bg_effects\<close>, \<^const>\<open>nh_log\<close>, \<open>cp_calls\<close>), so that a property can speak of their order.
  What the source awaits ends an operation: the continuation is a later event, taken from a queue
  (\<^const>\<open>bg_intentQueue\<close>, \<^const>\<open>bg_tasks\<close>) or a phase (\<^const>\<open>nh_phase\<close>, \<^const>\<open>bg_hint\<close>, \<open>cp_flight\<close>).
  \<^const>\<open>bg_reach\<close> closes the initial states under all events, in any order, with any outcome of a
  browser call. In the machine of the whole extension (\<^typ>\<open>'m Extension\<close>, \<open>ext_run\<close>) each call
  that the script makes reaches the proxy manager, in order, before the next event; a health report of the manager
  is an event of its own that comes later, while in the source it can also arrive inside the call of \<open>apply\<close>
  that causes it, and events that have no report behind them cannot occur. Exceptions are values (\<^typ>\<open>js_error\<close>,
  \<^const>\<open>None\<close>, \<open>Inl\<close>), \<open>null\<close> and \<open>undefined\<close> are \<^const>\<open>None\<close> and, for untyped values, \<^const>\<open>JNull\<close> and
  \<^const>\<open>JUndef\<close>.

  A view of the popup is the record of what its elements show and of the inputs the user edits; drawing and
  patching are functions on it, handlers give the messages they send (\<^typ>\<open>popup_effect\<close>), and the whole popup
  is the record \<^typ>\<open>Popup\<close> with its events and \<^const>\<open>popup_reach\<close>.

  \<^bold>\<open>Numbers and texts.\<close> IPv4 addresses are 32-bit words, as the source's bitwise operators make them;
  other numbers are \<^typ>\<open>nat\<close>, \<^typ>\<open>int\<close> or, where a message may hold any number, \<^typ>\<open>rat\<close> with the
  non-finite values apart. Texts are lists of characters, so code units above 255 are left out;
  the few such characters in fixed messages are stand-ins. \<open>decode_reply\<close> is exact on
  messages whose counts are whole numbers, which is what the helper sends.

  \<^bold>\<open>Parameters.\<close> The browser's URL parser (\<^const>\<open>env_parse_url\<close>), the manifest's version
  (\<^const>\<open>env_releaseVersion\<close>), whether an icon can be set (\<^const>\<open>env_icon_ok\<close>) and the text of the
  compiled IPv6 matcher in the PAC script (\<open>tools_source\<close>) are arguments. \<open>now\<close> is \<open>Date.now()\<close>. In the popup
  the clock, date parsing, the text of a number and the local form of a date (\<^typ>\<open>ViewEnv\<close>), \<open>localeCompare\<close>, the
  great-circle distance and the approximate place (\<^typ>\<open>FrameEnv\<close>) are arguments, and whether the clipboard takes
  a text. For the release: the contents of the files a script reads, path resolution, SHA-256, and the build tool
  as a function on the manifest it is given, which is only asked to keep the browser-specific settings.

  \<^bold>\<open>Bounds.\<close> No definition needs fuel: loops over texts and lists are structural recursion or have a
  decreasing length, the regular-expression matcher terminates on the rest of the text and the size
  of the expression, and waiting is a step of a machine.

  \<^bold>\<open>Not modelled\<close>: the Go helper and the installers (another language); of the popup the element tree and the
  layout, the style sheet, moving the keyboard focus and carets; log output; the tests, their mocks and the end-to-end harness.
\<close>

section \<open>Samples\<close>

definition sample_env :: Env where
  "sample_env = \<lparr>env_parse_url = (\<lambda>_. None), env_releaseVersion = ''1.0.0'', env_icon_ok = (\<lambda>_. True)\<rparr>"

definition sample_options :: InitOptions where
  "sample_options = \<lparr>opt_browserStartup = False, opt_installedReason = None, opt_skipKeepalive = True\<rparr>"

definition sample_background :: Background where
  "sample_background = initBackground sample_env sample_options (\<lambda>_. JUndef) (Some (\<lambda>_. JUndef))"

lemma sample_background_reach: "bg_reach sample_env sample_background"
  unfolding sample_background_def by (rule bg_reach.init)

lemma reach_popup: "bg_reach E b \<Longrightarrow> bg_reach E (handlePopupMessage E now (Some p) m b)"
  using bg_reach.step [of E b "EvPopupMessage p m now"] by (simp add: event_input_def)

lemma sample_background_fields:
  "\<not> rt_ready (bg_routing sample_background)" "\<exists>s. ApplyProxy s \<in> set (bg_effects sample_background)"
proof -
  let ?b = "set_timer RUNTIME_LIFECYCLE_SETTLE_TIMER_NAME OnLifecycleSettled (bg_blank (\<lambda>_. JUndef) (Some (\<lambda>_. JUndef)))"
  have eq: "sample_background = host_connect (apply_proxy ?b)"
    by (simp add: sample_background_def initBackground_def sample_options_def lifecycle_captured_def)
  have "\<not> rt_ready (bg_routing ?b)" by (simp add: set_timer_def bg_blank_def routing_init_def)
  then show "\<not> rt_ready (bg_routing sample_background)"
    by (simp add: eq host_connect_def apply_proxy_def decorated_def decorate_def decorate_ready case_prod_beta Let_def)
  show "\<exists>s. ApplyProxy s \<in> set (bg_effects sample_background)"
    by (auto simp: eq host_connect_def apply_proxy_def case_prod_beta Let_def)
qed

text \<open>Both extensions just started; Chrome has answered the first callback.\<close>

definition sample_firefox_start :: "FirefoxProxyManager Extension" where
  "sample_firefox_start = startFirefoxBackground True sample_ids True sample_env (\<lambda>_. JUndef) (Some (\<lambda>_. JUndef))"

definition sample_chrome_events :: "chrome_event ext_event list" where
  "sample_chrome_events = [XManager (ECurrent False Controllable)]"

definition sample_chrome_start :: "ChromeProxyManager Extension" where
  "sample_chrome_start =
     fold (ext_run (chrome_ops []) sample_env) sample_chrome_events
       (startChromeBackground [] sample_ids True sample_env (\<lambda>_. JUndef) (Some (\<lambda>_. JUndef)))"

definition sample_url :: URLParts where
  "sample_url = \<lparr>url_protocol = ''https:'', url_hostname = ''example.com'', url_host = ''example.com'',
     url_origin = ''https://example.com'', url_pathname = ''/'', url_search = []\<rparr>"

lemma sample_firefox_start_runs:
  "firefox_runs True sample_ids True sample_env (\<lambda>_. JUndef) (Some (\<lambda>_. JUndef)) [] sample_firefox_start"
  unfolding sample_firefox_start_def by (rule ext_reach.start)

lemma sample_chrome_start_runs:
  "chrome_runs [] sample_ids True sample_env (\<lambda>_. JUndef) (Some (\<lambda>_. JUndef)) sample_chrome_events sample_chrome_start"
  using ext_reach.step [OF ext_reach.start, where ops = "chrome_ops []" and ev = "XManager (ECurrent False Controllable)"]
  by (simp add: sample_chrome_start_def sample_chrome_events_def ext_input_def chrome_own_def)

lemma sample_starts_unready:
  "\<not> rt_ready (bg_routing (ext_bg sample_firefox_start))" "\<not> rt_ready (bg_routing (ext_bg sample_chrome_start))"
  by (simp_all add: sample_firefox_start_def sample_chrome_start_def sample_chrome_events_def started_unready)

lemma sample_chrome_start_call: "\<exists>c. c \<in> set (cp_calls (ext_manager sample_chrome_start))"
proof -
  let ?x = "startChromeBackground [] sample_ids True sample_env (\<lambda>_. JUndef) (Some (\<lambda>_. JUndef))"
  obtain ctx where "cp_flight (ext_manager ?x) = Checking ctx" "fl_key ctx = cp_desiredKey (ext_manager ?x)"
    by (rule chrome_start_checks)
  then have "cp_calls (on_current False Controllable (ext_manager ?x)) \<noteq> []" by (simp add: on_current_def)
  then show ?thesis
    by (auto simp: sample_chrome_start_def sample_chrome_events_def neq_Nil_conv)
qed

text \<open>A popup connects to Chrome's extension.\<close>

definition sample_popup_events :: "chrome_event ext_event list" where
  "sample_popup_events = sample_chrome_events @ [XBackground (EvPopupConnect 1)]"

definition sample_chrome_popup :: "ChromeProxyManager Extension" where
  "sample_chrome_popup = ext_run (chrome_ops []) sample_env (XBackground (EvPopupConnect 1)) sample_chrome_start"

lemma sample_chrome_popup_runs:
  "chrome_runs [] sample_ids True sample_env (\<lambda>_. JUndef) (Some (\<lambda>_. JUndef)) sample_popup_events sample_chrome_popup"
  using ext_reach.step [OF sample_chrome_start_runs, of "XBackground (EvPopupConnect 1)"]
  by (simp add: sample_chrome_popup_def sample_popup_events_def ext_input_def event_input_def)

lemma sample_chrome_popup_post: "\<exists>t. PostPopup 1 (StateMsg t) \<in> set (bg_effects (ext_bg sample_chrome_popup))"
proof -
  have kept: "bg_closedPorts (snd (decorated b)) = bg_closedPorts b" for b
    by (simp add: decorated_def case_prod_beta Let_def)
  have "bg_closedPorts (ext_bg sample_chrome_start) = []"
    by (simp add: sample_chrome_start_def sample_chrome_events_def startChromeBackground_def ext_start_def tell_manager_def
        initBackground_def lifecycle_captured_def host_connect_def apply_proxy_def effect_def set_timer_def bg_blank_def
        kept case_prod_beta Let_def)
  then show ?thesis
    by (auto simp: sample_chrome_popup_def run_script_def tell_manager_def popup_connect_def effect_def kept case_prod_beta Let_def)
qed

text \<open>A state of the running node, decorated by a routing protection that confirmed its account.\<close>

definition sample_routed :: TailscaleState where
  "sample_routed =
     snd (decorate (sample_state\<lparr>ts_routingHealth := Some \<lparr>rh_status = RActive, rh_message = ''Routing is active.''\<rparr>, ts_stateVersion := 3\<rparr>)
       (snd (confirmStatus sample_status sample_state (restore 0 (Some JUndef) routing_init))))"

lemma sample_routed_ok: "routed any_health sample_routed"
proof -
  have input: "state_input DEFAULT_STATE"
    unfolding state_input_def by (rule exI [of _ JUndef]) code_simp
  have "routing_reach (restore 0 (Some JUndef) routing_init)"
    using routing_reach.next_step [OF routing_reach.init routing_step.step [of "RORestore 0 (Some JUndef)"]] by (simp add: routing_init_def)
  moreover have "op_input (ROConfirm sample_status sample_state) (restore 0 (Some JUndef) routing_init)"
    using input by (simp add: status_input_def state_input_def samples sanitizeMagicDNSSuffix_def truthy_def Let_def)
  ultimately have "routing_reach (snd (confirmStatus sample_status sample_state (restore 0 (Some JUndef) routing_init)))"
    using routing_reach.next_step [OF _ routing_step.step [of "ROConfirm sample_status sample_state"]] by simp
  then show ?thesis
    unfolding sample_routed_def routed_def
    using input by (intro exI conjI) (auto simp: store_ok_def state_input_def samples DEFAULT_STATE_def no_password_def)
qed

lemma sample_routed_shown:
  "plain_state (ve_peers (fe_view sample_frame)) sample_routed" "viewForState sample_routed = VConnected"
  "rl_kind (updateRoutingStatus sample_routed) = KActive"
  by code_simp+

section \<open>What a reachable script has done\<close>

lemma reach_post: "bg_reach E b \<Longrightarrow> PostMessage n r \<in> set (nh_log (bg_host b)) \<Longrightarrow> request_safe E r"
  using bg_reach_ok [of E b] by (auto simp: bg_ok_def list_all_iff post_safe_def)

definition posts_routed :: "bg_effect \<Rightarrow> bool" where
  "posts_routed e \<longleftrightarrow> (case e of PostPopup p (StateMsg s) \<Rightarrow> routed any_health s | _ \<Rightarrow> True)"

text \<open>An active routing health in a state is backed by a script that the browser confirmed.\<close>

definition health_backed :: "string \<Rightarrow> chrome_event ext_event list \<Rightarrow> bg_effect list \<Rightarrow> TailscaleState \<Rightarrow> bool" where
  "health_backed tools evs es s \<longleftrightarrow>
     (\<forall>h. ts_routingHealth s = Some h \<longrightarrow> rh_status h = RActive \<longrightarrow>
        (\<exists>q. browser_confirmed evs (pac_text tools q) \<and> value_justified es (Some q) \<and> call_justified es (SettingsSet q)))"

lemma routed_backed:
  assumes "bg_reach E b" and "routed (\<lambda>h. script_in_force tools evs (bg_effects b)) s"
  shows "health_backed tools evs (bg_effects b) s"
proof -
  have "script_in_force tools evs (bg_effects b)" if "ts_routingHealth s = Some h" "rh_status h = RActive" for h
    using that assms(2) by (auto simp: routed_def store_ok_def health_ok_def decorate_def case_prod_beta Let_def)
  moreover have "call_justified (bg_effects b) (SettingsSet q)" if "value_justified (bg_effects b) (Some q)" for q
    by (rule value_call_justified [OF assms(1)]) (simp add: that call_value_def)
  ultimately show ?thesis unfolding health_backed_def script_in_force_def by blast
qed

section \<open>Properties of the whole\<close>

text \<open>
  C1: until the routing protection has been restored from storage, every state handed to the
  browser's proxy settings and every state sent to a popup carries the policy that blocks all
  traffic.
\<close>

theorem blocked_until_restored:
  assumes "bg_reach E b" and "\<not> rt_ready (bg_routing b)"
  shows "list_all effect_blocked (bg_effects b)"
  using bg_reach_ok [OF assms(1)] assms(2) by (simp add: bg_ok_def)

theorem blocked_until_restored_witness: "list_all effect_blocked (bg_effects sample_background)"
  by (rule blocked_until_restored [OF sample_background_reach sample_background_fields(1)])

text \<open>
  C3: the whole extension fails closed. From the first moment on, until the routing protection has been
  restored, and whatever the browser, the helper and the user do in the meantime: in Firefox the request
  listener refuses every request, and in Chrome every script given to the browser refuses every host, and
  the browser's own settings are never given back.
\<close>

theorem extension_fails_closed:
  assumes "firefox_runs listen ids wake E l s evs x" and "\<not> rt_ready (bg_routing (ext_bg x))" and "parse_url url = Some u"
    and "chrome_runs tools ids' wake' E' l' s' evs' y" and "\<not> rt_ready (bg_routing (ext_bg y))" and "c \<in> set (cp_calls (ext_manager y))"
  shows "resolveProxy parse_url (ext_manager x) url = FSocks BLOCKED_PROXY_PORT None \<and>
    (\<exists>q. c = SettingsSet q \<and> pac_eval q host = PacProxy BLOCKED_PROXY_PORT)"
proof -
  have "ff_shut (ext_manager x)" using fx.fails_closed [OF firefox_driven [OF assms(1)] assms(2)] .
  moreover have "call_value c = Some (pac_config blockAllPolicy BLOCKED_PROXY_PORT None)"
    using chrome_whole_reach [OF assms(4)] assms(5,6)
    by (intro value_refuses [of "bg_effects (ext_bg y)"]) (auto simp: chrome_whole_def chrome_part_def carries_def bg_ok_def)
  ultimately show ?thesis
    using assms(3) by (simp add: ff_shut_resolve call_value_def pac_eval_block_all split: SettingsCall.splits)
qed

theorem extension_fails_closed_witness:
  "\<exists>q. SettingsSet q \<in> set (cp_calls (ext_manager sample_chrome_start)) \<and> pac_eval q ''example.com'' = PacProxy BLOCKED_PROXY_PORT \<and>
     resolveProxy (\<lambda>_. Some sample_url) (ext_manager sample_firefox_start) ''https://example.com/'' = FSocks BLOCKED_PROXY_PORT None"
proof -
  obtain c where c: "c \<in> set (cp_calls (ext_manager sample_chrome_start))" using sample_chrome_start_call by blast
  from extension_fails_closed [where host = "''example.com''" and url = "''https://example.com/''" and parse_url = "\<lambda>_. Some sample_url",
      OF sample_firefox_start_runs sample_starts_unready(1) refl sample_chrome_start_runs sample_starts_unready(2) c]
  show ?thesis using c by blast
qed








definition sample_go :: string where
  "sample_go = concat (map (\<lambda>(name, value). ''const '' @ name @ '' = '' @ [dquote] @ value @ [dquote, newline])
     [(''chromeWebStoreExtensionID'', chromeExtensionId sample_ids), (''firefoxExtensionID'', firefoxAddonId sample_ids),
      (''manifestNameChrome'', chromeNativeHostId sample_ids), (''manifestNameFirefox'', firefoxNativeHostId sample_ids)])"

definition sample_package :: string where
  "sample_package = ''src: dist/tailscale-browser-ext-linux-amd64'' @ [newline] @ '' dst: /usr/lib/ext'' @ [newline]"

definition sample_chrome_json :: jsval where
  "sample_chrome_json = JObj [(''name'', JStr (chromeNativeHostId sample_ids)), (''path'', JStr ''/usr/lib/ext''),
     (''allowed_origins'', JArr [JStr (chrome_origin sample_ids)])]"

definition sample_firefox_json :: jsval where
  "sample_firefox_json = JObj [(''name'', JStr (firefoxNativeHostId sample_ids)), (''path'', JStr ''/usr/lib/ext''),
     (''allowed_extensions'', JArr [JStr (firefoxAddonId sample_ids)])]"

lemma sample_ids_validated: "validate_extension_ids sample_ids sample_go sample_package sample_chrome_json sample_firefox_json = []"
  by code_simp


text \<open>
  C19: the popup only calls browser routing active when it is: the states that the background script posts carry the
  policy of its routing protection, and a popup that shows such a state with an active status line belongs to a
  connected, running helper with a proxy port, a proxy that reported itself active, an active policy for that
  port and, when an exit node is selected, an exit node that is online.
\<close>

theorem popup_active_truthful:
  assumes "bg_reach E b" and "popup_reach num p" and "pe_num (ve_peers (fe_view F)) = num" and "plain_state (ve_peers (fe_view F)) s"
    and "routed any_health s" and "\<not> pf_subViewActive p"
    and "pf_currentView p \<noteq> Some (viewForState s) \<or> pf_lastStateVersion p \<noteq> int (ts_stateVersion s)"
    and "map_option rl_kind (shown_routing (render F focus s p)) = Some KActive"
  shows "list_all posts_routed (bg_effects b) \<and> ts_hostConnected s \<and> shouldProxyState s \<and>
    map_option rh_status (ts_routingHealth s) = Some RActive \<and>
    ts_routingPolicy s \<noteq> None \<and> rp_mode (policyFromState s) = PActive \<and>
    ts_proxyPort s = Some (js_default (rp_proxyPort (policyFromState s)) 0) \<and>
    (\<forall>x. ts_selectedExitNodeID s = Some x \<longrightarrow> x \<noteq> [] \<longrightarrow> exit_live s x)"
proof -
  have posts: "list_all posts_routed (bg_effects b)"
    by (auto simp: list_all_iff posts_routed_def split: bg_effect.split PopupMessage.split dest!: reach_effect [OF assms(1)])
  obtain l where l: "shown_routing (render F focus s p) = Some l" "rl_kind l = KActive" using assms(8) by blast
  have "screen_shows F focus s (render F focus s p)"
    by (rule render_shows_state [OF popup_reach_inv [OF assms(2,3)] assms(4,6,7)])
  from active_line [of s] shown_line [OF this l(1)] l(2)
  have line: "map_option rh_status (ts_routingHealth s) = Some RActive" "ts_hostConnected s"
    "map_option rp_mode (ts_routingPolicy s) \<notin> {Some PBlocked, Some PDirect}" by simp_all
  obtain pol where pol: "ts_routingPolicy s = Some pol"
    using assms(5) by (auto simp: routed_def decorate_def case_prod_beta Let_def)
  then have active: "rp_mode (policyFromState s) = PActive"
    using line(3) by (cases "rp_mode pol") (simp_all add: policyFromState_def)
  show ?thesis using posts line pol active routed_active [OF assms(5) active refl] by (simp add: helper_announced_def)
qed

theorem popup_active_truthful_witness:
  "ts_hostConnected sample_routed \<and> rp_mode (policyFromState sample_routed) = PActive"
proof -
  have "map_option rl_kind (shown_routing (render sample_frame NoFocus sample_routed (popup_init None))) = Some KActive"
    using sample_routed_shown
    by (simp add: render_def popup_init_def render_full_def show_connected_def replace_root_def shown_routing_def
        renderConnected_def case_prod_beta Let_def)
  from popup_active_truthful [OF sample_background_reach popup_reach.init refl sample_routed_shown(1) sample_routed_ok _ _ this]
  show ?thesis by (simp add: popup_init_def)
qed

text \<open>
  C31: the password of the external proxy is never kept in the store nor broadcast with the state.
\<close>

theorem external_password_not_broadcast:
  assumes "bg_reach E b"
  shows "no_password (bg_store b) \<and>
    list_all (\<lambda>e. case e of PostPopup p (StateMsg s) \<Rightarrow> no_password s | ApplyProxy s \<Rightarrow> no_password s | _ \<Rightarrow> True) (bg_effects b)"
proof -
  have ok: "bg_ok any_health [] E b" by (rule bg_reach_ok [OF assms])
  have "no_password s" if "routed any_health s" for s
    using that by (auto simp: routed_def store_ok_def no_password_def decorate_def case_prod_beta Let_def)
  then have "case e of PostPopup p (StateMsg s) \<Rightarrow> no_password s | ApplyProxy s \<Rightarrow> no_password s | _ \<Rightarrow> True"
    if "effect_safe any_health E e" for e
    using that by (auto split: bg_effect.split PopupMessage.split)
  with ok show ?thesis by (auto simp: bg_ok_def store_ok_def list_all_iff)
qed

theorem external_password_not_broadcast_witness: "no_password (bg_store sample_background)"
  using external_password_not_broadcast [OF sample_background_reach] by blast



text \<open>
  A coordination server is only sent to the helper when it is the default or passed
  \<open>isValidControlURL\<close>.
\<close>

lemma control_urls_checked:
  assumes "bg_reach E b" and "PostMessage n (SetPrefs (SetControlURL v)) \<in> set (nh_log (bg_host b))"
  shows "v = [] \<or> isValidControlURL (env_parse_url E) v"
  using reach_post [OF assms] by simp

text \<open>
  C11: switching to another profile, creating one and deleting the current one block all browsing at
  once: the blocking policy is handed to the browser before the request goes out, and any state
  decorated afterwards is blocked.
\<close>

theorem account_switch_blocks:
  assumes "m = MSwitchProfile x \<and> Some x \<noteq> current_profile_id (bg_store b) \<or> m = MNewProfile \<or>
    m = MDeleteProfile x \<and> Some x = current_profile_id (bg_store b)"
  shows "snd (decorate_policy s (bg_routing (handlePopupMessage E now p m b))) = blockAllPolicy \<and>
    (\<exists>t es. bg_effects (handlePopupMessage E now p m b) = bg_effects b @ ApplyProxy t # es \<and>
       ts_routingPolicy t = Some blockAllPolicy)"
proof -
  obtain r b0 where eq: "handlePopupMessage E now p m b = send_ignore E r (switch_account E (bg_store b) b0)"
    and b0: "bg_routing b0 = bg_routing b" "bg_effects b0 = bg_effects b"
    using switch_messages [OF assms] by blast
  show ?thesis
    using switch_then_send [of E r "bg_store b" b0] by (simp add: eq b0 decorate_held)
qed

theorem account_switch_blocks_witness:
  "snd (decorate_policy DEFAULT_STATE (bg_routing (handlePopupMessage sample_env 0 (Some 1) MNewProfile sample_background))) =
   blockAllPolicy"
  using account_switch_blocks [of MNewProfile "[]" sample_background] by blast

text \<open>
  C29: once the queued storage writes are done, session and local storage hold the newest connection
  decision, whatever older writes and clears were still queued.
\<close>

theorem newest_decision_stored:
  assumes "bg_session b \<noteq> None"
  shows "readSessionIntent (bg_session (drain (recordIntent v b))) = Some v \<and>
    readPersistedIntent (bg_local (drain (recordIntent v b))) = Some v"
  using drain_decision [of "recordIntent v b" "bg_intentQueue b" v] assms
  by (simp add: recordIntent_def enqueueIntentWrite_def)

theorem newest_decision_stored_witness:
  "readSessionIntent (bg_session (drain (recordIntent False (recordIntent True (bg_blank (\<lambda>_. JUndef) (Some (\<lambda>_. JUndef))))))) =
   Some False"
proof -
  have "bg_session (recordIntent True (bg_blank (\<lambda>_. JUndef) (Some (\<lambda>_. JUndef)))) \<noteq> None"
    by (simp add: recordIntent_def enqueueIntentWrite_def bg_blank_def)
  from newest_decision_stored [OF this, of False] show ?thesis by blast
qed

text \<open>
  The corrective \<open>down\<close> after a status is only sent while the node is coming up or running, against a
  recorded decision to stay disconnected, and not twice on one connection.
\<close>

lemma corrective_down_justified:
  assumes "nh_log (bg_host (maybeAutoDisconnect E s b)) \<noteq> nh_log (bg_host b)"
  shows "(s = Starting \<or> s = Running) \<and> bg_autoDisconnectAttempted b = False \<and> bg_sessionIntentMirror b = Some False"
  using maybeAutoDisconnect_sends [OF assms] by simp

text \<open>
  C30: helper-discovery retries come to an end: from any state, after as many timer firings as there are
  delays left (six for a fresh series) no retry is pending.
\<close>

theorem helper_retries_terminate:
  "bg_helperRetryRecord ((retry_round E now ^^ retries_left b) b) = None \<and>
   retries_left (startHelperRetries E now src b) = 6"
  using retry_rounds_end [of b "retries_left b" E now]
  by (simp add: retries_left_def startHelperRetries_def persistAndArmHelperRetry_def writeHelperRetryRecord_def
      add_task_def session_set_def INSTALL_RETRY_DELAYS_MS_def Let_def)


definition sample_router :: PeerInfo where
  "sample_router = \<lparr>peer_id = ''r1'', peer_hostname = ''router'', peer_dnsName = [], peer_tailscaleIPs = None,
     peer_os = ''linux'', peer_online = True, peer_active = False, peer_exitNode = False, peer_exitNodeOption = False,
     peer_isSubnetRouter = True, peer_subnets = None, peer_tags = None, peer_rxBytes = 0, peer_txBytes = 0,
     peer_lastSeen = None, peer_lastHandshake = None, peer_keyExpiry = None, peer_location = None,
     peer_taildropTarget = False, peer_sshHost = False, peer_userId = 0, peer_userName = [], peer_userLoginName = [],
     peer_userProfilePicURL = []\<rparr>"


end
